(* ===== verification/Prelude.thy ===== *)
theory Prelude
  imports Main "HOL-Library.Word"
begin

text \<open>
  Shared vocabulary of the development: the machine types of the C sources, byte buffers as
  lists of octets, the big- and little-endian accessors of \<^verbatim>\<open>src/utils/common.h\<close>, reading
  of NUL-terminated strings, and the list and word lemmas the components use.
\<close>

unbundle bit_operations_syntax

type_synonym u8 = "8 word"
type_synonym u16 = "16 word"
type_synonym u32 = "32 word"
type_synonym u64 = "64 word"
type_synonym macaddr = "8 word list"

named_theorems byte_simps \<open>facts that evaluate the byte accessors and codecs\<close>
named_theorems sm_simps \<open>facts about what a state entry or handler leaves unchanged\<close>
named_theorems inv_intros \<open>preservation facts of the component invariants\<close>

section \<open>C strings\<close>

text \<open>A C string is the list of its characters without the terminating NUL; reading one
  character at the current position therefore yields NUL at the end of the list.\<close>

definition deref :: "u8 list \<Rightarrow> u8" where
  "deref s = (case s of [] \<Rightarrow> 0 | c # _ \<Rightarrow> c)"

lemma deref_simps [simp]:
  "deref [] = 0"
  "deref (c # s) = c"
  by (simp_all add: deref_def)

definition ascii :: "string \<Rightarrow> u8 list" where
  "ascii s = map of_char s"

section \<open>Byte order (src/utils/common.h)\<close>

definition WPA_GET_BE16 :: "u8 list \<Rightarrow> u16" where
  "WPA_GET_BE16 a = push_bit 8 (ucast (a ! 0)) OR ucast (a ! 1)"

definition WPA_PUT_BE16 :: "u16 \<Rightarrow> u8 list" where
  "WPA_PUT_BE16 val = [ucast (drop_bit 8 val), ucast (val AND 0xff)]"

definition WPA_GET_LE16 :: "u8 list \<Rightarrow> u16" where
  "WPA_GET_LE16 a = push_bit 8 (ucast (a ! 1)) OR ucast (a ! 0)"

definition WPA_PUT_LE16 :: "u16 \<Rightarrow> u8 list" where
  "WPA_PUT_LE16 val = [ucast (val AND 0xff), ucast (drop_bit 8 val)]"

definition WPA_GET_BE24 :: "u8 list \<Rightarrow> u32" where
  "WPA_GET_BE24 a = push_bit 16 (ucast (a ! 0)) OR push_bit 8 (ucast (a ! 1)) OR ucast (a ! 2)"

definition WPA_PUT_BE24 :: "u32 \<Rightarrow> u8 list" where
  "WPA_PUT_BE24 val =
     [ucast (drop_bit 16 val AND 0xff), ucast (drop_bit 8 val AND 0xff), ucast (val AND 0xff)]"

definition WPA_GET_BE32 :: "u8 list \<Rightarrow> u32" where
  "WPA_GET_BE32 a = push_bit 24 (ucast (a ! 0)) OR push_bit 16 (ucast (a ! 1)) OR
     push_bit 8 (ucast (a ! 2)) OR ucast (a ! 3)"

definition WPA_PUT_BE32 :: "u32 \<Rightarrow> u8 list" where
  "WPA_PUT_BE32 val =
     [ucast (drop_bit 24 val AND 0xff), ucast (drop_bit 16 val AND 0xff),
      ucast (drop_bit 8 val AND 0xff), ucast (val AND 0xff)]"

definition WPA_GET_LE32 :: "u8 list \<Rightarrow> u32" where
  "WPA_GET_LE32 a = push_bit 24 (ucast (a ! 3)) OR push_bit 16 (ucast (a ! 2)) OR
     push_bit 8 (ucast (a ! 1)) OR ucast (a ! 0)"

definition WPA_PUT_LE32 :: "u32 \<Rightarrow> u8 list" where
  "WPA_PUT_LE32 val =
     [ucast (val AND 0xff), ucast (drop_bit 8 val AND 0xff),
      ucast (drop_bit 16 val AND 0xff), ucast (drop_bit 24 val AND 0xff)]"

lemma put_length [simp]:
  "length (WPA_PUT_BE16 v) = 2" "length (WPA_PUT_LE16 v) = 2" "length (WPA_PUT_BE24 w) = 3"
  "length (WPA_PUT_BE32 w) = 4" "length (WPA_PUT_LE32 w) = 4"
  by (simp_all add: WPA_PUT_BE16_def WPA_PUT_LE16_def WPA_PUT_BE24_def WPA_PUT_BE32_def
      WPA_PUT_LE32_def)

lemma ucast_and_0xff [simp]: "(ucast (x AND 0xff :: 'a :: len word) :: u8) = ucast x"
proof -
  have m: "(0xff :: 'a word) = mask 8" by (simp add: mask_eq_exp_minus_1)
  show ?thesis unfolding m by (rule bit_word_eqI) (auto simp: bit_simps dest: bit_imp_le_length)
qed

lemma bit_word_split:
  "(n::nat) < 8 \<or> 8 \<le> n \<and> n < 16 \<or> 16 \<le> n \<and> n < 24 \<or> 24 \<le> n"
  by arith

lemma get_put_16 [byte_simps]:
  "WPA_GET_BE16 (WPA_PUT_BE16 v) = v"
  "WPA_GET_LE16 (WPA_PUT_LE16 v) = v"
  unfolding WPA_GET_BE16_def WPA_PUT_BE16_def WPA_GET_LE16_def WPA_PUT_LE16_def
  by (rule bit_word_eqI, rename_tac n, cut_tac n = n in bit_word_split,
      elim disjE conjE; simp add: bit_simps less_diff_conv2)+

lemma get_put_32 [byte_simps]:
  "WPA_GET_BE32 (WPA_PUT_BE32 w) = w"
  "WPA_GET_LE32 (WPA_PUT_LE32 w) = w"
  unfolding WPA_GET_BE32_def WPA_PUT_BE32_def WPA_GET_LE32_def WPA_PUT_LE32_def
  by (rule bit_word_eqI, rename_tac n, cut_tac n = n in bit_word_split,
      elim disjE conjE; simp add: bit_simps less_diff_conv2)+

lemma get_put_BE24 [byte_simps]: "WPA_GET_BE24 (WPA_PUT_BE24 w) = w AND 0xffffff"
proof -
  have m: "(0xffffff :: u32) = mask 24" by (simp add: mask_eq_exp_minus_1)
  show ?thesis unfolding m WPA_GET_BE24_def WPA_PUT_BE24_def
    by (rule bit_word_eqI, rename_tac n, cut_tac n = n in bit_word_split,
      elim disjE conjE; simp add: bit_and_iff bit_mask_iff del: mask_numeral;
      simp add: bit_simps less_diff_conv2 bit_mask_iff)
qed

section \<open>Buffers\<close>

text \<open>A buffer of fixed size is a list; \<^term>\<open>blit buf off bs\<close> is the effect of
  \<^verbatim>\<open>os_memcpy(buf + off, bs, len)\<close> when the copied bytes lie within the buffer.\<close>

definition blit :: "'a list \<Rightarrow> nat \<Rightarrow> 'a list \<Rightarrow> 'a list" where
  "blit buf off bs = take off buf @ bs @ drop (off + length bs) buf"

lemma length_blit [simp]:
  "off + length bs \<le> length buf \<Longrightarrow> length (blit buf off bs) = length buf"
  by (simp add: blit_def)

lemma blit_Nil [simp]: "blit buf off [] = buf"
  by (simp add: blit_def)

lemma take_blit_0: "length bs \<le> length buf \<Longrightarrow> take (length bs) (blit buf 0 bs) = bs"
  by (simp add: blit_def)

text \<open>Text up to the first NUL: what a reader of the buffer as a C string sees.\<close>

definition cstr :: "u8 list \<Rightarrow> u8 list" where
  "cstr buf = takeWhile (\<lambda>c. c \<noteq> 0) buf"

lemma cstr_append_nul: "0 \<notin> set t \<Longrightarrow> cstr (t @ 0 # r) = t"
  by (simp add: cstr_def takeWhile_eq_Nil_iff takeWhile_append)

section \<open>Octet strings as numbers\<close>

primrec be_val :: "u8 list \<Rightarrow> nat" where
  "be_val [] = 0"
| "be_val (b # bs) = unat b * 256 ^ length bs + be_val bs"

lemma be_val_append: "be_val (xs @ ys) = be_val xs * 256 ^ length ys + be_val ys"
  by (induction xs) (simp_all add: algebra_simps power_add)

lemma unat_u8_less [simp]: "unat (b :: u8) < 256"
  using unsigned_less [of b, where 'a = nat] by simp

lemma be_val_less: "be_val bs < 256 ^ length bs"
proof (induction bs)
  case (Cons b bs)
  have "unat b * 256 ^ length bs \<le> 255 * 256 ^ length bs"
    using unat_u8_less [of b] by (intro mult_right_mono) linarith+
  with Cons.IH have "unat b * 256 ^ length bs + be_val bs < 255 * 256 ^ length bs + 256 ^ length bs"
    by (rule add_le_less_mono [rotated])
  then show ?case by simp
qed simp

lemma be_val_inject:
  "length xs = length ys \<Longrightarrow> be_val xs = be_val ys \<Longrightarrow> xs = ys"
proof (induction xs ys rule: list_induct2)
  case (Cons x xs y ys)
  let ?p = "256 ^ length xs :: nat"
  have lt: "be_val xs < ?p" "be_val ys < ?p"
    using be_val_less [of xs] be_val_less [of ys] Cons.hyps by simp_all
  have e: "unat x * ?p + be_val xs = unat y * ?p + be_val ys"
    using Cons.prems Cons.hyps by simp
  have "(unat x * ?p + be_val xs) div ?p = (unat y * ?p + be_val ys) div ?p"
    using e by simp
  then have "unat x = unat y" using lt by simp
  then have "x = y" by (rule unsigned_word_eqI)
  moreover have "be_val xs = be_val ys" using e \<open>unat x = unat y\<close> by simp
  ultimately show ?case using Cons.IH by simp
qed simp

end
