(* ===== verification/Utils.thy ===== *)
theory Utils
  imports Prelude
begin

text \<open>
  The helper functions of \<^verbatim>\<open>src/utils/common.c\<close>: hexadecimal text and MAC addresses, the
  big-endian counter increment, the printable encoding of SSIDs and its decoder, and the small
  byte-array utilities.  C strings are character lists without their NUL; an output buffer is a
  list of fixed length, and a store outside it is the value \<^term>\<open>None\<close>.
\<close>

section \<open>Hexadecimal text\<close>

definition hex2num :: "u8 \<Rightarrow> int" where
  "hex2num c =
     (if 0x30 \<le> c \<and> c \<le> 0x39 then uint c - 0x30
      else if 0x61 \<le> c \<and> c \<le> 0x66 then uint c - 0x61 + 10
      else if 0x41 \<le> c \<and> c \<le> 0x46 then uint c - 0x41 + 10
      else -1)"

definition hex2byte :: "u8 list \<Rightarrow> int" where
  "hex2byte hex =
     (let a = hex2num (deref hex) in
      if a < 0 then -1
      else let b = hex2num (deref (tl hex)) in
      if b < 0 then -1
      else push_bit 4 a OR b)"

text \<open>The result of \<^verbatim>\<open>hwaddr_aton\<close> is the return value with the octets stored so far; the first
  argument of a loop is the number of octets still to read, \<^verbatim>\<open>6 - i\<close>, so \<^verbatim>\<open>i < 5\<close> reads as
  \<^term>\<open>n > 0\<close> below.\<close>

fun hwaddr_aton_loop :: "nat \<Rightarrow> u8 list \<Rightarrow> u8 list \<Rightarrow> int \<times> u8 list" where
  "hwaddr_aton_loop 0 txt addr = (0, addr)"
| "hwaddr_aton_loop (Suc n) txt addr =
     (let a = hex2num (deref txt) in
      if a < 0 then (-1, addr)
      else let b = hex2num (deref (tl txt)) in
      if b < 0 then (-1, addr)
      else let addr' = addr @ [word_of_int (push_bit 4 a OR b)]; txt' = tl (tl txt) in
      if n > 0 then
        if deref txt' \<noteq> 0x3a then (-1, addr') else hwaddr_aton_loop n (tl txt') addr'
      else hwaddr_aton_loop n txt' addr')"

definition hwaddr_aton :: "u8 list \<Rightarrow> int \<times> u8 list" where
  "hwaddr_aton txt = hwaddr_aton_loop 6 txt []"

fun hwaddr_compact_aton_loop :: "nat \<Rightarrow> u8 list \<Rightarrow> u8 list \<Rightarrow> int \<times> u8 list" where
  "hwaddr_compact_aton_loop 0 txt addr = (0, addr)"
| "hwaddr_compact_aton_loop (Suc n) txt addr =
     (let a = hex2num (deref txt) in
      if a < 0 then (-1, addr)
      else let b = hex2num (deref (tl txt)) in
      if b < 0 then (-1, addr)
      else hwaddr_compact_aton_loop n (tl (tl txt)) (addr @ [word_of_int (push_bit 4 a OR b)]))"

definition hwaddr_compact_aton :: "u8 list \<Rightarrow> int \<times> u8 list" where
  "hwaddr_compact_aton txt = hwaddr_compact_aton_loop 6 txt []"

definition is_hw_delim :: "u8 \<Rightarrow> bool" where
  "is_hw_delim c \<longleftrightarrow> c = 0x3a \<or> c = 0x2e \<or> c = 0x2d"

fun hwaddr_aton2_loop :: "nat \<Rightarrow> u8 list \<Rightarrow> u8 list \<Rightarrow> int option \<times> u8 list \<times> u8 list" where
  "hwaddr_aton2_loop 0 pos addr = (None, pos, addr)"
| "hwaddr_aton2_loop (Suc n) pos addr =
     (let pos' = dropWhile is_hw_delim pos; a = hex2num (deref pos') in
      if a < 0 then (Some (-1), pos', addr)
      else let b = hex2num (deref (tl pos')) in
      if b < 0 then (Some (-1), pos', addr)
      else hwaddr_aton2_loop n (tl (tl pos')) (addr @ [word_of_int (push_bit 4 a OR b)]))"

definition hwaddr_aton2 :: "u8 list \<Rightarrow> int \<times> u8 list" where
  "hwaddr_aton2 txt =
     (case hwaddr_aton2_loop 6 txt [] of
        (Some r, _, addr) \<Rightarrow> (r, addr)
      | (None, pos, addr) \<Rightarrow> (int (length txt) - int (length pos), addr))"

text \<open>\<^verbatim>\<open>hexstr2bin(hex, buf, len)\<close>: return value and the bytes written to \<^verbatim>\<open>buf\<close>.\<close>

fun hexstr2bin :: "u8 list \<Rightarrow> nat \<Rightarrow> int \<times> u8 list" where
  "hexstr2bin ipos 0 = (0, [])"
| "hexstr2bin ipos (Suc len) =
     (let a = hex2byte ipos in
      if a < 0 then (-1, [])
      else case hexstr2bin (drop 2 ipos) len of (r, out) \<Rightarrow> (r, word_of_int a # out))"

definition hex_digit :: "bool \<Rightarrow> nat \<Rightarrow> u8" where
  "hex_digit uppercase n =
     (if n < 10 then word_of_nat (48 + n)
      else if uppercase then word_of_nat (55 + n) else word_of_nat (87 + n))"

definition hex02 :: "bool \<Rightarrow> u8 \<Rightarrow> u8 list" where
  "hex02 uppercase b = [hex_digit uppercase (unat b div 16), hex_digit uppercase (unat b mod 16)]"

text \<open>\<^verbatim>\<open>os_snprintf(buf + pos, room, "%s", txt)\<close>: at most \<^term>\<open>room - 1\<close> characters and a NUL.\<close>

definition snprintf_at :: "u8 list \<Rightarrow> nat \<Rightarrow> nat \<Rightarrow> u8 list \<Rightarrow> u8 list" where
  "snprintf_at buf pos room txt =
     (if room = 0 then buf else blit buf pos (take (room - 1) txt @ [0]))"

fun snprintf_hex_loop :: "u8 list \<Rightarrow> nat \<Rightarrow> u8 list \<Rightarrow> bool \<Rightarrow> nat \<times> u8 list" where
  "snprintf_hex_loop buf pos [] uppercase = (pos, buf[length buf - 1 := 0])"
| "snprintf_hex_loop buf pos (d # data) uppercase =
     (let t = hex02 uppercase d; rem = length buf - pos; buf' = snprintf_at buf pos rem t in
      if length t \<ge> rem then (pos, buf'[length buf - 1 := 0])
      else snprintf_hex_loop buf' (pos + length t) data uppercase)"

definition wpa_snprintf_hex_case :: "u8 list \<Rightarrow> u8 list \<Rightarrow> bool \<Rightarrow> nat \<times> u8 list" where
  "wpa_snprintf_hex_case buf data uppercase =
     (if length buf = 0 then (0, buf) else snprintf_hex_loop buf 0 data uppercase)"

section \<open>Counters\<close>

fun inc_loop :: "u8 list \<Rightarrow> nat \<Rightarrow> u8 list" where
  "inc_loop counter 0 = counter"
| "inc_loop counter (Suc pos) =
     (let counter' = counter[pos := counter ! pos + 1] in
      if counter' ! pos \<noteq> 0 then counter' else inc_loop counter' pos)"

definition inc_byte_array :: "u8 list \<Rightarrow> nat \<Rightarrow> u8 list" where
  "inc_byte_array counter len = inc_loop counter len"

section \<open>Printable text\<close>

definition encode_octet :: "u8 \<Rightarrow> u8 list" where
  "encode_octet d =
     (if d = 0x22 then [0x5c, 0x22]
      else if d = 0x5c then [0x5c, 0x5c]
      else if d = 0x1b then [0x5c, 0x65]
      else if d = 0x0a then [0x5c, 0x6e]
      else if d = 0x0d then [0x5c, 0x72]
      else if d = 0x09 then [0x5c, 0x74]
      else if 32 \<le> d \<and> d \<le> 127 then [d]
      else [0x5c, 0x78] @ hex02 False d)"

text \<open>The loop of \<^verbatim>\<open>printf_encode\<close>: \<^term>\<open>txt\<close> is the number of characters stored.  The escape of an
  unprintable octet goes through \<^verbatim>\<open>os_snprintf\<close> with the remaining room; the other stores
  are direct.\<close>

fun printf_encode_loop :: "u8 list \<Rightarrow> nat \<Rightarrow> u8 list \<Rightarrow> nat \<times> u8 list" where
  "printf_encode_loop buf txt [] = (txt, buf)"
| "printf_encode_loop buf txt (d # data) =
     (if txt + 4 > length buf then (txt, buf)
      else let e = encode_octet d in
        printf_encode_loop
          (if length e = 4 then snprintf_at buf txt (length buf - txt) e else blit buf txt e)
          (txt + length e) data)"

text \<open>The final \<^verbatim>\<open>*txt = '\0'\<close> is a store at index \<^term>\<open>txt\<close>; it is a fault when that is the
  end of the buffer.\<close>

definition printf_encode :: "u8 list \<Rightarrow> u8 list \<Rightarrow> u8 list option" where
  "printf_encode buf data =
     (case printf_encode_loop buf 0 data of
        (txt, buf') \<Rightarrow> if txt < length buf' then Some (buf'[txt := 0]) else None)"

definition wpa_ssid_txt :: "u8 list \<Rightarrow> u8 list option \<Rightarrow> u8 list option" where
  "wpa_ssid_txt ssid_txt ssid =
     (case ssid of
        None \<Rightarrow> Some (ssid_txt[0 := 0])
      | Some s \<Rightarrow> printf_encode ssid_txt s)"

definition is_octal :: "u8 \<Rightarrow> bool" where
  "is_octal c \<longleftrightarrow> 0x30 \<le> c \<and> c \<le> 0x37"

text \<open>One escape sequence of \<^verbatim>\<open>printf_decode\<close>, \<^term>\<open>pos\<close> standing after the backslash: the
  octet stored, if any, and the position from which decoding goes on.\<close>

definition decode_escape :: "u8 list \<Rightarrow> u8 list \<times> u8 list" where
  "decode_escape pos =
     (let c = deref pos in
      if c = 0x5c then ([0x5c], tl pos)
      else if c = 0x22 then ([0x22], tl pos)
      else if c = 0x6e then ([0x0a], tl pos)
      else if c = 0x72 then ([0x0d], tl pos)
      else if c = 0x74 then ([0x09], tl pos)
      else if c = 0x65 then ([0x1b], tl pos)
      else if c = 0x78 then
        let pos = tl pos; val = hex2byte pos in
        if val < 0 then
          let val = hex2num (deref pos) in
          if val < 0 then ([], pos) else ([word_of_int val], tl pos)
        else ([word_of_int val], drop 2 pos)
      else if is_octal c then
        let val = uint c - 0x30; pos = tl pos;
            (val, pos) = (if is_octal (deref pos)
                          then (val * 8 + (uint (deref pos) - 0x30), tl pos) else (val, pos));
            (val, pos) = (if is_octal (deref pos)
                          then (val * 8 + (uint (deref pos) - 0x30), tl pos) else (val, pos))
        in ([word_of_int val], pos)
      else ([], pos))"

lemma decode_escape_shorter: "length (snd (decode_escape pos)) \<le> length pos"
  by (simp add: decode_escape_def Let_def split: if_splits)

text \<open>\<^verbatim>\<open>printf_decode\<close>: the octets stored, whose number is the return value.  The terminator is
  stored only when \<^verbatim>\<open>maxlen > len\<close> and is not part of the result.\<close>

function printf_decode_loop :: "nat \<Rightarrow> u8 list \<Rightarrow> u8 list \<Rightarrow> u8 list" where
  "printf_decode_loop maxlen out pos =
     (if pos = [] \<or> deref pos = 0 then out
      else if length out + 1 \<ge> maxlen then out
      else if deref pos = 0x5c then
        case decode_escape (tl pos) of (d, pos') \<Rightarrow> printf_decode_loop maxlen (out @ d) pos'
      else printf_decode_loop maxlen (out @ [deref pos]) (tl pos))"
  by pat_completeness auto

termination
proof (relation "measure (\<lambda>(_, _, pos). length pos)", goal_cases)
  case (2 maxlen out pos d pos')
  then have "length pos' \<le> length (tl pos)"
    using decode_escape_shorter [of "tl pos"] by (metis snd_conv)
  with 2 show ?case by (cases pos) auto
qed auto

declare printf_decode_loop.simps [simp del]

definition printf_decode :: "nat \<Rightarrow> u8 list \<Rightarrow> u8 list" where
  "printf_decode maxlen str = printf_decode_loop maxlen [] str"

section \<open>Small utilities\<close>

text \<open>\<^verbatim>\<open>wpa_config_parse_string\<close>: a quoted string, a printf-encoded string after \<^verbatim>\<open>P"\<close>, or hex.
  \<^verbatim>\<open>os_strrchr\<close> finds the last quote, and nothing may follow it.\<close>

definition quoted_body :: "u8 list \<Rightarrow> u8 list option" where
  "quoted_body v =
     (if v \<noteq> [] \<and> 0x22 \<in> set v \<and> last v = 0x22 then Some (butlast v) else None)"

definition wpa_config_parse_string :: "u8 list \<Rightarrow> u8 list option" where
  "wpa_config_parse_string value =
     (if deref value = 0x22 then quoted_body (tl value)
      else if deref value = 0x50 \<and> deref (tl value) = 0x22 then
        (case quoted_body (drop 2 value) of
           None \<Rightarrow> None
         | Some tstr \<Rightarrow> Some (printf_decode (length tstr + 1) tstr))
      else
        let hlen = length value in
        if odd hlen then None
        else case hexstr2bin value (hlen div 2) of
               (r, str) \<Rightarrow> if r \<noteq> 0 then None else Some str)"

fun is_hex :: "u8 list \<Rightarrow> bool" where
  "is_hex [] = False"
| "is_hex (d # data) = (if d < 32 \<or> d \<ge> 127 then True else is_hex data)"

function find_first_bit_loop :: "u32 \<Rightarrow> int \<Rightarrow> int" where
  "find_first_bit_loop v pos =
     (if v = 0 then -1
      else if v AND 1 \<noteq> 0 then pos
      else find_first_bit_loop (drop_bit 1 v) (pos + 1))"
  by pat_completeness auto

termination
proof (relation "measure (\<lambda>(v, _). unat v)", goal_cases)
  case (2 v pos)
  then have "unat v \<noteq> 0" by (simp add: unat_eq_0)
  then show ?case by (simp add: unat_div drop_bit_Suc)
qed auto

declare find_first_bit_loop.simps [simp del]

definition find_first_bit :: "u32 \<Rightarrow> int" where
  "find_first_bit v = find_first_bit_loop v 0"

text \<open>\<^verbatim>\<open>merge_byte_arrays\<close>: the result buffer of \<^term>\<open>res_len\<close> octets and the return value; a NULL
  source is \<^term>\<open>None\<close>.\<close>

definition merge_byte_arrays :: "nat \<Rightarrow> u8 list option \<Rightarrow> u8 list option \<Rightarrow> nat \<times> u8 list" where
  "merge_byte_arrays res_len src1 src2 =
     (let res = replicate res_len 0 in
      case (case src1 of
              None \<Rightarrow> (False, 0, res)
            | Some s1 \<Rightarrow>
                if length s1 \<ge> res_len then (True, res_len, blit res 0 (take res_len s1))
                else (False, length s1, blit res 0 s1)) of
        (True, n, r) \<Rightarrow> (n, r)
      | (False, n, r) \<Rightarrow>
          (case src2 of
             None \<Rightarrow> (n, r)
           | Some s2 \<Rightarrow>
               if n + length s2 \<ge> res_len then (res_len, blit r n (take (res_len - n) s2))
               else (n + length s2, blit r n s2)))"

record wpa_freq_range =
  fr_min :: u32
  fr_max :: u32

fun freq_range_list_includes :: "wpa_freq_range list \<Rightarrow> u32 \<Rightarrow> bool" where
  "freq_range_list_includes [] freq = False"
| "freq_range_list_includes (r # list) freq =
     (if freq \<ge> fr_min r \<and> freq \<le> fr_max r then True else freq_range_list_includes list freq)"

section \<open>Hexadecimal text: round trips\<close>

lemma hex2num_digit:
  assumes "n < 16"
  shows "hex2num (hex_digit up n) = int n"
proof -
  have "n \<in> {0,1,2,3,4,5,6,7,8,9,10,11,12,13,14,15}" using assms by (simp, arith)
  then show ?thesis by (elim insertE emptyE; cases up; simp add: hex2num_def hex_digit_def)
qed

lemma hex_digit_nonzero: "n < 16 \<Longrightarrow> hex_digit up n \<noteq> 0"
  using hex2num_digit [of n up] by (auto simp: hex2num_def)

lemma nibbles_join: "push_bit 4 (int (n div 16)) OR int (n mod 16) = int n"
proof -
  have t: "int (n mod 16) = take_bit 4 (int (n mod 16))"
    by (simp add: take_bit_eq_mod zmod_int)
  have "push_bit 4 (int (n div 16)) OR int (n mod 16) =
        push_bit 4 (int (n div 16)) + int (n mod 16)"
    by (rule disjunctive_add [symmetric], subst t) (simp only: bit_push_bit_iff bit_take_bit_iff, auto)
  also have "\<dots> = int (n div 16 * 16 + n mod 16)" by (simp only: push_bit_eq_mult of_nat_add of_nat_mult) simp
  finally show ?thesis by (simp only: div_mult_mod_eq)
qed

lemma u8_div_16: "unat (b :: u8) div 16 < 16"
  by (rule less_mult_imp_div_less) simp

lemma hex2byte_hex02 [byte_simps]: "hex2byte (hex02 up b @ rest) = uint b"
proof -
  have "uint b = int (unat b)" by simp
  then show ?thesis
    by (simp only: hex2byte_def hex02_def hex2num_digit nibbles_join Let_def u8_div_16 deref_simps
        append.simps list.sel mod_less_divisor zero_less_numeral) simp
qed

lemma length_hex02 [simp]: "length (hex02 up b) = 2"
  by (simp add: hex02_def)

definition hex_text :: "bool \<Rightarrow> u8 list \<Rightarrow> u8 list" where
  "hex_text up data = concat (map (hex02 up) data)"

lemma hex_text_simps [simp]:
  "hex_text up [] = []"
  "hex_text up (d # data) = hex02 up d @ hex_text up data"
  by (simp_all add: hex_text_def)

lemma length_hex_text [simp]: "length (hex_text up data) = 2 * length data"
  by (induction data) simp_all

lemma hexstr2bin_hex_text: "hexstr2bin (hex_text up data @ rest) (length data) = (0, data)"
  by (induction data) (simp_all add: hex2byte_hex02 Let_def)

lemma take_blit_after:
  "pos + length bs \<le> length buf \<Longrightarrow> n \<le> length bs \<Longrightarrow>
    take (pos + n) (blit buf pos bs) = take pos buf @ take n bs"
  by (simp add: blit_def)

lemma snprintf_hex_loop_text:
  assumes "pos + 2 * length data < length buf"
  shows "fst (snprintf_hex_loop buf pos data up) = pos + 2 * length data \<and>
    take (pos + 2 * length data) (snd (snprintf_hex_loop buf pos data up)) =
      take pos buf @ hex_text up data \<and>
    length (snd (snprintf_hex_loop buf pos data up)) = length buf"
  using assms
proof (induction data arbitrary: buf pos)
  case (Cons d data)
  let ?buf' = "snprintf_at buf pos (length buf - pos) (hex02 up d)"
  have b: "?buf' = blit buf pos (hex02 up d @ [0])"
    using Cons.prems by (simp add: snprintf_at_def)
  then have l: "length ?buf' = length buf" using Cons.prems by simp
  have t: "take (pos + 2) ?buf' = take pos buf @ hex02 up d"
    using Cons.prems take_blit_after [of pos "hex02 up d @ [0]" buf 2] by (simp add: b)
  have "pos + 2 + 2 * length data < length ?buf'" using Cons.prems l by simp
  from Cons.IH [OF this] show ?case using Cons.prems l t by (simp add: Let_def)
qed simp_all

section \<open>Counters: arithmetic meaning\<close>

lemma be_val_snoc: "be_val (xs @ [b]) = be_val xs * 256 + unat b"
  by (simp add: be_val_append)

lemma unat_inc_u8: "b + 1 \<noteq> 0 \<Longrightarrow> unat (b + 1 :: u8) = unat b + 1"
  using unatSuc [of b] by (simp add: add.commute)

lemma unat_inc_u8_wrap: "b + 1 = 0 \<Longrightarrow> unat (b :: u8) = 255"
  by (simp add: add_eq_0_iff2 unsigned_minus_1_eq_mask mask_eq_exp_minus_1)

lemma inc_loop_val:
  assumes "pos \<le> length c"
  shows "be_val (take pos (inc_loop c pos)) = (be_val (take pos c) + 1) mod 256 ^ pos \<and>
         drop pos (inc_loop c pos) = drop pos c \<and> length (inc_loop c pos) = length c"
  using assms
proof (induction pos arbitrary: c)
  case (Suc pos)
  let ?c = "c[pos := c ! pos + 1]"
  have less: "pos < length c" using Suc.prems by simp
  have split: "take (Suc pos) c = take pos c @ [c ! pos]" by (rule take_Suc_conv_app_nth [OF less])
  have v: "be_val (take pos c) < 256 ^ pos"
    using be_val_less [of "take pos c"] less by simp
  show ?case
  proof (cases "c ! pos + 1 = 0")
    case False
    then have u: "unat (c ! pos + 1) = unat (c ! pos) + 1" by (rule unat_inc_u8)
    have "unat (c ! pos + 1) < 256" by (rule unat_u8_less)
    then have "be_val (take pos c) * 256 + (unat (c ! pos) + 1) < 256 ^ pos * 256"
      using v u by linarith
    with False show ?thesis
      using less u by (simp add: Let_def split take_Suc_conv_app_nth be_val_snoc)
  next
    case True
    then have u: "unat (c ! pos) = 255" by (rule unat_inc_u8_wrap)
    have loop: "inc_loop c (Suc pos) = inc_loop ?c pos" using True less by (simp add: Let_def)
    have IH: "be_val (take pos (inc_loop ?c pos)) = (be_val (take pos c) + 1) mod 256 ^ pos"
      "drop pos (inc_loop ?c pos) = drop pos ?c" "length (inc_loop ?c pos) = length c"
      using Suc.IH [of ?c] less by simp_all
    have z: "inc_loop ?c pos ! pos = 0"
      using IH(2,3) less True by (metis hd_drop_conv_nth length_list_update nth_list_update_eq)
    have "be_val (take (Suc pos) (inc_loop ?c pos)) =
        ((be_val (take pos c) + 1) mod 256 ^ pos) * 256"
      using IH less z by (simp add: take_Suc_conv_app_nth be_val_snoc)
    also have "\<dots> = (be_val (take (Suc pos) c) + 1) mod 256 ^ Suc pos"
      using u mult_mod_left [of "be_val (take pos c) + 1" "256 ^ pos" 256]
      by (simp add: split be_val_snoc mult.commute)
    finally show ?thesis
      using IH less loop by (metis drop_Suc drop_update_cancel lessI tl_drop)
  qed
qed simp

section \<open>Printable text: encoder and decoder\<close>

lemma encode_octet_length: "0 < length (encode_octet d) \<and> length (encode_octet d) \<le> 4"
  by (simp add: encode_octet_def)

lemma hex02_nonzero: "0 \<notin> set (hex02 up d)"
  using hex_digit_nonzero [of "unat d div 16" up] hex_digit_nonzero [of "unat d mod 16" up] u8_div_16
  by (auto simp: hex02_def dest: sym)

lemma encode_octet_nonzero: "0 \<notin> set (encode_octet d)"
  using hex02_nonzero [of False d] by (auto simp: encode_octet_def)

definition encode_text :: "u8 list \<Rightarrow> u8 list" where
  "encode_text data = concat (map encode_octet data)"

lemma encode_text_simps [simp]:
  "encode_text [] = []"
  "encode_text (d # data) = encode_octet d @ encode_text data"
  by (simp_all add: encode_text_def)

lemma encode_text_length: "length (encode_text data) \<le> 4 * length data"
  by (induction data) (use encode_octet_length in \<open>auto intro: add_mono\<close>)

lemma encode_text_nonzero: "0 \<notin> set (encode_text data)"
  using encode_octet_nonzero by (auto simp: encode_text_def)

lemma printf_encode_loop_text:
  assumes "tp + 4 * length data < length buf"
  shows "fst (printf_encode_loop buf tp data) = tp + length (encode_text data) \<and>
    take (tp + length (encode_text data)) (snd (printf_encode_loop buf tp data)) =
      take tp buf @ encode_text data \<and>
    length (snd (printf_encode_loop buf tp data)) = length buf"
  using assms
proof (induction data arbitrary: buf tp)
  case (Cons d data)
  let ?e = "encode_octet d"
  let ?buf' =
    "if length ?e = 4 then snprintf_at buf tp (length buf - tp) ?e else blit buf tp ?e"
  have len: "0 < length ?e" "length ?e \<le> 4" using encode_octet_length [of d] by simp_all
  have b: "?buf' = blit buf tp (if length ?e = 4 then ?e @ [0] else ?e)"
    using Cons.prems by (simp add: snprintf_at_def)
  have l: "length ?buf' = length buf" unfolding b using Cons.prems len by auto
  have t: "take (tp + length ?e) ?buf' = take tp buf @ ?e"
    unfolding b using Cons.prems len
      take_blit_after [of tp "?e @ [0]" buf "length ?e"] take_blit_after [of tp ?e buf "length ?e"]
    by auto
  have "tp + length ?e + 4 * length data < length ?buf'" using Cons.prems l len by simp
  from Cons.IH [OF this] show ?case using Cons.prems l t
    by (simp add: Let_def add.assoc del: if_split)
qed simp

lemma printf_encode_text:
  assumes "4 * length data < length buf"
  shows "\<exists>b. printf_encode buf data = Some b \<and> cstr b = encode_text data \<and> length b = length buf"
proof -
  let ?n = "length (encode_text data)" and ?r = "snd (printf_encode_loop buf 0 data)"
  have r: "fst (printf_encode_loop buf 0 data) = ?n" "take ?n ?r = encode_text data"
    "length ?r = length buf"
    using printf_encode_loop_text [of 0 data buf] assms by simp_all
  have n: "?n < length ?r" using r(3) assms encode_text_length [of data] by simp
  have "?r[?n := 0] = encode_text data @ 0 # drop (Suc ?n) ?r"
    using n r(2) by (simp add: upd_conv_take_nth_drop)
  then have "cstr (?r[?n := 0]) = encode_text data"
    using cstr_append_nul [OF encode_text_nonzero] by simp
  then show ?thesis using r n by (simp add: printf_encode_def split_beta)
qed

lemma decode_encode_octet:
  assumes "length out + 1 < maxlen"
  shows "printf_decode_loop maxlen out (encode_octet d @ rest) =
         printf_decode_loop maxlen (out @ [d]) rest"
proof -
  have h: "hex2byte (hex02 False d @ rest) = uint d" by (rule hex2byte_hex02)
  show ?thesis
    using assms hex02_nonzero [of False d]
    by (subst printf_decode_loop.simps)
       (auto simp: encode_octet_def decode_escape_def Let_def h)
qed

lemma decode_encode_text:
  "length out + length data < maxlen \<Longrightarrow>
    printf_decode_loop maxlen out (encode_text data) = out @ data"
proof (induction data arbitrary: out)
  case Nil
  then show ?case by (subst printf_decode_loop.simps) simp
next
  case (Cons d data)
  then show ?case by (simp add: decode_encode_octet)
qed

section \<open>Properties\<close>

text \<open>Printing octets as hex (either case) into a buffer with room for the text and its NUL
  returns twice the number of octets, and \<^verbatim>\<open>hexstr2bin\<close> on that buffer gives the octets back.\<close>

theorem hexstr2bin_snprintf_hex:
  assumes "2 * length data < length buf"
  shows "fst (wpa_snprintf_hex_case buf data up) = 2 * length data \<and>
         hexstr2bin (snd (wpa_snprintf_hex_case buf data up)) (length data) = (0, data)"
proof -
  let ?b = "snd (snprintf_hex_loop buf 0 data up)"
  have b: "fst (snprintf_hex_loop buf 0 data up) = 2 * length data"
    "take (2 * length data) ?b = hex_text up data"
    using snprintf_hex_loop_text [of 0 data buf up] assms by simp_all
  have "?b = hex_text up data @ drop (2 * length data) ?b"
    using b(2) by (metis append_take_drop_id)
  then have "hexstr2bin ?b (length data) = (0, data)" by (metis hexstr2bin_hex_text)
  then show ?thesis using assms b by (auto simp: wpa_snprintf_hex_case_def)
qed

theorem hexstr2bin_snprintf_hex_witness:
  "hexstr2bin (snd (wpa_snprintf_hex_case (replicate 5 0) [0x0a, 0xff] False)) 2 = (0, [0x0a, 0xff])"
  using hexstr2bin_snprintf_hex [of "[0x0a, 0xff]" "replicate 5 0" False]
  by (simp add: numeral_2_eq_2)

text \<open>C40. The SSID text routine never stores outside its static buffer of 129 characters for an
  SSID of at most 32 octets, and decoding the text yields the SSID: no two SSIDs print alike.\<close>

theorem ssid_txt_roundtrip:
  assumes "length ssid \<le> 32" and "length ssid_txt = 32 * 4 + 1" and "length ssid < maxlen"
  shows "\<exists>b. wpa_ssid_txt ssid_txt (Some ssid) = Some b \<and> length b = length ssid_txt \<and>
             printf_decode maxlen (cstr b) = ssid"
  using printf_encode_text [of ssid ssid_txt] decode_encode_text [of "[]" ssid maxlen] assms
  by (auto simp: wpa_ssid_txt_def printf_decode_def)

theorem ssid_txt_roundtrip_witness:
  "\<exists>b. wpa_ssid_txt (replicate 129 0) (Some [0x41, 0x22, 0xe9]) = Some b \<and>
       printf_decode 33 (cstr b) = [0x41, 0x22, 0xe9]"
  using ssid_txt_roundtrip [of "[0x41, 0x22, 0xe9]" "replicate 129 0" 33] by auto

text \<open>Incrementing a counter field is addition of one to the big-endian number it holds,
  modulo its width: the counter wraps only from all ones to zero.\<close>

theorem inc_byte_array_val:
  "be_val (inc_byte_array c (length c)) = (be_val c + 1) mod 256 ^ length c \<and>
   length (inc_byte_array c (length c)) = length c"
  using inc_loop_val [of "length c" c] by (auto simp: inc_byte_array_def)

end
