(* ===== verification/Eapol_Auth.thy ===== *)
theory Eapol_Auth
  imports Prelude
begin

text \<open>
  The IEEE 802.1X authenticator of \<^verbatim>\<open>src/eapol_auth/eapol_auth_sm.c\<close>: the six state machines of a
  port (Authenticator PAE, Backend Authentication, Reauthentication Timer, Authenticator Key
  Transmit, Key Receive, Controlled Directions), the port timers and the run loop.

  The callbacks of \<^verbatim>\<open>struct eapol_auth_cb\<close> are recorded, in call order, in the field \<open>out\<close>; what
  \<^verbatim>\<open>ieee802_1x_abort_auth\<close> does to the state machine is part of the model.  Whether the station
  entry still exists (\<^verbatim>\<open>sta_entry_alive\<close>) may depend on the callbacks made so far, and the EAP
  server step (\<^verbatim>\<open>eap_server_sm_step\<close>) acts on its own state and the shared EAP interface; both are
  fields of the environment record.
\<close>

section \<open>Data\<close>

text \<open>A zero-initialised enumeration field of the C structure that is none of the enumerators is
  the extra first constructor.\<close>

datatype PortTypes = PortTypes_zero | ForceUnauthorized | Auto | ForceAuthorized
datatype PortState = PortState_zero | Authorized | Unauthorized
datatype ControlledDirection = Both | In

datatype auth_pae_enum =
    AUTH_PAE_INITIALIZE | AUTH_PAE_DISCONNECTED | AUTH_PAE_CONNECTING
  | AUTH_PAE_AUTHENTICATING | AUTH_PAE_AUTHENTICATED
  | AUTH_PAE_ABORTING | AUTH_PAE_HELD | AUTH_PAE_FORCE_AUTH
  | AUTH_PAE_FORCE_UNAUTH | AUTH_PAE_RESTART

datatype be_auth_enum =
    BE_AUTH_REQUEST | BE_AUTH_RESPONSE | BE_AUTH_SUCCESS | BE_AUTH_FAIL
  | BE_AUTH_TIMEOUT | BE_AUTH_IDLE | BE_AUTH_INITIALIZE | BE_AUTH_IGNORE

datatype reauth_timer_enum = REAUTH_TIMER_INITIALIZE | REAUTH_TIMER_REAUTHENTICATE
datatype auth_key_tx_enum = AUTH_KEY_TX_NO_KEY_TRANSMIT | AUTH_KEY_TX_KEY_TRANSMIT
datatype key_rx_enum = KEY_RX_NO_KEY_RECEIVE | KEY_RX_KEY_RECEIVE
datatype ctrl_dir_enum = CTRL_DIR_FORCE_BOTH | CTRL_DIR_IN_OR_BOTH

datatype eapol_counter =
    authEntersConnecting | authEapLogoffsWhileConnecting | authEntersAuthenticating
  | authAuthSuccessesWhileAuthenticating | authAuthTimeoutsWhileAuthenticating
  | authAuthFailWhileAuthenticating | authAuthEapStartsWhileAuthenticating
  | authAuthEapLogoffWhileAuthenticating | authAuthReauthsWhileAuthenticated
  | authAuthEapStartsWhileAuthenticated | authAuthEapLogoffWhileAuthenticated
  | backendResponses | backendAccessChallenges | backendOtherRequestsToSupplicant
  | backendAuthSuccesses | backendAuthFails
  | dot1xAuthEapolFramesRx | dot1xAuthEapolFramesTx | dot1xAuthEapolStartFramesRx
  | dot1xAuthEapolLogoffFramesRx | dot1xAuthEapolRespIdFramesRx | dot1xAuthEapolRespFramesRx
  | dot1xAuthEapolReqIdFramesTx | dot1xAuthEapolReqFramesTx | dot1xAuthInvalidEapolFramesRx
  | dot1xAuthEapLengthErrorFramesRx | dot1xAuthLastEapolFrameVersion

datatype eapol_event_enum = EAPOL_AUTH_SM_CHANGE | EAPOL_AUTH_REAUTHENTICATE

text \<open>What a port does to its surroundings: the callbacks, the timeouts it registers with the
  event loop and the disconnection requested by \<^verbatim>\<open>ieee802_1x_abort_auth\<close>.\<close>

datatype eapol_out =
    Eapol_send (eo_type: u8) (eo_data: "u8 list")
  | Aaa_send "u8 list"
  | Finished (success: bool) (preauth: bool)
  | Set_port_authorized bool
  | Abort_auth
  | Sta_disconnect
  | Tx_key
  | Eapol_event eapol_event_enum
  | Timeout_step_cb
  | Timeout_port_timers_tick

record eap_eapol_interface =
  eapResp :: bool
  eapRespData :: "u8 list option"
  portEnabled :: bool
  retransWhile :: int
  eapRestart :: bool
  eapSRTT :: int
  eapRTTVAR :: int
  eapReq :: bool
  eapNoReq :: bool
  eapSuccess :: bool
  eapFail :: bool
  eapTimeout :: bool
  eapReqData :: "u8 list option"
  eapKeyData :: "u8 list option"
  eapKeyAvailable :: bool
  aaaEapReq :: bool
  aaaEapNoReq :: bool
  aaaSuccess :: bool
  aaaFail :: bool
  aaaEapReqData :: "u8 list option"
  aaaEapKeyData :: "u8 list option"
  aaaEapKeyAvailable :: bool
  aaaMethodTimeout :: int
  aaaEapResp :: bool
  aaaEapRespData :: "u8 list option"
  aaaTimeout :: bool

record 'e eapol_sm =
  aWhile :: int
  quietWhile :: int
  reAuthWhen :: int
  authAbort :: bool
  authFail :: bool
  authPortStatus :: PortState
  authStart :: bool
  authTimeout :: bool
  authSuccess :: bool
  eapolEap :: bool
  initialize :: bool
  keyDone :: bool
  keyRun :: bool
  keyTxEnabled :: bool
  portControl :: PortTypes
  portValid :: bool
  reAuthenticate :: bool
  auth_pae_state :: auth_pae_enum
  eapolLogoff :: bool
  eapolStart :: bool
  portMode :: PortTypes
  reAuthCount :: u32
  quietPeriod :: u32
  reAuthMax :: u32
  be_auth_state :: be_auth_enum
  serverTimeout :: u32
  reauth_timer_state :: reauth_timer_enum
  reAuthPeriod :: u32
  reAuthEnabled :: bool
  auth_key_tx_state :: auth_key_tx_enum
  key_rx_state :: key_rx_enum
  rxKey :: bool
  ctrl_dir_state :: ctrl_dir_enum
  adminControlledDirections :: ControlledDirection
  operControlledDirections :: ControlledDirection
  operEdge :: bool
  counters :: "eapol_counter \<Rightarrow> u32"
  sm_addr :: macaddr
  sm_flags :: u32
  eap_if :: eap_eapol_interface
  last_eap_id :: u8
  identity :: "u8 list option"
  eap_type_authsrv :: u8
  eap_type_supp :: u8
  radius_cui :: "u8 list option"
  eap :: "'e option"
  initializing :: bool
  changed :: bool
  out :: "eapol_out list"

record 'e eapol_env =
  sta_entry_alive :: "eapol_out list \<Rightarrow> bool"
  eap_server_sm_step :: "'e \<Rightarrow> eap_eapol_interface \<Rightarrow> bool \<times> 'e \<times> eap_eapol_interface"
  eap_server_clear_identity :: "'e \<Rightarrow> 'e"
  eap_sm_notify_cached :: "'e \<Rightarrow> 'e"

definition EAPOL_SM_PREAUTH :: u32 where "EAPOL_SM_PREAUTH = 1"
definition EAPOL_SM_WAIT_START :: u32 where "EAPOL_SM_WAIT_START = 2"
definition EAPOL_SM_USES_WPA :: u32 where "EAPOL_SM_USES_WPA = 4"
definition EAPOL_SM_FROM_PMKSA_CACHE :: u32 where "EAPOL_SM_FROM_PMKSA_CACHE = 8"

definition has_flag :: "'e eapol_sm \<Rightarrow> u32 \<Rightarrow> bool" where
  "has_flag sm f \<longleftrightarrow> sm_flags sm AND f \<noteq> 0"

definition emit :: "eapol_out \<Rightarrow> 'e eapol_sm \<Rightarrow> 'e eapol_sm" where
  "emit e sm = sm\<lparr>out := out sm @ [e]\<rparr>"

definition cinc :: "eapol_counter \<Rightarrow> 'e eapol_sm \<Rightarrow> 'e eapol_sm" where
  "cinc c sm = sm\<lparr>counters := (counters sm)(c := counters sm c + 1)\<rparr>"

definition upd_if :: "(eap_eapol_interface \<Rightarrow> eap_eapol_interface) \<Rightarrow> 'e eapol_sm \<Rightarrow> 'e eapol_sm" where
  "upd_if f sm = sm\<lparr>eap_if := f (eap_if sm)\<rparr>"

text \<open>\<^verbatim>\<open>SM_ENTRY_MA\<close> for each of the machines: entering by a global rule counts as a change only
  when the state differs.\<close>

definition auth_pae_entry :: "auth_pae_enum \<Rightarrow> bool \<Rightarrow> 'e eapol_sm \<Rightarrow> 'e eapol_sm" where
  "auth_pae_entry st global sm =
     sm\<lparr>changed := (changed sm \<or> \<not> global \<or> auth_pae_state sm \<noteq> st), auth_pae_state := st\<rparr>"

definition be_auth_entry :: "be_auth_enum \<Rightarrow> bool \<Rightarrow> 'e eapol_sm \<Rightarrow> 'e eapol_sm" where
  "be_auth_entry st global sm =
     sm\<lparr>changed := (changed sm \<or> \<not> global \<or> be_auth_state sm \<noteq> st), be_auth_state := st\<rparr>"

definition reauth_timer_entry :: "reauth_timer_enum \<Rightarrow> bool \<Rightarrow> 'e eapol_sm \<Rightarrow> 'e eapol_sm" where
  "reauth_timer_entry st global sm =
     sm\<lparr>changed := (changed sm \<or> \<not> global \<or> reauth_timer_state sm \<noteq> st),
        reauth_timer_state := st\<rparr>"

definition auth_key_tx_entry :: "auth_key_tx_enum \<Rightarrow> bool \<Rightarrow> 'e eapol_sm \<Rightarrow> 'e eapol_sm" where
  "auth_key_tx_entry st global sm =
     sm\<lparr>changed := (changed sm \<or> \<not> global \<or> auth_key_tx_state sm \<noteq> st),
        auth_key_tx_state := st\<rparr>"

definition key_rx_entry :: "key_rx_enum \<Rightarrow> bool \<Rightarrow> 'e eapol_sm \<Rightarrow> 'e eapol_sm" where
  "key_rx_entry st global sm =
     sm\<lparr>changed := (changed sm \<or> \<not> global \<or> key_rx_state sm \<noteq> st), key_rx_state := st\<rparr>"

definition ctrl_dir_entry :: "ctrl_dir_enum \<Rightarrow> bool \<Rightarrow> 'e eapol_sm \<Rightarrow> 'e eapol_sm" where
  "ctrl_dir_entry st global sm =
     sm\<lparr>changed := (changed sm \<or> \<not> global \<or> ctrl_dir_state sm \<noteq> st), ctrl_dir_state := st\<rparr>"

section \<open>Procedures\<close>

definition setPortAuthorized :: "'e eapol_sm \<Rightarrow> 'e eapol_sm" where
  "setPortAuthorized sm = emit (Set_port_authorized True) sm"

definition setPortUnauthorized :: "'e eapol_sm \<Rightarrow> 'e eapol_sm" where
  "setPortUnauthorized sm = emit (Set_port_authorized False) sm"

definition finished :: "bool \<Rightarrow> 'e eapol_sm \<Rightarrow> 'e eapol_sm" where
  "finished ok sm = emit (Finished ok (has_flag sm EAPOL_SM_PREAUTH)) sm"

definition EAP_CODE_REQUEST :: u8 where "EAP_CODE_REQUEST = 1"
definition EAP_CODE_RESPONSE :: u8 where "EAP_CODE_RESPONSE = 2"
definition EAP_CODE_SUCCESS :: u8 where "EAP_CODE_SUCCESS = 3"
definition EAP_CODE_FAILURE :: u8 where "EAP_CODE_FAILURE = 4"
definition EAP_TYPE_NONE :: u8 where "EAP_TYPE_NONE = 0"
definition EAP_TYPE_IDENTITY :: u8 where "EAP_TYPE_IDENTITY = 1"
definition IEEE802_1X_TYPE_EAP_PACKET :: u8 where "IEEE802_1X_TYPE_EAP_PACKET = 0"

definition eapol_auth_tx_canned_eap :: "bool \<Rightarrow> 'e eapol_sm \<Rightarrow> 'e eapol_sm" where
  "eapol_auth_tx_canned_eap ok sm =
     (let sm = sm\<lparr>last_eap_id := last_eap_id sm + 1\<rparr>;
          hdr = [if ok then EAP_CODE_SUCCESS else EAP_CODE_FAILURE, last_eap_id sm] @ WPA_PUT_BE16 4
      in cinc dot1xAuthEapolFramesTx (emit (Eapol_send IEEE802_1X_TYPE_EAP_PACKET hdr) sm))"

definition eap_get_id :: "u8 list \<Rightarrow> u8" where
  "eap_get_id msg = (if length msg < 4 then 0 else msg ! 1)"

definition eap_get_type :: "u8 list \<Rightarrow> u8" where
  "eap_get_type msg = (if length msg < 4 + 1 then EAP_TYPE_NONE else msg ! 4)"

definition eapol_auth_tx_req :: "'e eapol_sm \<Rightarrow> 'e eapol_sm" where
  "eapol_auth_tx_req sm =
     (case eapReqData (eap_if sm) of
        None \<Rightarrow> sm
      | Some req \<Rightarrow>
          if length req < 4 then sm
          else if has_flag sm EAPOL_SM_WAIT_START then sm
          else
            let sm = sm\<lparr>last_eap_id := eap_get_id req\<rparr>;
                sm = emit (Eapol_send IEEE802_1X_TYPE_EAP_PACKET req) sm;
                sm = cinc dot1xAuthEapolFramesTx sm
            in if eap_get_type req = EAP_TYPE_IDENTITY
               then cinc dot1xAuthEapolReqIdFramesTx sm
               else cinc dot1xAuthEapolReqFramesTx sm)"

text \<open>The \<^verbatim>\<open>abort_auth\<close> callback: when the supplicant did not answer the last EAP request, the port
  is disabled and the station disconnected.\<close>

definition ieee802_1x_abort_auth :: "'e eapol_sm \<Rightarrow> 'e eapol_sm" where
  "ieee802_1x_abort_auth sm =
     (let sm = emit Abort_auth sm in
      if eapTimeout (eap_if sm)
      then emit Sta_disconnect (upd_if (portEnabled_update (\<lambda>_. False)) sm)
      else sm)"

section \<open>Authenticator PAE state machine\<close>

definition sm_AUTH_PAE_INITIALIZE_Enter :: "bool \<Rightarrow> 'e eapol_sm \<Rightarrow> 'e eapol_sm" where
  "sm_AUTH_PAE_INITIALIZE_Enter global sm =
     (auth_pae_entry AUTH_PAE_INITIALIZE global sm)\<lparr>portMode := Auto\<rparr>"

definition sm_AUTH_PAE_DISCONNECTED_Enter :: "bool \<Rightarrow> 'e eapol_sm \<Rightarrow> 'e eapol_sm" where
  "sm_AUTH_PAE_DISCONNECTED_Enter global sm =
     (let from_initialize = (auth_pae_state sm = AUTH_PAE_INITIALIZE);
          sm = (if eapolLogoff sm then
                  if auth_pae_state sm = AUTH_PAE_CONNECTING
                  then cinc authEapLogoffsWhileConnecting sm
                  else if auth_pae_state sm = AUTH_PAE_AUTHENTICATED
                  then cinc authAuthEapLogoffWhileAuthenticated sm
                  else sm
                else sm);
          sm = auth_pae_entry AUTH_PAE_DISCONNECTED global sm;
          sm = setPortUnauthorized (sm\<lparr>authPortStatus := Unauthorized\<rparr>);
          sm = sm\<lparr>reAuthCount := 0, eapolLogoff := False\<rparr>
      in if \<not> from_initialize then finished False sm else sm)"

definition sm_AUTH_PAE_RESTART_Enter :: "bool \<Rightarrow> 'e eapol_sm \<Rightarrow> 'e eapol_sm" where
  "sm_AUTH_PAE_RESTART_Enter global sm =
     (let sm = (if auth_pae_state sm = AUTH_PAE_AUTHENTICATED then
                  let sm = (if reAuthenticate sm then cinc authAuthReauthsWhileAuthenticated sm else sm);
                      sm = (if eapolStart sm then cinc authAuthEapStartsWhileAuthenticated sm else sm)
                  in if eapolLogoff sm then cinc authAuthEapLogoffWhileAuthenticated sm else sm
                else sm);
          sm = auth_pae_entry AUTH_PAE_RESTART global sm
      in upd_if (eapRestart_update (\<lambda>_. True)) sm)"

definition sm_AUTH_PAE_CONNECTING_Enter :: "bool \<Rightarrow> 'e eapol_sm \<Rightarrow> 'e eapol_sm" where
  "sm_AUTH_PAE_CONNECTING_Enter global sm =
     (let sm = (if auth_pae_state sm \<noteq> AUTH_PAE_CONNECTING then cinc authEntersConnecting sm else sm);
          sm = auth_pae_entry AUTH_PAE_CONNECTING global sm
      in sm\<lparr>reAuthenticate := False, reAuthCount := reAuthCount sm + 1\<rparr>)"

definition sm_AUTH_PAE_HELD_Enter :: "bool \<Rightarrow> 'e eapol_sm \<Rightarrow> 'e eapol_sm" where
  "sm_AUTH_PAE_HELD_Enter global sm =
     (let sm = (if auth_pae_state sm = AUTH_PAE_AUTHENTICATING \<and> authFail sm
                then cinc authAuthFailWhileAuthenticating sm else sm);
          sm = auth_pae_entry AUTH_PAE_HELD global sm;
          sm = setPortUnauthorized (sm\<lparr>authPortStatus := Unauthorized\<rparr>);
          sm = sm\<lparr>quietWhile := sint (quietPeriod sm), eapolLogoff := False\<rparr>
      in finished False sm)"

definition sm_AUTH_PAE_AUTHENTICATED_Enter :: "bool \<Rightarrow> 'e eapol_sm \<Rightarrow> 'e eapol_sm" where
  "sm_AUTH_PAE_AUTHENTICATED_Enter global sm =
     (let sm = (if auth_pae_state sm = AUTH_PAE_AUTHENTICATING \<and> authSuccess sm
                then cinc authAuthSuccessesWhileAuthenticating sm else sm);
          sm = auth_pae_entry AUTH_PAE_AUTHENTICATED global sm;
          sm = setPortAuthorized (sm\<lparr>authPortStatus := Authorized\<rparr>);
          sm = sm\<lparr>reAuthCount := 0\<rparr>
      in finished True sm)"

definition sm_AUTH_PAE_AUTHENTICATING_Enter :: "bool \<Rightarrow> 'e eapol_sm \<Rightarrow> 'e eapol_sm" where
  "sm_AUTH_PAE_AUTHENTICATING_Enter global sm =
     (auth_pae_entry AUTH_PAE_AUTHENTICATING global sm)
       \<lparr>eapolStart := False, authSuccess := False, authFail := False, authTimeout := False,
        authStart := True, keyRun := False, keyDone := False\<rparr>"

definition sm_AUTH_PAE_ABORTING_Enter :: "bool \<Rightarrow> 'e eapol_sm \<Rightarrow> 'e eapol_sm" where
  "sm_AUTH_PAE_ABORTING_Enter global sm =
     (let sm = (if auth_pae_state sm = AUTH_PAE_AUTHENTICATING then
                  let sm = (if authTimeout sm then cinc authAuthTimeoutsWhileAuthenticating sm else sm);
                      sm = (if eapolStart sm then cinc authAuthEapStartsWhileAuthenticating sm else sm)
                  in if eapolLogoff sm then cinc authAuthEapLogoffWhileAuthenticating sm else sm
                else sm)
      in (auth_pae_entry AUTH_PAE_ABORTING global sm)
           \<lparr>authAbort := True, keyRun := False, keyDone := False\<rparr>)"

definition sm_AUTH_PAE_FORCE_AUTH_Enter :: "bool \<Rightarrow> 'e eapol_sm \<Rightarrow> 'e eapol_sm" where
  "sm_AUTH_PAE_FORCE_AUTH_Enter global sm =
     (let sm = auth_pae_entry AUTH_PAE_FORCE_AUTH global sm;
          sm = setPortAuthorized (sm\<lparr>authPortStatus := Authorized\<rparr>);
          sm = sm\<lparr>portMode := ForceAuthorized, eapolStart := False\<rparr>
      in eapol_auth_tx_canned_eap True sm)"

definition sm_AUTH_PAE_FORCE_UNAUTH_Enter :: "bool \<Rightarrow> 'e eapol_sm \<Rightarrow> 'e eapol_sm" where
  "sm_AUTH_PAE_FORCE_UNAUTH_Enter global sm =
     (let sm = auth_pae_entry AUTH_PAE_FORCE_UNAUTH global sm;
          sm = setPortUnauthorized (sm\<lparr>authPortStatus := Unauthorized\<rparr>);
          sm = sm\<lparr>portMode := ForceUnauthorized, eapolStart := False\<rparr>
      in eapol_auth_tx_canned_eap False sm)"

definition sm_AUTH_PAE_Step :: "'e eapol_sm \<Rightarrow> 'e eapol_sm" where
  "sm_AUTH_PAE_Step sm =
     (if (portControl sm = Auto \<and> portMode sm \<noteq> portControl sm) \<or> initialize sm \<or>
         \<not> portEnabled (eap_if sm)
      then sm_AUTH_PAE_INITIALIZE_Enter True sm
      else if portControl sm = ForceAuthorized \<and> portMode sm \<noteq> portControl sm \<and>
              \<not> (initialize sm \<or> \<not> portEnabled (eap_if sm))
      then sm_AUTH_PAE_FORCE_AUTH_Enter True sm
      else if portControl sm = ForceUnauthorized \<and> portMode sm \<noteq> portControl sm \<and>
              \<not> (initialize sm \<or> \<not> portEnabled (eap_if sm))
      then sm_AUTH_PAE_FORCE_UNAUTH_Enter True sm
      else case auth_pae_state sm of
        AUTH_PAE_INITIALIZE \<Rightarrow> sm_AUTH_PAE_DISCONNECTED_Enter False sm
      | AUTH_PAE_DISCONNECTED \<Rightarrow> sm_AUTH_PAE_RESTART_Enter False sm
      | AUTH_PAE_RESTART \<Rightarrow>
          if \<not> eapRestart (eap_if sm) then sm_AUTH_PAE_CONNECTING_Enter False sm else sm
      | AUTH_PAE_HELD \<Rightarrow>
          if quietWhile sm = 0 then sm_AUTH_PAE_RESTART_Enter False sm else sm
      | AUTH_PAE_CONNECTING \<Rightarrow>
          if eapolLogoff sm \<or> reAuthCount sm > reAuthMax sm
          then sm_AUTH_PAE_DISCONNECTED_Enter False sm
          else if (eapReq (eap_if sm) \<and> reAuthCount sm \<le> reAuthMax sm) \<or>
                  eapSuccess (eap_if sm) \<or> eapFail (eap_if sm)
          then sm_AUTH_PAE_AUTHENTICATING_Enter False sm
          else sm
      | AUTH_PAE_AUTHENTICATED \<Rightarrow>
          if eapolStart sm \<or> reAuthenticate sm then sm_AUTH_PAE_RESTART_Enter False sm
          else if eapolLogoff sm \<or> \<not> portValid sm then sm_AUTH_PAE_DISCONNECTED_Enter False sm
          else sm
      | AUTH_PAE_AUTHENTICATING \<Rightarrow>
          if authSuccess sm \<and> portValid sm then sm_AUTH_PAE_AUTHENTICATED_Enter False sm
          else if authFail sm \<or> (keyDone sm \<and> \<not> portValid sm) then sm_AUTH_PAE_HELD_Enter False sm
          else if eapolStart sm \<or> eapolLogoff sm \<or> authTimeout sm
          then sm_AUTH_PAE_ABORTING_Enter False sm
          else sm
      | AUTH_PAE_ABORTING \<Rightarrow>
          if eapolLogoff sm \<and> \<not> authAbort sm then sm_AUTH_PAE_DISCONNECTED_Enter False sm
          else if \<not> eapolLogoff sm \<and> \<not> authAbort sm then sm_AUTH_PAE_RESTART_Enter False sm
          else sm
      | AUTH_PAE_FORCE_AUTH \<Rightarrow>
          if eapolStart sm then sm_AUTH_PAE_FORCE_AUTH_Enter False sm else sm
      | AUTH_PAE_FORCE_UNAUTH \<Rightarrow>
          if eapolStart sm then sm_AUTH_PAE_FORCE_UNAUTH_Enter False sm else sm)"

section \<open>Backend Authentication state machine\<close>

definition sm_BE_AUTH_INITIALIZE_Enter :: "bool \<Rightarrow> 'e eapol_sm \<Rightarrow> 'e eapol_sm" where
  "sm_BE_AUTH_INITIALIZE_Enter global sm =
     (let sm = be_auth_entry BE_AUTH_INITIALIZE global sm;
          sm = ieee802_1x_abort_auth sm;
          sm = upd_if (eapNoReq_update (\<lambda>_. False)) sm
      in sm\<lparr>authAbort := False\<rparr>)"

definition sm_BE_AUTH_REQUEST_Enter :: "bool \<Rightarrow> 'e eapol_sm \<Rightarrow> 'e eapol_sm" where
  "sm_BE_AUTH_REQUEST_Enter global sm =
     (let sm = be_auth_entry BE_AUTH_REQUEST global sm;
          sm = eapol_auth_tx_req sm;
          sm = upd_if (eapReq_update (\<lambda>_. False)) sm;
          sm = cinc backendOtherRequestsToSupplicant sm
      in sm\<lparr>eapolEap := False\<rparr>)"

definition sm_BE_AUTH_RESPONSE_Enter :: "bool \<Rightarrow> 'e eapol_sm \<Rightarrow> 'e eapol_sm" where
  "sm_BE_AUTH_RESPONSE_Enter global sm =
     (let sm = be_auth_entry BE_AUTH_RESPONSE global sm;
          sm = sm\<lparr>authTimeout := False, eapolEap := False\<rparr>;
          sm = upd_if (eapNoReq_update (\<lambda>_. False)) sm;
          sm = sm\<lparr>aWhile := sint (serverTimeout sm)\<rparr>;
          sm = upd_if (eapResp_update (\<lambda>_. True)) sm
      in cinc backendResponses sm)"

definition sm_BE_AUTH_SUCCESS_Enter :: "bool \<Rightarrow> 'e eapol_sm \<Rightarrow> 'e eapol_sm" where
  "sm_BE_AUTH_SUCCESS_Enter global sm =
     (eapol_auth_tx_req (be_auth_entry BE_AUTH_SUCCESS global sm))
       \<lparr>authSuccess := True, keyRun := True\<rparr>"

definition sm_BE_AUTH_FAIL_Enter :: "bool \<Rightarrow> 'e eapol_sm \<Rightarrow> 'e eapol_sm" where
  "sm_BE_AUTH_FAIL_Enter global sm =
     (eapol_auth_tx_req (be_auth_entry BE_AUTH_FAIL global sm))\<lparr>authFail := True\<rparr>"

definition sm_BE_AUTH_TIMEOUT_Enter :: "bool \<Rightarrow> 'e eapol_sm \<Rightarrow> 'e eapol_sm" where
  "sm_BE_AUTH_TIMEOUT_Enter global sm =
     (be_auth_entry BE_AUTH_TIMEOUT global sm)\<lparr>authTimeout := True\<rparr>"

definition sm_BE_AUTH_IDLE_Enter :: "bool \<Rightarrow> 'e eapol_sm \<Rightarrow> 'e eapol_sm" where
  "sm_BE_AUTH_IDLE_Enter global sm =
     (be_auth_entry BE_AUTH_IDLE global sm)\<lparr>authStart := False\<rparr>"

definition sm_BE_AUTH_IGNORE_Enter :: "bool \<Rightarrow> 'e eapol_sm \<Rightarrow> 'e eapol_sm" where
  "sm_BE_AUTH_IGNORE_Enter global sm =
     upd_if (eapNoReq_update (\<lambda>_. False)) (be_auth_entry BE_AUTH_IGNORE global sm)"

text \<open>In the RESPONSE case entering IGNORE does not end the case: the tests that follow are made on
  the updated machine.\<close>

definition sm_BE_AUTH_Step :: "'e eapol_sm \<Rightarrow> 'e eapol_sm" where
  "sm_BE_AUTH_Step sm =
     (if portControl sm \<noteq> Auto \<or> initialize sm \<or> authAbort sm
      then sm_BE_AUTH_INITIALIZE_Enter True sm
      else case be_auth_state sm of
        BE_AUTH_INITIALIZE \<Rightarrow> sm_BE_AUTH_IDLE_Enter False sm
      | BE_AUTH_REQUEST \<Rightarrow>
          if eapolEap sm then sm_BE_AUTH_RESPONSE_Enter False sm
          else if eapReq (eap_if sm) then sm_BE_AUTH_REQUEST_Enter False sm
          else if eapTimeout (eap_if sm) then sm_BE_AUTH_TIMEOUT_Enter False sm
          else sm
      | BE_AUTH_RESPONSE \<Rightarrow>
          let sm = (if eapNoReq (eap_if sm) then sm_BE_AUTH_IGNORE_Enter False sm else sm) in
          if eapReq (eap_if sm)
          then sm_BE_AUTH_REQUEST_Enter False (cinc backendAccessChallenges sm)
          else if aWhile sm = 0 then sm_BE_AUTH_TIMEOUT_Enter False sm
          else if eapFail (eap_if sm)
          then sm_BE_AUTH_FAIL_Enter False (cinc backendAuthFails sm)
          else if eapSuccess (eap_if sm)
          then sm_BE_AUTH_SUCCESS_Enter False (cinc backendAuthSuccesses sm)
          else sm
      | BE_AUTH_SUCCESS \<Rightarrow> sm_BE_AUTH_IDLE_Enter False sm
      | BE_AUTH_FAIL \<Rightarrow> sm_BE_AUTH_IDLE_Enter False sm
      | BE_AUTH_TIMEOUT \<Rightarrow> sm_BE_AUTH_IDLE_Enter False sm
      | BE_AUTH_IDLE \<Rightarrow>
          if eapFail (eap_if sm) \<and> authStart sm then sm_BE_AUTH_FAIL_Enter False sm
          else if eapReq (eap_if sm) \<and> authStart sm then sm_BE_AUTH_REQUEST_Enter False sm
          else if eapSuccess (eap_if sm) \<and> authStart sm then sm_BE_AUTH_SUCCESS_Enter False sm
          else sm
      | BE_AUTH_IGNORE \<Rightarrow>
          if eapolEap sm then sm_BE_AUTH_RESPONSE_Enter False sm
          else if eapReq (eap_if sm) then sm_BE_AUTH_REQUEST_Enter False sm
          else if eapTimeout (eap_if sm) then sm_BE_AUTH_TIMEOUT_Enter False sm
          else sm)"

section \<open>Reauthentication Timer state machine\<close>

definition sm_REAUTH_TIMER_INITIALIZE_Enter :: "bool \<Rightarrow> 'e eapol_sm \<Rightarrow> 'e eapol_sm" where
  "sm_REAUTH_TIMER_INITIALIZE_Enter global sm =
     (reauth_timer_entry REAUTH_TIMER_INITIALIZE global sm)\<lparr>reAuthWhen := sint (reAuthPeriod sm)\<rparr>"

definition sm_REAUTH_TIMER_REAUTHENTICATE_Enter :: "bool \<Rightarrow> 'e eapol_sm \<Rightarrow> 'e eapol_sm" where
  "sm_REAUTH_TIMER_REAUTHENTICATE_Enter global sm =
     emit (Eapol_event EAPOL_AUTH_REAUTHENTICATE)
       ((reauth_timer_entry REAUTH_TIMER_REAUTHENTICATE global sm)\<lparr>reAuthenticate := True\<rparr>)"

definition sm_REAUTH_TIMER_Step :: "'e eapol_sm \<Rightarrow> 'e eapol_sm" where
  "sm_REAUTH_TIMER_Step sm =
     (if portControl sm \<noteq> Auto \<or> initialize sm \<or> authPortStatus sm = Unauthorized \<or>
         \<not> reAuthEnabled sm
      then sm_REAUTH_TIMER_INITIALIZE_Enter True sm
      else case reauth_timer_state sm of
        REAUTH_TIMER_INITIALIZE \<Rightarrow>
          if reAuthWhen sm = 0 then sm_REAUTH_TIMER_REAUTHENTICATE_Enter False sm else sm
      | REAUTH_TIMER_REAUTHENTICATE \<Rightarrow> sm_REAUTH_TIMER_INITIALIZE_Enter False sm)"

section \<open>Authenticator Key Transmit state machine\<close>

definition sm_AUTH_KEY_TX_NO_KEY_TRANSMIT_Enter :: "bool \<Rightarrow> 'e eapol_sm \<Rightarrow> 'e eapol_sm" where
  "sm_AUTH_KEY_TX_NO_KEY_TRANSMIT_Enter global sm =
     auth_key_tx_entry AUTH_KEY_TX_NO_KEY_TRANSMIT global sm"

definition sm_AUTH_KEY_TX_KEY_TRANSMIT_Enter :: "bool \<Rightarrow> 'e eapol_sm \<Rightarrow> 'e eapol_sm" where
  "sm_AUTH_KEY_TX_KEY_TRANSMIT_Enter global sm =
     (upd_if (eapKeyAvailable_update (\<lambda>_. False))
       (emit Tx_key (auth_key_tx_entry AUTH_KEY_TX_KEY_TRANSMIT global sm)))\<lparr>keyDone := True\<rparr>"

definition sm_AUTH_KEY_TX_Step :: "'e eapol_sm \<Rightarrow> 'e eapol_sm" where
  "sm_AUTH_KEY_TX_Step sm =
     (if initialize sm \<or> portControl sm \<noteq> Auto
      then sm_AUTH_KEY_TX_NO_KEY_TRANSMIT_Enter True sm
      else case auth_key_tx_state sm of
        AUTH_KEY_TX_NO_KEY_TRANSMIT \<Rightarrow>
          if keyTxEnabled sm \<and> eapKeyAvailable (eap_if sm) \<and> keyRun sm \<and>
             \<not> has_flag sm EAPOL_SM_USES_WPA
          then sm_AUTH_KEY_TX_KEY_TRANSMIT_Enter False sm else sm
      | AUTH_KEY_TX_KEY_TRANSMIT \<Rightarrow>
          if \<not> keyTxEnabled sm \<or> \<not> keyRun sm
          then sm_AUTH_KEY_TX_NO_KEY_TRANSMIT_Enter False sm
          else if eapKeyAvailable (eap_if sm)
          then sm_AUTH_KEY_TX_KEY_TRANSMIT_Enter False sm else sm)"

section \<open>Key Receive state machine\<close>

definition sm_KEY_RX_NO_KEY_RECEIVE_Enter :: "bool \<Rightarrow> 'e eapol_sm \<Rightarrow> 'e eapol_sm" where
  "sm_KEY_RX_NO_KEY_RECEIVE_Enter global sm = key_rx_entry KEY_RX_NO_KEY_RECEIVE global sm"

definition sm_KEY_RX_KEY_RECEIVE_Enter :: "bool \<Rightarrow> 'e eapol_sm \<Rightarrow> 'e eapol_sm" where
  "sm_KEY_RX_KEY_RECEIVE_Enter global sm =
     (key_rx_entry KEY_RX_KEY_RECEIVE global sm)\<lparr>rxKey := False\<rparr>"

definition sm_KEY_RX_Step :: "'e eapol_sm \<Rightarrow> 'e eapol_sm" where
  "sm_KEY_RX_Step sm =
     (if initialize sm \<or> \<not> portEnabled (eap_if sm)
      then sm_KEY_RX_NO_KEY_RECEIVE_Enter True sm
      else case key_rx_state sm of
        KEY_RX_NO_KEY_RECEIVE \<Rightarrow> if rxKey sm then sm_KEY_RX_KEY_RECEIVE_Enter False sm else sm
      | KEY_RX_KEY_RECEIVE \<Rightarrow> if rxKey sm then sm_KEY_RX_KEY_RECEIVE_Enter False sm else sm)"

section \<open>Controlled Directions state machine\<close>

definition sm_CTRL_DIR_FORCE_BOTH_Enter :: "bool \<Rightarrow> 'e eapol_sm \<Rightarrow> 'e eapol_sm" where
  "sm_CTRL_DIR_FORCE_BOTH_Enter global sm =
     (ctrl_dir_entry CTRL_DIR_FORCE_BOTH global sm)\<lparr>operControlledDirections := Both\<rparr>"

definition sm_CTRL_DIR_IN_OR_BOTH_Enter :: "bool \<Rightarrow> 'e eapol_sm \<Rightarrow> 'e eapol_sm" where
  "sm_CTRL_DIR_IN_OR_BOTH_Enter global sm =
     (ctrl_dir_entry CTRL_DIR_IN_OR_BOTH global sm)
       \<lparr>operControlledDirections := adminControlledDirections sm\<rparr>"

definition sm_CTRL_DIR_Step :: "'e eapol_sm \<Rightarrow> 'e eapol_sm" where
  "sm_CTRL_DIR_Step sm =
     (if initialize sm then sm_CTRL_DIR_IN_OR_BOTH_Enter True sm
      else case ctrl_dir_state sm of
        CTRL_DIR_FORCE_BOTH \<Rightarrow>
          if portEnabled (eap_if sm) \<and> operEdge sm
          then sm_CTRL_DIR_IN_OR_BOTH_Enter False sm else sm
      | CTRL_DIR_IN_OR_BOTH \<Rightarrow>
          let sm = (if operControlledDirections sm \<noteq> adminControlledDirections sm
                    then sm_CTRL_DIR_IN_OR_BOTH_Enter False sm else sm)
          in if \<not> portEnabled (eap_if sm) \<or> \<not> operEdge sm
             then sm_CTRL_DIR_FORCE_BOTH_Enter False sm else sm)"

section \<open>Running the machines\<close>

definition eapol_auth_step :: "'e eapol_sm \<Rightarrow> 'e eapol_sm" where
  "eapol_auth_step sm = emit Timeout_step_cb sm"

definition may_run :: "'e eapol_env \<Rightarrow> 'e eapol_sm \<Rightarrow> bool" where
  "may_run env sm \<longleftrightarrow> initializing sm \<or> sta_entry_alive env (out sm)"

text \<open>One pass of the body between the label \<^verbatim>\<open>restart\<close> and the comparison of the states.\<close>

definition eapol_sm_round :: "'e eapol_env \<Rightarrow> 'e eapol_sm \<Rightarrow> 'e eapol_sm" where
  "eapol_sm_round env sm =
     (let sm = sm_AUTH_PAE_Step sm;
          sm = (if may_run env sm then sm_BE_AUTH_Step sm else sm);
          sm = (if may_run env sm then sm_REAUTH_TIMER_Step sm else sm);
          sm = (if may_run env sm then sm_AUTH_KEY_TX_Step sm else sm);
          sm = (if may_run env sm then sm_KEY_RX_Step sm else sm)
      in if may_run env sm then sm_CTRL_DIR_Step sm else sm)"

definition sm_states where
  "sm_states sm = (auth_pae_state sm, be_auth_state sm, reauth_timer_state sm,
                   auth_key_tx_state sm, key_rx_state sm, ctrl_dir_state sm)"

definition notify_change :: "'e eapol_env \<Rightarrow> 'e eapol_sm \<Rightarrow> 'e eapol_sm" where
  "notify_change env sm =
     (if sta_entry_alive env (out sm) then emit (Eapol_event EAPOL_AUTH_SM_CHANGE) sm else sm)"

text \<open>The tail of \<^verbatim>\<open>eapol_sm_step_run\<close> once the EAP server has nothing more to do: a pending
  response for the authentication server is passed on.\<close>

definition aaa_response :: "'e eapol_env \<Rightarrow> 'e eapol_sm \<Rightarrow> 'e eapol_sm" where
  "aaa_response env sm =
     (if aaaEapResp (eap_if sm) then
        let sm = upd_if (aaaEapResp_update (\<lambda>_. False)) sm in
        case aaaEapRespData (eap_if sm) of
          None \<Rightarrow> sm
        | Some d \<Rightarrow> notify_change env (emit (Aaa_send d) sm)
      else notify_change env sm)"

text \<open>\<^verbatim>\<open>max_steps\<close> is the first argument; it is decremented before each restart, and when it is used
  up the run is continued from an event loop timeout.\<close>

fun eapol_sm_step_loop :: "nat \<Rightarrow> 'e eapol_env \<Rightarrow> 'e eapol_sm \<Rightarrow> 'e eapol_sm" where
  "eapol_sm_step_loop 0 env sm = eapol_auth_step sm"
| "eapol_sm_step_loop (Suc max_steps) env sm =
     (let prev = sm_states sm; sm = eapol_sm_round env sm in
      if prev \<noteq> sm_states sm then eapol_sm_step_loop max_steps env sm
      else case (if sta_entry_alive env (out sm) then eap sm else None) of
        None \<Rightarrow> notify_change env sm
      | Some e \<Rightarrow>
          (case eap_server_sm_step env e (eap_if sm) of
             (progress, e', i) \<Rightarrow>
               let sm = sm\<lparr>eap := Some e', eap_if := i\<rparr> in
               if progress then eapol_sm_step_loop max_steps env sm
               else aaa_response env sm))"

definition eapol_sm_step_run :: "'e eapol_env \<Rightarrow> 'e eapol_sm \<Rightarrow> 'e eapol_sm" where
  "eapol_sm_step_run env sm = eapol_sm_step_loop 100 env sm"

definition eapol_port_timers_tick :: "'e eapol_env \<Rightarrow> 'e eapol_sm \<Rightarrow> 'e eapol_sm" where
  "eapol_port_timers_tick env sm =
     (let sm = (if aWhile sm > 0 then sm\<lparr>aWhile := aWhile sm - 1\<rparr> else sm);
          sm = (if quietWhile sm > 0 then sm\<lparr>quietWhile := quietWhile sm - 1\<rparr> else sm);
          sm = (if reAuthWhen sm > 0 then sm\<lparr>reAuthWhen := reAuthWhen sm - 1\<rparr> else sm);
          sm = (if retransWhile (eap_if sm) > 0
                then upd_if (retransWhile_update (\<lambda>t. t - 1)) sm else sm);
          sm = eapol_sm_step_run env sm
      in emit Timeout_port_timers_tick sm)"

definition eapol_auth_initialize :: "'e eapol_env \<Rightarrow> 'e eapol_sm \<Rightarrow> 'e eapol_sm" where
  "eapol_auth_initialize env sm =
     (let sm = sm\<lparr>initializing := True, initialize := True\<rparr>;
          sm = eapol_sm_step_run env sm;
          sm = eapol_sm_step_run env (sm\<lparr>initialize := False\<rparr>)
      in emit Timeout_port_timers_tick (sm\<lparr>initializing := False\<rparr>))"

section \<open>Allocation and inputs\<close>

record eapol_auth_config =
  eap_reauth_period :: int
  conf_wpa :: int
  individual_wep_key_len :: int

record eapol_authenticator =
  eapol_conf :: eapol_auth_config
  default_wep_key :: "u8 list option"
  default_wep_key_idx :: u8

definition eap_if_zero :: eap_eapol_interface where
  "eap_if_zero = \<lparr>eapResp = False, eapRespData = None, portEnabled = False, retransWhile = 0,
     eapRestart = False, eapSRTT = 0, eapRTTVAR = 0, eapReq = False, eapNoReq = False,
     eapSuccess = False, eapFail = False, eapTimeout = False, eapReqData = None,
     eapKeyData = None, eapKeyAvailable = False, aaaEapReq = False, aaaEapNoReq = False,
     aaaSuccess = False, aaaFail = False, aaaEapReqData = None, aaaEapKeyData = None,
     aaaEapKeyAvailable = False, aaaMethodTimeout = 0, aaaEapResp = False,
     aaaEapRespData = None, aaaTimeout = False\<rparr>"

text \<open>The structure \<^verbatim>\<open>eapol_auth_alloc\<close> fills in before the EAP server exists; all other fields are
  zero from \<^verbatim>\<open>os_zalloc\<close>.\<close>

definition eapol_sm_defaults :: "eapol_authenticator \<Rightarrow> macaddr \<Rightarrow> u32 \<Rightarrow> 'e eapol_sm" where
  "eapol_sm_defaults eapol addr flags =
    \<lparr>aWhile = 0, quietWhile = 0, reAuthWhen = 0, authAbort = False, authFail = False,
     authPortStatus = PortState_zero, authStart = False, authTimeout = False,
     authSuccess = False, eapolEap = False, initialize = False, keyDone = False,
     keyRun = False,
     keyTxEnabled = (conf_wpa (eapol_conf eapol) = 0 \<and>
        (default_wep_key eapol \<noteq> None \<or> individual_wep_key_len (eapol_conf eapol) > 0)),
     portControl = Auto,
     portValid = (conf_wpa (eapol_conf eapol) = 0),
     reAuthenticate = False, auth_pae_state = AUTH_PAE_INITIALIZE, eapolLogoff = False,
     eapolStart = False, portMode = PortTypes_zero, reAuthCount = 0, quietPeriod = 60,
     reAuthMax = 2, be_auth_state = BE_AUTH_INITIALIZE, serverTimeout = 30,
     reauth_timer_state = REAUTH_TIMER_INITIALIZE,
     reAuthPeriod = word_of_int (eap_reauth_period (eapol_conf eapol)),
     reAuthEnabled = (eap_reauth_period (eapol_conf eapol) > 0),
     auth_key_tx_state = AUTH_KEY_TX_NO_KEY_TRANSMIT, key_rx_state = KEY_RX_NO_KEY_RECEIVE,
     rxKey = False, ctrl_dir_state = CTRL_DIR_IN_OR_BOTH, adminControlledDirections = Both,
     operControlledDirections = Both, operEdge = False, counters = (\<lambda>_. 0), sm_addr = addr,
     sm_flags = flags, eap_if = eap_if_zero, last_eap_id = 0, identity = None,
     eap_type_authsrv = 0, eap_type_supp = 0, radius_cui = None, eap = None,
     initializing = False, changed = False, out = []\<rparr>"

text \<open>\<^verbatim>\<open>eapol_auth_alloc\<close>: no machine without an authenticator or when \<^verbatim>\<open>eap_server_sm_init\<close> fails;
  its result, the EAP server state and the shared interface, is the third argument.\<close>

definition eapol_auth_alloc ::
  "'e eapol_env \<Rightarrow> eapol_authenticator option \<Rightarrow> ('e \<times> eap_eapol_interface) option \<Rightarrow> macaddr \<Rightarrow>
   u32 \<Rightarrow> u8 list option \<Rightarrow> u8 list option \<Rightarrow> 'e eapol_sm option" where
  "eapol_auth_alloc env eapol eap_init addr flags ident cui =
     (case eapol of
        None \<Rightarrow> None
      | Some a \<Rightarrow>
          (case eap_init of
             None \<Rightarrow> None
           | Some (e, i) \<Rightarrow>
               let sm = (eapol_sm_defaults a addr flags)\<lparr>eap := Some e, eap_if := i\<rparr>;
                   sm = eapol_auth_initialize env sm
               in Some (sm\<lparr>identity := ident, radius_cui := cui\<rparr>)))"

text \<open>The inputs of a port, from \<^verbatim>\<open>src/ap/ieee802_1x.c\<close>.\<close>

definition ieee802_1x_notify_port_enabled :: "bool \<Rightarrow> 'e eapol_sm \<Rightarrow> 'e eapol_sm" where
  "ieee802_1x_notify_port_enabled enabled sm =
     eapol_auth_step (upd_if (portEnabled_update (\<lambda>_. enabled)) sm)"

definition ieee802_1x_notify_port_valid :: "bool \<Rightarrow> 'e eapol_sm \<Rightarrow> 'e eapol_sm" where
  "ieee802_1x_notify_port_valid valid sm = eapol_auth_step (sm\<lparr>portValid := valid\<rparr>)"

definition ieee802_1x_notify_pre_auth :: "bool \<Rightarrow> 'e eapol_sm \<Rightarrow> 'e eapol_sm" where
  "ieee802_1x_notify_pre_auth pre sm =
     sm\<lparr>sm_flags := (if pre then sm_flags sm OR EAPOL_SM_PREAUTH
                     else sm_flags sm AND NOT EAPOL_SM_PREAUTH)\<rparr>"

definition handle_eap_response :: "u8 list \<Rightarrow> nat \<Rightarrow> 'e eapol_sm \<Rightarrow> 'e eapol_sm" where
  "handle_eap_response eap_pkt len sm =
     (if len < 4 + 1 then sm
      else
        let sm = sm\<lparr>eap_type_supp := eap_pkt ! 4\<rparr>;
            sm = cinc dot1xAuthEapolRespFramesRx sm;
            sm = upd_if (eapRespData_update (\<lambda>_. Some (take len eap_pkt))) sm
        in sm\<lparr>eapolEap := True\<rparr>)"

definition handle_eap :: "u8 list \<Rightarrow> nat \<Rightarrow> 'e eapol_sm \<Rightarrow> 'e eapol_sm" where
  "handle_eap buf len sm =
     (if len < 4 then sm
      else
        let eap_len = unat (WPA_GET_BE16 (drop 2 buf)) in
        if eap_len < 4 then sm
        else if eap_len > len then sm
        else if buf ! 0 = EAP_CODE_RESPONSE then handle_eap_response buf eap_len sm
        else sm)"

text \<open>The part of \<^verbatim>\<open>ieee802_1x_receive\<close> that acts on an existing machine of a station using
  IEEE 802.1X: the switch over the packet type, up to the scheduling of a step.  An EAPOL-Start also
  drops the station's cached PMKSA and raises \<^verbatim>\<open>WPA_REAUTH_EAPOL\<close> in the WPA machine.\<close>

definition clear_identity :: "'e eapol_env \<Rightarrow> 'e eapol_sm \<Rightarrow> 'e eapol_sm" where
  "clear_identity env sm = sm\<lparr>eap := map_option (eap_server_clear_identity env) (eap sm)\<rparr>"

definition ieee802_1x_receive_type :: "'e eapol_env \<Rightarrow> u8 \<Rightarrow> u8 list \<Rightarrow> 'e eapol_sm \<Rightarrow> 'e eapol_sm" where
  "ieee802_1x_receive_type env typ body sm =
     eapol_auth_step
       (if typ = IEEE802_1X_TYPE_EAP_PACKET then handle_eap body (length body) sm
        else if typ = 1 then
          clear_identity env (cinc dot1xAuthEapolStartFramesRx
            (sm\<lparr>sm_flags := sm_flags sm AND NOT EAPOL_SM_WAIT_START, eapolStart := True\<rparr>))
        else if typ = 2 then
          clear_identity env (cinc dot1xAuthEapolLogoffFramesRx (sm\<lparr>eapolLogoff := True\<rparr>))
        else if typ = 3 \<or> typ = 4 then sm
        else cinc dot1xAuthInvalidEapolFramesRx sm)"

text \<open>\<^verbatim>\<open>ieee802_1x_new_station\<close> for a station whose PMK is cached (or came from FT): the machines are
  put where a successful EAP exchange would have left them and the EAP server is told.\<close>

definition new_station_cached :: "'e eapol_env \<Rightarrow> 'e eapol_sm \<Rightarrow> 'e eapol_sm" where
  "new_station_cached env sm =
     (upd_if (eapKeyAvailable_update (\<lambda>_. True)) sm)
       \<lparr>keyRun := True, auth_pae_state := AUTH_PAE_AUTHENTICATING,
        be_auth_state := BE_AUTH_SUCCESS, authSuccess := True, authFail := False,
        eap := map_option (eap_sm_notify_cached env) (eap sm)\<rparr>"

text \<open>\<^verbatim>\<open>hostapd_wpa_auth_set_eapol\<close> of \<^verbatim>\<open>src/ap/wpa_auth_glue.c\<close>: the variables of the port the WPA
  authenticator sets.  \<^verbatim>\<open>WPA_EAPOL_authorized\<close> acts on the station and its driver entry, not on the
  state machine.\<close>

datatype wpa_eapol_variable =
    WPA_EAPOL_portEnabled | WPA_EAPOL_portValid | WPA_EAPOL_authorized
  | WPA_EAPOL_portControl_Auto | WPA_EAPOL_keyRun | WPA_EAPOL_keyAvailable | WPA_EAPOL_keyDone
  | WPA_EAPOL_inc_EapolFramesTx

definition hostapd_wpa_auth_set_eapol :: "wpa_eapol_variable \<Rightarrow> bool \<Rightarrow> 'e eapol_sm \<Rightarrow> 'e eapol_sm" where
  "hostapd_wpa_auth_set_eapol var v sm =
     (case var of
        WPA_EAPOL_portEnabled \<Rightarrow> ieee802_1x_notify_port_enabled v sm
      | WPA_EAPOL_portValid \<Rightarrow> ieee802_1x_notify_port_valid v sm
      | WPA_EAPOL_authorized \<Rightarrow> sm
      | WPA_EAPOL_portControl_Auto \<Rightarrow> sm\<lparr>portControl := Auto\<rparr>
      | WPA_EAPOL_keyRun \<Rightarrow> sm\<lparr>keyRun := v\<rparr>
      | WPA_EAPOL_keyAvailable \<Rightarrow> upd_if (eapKeyAvailable_update (\<lambda>_. v)) sm
      | WPA_EAPOL_keyDone \<Rightarrow> sm\<lparr>keyDone := v\<rparr>
      | WPA_EAPOL_inc_EapolFramesTx \<Rightarrow> cinc dot1xAuthEapolFramesTx sm)"

definition new_station_reassoc :: "'e eapol_sm \<Rightarrow> 'e eapol_sm" where
  "new_station_reassoc sm = eapol_auth_step (sm\<lparr>reAuthenticate := True\<rparr>)"

end
