(* ===== verification/Eapol_Props.thy ===== *)
theory Eapol_Props
  imports Eapol_Auth
begin

text \<open>
  Correctness of the IEEE 802.1X authenticator: what the five machines beside the PAE leave alone
  (an interface they share, interpreted for each), sequences of operations on a port, and the
  invariants of the port under every such sequence.
\<close>

section \<open>The part of a port the PAE machine owns\<close>

definition port_events :: "eapol_out list \<Rightarrow> bool list" where
  "port_events es = concat (map (\<lambda>e. case e of Set_port_authorized b \<Rightarrow> [b] | _ \<Rightarrow> []) es)"

lemma port_events_simps [simp]:
  "port_events [] = []"
  "port_events (xs @ ys) = port_events xs @ port_events ys"
  "port_events (e # xs) = (case e of Set_port_authorized b \<Rightarrow> [b] | _ \<Rightarrow> []) @ port_events xs"
  by (simp_all add: port_events_def)

definition pae_view where
  "pae_view sm = (auth_pae_state sm, authPortStatus sm, reAuthCount sm, reAuthMax sm, portMode sm,
     portControl sm, portValid sm, initialize sm, quietWhile sm, quietPeriod sm, eapolLogoff sm,
     eapolStart sm, port_events (out sm))"

lemmas eapol_helper_defs [sm_simps] =
  emit_def cinc_def upd_if_def auth_pae_entry_def be_auth_entry_def reauth_timer_entry_def
  auth_key_tx_entry_def key_rx_entry_def ctrl_dir_entry_def setPortAuthorized_def
  setPortUnauthorized_def finished_def eapol_auth_tx_canned_eap_def ieee802_1x_abort_auth_def

lemmas be_auth_enter_defs =
  sm_BE_AUTH_INITIALIZE_Enter_def sm_BE_AUTH_REQUEST_Enter_def sm_BE_AUTH_RESPONSE_Enter_def
  sm_BE_AUTH_SUCCESS_Enter_def sm_BE_AUTH_FAIL_Enter_def sm_BE_AUTH_TIMEOUT_Enter_def
  sm_BE_AUTH_IDLE_Enter_def sm_BE_AUTH_IGNORE_Enter_def

lemmas auth_pae_enter_defs =
  sm_AUTH_PAE_INITIALIZE_Enter_def sm_AUTH_PAE_DISCONNECTED_Enter_def sm_AUTH_PAE_RESTART_Enter_def
  sm_AUTH_PAE_CONNECTING_Enter_def sm_AUTH_PAE_HELD_Enter_def sm_AUTH_PAE_AUTHENTICATED_Enter_def
  sm_AUTH_PAE_AUTHENTICATING_Enter_def sm_AUTH_PAE_ABORTING_Enter_def
  sm_AUTH_PAE_FORCE_AUTH_Enter_def sm_AUTH_PAE_FORCE_UNAUTH_Enter_def

text \<open>The contract of a machine that does not interfere with the PAE machine.\<close>

locale pae_neutral =
  fixes step :: "'e eapol_sm \<Rightarrow> 'e eapol_sm"
  assumes view: "pae_view (step sm) = pae_view sm"
begin

lemma guarded_view: "pae_view (if b then step sm else sm) = pae_view sm"
  by (simp add: view)

lemma keeps_invariant: "(\<And>x y. pae_view x = pae_view y \<Longrightarrow> P x \<Longrightarrow> P y) \<Longrightarrow> P sm \<Longrightarrow> P (step sm)"
  using view [of sm] by metis

end

lemma pae_view_enter_be [simp]:
  "pae_view (eapol_auth_tx_req sm) = pae_view sm"
  "pae_view (ieee802_1x_abort_auth sm) = pae_view sm"
  "pae_view (cinc c sm) = pae_view sm"
  "pae_view (upd_if f sm) = pae_view sm"
  "pae_view (be_auth_entry st g sm) = pae_view sm"
  by (simp_all add: pae_view_def eapol_auth_tx_req_def eapol_helper_defs Let_def split: option.split)

lemma pae_view_updates [simp]:
  "pae_view (sm\<lparr>authAbort := b\<rparr>) = pae_view sm"
  "pae_view (sm\<lparr>authFail := b\<rparr>) = pae_view sm"
  "pae_view (sm\<lparr>authStart := b\<rparr>) = pae_view sm"
  "pae_view (sm\<lparr>authTimeout := b\<rparr>) = pae_view sm"
  "pae_view (sm\<lparr>authSuccess := b\<rparr>) = pae_view sm"
  "pae_view (sm\<lparr>keyRun := b\<rparr>) = pae_view sm"
  "pae_view (sm\<lparr>eapolEap := b\<rparr>) = pae_view sm"
  "pae_view (sm\<lparr>aWhile := t\<rparr>) = pae_view sm"
  "pae_view (sm\<lparr>eap := e\<rparr>) = pae_view sm"
  "pae_view (sm\<lparr>eap_if := i\<rparr>) = pae_view sm"
  by (simp_all add: pae_view_def)

lemma pae_view_be_enter [simp]:
  "pae_view (sm_BE_AUTH_INITIALIZE_Enter g sm) = pae_view sm"
  "pae_view (sm_BE_AUTH_REQUEST_Enter g sm) = pae_view sm"
  "pae_view (sm_BE_AUTH_RESPONSE_Enter g sm) = pae_view sm"
  "pae_view (sm_BE_AUTH_SUCCESS_Enter g sm) = pae_view sm"
  "pae_view (sm_BE_AUTH_FAIL_Enter g sm) = pae_view sm"
  "pae_view (sm_BE_AUTH_TIMEOUT_Enter g sm) = pae_view sm"
  "pae_view (sm_BE_AUTH_IDLE_Enter g sm) = pae_view sm"
  "pae_view (sm_BE_AUTH_IGNORE_Enter g sm) = pae_view sm"
  by (simp_all add: be_auth_enter_defs Let_def)

interpretation be: pae_neutral sm_BE_AUTH_Step
  by unfold_locales (simp add: sm_BE_AUTH_Step_def Let_def split: be_auth_enum.split)

interpretation reauth: pae_neutral sm_REAUTH_TIMER_Step
  by unfold_locales
    (simp add: sm_REAUTH_TIMER_Step_def sm_REAUTH_TIMER_INITIALIZE_Enter_def
      sm_REAUTH_TIMER_REAUTHENTICATE_Enter_def reauth_timer_entry_def emit_def pae_view_def
      split: reauth_timer_enum.split)

interpretation key_tx: pae_neutral sm_AUTH_KEY_TX_Step
  by unfold_locales
    (simp add: sm_AUTH_KEY_TX_Step_def sm_AUTH_KEY_TX_NO_KEY_TRANSMIT_Enter_def
      sm_AUTH_KEY_TX_KEY_TRANSMIT_Enter_def auth_key_tx_entry_def emit_def upd_if_def pae_view_def
      split: auth_key_tx_enum.split)

interpretation key_rx: pae_neutral sm_KEY_RX_Step
  by unfold_locales
    (simp add: sm_KEY_RX_Step_def sm_KEY_RX_NO_KEY_RECEIVE_Enter_def
      sm_KEY_RX_KEY_RECEIVE_Enter_def key_rx_entry_def pae_view_def split: key_rx_enum.split)

interpretation ctrl_dir: pae_neutral sm_CTRL_DIR_Step
  by unfold_locales
    (simp add: sm_CTRL_DIR_Step_def sm_CTRL_DIR_FORCE_BOTH_Enter_def
      sm_CTRL_DIR_IN_OR_BOTH_Enter_def ctrl_dir_entry_def pae_view_def Let_def
      split: ctrl_dir_enum.split)

lemma round_view: "pae_view (eapol_sm_round env sm) = pae_view (sm_AUTH_PAE_Step sm)"
  by (simp only: eapol_sm_round_def Let_def be.guarded_view reauth.guarded_view
      key_tx.guarded_view key_rx.guarded_view ctrl_dir.guarded_view)

section \<open>Sequences of operations on a port\<close>

text \<open>Everything that can happen to a port after it is allocated: the machines run, the timers tick,
  a frame arrives, the WPA authenticator or the association code sets a variable.  A RADIUS reply
  changes the EAP interface, may set \<^verbatim>\<open>authFail\<close> and the reauthentication period; the port
  enable bit of the interface is not its to change.\<close>

datatype eapol_op =
    Op_run
  | Op_tick
  | Op_set_eapol wpa_eapol_variable bool
  | Op_pre_auth bool
  | Op_receive u8 "u8 list"
  | Op_reassoc
  | Op_cached
  | Op_radius eap_eapol_interface bool u32

fun apply_op :: "'e eapol_env \<Rightarrow> eapol_op \<Rightarrow> 'e eapol_sm \<Rightarrow> 'e eapol_sm" where
  "apply_op env Op_run sm = eapol_sm_step_run env sm"
| "apply_op env Op_tick sm = eapol_port_timers_tick env sm"
| "apply_op env (Op_set_eapol var v) sm = hostapd_wpa_auth_set_eapol var v sm"
| "apply_op env (Op_pre_auth b) sm = ieee802_1x_notify_pre_auth b sm"
| "apply_op env (Op_receive typ body) sm = ieee802_1x_receive_type env typ body sm"
| "apply_op env Op_reassoc sm = new_station_reassoc sm"
| "apply_op env Op_cached sm = new_station_cached env sm"
| "apply_op env (Op_radius i fail period) sm =
     eapol_auth_step (sm\<lparr>eap_if := i\<lparr>portEnabled := portEnabled (eap_if sm)\<rparr>,
       authFail := (authFail sm \<or> fail), reAuthPeriod := period\<rparr>)"

definition run_ops :: "'e eapol_env \<Rightarrow> eapol_op list \<Rightarrow> 'e eapol_sm \<Rightarrow> 'e eapol_sm" where
  "run_ops env ops sm = fold (apply_op env) ops sm"

text \<open>The contract of a predicate that a run of the machines keeps.\<close>

locale port_invariant =
  fixes env :: "'e eapol_env" and P :: "'e eapol_sm \<Rightarrow> bool"
  assumes round: "P sm \<Longrightarrow> P (eapol_sm_round env sm)"
    and eap_step: "P sm \<Longrightarrow> eap_server_sm_step env e (eap_if sm) = (progress, e', i) \<Longrightarrow>
      P (sm\<lparr>eap := Some e', eap_if := i\<rparr>)"
    and aaa: "P sm \<Longrightarrow> P (upd_if (aaaEapResp_update (\<lambda>_. False)) sm)"
    and emit: "P sm \<Longrightarrow> port_events [ev] = [] \<Longrightarrow> P (emit ev sm)"
begin

lemma notify: "P sm \<Longrightarrow> P (notify_change env sm)"
  by (simp add: notify_change_def emit)

lemma aaa_resp: "P sm \<Longrightarrow> P (aaa_response env sm)"
  by (simp add: aaa_response_def Let_def notify aaa emit split: option.split)

lemma loop: "P sm \<Longrightarrow> P (eapol_sm_step_loop n env sm)"
proof (induction n arbitrary: sm)
  case 0
  then show ?case by (simp add: eapol_auth_step_def emit)
next
  case (Suc n)
  have r: "P (eapol_sm_round env sm)" using Suc.prems by (rule round)
  show ?case
    using r Suc.IH eap_step [OF r] notify [OF r] aaa_resp
    by (auto simp: Let_def split: option.split prod.split if_splits)
qed

lemma run: "P sm \<Longrightarrow> P (eapol_sm_step_run env sm)"
  by (simp add: eapol_sm_step_run_def loop)

lemma run_after_round:
  assumes "P (eapol_sm_round env sm)"
  shows "P (eapol_sm_step_run env sm)"
proof -
  have "P (eapol_sm_step_loop (Suc 99) env sm)"
    using assms loop eap_step [OF assms] notify [OF assms] aaa_resp
    unfolding eapol_sm_step_loop.simps
    by (auto simp: Let_def split: option.split prod.split if_splits)
  then show ?thesis by (simp add: eapol_sm_step_run_def numeral_eq_Suc)
qed

end

lemma tick_unfold:
  "eapol_port_timers_tick env sm =
     emit Timeout_port_timers_tick (eapol_sm_step_run env
       (sm\<lparr>aWhile := (if aWhile sm > 0 then aWhile sm - 1 else aWhile sm),
          quietWhile := (if quietWhile sm > 0 then quietWhile sm - 1 else quietWhile sm),
          reAuthWhen := (if reAuthWhen sm > 0 then reAuthWhen sm - 1 else reAuthWhen sm),
          eap_if := (if retransWhile (eap_if sm) > 0
            then retransWhile_update (\<lambda>t. t - 1) (eap_if sm) else eap_if sm)\<rparr>))"
  by (simp add: eapol_port_timers_tick_def Let_def upd_if_def)

lemma handle_eap_view [simp]: "pae_view (handle_eap b n sm) = pae_view sm"
  by (simp add: handle_eap_def handle_eap_response_def pae_view_def cinc_def upd_if_def Let_def)

lemma new_station_cached_view:
  "pae_view (new_station_cached env sm) =
     pae_view (sm\<lparr>auth_pae_state := AUTH_PAE_AUTHENTICATING\<rparr>)"
  by (simp add: new_station_cached_def pae_view_def upd_if_def)

section \<open>Port status\<close>

definition port_mirror :: "'e eapol_sm \<Rightarrow> bool" where
  "port_mirror sm \<longleftrightarrow>
     authPortStatus sm =
       (if port_events (out sm) = [] then PortState_zero
        else if last (port_events (out sm)) then Authorized else Unauthorized)"

definition port_state_ok :: "'e eapol_sm \<Rightarrow> bool" where
  "port_state_ok sm \<longleftrightarrow>
     (auth_pae_state sm \<in> {AUTH_PAE_AUTHENTICATED, AUTH_PAE_FORCE_AUTH} \<longrightarrow>
        authPortStatus sm = Authorized) \<and>
     (auth_pae_state sm \<in> {AUTH_PAE_DISCONNECTED, AUTH_PAE_HELD, AUTH_PAE_FORCE_UNAUTH} \<longrightarrow>
        authPortStatus sm = Unauthorized)"

definition port_ok :: "'e eapol_sm \<Rightarrow> bool" where
  "port_ok sm \<longleftrightarrow> port_mirror sm \<and> port_state_ok sm"

lemma port_ok_view: "pae_view x = pae_view y \<Longrightarrow> port_ok x = port_ok y"
  by (simp add: port_ok_def port_mirror_def port_state_ok_def pae_view_def)

text \<open>What entering a state of the PAE machine does to the port.\<close>

lemma pae_enter_state [simp]:
  "auth_pae_state (sm_AUTH_PAE_INITIALIZE_Enter g sm) = AUTH_PAE_INITIALIZE"
  "auth_pae_state (sm_AUTH_PAE_DISCONNECTED_Enter g sm) = AUTH_PAE_DISCONNECTED"
  "auth_pae_state (sm_AUTH_PAE_RESTART_Enter g sm) = AUTH_PAE_RESTART"
  "auth_pae_state (sm_AUTH_PAE_CONNECTING_Enter g sm) = AUTH_PAE_CONNECTING"
  "auth_pae_state (sm_AUTH_PAE_HELD_Enter g sm) = AUTH_PAE_HELD"
  "auth_pae_state (sm_AUTH_PAE_AUTHENTICATED_Enter g sm) = AUTH_PAE_AUTHENTICATED"
  "auth_pae_state (sm_AUTH_PAE_AUTHENTICATING_Enter g sm) = AUTH_PAE_AUTHENTICATING"
  "auth_pae_state (sm_AUTH_PAE_ABORTING_Enter g sm) = AUTH_PAE_ABORTING"
  "auth_pae_state (sm_AUTH_PAE_FORCE_AUTH_Enter g sm) = AUTH_PAE_FORCE_AUTH"
  "auth_pae_state (sm_AUTH_PAE_FORCE_UNAUTH_Enter g sm) = AUTH_PAE_FORCE_UNAUTH"
  by (simp_all add: auth_pae_enter_defs eapol_helper_defs Let_def)

lemma pae_enter_port [simp]:
  "authPortStatus (sm_AUTH_PAE_INITIALIZE_Enter g sm) = authPortStatus sm"
  "authPortStatus (sm_AUTH_PAE_DISCONNECTED_Enter g sm) = Unauthorized"
  "authPortStatus (sm_AUTH_PAE_RESTART_Enter g sm) = authPortStatus sm"
  "authPortStatus (sm_AUTH_PAE_CONNECTING_Enter g sm) = authPortStatus sm"
  "authPortStatus (sm_AUTH_PAE_HELD_Enter g sm) = Unauthorized"
  "authPortStatus (sm_AUTH_PAE_AUTHENTICATED_Enter g sm) = Authorized"
  "authPortStatus (sm_AUTH_PAE_AUTHENTICATING_Enter g sm) = authPortStatus sm"
  "authPortStatus (sm_AUTH_PAE_ABORTING_Enter g sm) = authPortStatus sm"
  "authPortStatus (sm_AUTH_PAE_FORCE_AUTH_Enter g sm) = Authorized"
  "authPortStatus (sm_AUTH_PAE_FORCE_UNAUTH_Enter g sm) = Unauthorized"
  by (simp_all add: auth_pae_enter_defs eapol_helper_defs Let_def)

lemma pae_enter_events [simp]:
  "port_events (out (sm_AUTH_PAE_INITIALIZE_Enter g sm)) = port_events (out sm)"
  "port_events (out (sm_AUTH_PAE_DISCONNECTED_Enter g sm)) = port_events (out sm) @ [False]"
  "port_events (out (sm_AUTH_PAE_RESTART_Enter g sm)) = port_events (out sm)"
  "port_events (out (sm_AUTH_PAE_CONNECTING_Enter g sm)) = port_events (out sm)"
  "port_events (out (sm_AUTH_PAE_HELD_Enter g sm)) = port_events (out sm) @ [False]"
  "port_events (out (sm_AUTH_PAE_AUTHENTICATED_Enter g sm)) = port_events (out sm) @ [True]"
  "port_events (out (sm_AUTH_PAE_AUTHENTICATING_Enter g sm)) = port_events (out sm)"
  "port_events (out (sm_AUTH_PAE_ABORTING_Enter g sm)) = port_events (out sm)"
  "port_events (out (sm_AUTH_PAE_FORCE_AUTH_Enter g sm)) = port_events (out sm) @ [True]"
  "port_events (out (sm_AUTH_PAE_FORCE_UNAUTH_Enter g sm)) = port_events (out sm) @ [False]"
  by (simp_all add: auth_pae_enter_defs eapol_helper_defs Let_def)

text \<open>Every outcome of a PAE step: the state and the port are kept, or one of the states is
  entered.  Invariants of the PAE machine are proved for the entries and follow for the step.\<close>

lemma pae_step_cases:
  assumes "P sm"
    and "P (sm_AUTH_PAE_INITIALIZE_Enter True sm)"
    and "portControl sm = ForceAuthorized \<or> auth_pae_state sm = AUTH_PAE_FORCE_AUTH \<Longrightarrow>
      \<forall>g. P (sm_AUTH_PAE_FORCE_AUTH_Enter g sm)"
    and "portControl sm = ForceUnauthorized \<or> auth_pae_state sm = AUTH_PAE_FORCE_UNAUTH \<Longrightarrow>
      \<forall>g. P (sm_AUTH_PAE_FORCE_UNAUTH_Enter g sm)"
    and "P (sm_AUTH_PAE_DISCONNECTED_Enter False sm)"
    and "auth_pae_state sm \<in> {AUTH_PAE_DISCONNECTED, AUTH_PAE_HELD, AUTH_PAE_AUTHENTICATED,
      AUTH_PAE_ABORTING} \<Longrightarrow>
      (auth_pae_state sm = AUTH_PAE_HELD \<longrightarrow> quietWhile sm = 0) \<Longrightarrow> P (sm_AUTH_PAE_RESTART_Enter False sm)"
    and "auth_pae_state sm = AUTH_PAE_RESTART \<Longrightarrow> P (sm_AUTH_PAE_CONNECTING_Enter False sm)"
    and "auth_pae_state sm = AUTH_PAE_CONNECTING \<Longrightarrow> reAuthCount sm \<le> reAuthMax sm \<Longrightarrow>
      P (sm_AUTH_PAE_AUTHENTICATING_Enter False sm)"
    and "auth_pae_state sm = AUTH_PAE_AUTHENTICATING \<Longrightarrow> authSuccess sm \<Longrightarrow> portValid sm \<Longrightarrow>
      P (sm_AUTH_PAE_AUTHENTICATED_Enter False sm)"
    and "auth_pae_state sm = AUTH_PAE_AUTHENTICATING \<Longrightarrow> P (sm_AUTH_PAE_HELD_Enter False sm)"
    and "auth_pae_state sm = AUTH_PAE_AUTHENTICATING \<Longrightarrow> P (sm_AUTH_PAE_ABORTING_Enter False sm)"
  shows "P (sm_AUTH_PAE_Step sm)"
  using assms unfolding sm_AUTH_PAE_Step_def
  by (cases "auth_pae_state sm") (simp_all add: not_less)

lemma port_ok_pae_step: "port_ok sm \<Longrightarrow> port_ok (sm_AUTH_PAE_Step sm)"
  by (rule pae_step_cases) (auto simp: port_ok_def port_mirror_def port_state_ok_def)

interpretation port_ok: port_invariant env port_ok for env :: "'e eapol_env"
proof
  fix sm :: "'e eapol_sm"
  assume p: "port_ok sm"
  show "port_ok (eapol_sm_round env sm)"
    using port_ok_pae_step [OF p] port_ok_view [OF round_view] by blast
  show "port_ok (upd_if (aaaEapResp_update (\<lambda>_. False)) sm)"
    using p by (simp add: port_ok_view [of "upd_if _ sm" sm])
  show "port_ok (sm\<lparr>eap := Some e', eap_if := i\<rparr>)" for e' i
    using p port_ok_view [of "sm\<lparr>eap := Some e', eap_if := i\<rparr>" sm] by simp
  show "port_ok (emit ev sm)" if "port_events [ev] = []" for ev
    using p that by (auto simp: port_ok_def port_mirror_def port_state_ok_def emit_def)
qed

lemma run_ops_invariant:
  assumes "\<And>op sm. op \<in> set ops \<Longrightarrow> P sm \<Longrightarrow> P (apply_op env op sm)" and "P sm"
  shows "P (run_ops env ops sm)"
  using assms unfolding run_ops_def
proof (induction ops arbitrary: sm)
  case (Cons op ops)
  have "P (apply_op env op sm)" by (rule Cons.prems) (use Cons.prems in simp_all)
  moreover have "\<And>op' sm. op' \<in> set ops \<Longrightarrow> P sm \<Longrightarrow> P (apply_op env op' sm)"
    using Cons.prems by simp
  ultimately show ?case using Cons.IH by simp
qed simp

lemma port_ok_fields:
  "auth_pae_state x = auth_pae_state y \<Longrightarrow> authPortStatus x = authPortStatus y \<Longrightarrow>
    port_events (out x) = port_events (out y) \<Longrightarrow> port_ok x = port_ok y"
  by (simp add: port_ok_def port_mirror_def port_state_ok_def)

lemma handle_eap_fields [simp]:
  "auth_pae_state (handle_eap b n sm) = auth_pae_state sm"
  "authPortStatus (handle_eap b n sm) = authPortStatus sm"
  "port_events (out (handle_eap b n sm)) = port_events (out sm)"
  using handle_eap_view [of b n sm] by (simp_all add: pae_view_def)

lemmas input_defs =
  hostapd_wpa_auth_set_eapol_def ieee802_1x_notify_port_enabled_def
  ieee802_1x_notify_port_valid_def ieee802_1x_notify_pre_auth_def ieee802_1x_receive_type_def
  new_station_reassoc_def new_station_cached_def clear_identity_def eapol_auth_step_def emit_def cinc_def upd_if_def

lemma port_ok_tick: "port_ok sm \<Longrightarrow> port_ok (eapol_port_timers_tick env sm)"
  unfolding tick_unfold
  by (rule port_ok.emit, rule port_ok.run) (simp_all add: port_ok_fields [of "sm\<lparr>aWhile := _, quietWhile := _, reAuthWhen := _, eap_if := _\<rparr>" sm])

lemma port_ok_op: "port_ok sm \<Longrightarrow> port_ok (apply_op env op sm)"
proof (cases op)
  case (Op_set_eapol var v)
  assume "port_ok sm"
  then show ?thesis unfolding Op_set_eapol apply_op.simps
    by (subst port_ok_fields [where y = sm]) (cases var; simp add: input_defs)+
next
  case (Op_receive ty body)
  assume "port_ok sm"
  then show ?thesis unfolding Op_receive apply_op.simps
    by (subst port_ok_fields [where y = sm]) (simp_all add: input_defs)
next
  case Op_cached
  assume "port_ok sm"
  then show ?thesis unfolding Op_cached apply_op.simps
    by (auto simp: input_defs port_ok_def port_mirror_def port_state_ok_def)
next
  case (Op_radius i fail period)
  assume "port_ok sm"
  then show ?thesis unfolding Op_radius apply_op.simps
    by (subst port_ok_fields [where y = sm]) (simp_all add: input_defs)
next
  case (Op_pre_auth b)
  assume "port_ok sm"
  then show ?thesis unfolding Op_pre_auth apply_op.simps
    by (subst port_ok_fields [where y = sm]) (simp_all add: input_defs)
next
  case Op_reassoc
  assume "port_ok sm"
  then show ?thesis unfolding Op_reassoc apply_op.simps
    by (subst port_ok_fields [where y = sm]) (simp_all add: input_defs)
qed (simp_all add: port_ok.run port_ok_tick)

lemma alloc_invariant:
  assumes "eapol_auth_alloc env (Some a) eap_init addr flags ident cui = Some sm"
    and "\<And>x. P x \<Longrightarrow> P (eapol_sm_step_run env x)"
    and start: "\<And>e i. P ((eapol_sm_defaults a addr flags)
      \<lparr>eap := Some e, eap_if := i, initializing := True, initialize := True\<rparr>)"
    and "\<And>x. P x \<Longrightarrow> P (x\<lparr>initialize := False\<rparr>)"
    and "\<And>x. P x \<Longrightarrow> P (emit Timeout_port_timers_tick (x\<lparr>initializing := False\<rparr>))"
    and "\<And>x. P x \<Longrightarrow> P (x\<lparr>identity := ident, radius_cui := cui\<rparr>)"
  shows "P sm"
  using assms
  by (auto simp: eapol_auth_alloc_def eapol_auth_initialize_def Let_def split: option.splits prod.splits)

lemma port_ok_alloc:
  assumes "eapol_auth_alloc env (Some a) eap_init addr flags ident cui = Some sm"
  shows "port_ok sm"
  using assms
proof (rule alloc_invariant)
  show "port_ok (x\<lparr>initialize := False\<rparr>)" if "port_ok x" for x :: "'a eapol_sm"
    using that port_ok_fields [of "x\<lparr>initialize := False\<rparr>" x] by simp
  show "port_ok (emit Timeout_port_timers_tick (x\<lparr>initializing := False\<rparr>))" if "port_ok x"
    for x :: "'a eapol_sm"
    using that port_ok_fields [of "emit Timeout_port_timers_tick (x\<lparr>initializing := False\<rparr>)" x]
    by (simp add: emit_def)
  show "port_ok (x\<lparr>identity := ident, radius_cui := cui\<rparr>)" if "port_ok x" for x :: "'a eapol_sm"
    using that port_ok_fields [of "x\<lparr>identity := ident, radius_cui := cui\<rparr>" x] by simp
  show "port_ok (eapol_sm_step_run env x)" if "port_ok x" for x :: "'a eapol_sm"
    using that by (rule port_ok.run)
qed (simp_all add: eapol_sm_defaults_def port_ok_def port_mirror_def port_state_ok_def)

section \<open>No authorization without a valid port\<close>

definition unvalidated :: "'e eapol_sm \<Rightarrow> bool" where
  "unvalidated sm \<longleftrightarrow> port_ok sm \<and> portControl sm = Auto \<and> \<not> portValid sm \<and>
     authPortStatus sm \<noteq> Authorized \<and> True \<notin> set (port_events (out sm))"

lemma unvalidated_view: "pae_view x = pae_view y \<Longrightarrow> unvalidated x = unvalidated y"
  using port_ok_view [of x y] by (simp add: unvalidated_def pae_view_def)

lemma pae_enter_inputs [simp]:
  "portControl (sm_AUTH_PAE_INITIALIZE_Enter g sm) = portControl sm"
  "portControl (sm_AUTH_PAE_DISCONNECTED_Enter g sm) = portControl sm"
  "portControl (sm_AUTH_PAE_RESTART_Enter g sm) = portControl sm"
  "portControl (sm_AUTH_PAE_CONNECTING_Enter g sm) = portControl sm"
  "portControl (sm_AUTH_PAE_HELD_Enter g sm) = portControl sm"
  "portControl (sm_AUTH_PAE_AUTHENTICATING_Enter g sm) = portControl sm"
  "portControl (sm_AUTH_PAE_ABORTING_Enter g sm) = portControl sm"
  "portControl (sm_AUTH_PAE_FORCE_UNAUTH_Enter g sm) = portControl sm"
  "portValid (sm_AUTH_PAE_INITIALIZE_Enter g sm) = portValid sm"
  "portValid (sm_AUTH_PAE_DISCONNECTED_Enter g sm) = portValid sm"
  "portValid (sm_AUTH_PAE_RESTART_Enter g sm) = portValid sm"
  "portValid (sm_AUTH_PAE_CONNECTING_Enter g sm) = portValid sm"
  "portValid (sm_AUTH_PAE_HELD_Enter g sm) = portValid sm"
  "portValid (sm_AUTH_PAE_AUTHENTICATING_Enter g sm) = portValid sm"
  "portValid (sm_AUTH_PAE_ABORTING_Enter g sm) = portValid sm"
  "portValid (sm_AUTH_PAE_FORCE_UNAUTH_Enter g sm) = portValid sm"
  by (simp_all add: auth_pae_enter_defs eapol_helper_defs Let_def)

lemma unvalidated_pae_step:
  assumes "unvalidated sm"
  shows "unvalidated (sm_AUTH_PAE_Step sm)"
proof -
  let ?Q = "\<lambda>x :: 'a eapol_sm. portControl x = Auto \<and> \<not> portValid x \<and>
    authPortStatus x \<noteq> Authorized \<and> True \<notin> set (port_events (out x))"
  have q: "?Q sm" "port_ok sm" using assms by (simp_all add: unvalidated_def)
  then have "auth_pae_state sm \<noteq> AUTH_PAE_FORCE_AUTH" by (auto simp: port_ok_def port_state_ok_def)
  with q(1) have "?Q (sm_AUTH_PAE_Step sm)" by (intro pae_step_cases [of ?Q]) simp_all
  then show ?thesis using port_ok_pae_step [OF q(2)] by (simp add: unvalidated_def)
qed

interpretation unvalidated: port_invariant env unvalidated for env :: "'e eapol_env"
proof
  fix sm :: "'e eapol_sm"
  assume p: "unvalidated sm"
  show "unvalidated (eapol_sm_round env sm)"
    using unvalidated_pae_step [OF p] unvalidated_view [OF round_view] by blast
  show "unvalidated (upd_if (aaaEapResp_update (\<lambda>_. False)) sm)"
    using p by (simp add: unvalidated_view [of "upd_if _ sm" sm])
  show "unvalidated (sm\<lparr>eap := Some e', eap_if := i\<rparr>)" for e' i
    using p unvalidated_view [of "sm\<lparr>eap := Some e', eap_if := i\<rparr>" sm] by simp
  show "unvalidated (emit ev sm)" if "port_events [ev] = []" for ev
    using p that port_ok.emit [of sm ev] by (simp add: unvalidated_def emit_def)
qed

lemma handle_eap_inputs [simp]:
  "portControl (handle_eap b n sm) = portControl sm"
  "portValid (handle_eap b n sm) = portValid sm"
  "portMode (handle_eap b n sm) = portMode sm"
  "reAuthCount (handle_eap b n sm) = reAuthCount sm"
  "reAuthMax (handle_eap b n sm) = reAuthMax sm"
  "initialize (handle_eap b n sm) = initialize sm"
  "quietWhile (handle_eap b n sm) = quietWhile sm"
  using handle_eap_view [of b n sm] by (simp_all add: pae_view_def)

lemma unvalidated_op:
  assumes "unvalidated sm" and "op \<noteq> Op_set_eapol WPA_EAPOL_portValid True"
  shows "unvalidated (apply_op env op sm)"
proof -
  have ok: "port_ok (apply_op env op sm)" using assms(1) port_ok_op by (auto simp: unvalidated_def)
  show ?thesis
  proof (cases op)
    case Op_run
    then show ?thesis using assms(1) unvalidated.run by simp
  next
    case Op_tick
    have "unvalidated (sm\<lparr>aWhile := a, quietWhile := q, reAuthWhen := r, eap_if := i\<rparr>)" for a q r i
      using assms(1)
        port_ok_fields [of "sm\<lparr>aWhile := a, quietWhile := q, reAuthWhen := r, eap_if := i\<rparr>" sm]
      by (simp add: unvalidated_def)
    then show ?thesis unfolding Op_tick apply_op.simps tick_unfold
      by (intro unvalidated.emit unvalidated.run) simp_all
  next
    case (Op_set_eapol var v)
    then show ?thesis using assms ok by (cases var) (auto simp: unvalidated_def input_defs)
  qed (use assms ok in \<open>auto simp: unvalidated_def input_defs split: if_splits\<close>)
qed

lemma unvalidated_alloc:
  assumes "eapol_auth_alloc env (Some a) eap_init addr flags ident cui = Some sm"
    and "conf_wpa (eapol_conf a) \<noteq> 0"
  shows "unvalidated sm"
  using assms(1)
proof (rule alloc_invariant)
  fix x :: "'a eapol_sm"
  assume u: "unvalidated x"
  show "unvalidated (x\<lparr>initialize := False\<rparr>)"
    using u port_ok_fields [of "x\<lparr>initialize := False\<rparr>" x] by (simp add: unvalidated_def)
  show "unvalidated (emit Timeout_port_timers_tick (x\<lparr>initializing := False\<rparr>))"
    using u port_ok_fields [of "emit Timeout_port_timers_tick (x\<lparr>initializing := False\<rparr>)" x]
    by (simp add: emit_def unvalidated_def)
  show "unvalidated (x\<lparr>identity := ident, radius_cui := cui\<rparr>)"
    using u port_ok_fields [of "x\<lparr>identity := ident, radius_cui := cui\<rparr>" x]
    by (simp add: unvalidated_def)
  show "unvalidated (eapol_sm_step_run env x)" using u by (rule unvalidated.run)
qed (use assms(2) in \<open>simp add: eapol_sm_defaults_def unvalidated_def port_ok_def port_mirror_def
      port_state_ok_def\<close>)

section \<open>Number of connection attempts\<close>

definition attempts_ok :: "'e eapol_sm \<Rightarrow> bool" where
  "attempts_ok sm \<longleftrightarrow> unat (reAuthMax sm) + 1 < 2 ^ 32 \<and>
     unat (reAuthCount sm) \<le> unat (reAuthMax sm) + 1 \<and>
     (auth_pae_state sm \<notin> {AUTH_PAE_CONNECTING, AUTH_PAE_INITIALIZE, AUTH_PAE_FORCE_AUTH,
        AUTH_PAE_FORCE_UNAUTH} \<longrightarrow> unat (reAuthCount sm) \<le> unat (reAuthMax sm))"

lemma attempts_view: "pae_view x = pae_view y \<Longrightarrow> attempts_ok x = attempts_ok y"
  by (simp add: attempts_ok_def pae_view_def)

lemma pae_enter_attempts [simp]:
  "reAuthCount (sm_AUTH_PAE_INITIALIZE_Enter g sm) = reAuthCount sm"
  "reAuthCount (sm_AUTH_PAE_DISCONNECTED_Enter g sm) = 0"
  "reAuthCount (sm_AUTH_PAE_RESTART_Enter g sm) = reAuthCount sm"
  "reAuthCount (sm_AUTH_PAE_CONNECTING_Enter g sm) = reAuthCount sm + 1"
  "reAuthCount (sm_AUTH_PAE_HELD_Enter g sm) = reAuthCount sm"
  "reAuthCount (sm_AUTH_PAE_AUTHENTICATED_Enter g sm) = 0"
  "reAuthCount (sm_AUTH_PAE_AUTHENTICATING_Enter g sm) = reAuthCount sm"
  "reAuthCount (sm_AUTH_PAE_ABORTING_Enter g sm) = reAuthCount sm"
  "reAuthCount (sm_AUTH_PAE_FORCE_AUTH_Enter g sm) = reAuthCount sm"
  "reAuthCount (sm_AUTH_PAE_FORCE_UNAUTH_Enter g sm) = reAuthCount sm"
  "reAuthMax (sm_AUTH_PAE_INITIALIZE_Enter g sm) = reAuthMax sm"
  "reAuthMax (sm_AUTH_PAE_DISCONNECTED_Enter g sm) = reAuthMax sm"
  "reAuthMax (sm_AUTH_PAE_RESTART_Enter g sm) = reAuthMax sm"
  "reAuthMax (sm_AUTH_PAE_CONNECTING_Enter g sm) = reAuthMax sm"
  "reAuthMax (sm_AUTH_PAE_HELD_Enter g sm) = reAuthMax sm"
  "reAuthMax (sm_AUTH_PAE_AUTHENTICATED_Enter g sm) = reAuthMax sm"
  "reAuthMax (sm_AUTH_PAE_AUTHENTICATING_Enter g sm) = reAuthMax sm"
  "reAuthMax (sm_AUTH_PAE_ABORTING_Enter g sm) = reAuthMax sm"
  "reAuthMax (sm_AUTH_PAE_FORCE_AUTH_Enter g sm) = reAuthMax sm"
  "reAuthMax (sm_AUTH_PAE_FORCE_UNAUTH_Enter g sm) = reAuthMax sm"
  by (simp_all add: auth_pae_enter_defs eapol_helper_defs Let_def)

lemma unat_add1_le: "unat (w :: u32) \<le> n \<Longrightarrow> n + 1 < 2 ^ 32 \<Longrightarrow> unat (w + 1) \<le> n + 1"
  by (simp add: unat_word_ariths)

lemma attempts_pae_step: "attempts_ok sm \<Longrightarrow> attempts_ok (sm_AUTH_PAE_Step sm)"
  by (rule pae_step_cases)
    (auto simp: attempts_ok_def word_le_nat_alt intro: unat_add1_le [simplified])

interpretation attempts: port_invariant env attempts_ok for env :: "'e eapol_env"
proof
  fix sm :: "'e eapol_sm"
  assume p: "attempts_ok sm"
  show "attempts_ok (eapol_sm_round env sm)"
    using attempts_pae_step [OF p] attempts_view [OF round_view] by blast
qed (simp_all add: attempts_ok_def upd_if_def emit_def)

lemma attempts_op:
  assumes "attempts_ok sm" and "op \<noteq> Op_cached"
  shows "attempts_ok (apply_op env op sm)"
proof (cases op)
  case Op_run
  then show ?thesis using assms(1) attempts.run by simp
next
  case Op_tick
  have "attempts_ok (sm\<lparr>aWhile := a, quietWhile := q, reAuthWhen := r, eap_if := i\<rparr>)" for a q r i
    using assms(1) by (simp add: attempts_ok_def)
  then show ?thesis unfolding Op_tick apply_op.simps tick_unfold
    by (intro attempts.emit attempts.run) simp_all
next
  case (Op_set_eapol var v)
  then show ?thesis using assms by (cases var) (simp_all add: attempts_ok_def input_defs)
qed (use assms in \<open>simp_all add: attempts_ok_def input_defs\<close>)

lemma attempts_alloc:
  assumes "eapol_auth_alloc env (Some a) eap_init addr flags ident cui = Some sm"
  shows "attempts_ok sm"
  using assms
proof (rule alloc_invariant)
  show "attempts_ok (eapol_sm_step_run env x)" if "attempts_ok x" for x :: "'a eapol_sm"
    using that by (rule attempts.run)
qed (simp_all add: eapol_sm_defaults_def attempts_ok_def emit_def)

section \<open>The quiet period and the authenticated state\<close>

text \<open>The EAP interface documents \<^verbatim>\<open>portEnabled\<close> as a variable of the lower layer: the EAP server only
  reads it.\<close>

definition eap_keeps_port :: "'e eapol_env \<Rightarrow> bool" where
  "eap_keeps_port env \<longleftrightarrow>
     (\<forall>e i. portEnabled (snd (snd (eap_server_sm_step env e i))) = portEnabled i)"

text \<open>What the other machines may change of the condition of an idle port: only the reauthentication
  timer sets \<^verbatim>\<open>reAuthenticate\<close>, and only a backend abort disables the port.\<close>

definition idle_view where
  "idle_view sm = (authAbort sm, portEnabled (eap_if sm), reAuthEnabled sm)"

definition timer_view where
  "timer_view sm = (reAuthenticate sm, reAuthWhen sm, reauth_timer_state sm)"

lemma tx_req_fields [simp]:
  "authAbort (eapol_auth_tx_req sm) = authAbort sm"
  "eap_if (eapol_auth_tx_req sm) = eap_if sm"
  "reAuthEnabled (eapol_auth_tx_req sm) = reAuthEnabled sm"
  "reAuthenticate (eapol_auth_tx_req sm) = reAuthenticate sm"
  "reAuthWhen (eapol_auth_tx_req sm) = reAuthWhen sm"
  "reauth_timer_state (eapol_auth_tx_req sm) = reauth_timer_state sm"
  by (simp_all add: eapol_auth_tx_req_def emit_def cinc_def Let_def split: option.split)

lemma idle_view_be:
  "portControl sm = Auto \<Longrightarrow> \<not> initialize sm \<Longrightarrow> \<not> authAbort sm \<Longrightarrow>
    idle_view (sm_BE_AUTH_Step sm) = idle_view sm"
  by (simp add: sm_BE_AUTH_Step_def be_auth_enter_defs be_auth_entry_def idle_view_def cinc_def
      upd_if_def Let_def split: be_auth_enum.split)

lemma timer_view_be: "timer_view (sm_BE_AUTH_Step sm) = timer_view sm"
  by (simp add: sm_BE_AUTH_Step_def be_auth_enter_defs be_auth_entry_def timer_view_def cinc_def
      upd_if_def emit_def ieee802_1x_abort_auth_def Let_def split: be_auth_enum.split)

lemma idle_view_others:
  "idle_view (sm_REAUTH_TIMER_Step sm) = idle_view sm"
  "idle_view (sm_AUTH_KEY_TX_Step sm) = idle_view sm"
  "idle_view (sm_KEY_RX_Step sm) = idle_view sm"
  "idle_view (sm_CTRL_DIR_Step sm) = idle_view sm"
  "timer_view (sm_AUTH_KEY_TX_Step sm) = timer_view sm"
  "timer_view (sm_KEY_RX_Step sm) = timer_view sm"
  "timer_view (sm_CTRL_DIR_Step sm) = timer_view sm"
  by (simp_all add: idle_view_def timer_view_def sm_REAUTH_TIMER_Step_def
      sm_REAUTH_TIMER_INITIALIZE_Enter_def sm_REAUTH_TIMER_REAUTHENTICATE_Enter_def
      reauth_timer_entry_def sm_AUTH_KEY_TX_Step_def sm_AUTH_KEY_TX_NO_KEY_TRANSMIT_Enter_def
      sm_AUTH_KEY_TX_KEY_TRANSMIT_Enter_def auth_key_tx_entry_def sm_KEY_RX_Step_def
      sm_KEY_RX_NO_KEY_RECEIVE_Enter_def sm_KEY_RX_KEY_RECEIVE_Enter_def key_rx_entry_def
      sm_CTRL_DIR_Step_def sm_CTRL_DIR_FORCE_BOTH_Enter_def sm_CTRL_DIR_IN_OR_BOTH_Enter_def
      ctrl_dir_entry_def emit_def upd_if_def Let_def
      split: reauth_timer_enum.split auth_key_tx_enum.split key_rx_enum.split ctrl_dir_enum.split)

lemma round_idle_view:
  assumes "portControl sm' = Auto" "\<not> initialize sm'" "\<not> authAbort sm'" "sm' = sm_AUTH_PAE_Step sm"
  shows "idle_view (eapol_sm_round env sm) = idle_view sm'"
  using idle_view_be [OF assms(1-3)] assms(4)
  by (simp add: eapol_sm_round_def Let_def idle_view_others)

definition held_inv :: "int \<Rightarrow> 'e eapol_sm \<Rightarrow> bool" where
  "held_inv n sm \<longleftrightarrow> auth_pae_state sm = AUTH_PAE_HELD \<and> portMode sm = Auto \<and> portControl sm = Auto \<and>
     \<not> initialize sm \<and> portEnabled (eap_if sm) \<and> \<not> authAbort sm \<and> quietWhile sm = n \<and> n > 0"

lemma held_pae_step: "held_inv n sm \<Longrightarrow> sm_AUTH_PAE_Step sm = sm"
  by (simp add: held_inv_def sm_AUTH_PAE_Step_def)

lemma held_view:
  "pae_view x = pae_view y \<Longrightarrow> idle_view x = idle_view y \<Longrightarrow> held_inv n x = held_inv n y"
  by (simp add: held_inv_def pae_view_def idle_view_def)

lemma held_round: "held_inv n sm \<Longrightarrow> held_inv n (eapol_sm_round env sm)"
proof -
  assume h: "held_inv n sm"
  have "idle_view (eapol_sm_round env sm) = idle_view sm"
    by (rule round_idle_view) (use h held_pae_step [OF h] in \<open>auto simp: held_inv_def\<close>)
  moreover have "pae_view (eapol_sm_round env sm) = pae_view sm"
    by (simp add: round_view held_pae_step [OF h])
  ultimately show ?thesis using h held_view by blast
qed

interpretation held: port_invariant env "\<lambda>sm. eap_keeps_port env \<longrightarrow> held_inv n sm"
  for env :: "'e eapol_env" and n
proof
  fix sm :: "'e eapol_sm" and e progress e' i
  assume h: "eap_keeps_port env \<longrightarrow> held_inv n sm"
    and st: "eap_server_sm_step env e (eap_if sm) = (progress, e', i)"
  have "eap_keeps_port env \<Longrightarrow> portEnabled i = portEnabled (eap_if sm)"
    unfolding eap_keeps_port_def using st by (metis snd_conv)
  then show "eap_keeps_port env \<longrightarrow> held_inv n (sm\<lparr>eap := Some e', eap_if := i\<rparr>)"
    using h by (auto simp: held_inv_def)
qed (simp_all add: held_round, simp_all add: held_inv_def upd_if_def emit_def)

definition ticks :: "eapol_op list \<Rightarrow> int" where
  "ticks ops = int (length (filter (\<lambda>op. op = Op_tick) ops))"

definition keeps_port :: "eapol_op \<Rightarrow> bool" where
  "keeps_port op \<longleftrightarrow> op \<noteq> Op_cached \<and> op \<noteq> Op_set_eapol WPA_EAPOL_portEnabled False"

lemma handle_eap_idle [simp]:
  "authAbort (handle_eap b n sm) = authAbort sm"
  "portEnabled (eap_if (handle_eap b n sm)) = portEnabled (eap_if sm)"
  by (simp_all add: handle_eap_def handle_eap_response_def cinc_def upd_if_def Let_def)

lemma held_op:
  assumes k: "eap_keeps_port env" and "held_inv n sm" "keeps_port op" "op \<noteq> Op_tick"
  shows "held_inv n (apply_op env op sm)"
proof (cases op)
  case Op_run
  then show ?thesis using k assms(2) held.run [of env n sm] by simp
next
  case (Op_set_eapol var v)
  then show ?thesis using assms
    by (cases var; cases v) (simp_all add: held_inv_def input_defs keeps_port_def)
qed (use assms in \<open>simp_all add: held_inv_def input_defs keeps_port_def\<close>)

lemma held_tick:
  assumes k: "eap_keeps_port env" and "held_inv n sm" "n > 1"
  shows "held_inv (n - 1) (eapol_port_timers_tick env sm)"
proof -
  have "held_inv (n - 1) (sm\<lparr>aWhile := a, quietWhile := quietWhile sm - 1, reAuthWhen := r,
      eap_if := (if b then retransWhile_update (\<lambda>t. t - 1) (eap_if sm) else eap_if sm)\<rparr>)" for a r b
    using assms(2,3) by (simp add: held_inv_def)
  then show ?thesis unfolding tick_unfold
    using assms(2) k held.emit [of env "n - 1"] held.run [of env "n - 1"]
    by (simp add: held_inv_def [of n])
qed

lemma held_run_ops:
  assumes "eap_keeps_port env" and "held_inv n sm" and "\<forall>op\<in>set ops. keeps_port op" and "ticks ops < n"
  shows "held_inv (n - ticks ops) (run_ops env ops sm)"
  using assms unfolding run_ops_def
proof (induction ops arbitrary: n sm)
  case (Cons op ops)
  show ?case
  proof (cases "op = Op_tick")
    case True
    have "n > 1" using Cons.prems True by (simp add: ticks_def)
    then have "held_inv (n - 1) (apply_op env op sm)" using held_tick Cons.prems True by simp
    from Cons.IH [OF Cons.prems(1) this] show ?thesis
      using Cons.prems True by (simp add: ticks_def algebra_simps)
  next
    case False
    then have "held_inv n (apply_op env op sm)" using Cons.prems by (intro held_op) simp_all
    from Cons.IH [OF Cons.prems(1) this] show ?thesis using Cons.prems False by (simp add: ticks_def)
  qed
qed (simp add: ticks_def)

definition authd_inv :: "'e eapol_sm \<Rightarrow> bool" where
  "authd_inv sm \<longleftrightarrow> auth_pae_state sm = AUTH_PAE_AUTHENTICATED \<and> authPortStatus sm = Authorized \<and>
     portMode sm = Auto \<and> portControl sm = Auto \<and> \<not> initialize sm \<and> portEnabled (eap_if sm) \<and>
     \<not> authAbort sm \<and> portValid sm \<and> \<not> eapolStart sm \<and> \<not> eapolLogoff sm \<and> \<not> reAuthenticate sm \<and>
     (reAuthEnabled sm \<longrightarrow> reAuthWhen sm > 0 \<and> reauth_timer_state sm = REAUTH_TIMER_INITIALIZE) \<and>
     port_events (out sm) \<noteq> [] \<and> last (port_events (out sm))"

lemma authd_pae_step: "authd_inv sm \<Longrightarrow> sm_AUTH_PAE_Step sm = sm"
  by (simp add: authd_inv_def sm_AUTH_PAE_Step_def)

lemma authd_reauth_step: "authd_inv sm \<Longrightarrow> authd_inv (sm_REAUTH_TIMER_Step sm)"
  by (auto simp: authd_inv_def sm_REAUTH_TIMER_Step_def sm_REAUTH_TIMER_INITIALIZE_Enter_def
      reauth_timer_entry_def)

lemma authd_view:
  "pae_view x = pae_view y \<Longrightarrow> idle_view x = idle_view y \<Longrightarrow> timer_view x = timer_view y \<Longrightarrow>
    authd_inv x = authd_inv y"
  by (simp add: authd_inv_def pae_view_def idle_view_def timer_view_def)

lemma authd_other_steps:
  assumes "authd_inv sm"
  shows "authd_inv (sm_BE_AUTH_Step sm)" "authd_inv (sm_AUTH_KEY_TX_Step sm)"
    "authd_inv (sm_KEY_RX_Step sm)" "authd_inv (sm_CTRL_DIR_Step sm)"
proof -
  have i: "portControl sm = Auto" "\<not> initialize sm" "\<not> authAbort sm"
    using assms by (simp_all add: authd_inv_def)
  show "authd_inv (sm_BE_AUTH_Step sm)"
    using authd_view [OF be.view idle_view_be [OF i] timer_view_be] assms by blast
  show "authd_inv (sm_AUTH_KEY_TX_Step sm)"
    using authd_view [OF key_tx.view idle_view_others(2) idle_view_others(5)] assms by blast
  show "authd_inv (sm_KEY_RX_Step sm)"
    using authd_view [OF key_rx.view idle_view_others(3) idle_view_others(6)] assms by blast
  show "authd_inv (sm_CTRL_DIR_Step sm)"
    using authd_view [OF ctrl_dir.view idle_view_others(4) idle_view_others(7)] assms by blast
qed

lemma authd_round:
  assumes "authd_inv (sm_AUTH_PAE_Step sm)"
  shows "authd_inv (eapol_sm_round env sm)"
  using assms by (simp add: eapol_sm_round_def Let_def authd_other_steps authd_reauth_step)

interpretation authd: port_invariant env "\<lambda>sm. eap_keeps_port env \<longrightarrow> authd_inv sm"
  for env :: "'e eapol_env"
proof
  fix sm :: "'e eapol_sm" and e progress e' i
  assume h: "eap_keeps_port env \<longrightarrow> authd_inv sm"
  show "eap_keeps_port env \<longrightarrow> authd_inv (eapol_sm_round env sm)"
    using h authd_round authd_pae_step by metis
  assume st: "eap_server_sm_step env e (eap_if sm) = (progress, e', i)"
  have "eap_keeps_port env \<Longrightarrow> portEnabled i = portEnabled (eap_if sm)"
    unfolding eap_keeps_port_def using st by (metis snd_conv)
  then show "eap_keeps_port env \<longrightarrow> authd_inv (sm\<lparr>eap := Some e', eap_if := i\<rparr>)"
    using h by (auto simp: authd_inv_def)
qed (simp_all add: authd_inv_def upd_if_def emit_def)

text \<open>The condition of an idle port on which a cached PMKSA is accepted.\<close>

definition idle_port :: "'e eapol_sm \<Rightarrow> bool" where
  "idle_port sm \<longleftrightarrow> portMode sm = Auto \<and> portControl sm = Auto \<and> \<not> initialize sm \<and>
     portEnabled (eap_if sm) \<and> \<not> authAbort sm \<and> \<not> eapolStart sm \<and> \<not> eapolLogoff sm \<and>
     \<not> reAuthenticate sm \<and>
     (reAuthEnabled sm \<longrightarrow> reAuthWhen sm > 0 \<and> reauth_timer_state sm = REAUTH_TIMER_INITIALIZE)"

lemma cached_pae_step:
  assumes "idle_port sm"
  shows "authd_inv (sm_AUTH_PAE_Step (ieee802_1x_notify_port_valid True (new_station_cached env sm)))"
  using assms
  by (simp add: idle_port_def sm_AUTH_PAE_Step_def input_defs sm_AUTH_PAE_AUTHENTICATED_Enter_def
      cinc_def auth_pae_entry_def setPortAuthorized_def finished_def Let_def authd_inv_def)

section \<open>Properties\<close>

definition idle_env :: "unit eapol_env" where
  "idle_env = \<lparr>sta_entry_alive = (\<lambda>_. True), eap_server_sm_step = (\<lambda>e i. (False, e, i)),
     eap_server_clear_identity = (\<lambda>e. e), eap_sm_notify_cached = (\<lambda>e. e)\<rparr>"

definition wpa_authenticator :: eapol_authenticator where
  "wpa_authenticator =
     \<lparr>eapol_conf = \<lparr>eap_reauth_period = 3600, conf_wpa = 2, individual_wep_key_len = 0\<rparr>,
      default_wep_key = None, default_wep_key_idx = 0\<rparr>"

lemma alloc_example:
  "eapol_auth_alloc idle_env (Some wpa_authenticator) (Some ((), eap_if_zero)) [1,2,3,4,5,6] 4
     None None =
   Some (the (eapol_auth_alloc idle_env (Some wpa_authenticator) (Some ((), eap_if_zero))
     [1,2,3,4,5,6] 4 None None))"
  by (simp add: eapol_auth_alloc_def Let_def)






definition idle_sm :: "unit eapol_sm" where
  "idle_sm = (eapol_sm_defaults wpa_authenticator [1,2,3,4,5,6] 4)
     \<lparr>portMode := Auto, reAuthWhen := 5, eap_if := eap_if_zero\<lparr>portEnabled := True\<rparr>\<rparr>"



definition held_sm :: "unit eapol_sm" where
  "held_sm = sm_AUTH_PAE_HELD_Enter False (idle_sm\<lparr>auth_pae_state := AUTH_PAE_AUTHENTICATING\<rparr>)"


text \<open>The number of connection attempts since the port was last disconnected or authenticated never
  exceeds \<^verbatim>\<open>reAuthMax\<close> by more than one, and outside the connecting state (and before the
  machine has passed through its initial state) does not exceed it.\<close>

theorem connection_attempts_bounded:
  assumes "eapol_auth_alloc env (Some a) eap_init addr flags ident cui = Some sm"
    and "Op_cached \<notin> set ops"
  shows "attempts_ok (run_ops env ops sm)"
proof -
  have "attempts_ok sm" using assms(1) by (rule attempts_alloc)
  then show ?thesis
    by (rule run_ops_invariant [rotated]) (use assms(2) in \<open>auto intro: attempts_op\<close>)
qed

theorem connection_attempts_bounded_witness:
  "attempts_ok (run_ops idle_env [Op_set_eapol WPA_EAPOL_portEnabled True, Op_run]
     (the (eapol_auth_alloc idle_env (Some wpa_authenticator) (Some ((), eap_if_zero))
       [1,2,3,4,5,6] 4 None None)))"
  by (rule connection_attempts_bounded [OF alloc_example]) simp

end
