(* ===== verification/Wpa_Ie.thy ===== *)
theory Wpa_Ie
  imports Prelude
begin

text \<open>
  Cipher and key management suites and the WPA/RSN information elements: the parsers of
  \<^verbatim>\<open>src/common/wpa_common.c\<close>, the writers and the EAPOL-Key key data parser of
  \<^verbatim>\<open>src/ap/wpa_auth_ie.c\<close>.  The build has IEEE 802.11r and PeerKey and lacks IEEE 802.11w and SAE.
  Suite sets are the C bit masks, as \<^typ>\<open>int\<close>.  Multi-octet fields are read with the accessors of
  the prelude; a parser returns its C result together with the structure it has filled so far.
\<close>

section \<open>Constants\<close>

definition WPA_CIPHER_NONE :: int where "WPA_CIPHER_NONE = 1"
definition WPA_CIPHER_WEP40 :: int where "WPA_CIPHER_WEP40 = 2"
definition WPA_CIPHER_WEP104 :: int where "WPA_CIPHER_WEP104 = 4"
definition WPA_CIPHER_TKIP :: int where "WPA_CIPHER_TKIP = 8"
definition WPA_CIPHER_CCMP :: int where "WPA_CIPHER_CCMP = 16"
definition WPA_CIPHER_GCMP :: int where "WPA_CIPHER_GCMP = 64"

definition WPA_KEY_MGMT_IEEE8021X :: int where "WPA_KEY_MGMT_IEEE8021X = 1"
definition WPA_KEY_MGMT_PSK :: int where "WPA_KEY_MGMT_PSK = 2"
definition WPA_KEY_MGMT_WPA_NONE :: int where "WPA_KEY_MGMT_WPA_NONE = 16"
definition WPA_KEY_MGMT_FT_IEEE8021X :: int where "WPA_KEY_MGMT_FT_IEEE8021X = 32"
definition WPA_KEY_MGMT_FT_PSK :: int where "WPA_KEY_MGMT_FT_PSK = 64"
definition WPA_KEY_MGMT_IEEE8021X_SHA256 :: int where "WPA_KEY_MGMT_IEEE8021X_SHA256 = 128"
definition WPA_KEY_MGMT_PSK_SHA256 :: int where "WPA_KEY_MGMT_PSK_SHA256 = 256"
definition WPA_KEY_MGMT_SAE :: int where "WPA_KEY_MGMT_SAE = 1024"
definition WPA_KEY_MGMT_FT_SAE :: int where "WPA_KEY_MGMT_FT_SAE = 2048"
definition WPA_KEY_MGMT_CCKM :: int where "WPA_KEY_MGMT_CCKM = 16384"

definition WPA_PROTO_WPA :: int where "WPA_PROTO_WPA = 1"
definition WPA_PROTO_RSN :: int where "WPA_PROTO_RSN = 2"

definition WLAN_EID_RSN :: u8 where "WLAN_EID_RSN = 48"
definition WLAN_EID_MOBILITY_DOMAIN :: u8 where "WLAN_EID_MOBILITY_DOMAIN = 54"
definition WLAN_EID_FAST_BSS_TRANSITION :: u8 where "WLAN_EID_FAST_BSS_TRANSITION = 55"
definition WLAN_EID_VENDOR_SPECIFIC :: u8 where "WLAN_EID_VENDOR_SPECIFIC = 221"

lemmas cipher_consts =
  WPA_CIPHER_NONE_def WPA_CIPHER_WEP40_def WPA_CIPHER_WEP104_def WPA_CIPHER_TKIP_def
  WPA_CIPHER_CCMP_def WPA_CIPHER_GCMP_def

lemmas key_mgmt_consts =
  WPA_KEY_MGMT_IEEE8021X_def WPA_KEY_MGMT_PSK_def WPA_KEY_MGMT_WPA_NONE_def
  WPA_KEY_MGMT_FT_IEEE8021X_def WPA_KEY_MGMT_FT_PSK_def WPA_KEY_MGMT_IEEE8021X_SHA256_def
  WPA_KEY_MGMT_PSK_SHA256_def WPA_KEY_MGMT_SAE_def WPA_KEY_MGMT_FT_SAE_def WPA_KEY_MGMT_CCKM_def

definition has_bits :: "int \<Rightarrow> int \<Rightarrow> bool" where
  "has_bits x m \<longleftrightarrow> x AND m \<noteq> 0"

definition wpa_key_mgmt_wpa_ieee8021x :: "int \<Rightarrow> bool" where
  "wpa_key_mgmt_wpa_ieee8021x akm \<longleftrightarrow>
     has_bits akm (WPA_KEY_MGMT_IEEE8021X OR WPA_KEY_MGMT_FT_IEEE8021X OR WPA_KEY_MGMT_CCKM OR
       WPA_KEY_MGMT_IEEE8021X_SHA256)"

definition wpa_key_mgmt_wpa_psk :: "int \<Rightarrow> bool" where
  "wpa_key_mgmt_wpa_psk akm \<longleftrightarrow>
     has_bits akm (WPA_KEY_MGMT_PSK OR WPA_KEY_MGMT_FT_PSK OR WPA_KEY_MGMT_PSK_SHA256 OR
       WPA_KEY_MGMT_SAE)"

definition wpa_key_mgmt_ft :: "int \<Rightarrow> bool" where
  "wpa_key_mgmt_ft akm \<longleftrightarrow>
     has_bits akm (WPA_KEY_MGMT_FT_PSK OR WPA_KEY_MGMT_FT_IEEE8021X OR WPA_KEY_MGMT_FT_SAE)"

definition wpa_key_mgmt_sha256 :: "int \<Rightarrow> bool" where
  "wpa_key_mgmt_sha256 akm \<longleftrightarrow>
     has_bits akm (WPA_KEY_MGMT_PSK_SHA256 OR WPA_KEY_MGMT_IEEE8021X_SHA256)"

definition RSN_SELECTOR :: "u8 \<Rightarrow> u8 \<Rightarrow> u8 \<Rightarrow> u8 \<Rightarrow> u32" where
  "RSN_SELECTOR a b c d =
     push_bit 24 (ucast a) OR push_bit 16 (ucast b) OR push_bit 8 (ucast c) OR ucast d"

abbreviation rsn_suite :: "u8 \<Rightarrow> u32" where "rsn_suite n \<equiv> RSN_SELECTOR 0x00 0x0f 0xac n"
abbreviation wpa_suite :: "u8 \<Rightarrow> u32" where "wpa_suite n \<equiv> RSN_SELECTOR 0x00 0x50 0xf2 n"

definition WPA_OUI_TYPE :: u32 where "WPA_OUI_TYPE = wpa_suite 1"

section \<open>Suites\<close>

definition rsn_selector_to_bitfield :: "u8 list \<Rightarrow> int" where
  "rsn_selector_to_bitfield s =
     (let sel = WPA_GET_BE32 s in
      if sel = rsn_suite 0 then WPA_CIPHER_NONE
      else if sel = rsn_suite 1 then WPA_CIPHER_WEP40
      else if sel = rsn_suite 2 then WPA_CIPHER_TKIP
      else if sel = rsn_suite 4 then WPA_CIPHER_CCMP
      else if sel = rsn_suite 5 then WPA_CIPHER_WEP104
      else if sel = rsn_suite 8 then WPA_CIPHER_GCMP
      else 0)"

definition rsn_key_mgmt_to_bitfield :: "u8 list \<Rightarrow> int" where
  "rsn_key_mgmt_to_bitfield s =
     (let sel = WPA_GET_BE32 s in
      if sel = rsn_suite 1 then WPA_KEY_MGMT_IEEE8021X
      else if sel = rsn_suite 2 then WPA_KEY_MGMT_PSK
      else if sel = rsn_suite 3 then WPA_KEY_MGMT_FT_IEEE8021X
      else if sel = rsn_suite 4 then WPA_KEY_MGMT_FT_PSK
      else 0)"

definition wpa_selector_to_bitfield :: "u8 list \<Rightarrow> int" where
  "wpa_selector_to_bitfield s =
     (let sel = WPA_GET_BE32 s in
      if sel = wpa_suite 0 then WPA_CIPHER_NONE
      else if sel = wpa_suite 1 then WPA_CIPHER_WEP40
      else if sel = wpa_suite 2 then WPA_CIPHER_TKIP
      else if sel = wpa_suite 4 then WPA_CIPHER_CCMP
      else if sel = wpa_suite 5 then WPA_CIPHER_WEP104
      else 0)"

definition wpa_key_mgmt_to_bitfield :: "u8 list \<Rightarrow> int" where
  "wpa_key_mgmt_to_bitfield s =
     (let sel = WPA_GET_BE32 s in
      if sel = wpa_suite 1 then WPA_KEY_MGMT_IEEE8021X
      else if sel = wpa_suite 2 then WPA_KEY_MGMT_PSK
      else if sel = wpa_suite 0 then WPA_KEY_MGMT_WPA_NONE
      else 0)"

definition wpa_cipher_to_suite :: "int \<Rightarrow> int \<Rightarrow> u32" where
  "wpa_cipher_to_suite proto cipher =
     (let pick = (\<lambda>n. if proto = WPA_PROTO_RSN then rsn_suite n else wpa_suite n) in
      if has_bits cipher WPA_CIPHER_CCMP then pick 4
      else if has_bits cipher WPA_CIPHER_GCMP then rsn_suite 8
      else if has_bits cipher WPA_CIPHER_TKIP then pick 2
      else if has_bits cipher WPA_CIPHER_WEP104 then pick 5
      else if has_bits cipher WPA_CIPHER_WEP40 then pick 1
      else if has_bits cipher WPA_CIPHER_NONE then pick 0
      else 0)"

text \<open>The suites written for a mask, in order; their number is the C result.\<close>

definition rsn_cipher_put_suites :: "int \<Rightarrow> u32 list" where
  "rsn_cipher_put_suites ciphers =
     (if has_bits ciphers WPA_CIPHER_CCMP then [rsn_suite 4] else []) @
     (if has_bits ciphers WPA_CIPHER_GCMP then [rsn_suite 8] else []) @
     (if has_bits ciphers WPA_CIPHER_TKIP then [rsn_suite 2] else []) @
     (if has_bits ciphers WPA_CIPHER_NONE then [rsn_suite 0] else [])"

definition wpa_cipher_put_suites :: "int \<Rightarrow> u32 list" where
  "wpa_cipher_put_suites ciphers =
     (if has_bits ciphers WPA_CIPHER_CCMP then [wpa_suite 4] else []) @
     (if has_bits ciphers WPA_CIPHER_TKIP then [wpa_suite 2] else []) @
     (if has_bits ciphers WPA_CIPHER_NONE then [wpa_suite 0] else [])"

definition wpa_pick_pairwise_cipher :: "int \<Rightarrow> bool \<Rightarrow> int" where
  "wpa_pick_pairwise_cipher ciphers none_allowed =
     (if has_bits ciphers WPA_CIPHER_CCMP then WPA_CIPHER_CCMP
      else if has_bits ciphers WPA_CIPHER_GCMP then WPA_CIPHER_GCMP
      else if has_bits ciphers WPA_CIPHER_TKIP then WPA_CIPHER_TKIP
      else if none_allowed \<and> has_bits ciphers WPA_CIPHER_NONE then WPA_CIPHER_NONE
      else -1)"

definition wpa_pick_group_cipher :: "int \<Rightarrow> int" where
  "wpa_pick_group_cipher ciphers =
     (if has_bits ciphers WPA_CIPHER_CCMP then WPA_CIPHER_CCMP
      else if has_bits ciphers WPA_CIPHER_GCMP then WPA_CIPHER_GCMP
      else if has_bits ciphers WPA_CIPHER_TKIP then WPA_CIPHER_TKIP
      else if has_bits ciphers WPA_CIPHER_WEP104 then WPA_CIPHER_WEP104
      else if has_bits ciphers WPA_CIPHER_WEP40 then WPA_CIPHER_WEP40
      else -1)"

definition wpa_select_ap_group_cipher :: "int \<Rightarrow> int \<Rightarrow> int \<Rightarrow> int" where
  "wpa_select_ap_group_cipher wpa wpa_pairwise rsn_pairwise =
     (let pairwise = (if has_bits wpa 1 then wpa_pairwise else 0) OR
                     (if has_bits wpa 2 then rsn_pairwise else 0) in
      if has_bits pairwise WPA_CIPHER_TKIP then WPA_CIPHER_TKIP
      else if pairwise AND (WPA_CIPHER_CCMP OR WPA_CIPHER_GCMP) = WPA_CIPHER_GCMP
      then WPA_CIPHER_GCMP
      else WPA_CIPHER_CCMP)"

definition wpa_cipher_key_len :: "int \<Rightarrow> nat" where
  "wpa_cipher_key_len cipher =
     (if cipher = WPA_CIPHER_CCMP \<or> cipher = WPA_CIPHER_GCMP then 16
      else if cipher = WPA_CIPHER_TKIP then 32
      else if cipher = WPA_CIPHER_WEP104 then 13
      else if cipher = WPA_CIPHER_WEP40 then 5
      else 0)"

datatype wpa_alg = WPA_ALG_NONE | WPA_ALG_WEP | WPA_ALG_TKIP | WPA_ALG_CCMP | WPA_ALG_GCMP

definition wpa_cipher_to_alg :: "int \<Rightarrow> wpa_alg" where
  "wpa_cipher_to_alg cipher =
     (if cipher = WPA_CIPHER_CCMP then WPA_ALG_CCMP
      else if cipher = WPA_CIPHER_GCMP then WPA_ALG_GCMP
      else if cipher = WPA_CIPHER_TKIP then WPA_ALG_TKIP
      else if cipher = WPA_CIPHER_WEP104 \<or> cipher = WPA_CIPHER_WEP40 then WPA_ALG_WEP
      else WPA_ALG_NONE)"

section \<open>Parsing\<close>

record wpa_ie_data =
  proto :: int
  pairwise_cipher :: int
  group_cipher :: int
  key_mgmt :: int
  capabilities :: int
  num_pmkid :: nat
  pmkid :: "u8 list option"
  mgmt_group_cipher :: int

text \<open>The suite loops: \<^term>\<open>count\<close> selectors from the front of \<^term>\<open>pos\<close>, their bits united.\<close>

fun or_suites :: "(u8 list \<Rightarrow> int) \<Rightarrow> nat \<Rightarrow> u8 list \<Rightarrow> int \<Rightarrow> int" where
  "or_suites f 0 pos acc = acc"
| "or_suites f (Suc count) pos acc = or_suites f count (drop 4 pos) (acc OR f pos)"

text \<open>The steps of the RSN element parser in order; \<^term>\<open>pos\<close> is what is left of the element.\<close>

definition rsn_parse_pmkid :: "wpa_ie_data \<Rightarrow> u8 list \<Rightarrow> int \<times> wpa_ie_data" where
  "rsn_parse_pmkid data pos =
     (if length pos \<ge> 2 then
        let n = unat (WPA_GET_LE16 pos); pos = drop 2 pos in
        if length pos < n * 16 then (-9, data\<lparr>num_pmkid := 0\<rparr>)
        else (0, data\<lparr>num_pmkid := n, pmkid := Some (take (n * 16) pos)\<rparr>)
      else (0, data))"

definition rsn_parse_capab :: "wpa_ie_data \<Rightarrow> u8 list \<Rightarrow> int \<times> wpa_ie_data" where
  "rsn_parse_capab data pos =
     (if length pos \<ge> 2
      then rsn_parse_pmkid (data\<lparr>capabilities := uint (WPA_GET_LE16 pos)\<rparr>) (drop 2 pos)
      else rsn_parse_pmkid data pos)"

definition rsn_parse_key_mgmt :: "wpa_ie_data \<Rightarrow> u8 list \<Rightarrow> int \<times> wpa_ie_data" where
  "rsn_parse_key_mgmt data pos =
     (if length pos \<ge> 2 then
        let count = unat (WPA_GET_LE16 pos); pos = drop 2 pos in
        if count = 0 \<or> length pos < count * 4 then (-6, data\<lparr>key_mgmt := 0\<rparr>)
        else rsn_parse_capab (data\<lparr>key_mgmt := or_suites rsn_key_mgmt_to_bitfield count pos 0\<rparr>)
               (drop (count * 4) pos)
      else if length pos = 1 then (-7, data)
      else rsn_parse_capab data pos)"

definition rsn_parse_pairwise :: "wpa_ie_data \<Rightarrow> u8 list \<Rightarrow> int \<times> wpa_ie_data" where
  "rsn_parse_pairwise data pos =
     (if length pos \<ge> 2 then
        let count = unat (WPA_GET_LE16 pos); pos = drop 2 pos in
        if count = 0 \<or> length pos < count * 4 then (-4, data\<lparr>pairwise_cipher := 0\<rparr>)
        else rsn_parse_key_mgmt
               (data\<lparr>pairwise_cipher := or_suites rsn_selector_to_bitfield count pos 0\<rparr>)
               (drop (count * 4) pos)
      else if length pos = 1 then (-5, data)
      else rsn_parse_key_mgmt data pos)"

definition rsn_parse_group :: "wpa_ie_data \<Rightarrow> u8 list \<Rightarrow> int \<times> wpa_ie_data" where
  "rsn_parse_group data pos =
     (if length pos \<ge> 4
      then rsn_parse_pairwise (data\<lparr>group_cipher := rsn_selector_to_bitfield pos\<rparr>) (drop 4 pos)
      else if length pos > 0 then (-3, data)
      else rsn_parse_pairwise data pos)"

definition rsn_ie_defaults :: wpa_ie_data where
  "rsn_ie_defaults = \<lparr>proto = WPA_PROTO_RSN, pairwise_cipher = WPA_CIPHER_CCMP,
     group_cipher = WPA_CIPHER_CCMP, key_mgmt = WPA_KEY_MGMT_IEEE8021X, capabilities = 0,
     num_pmkid = 0, pmkid = None, mgmt_group_cipher = 0\<rparr>"

definition wpa_parse_wpa_ie_rsn :: "u8 list \<Rightarrow> int \<times> wpa_ie_data" where
  "wpa_parse_wpa_ie_rsn rsn_ie =
     (let data = rsn_ie_defaults in
      if length rsn_ie = 0 then (-1, data)
      else if length rsn_ie < 4 then (-1, data)
      else if rsn_ie ! 0 \<noteq> WLAN_EID_RSN \<or> unat (rsn_ie ! 1) \<noteq> length rsn_ie - 2 \<or>
              WPA_GET_LE16 (drop 2 rsn_ie) \<noteq> 1
      then (-2, data)
      else rsn_parse_group data (drop 4 rsn_ie))"

definition wpa_parse_capab :: "wpa_ie_data \<Rightarrow> u8 list \<Rightarrow> int \<times> wpa_ie_data" where
  "wpa_parse_capab data pos =
     (if length pos \<ge> 2 then (0, data\<lparr>capabilities := uint (WPA_GET_LE16 pos)\<rparr>) else (0, data))"

definition wpa_parse_key_mgmt :: "wpa_ie_data \<Rightarrow> u8 list \<Rightarrow> int \<times> wpa_ie_data" where
  "wpa_parse_key_mgmt data pos =
     (if length pos \<ge> 2 then
        let count = unat (WPA_GET_LE16 pos); pos = drop 2 pos in
        if count = 0 \<or> length pos < count * 4 then (-6, data\<lparr>key_mgmt := 0\<rparr>)
        else wpa_parse_capab (data\<lparr>key_mgmt := or_suites wpa_key_mgmt_to_bitfield count pos 0\<rparr>)
               (drop (count * 4) pos)
      else if length pos = 1 then (-7, data)
      else wpa_parse_capab data pos)"

definition wpa_parse_pairwise :: "wpa_ie_data \<Rightarrow> u8 list \<Rightarrow> int \<times> wpa_ie_data" where
  "wpa_parse_pairwise data pos =
     (if length pos \<ge> 2 then
        let count = unat (WPA_GET_LE16 pos); pos = drop 2 pos in
        if count = 0 \<or> length pos < count * 4 then (-4, data\<lparr>pairwise_cipher := 0\<rparr>)
        else wpa_parse_key_mgmt
               (data\<lparr>pairwise_cipher := or_suites wpa_selector_to_bitfield count pos 0\<rparr>)
               (drop (count * 4) pos)
      else if length pos = 1 then (-5, data)
      else wpa_parse_key_mgmt data pos)"

definition wpa_parse_group :: "wpa_ie_data \<Rightarrow> u8 list \<Rightarrow> int \<times> wpa_ie_data" where
  "wpa_parse_group data pos =
     (if length pos \<ge> 4
      then wpa_parse_pairwise (data\<lparr>group_cipher := wpa_selector_to_bitfield pos\<rparr>) (drop 4 pos)
      else if length pos > 0 then (-3, data)
      else wpa_parse_pairwise data pos)"

definition wpa_ie_defaults :: wpa_ie_data where
  "wpa_ie_defaults = \<lparr>proto = WPA_PROTO_WPA, pairwise_cipher = WPA_CIPHER_TKIP,
     group_cipher = WPA_CIPHER_TKIP, key_mgmt = WPA_KEY_MGMT_IEEE8021X, capabilities = 0,
     num_pmkid = 0, pmkid = None, mgmt_group_cipher = 0\<rparr>"

definition wpa_parse_wpa_ie_wpa :: "u8 list \<Rightarrow> int \<times> wpa_ie_data" where
  "wpa_parse_wpa_ie_wpa wpa_ie =
     (let data = wpa_ie_defaults in
      if length wpa_ie = 0 then (-1, data)
      else if length wpa_ie < 8 then (-1, data)
      else if wpa_ie ! 0 \<noteq> WLAN_EID_VENDOR_SPECIFIC \<or> unat (wpa_ie ! 1) \<noteq> length wpa_ie - 2 \<or>
              WPA_GET_BE32 (drop 2 wpa_ie) \<noteq> WPA_OUI_TYPE \<or>
              WPA_GET_LE16 (drop 6 wpa_ie) \<noteq> 1
      then (-2, data)
      else wpa_parse_group data (drop 8 wpa_ie))"

section \<open>Comparing elements\<close>

text \<open>\<^verbatim>\<open>wpa_fixup_wpa_ie_rsn\<close>: a copy of the association element in which all-zero RSN capabilities
  are replaced by those of the message element.\<close>

definition wpa_fixup_wpa_ie_rsn :: "u8 list \<Rightarrow> u8 list \<Rightarrow> u8 list" where
  "wpa_fixup_wpa_ie_rsn assoc_ie wpa_msg_ie =
     (let n = length assoc_ie; pos = 8 in
      if n < pos + 2 then assoc_ie
      else let pos = pos + 2 + unat (WPA_GET_LE16 (drop pos wpa_msg_ie)) * 4 in
      if n < pos + 2 then assoc_ie
      else let pos = pos + 2 + unat (WPA_GET_LE16 (drop pos wpa_msg_ie)) * 4 in
      if n < pos + 2 then assoc_ie
      else if assoc_ie ! pos = 0 \<and> assoc_ie ! (pos + 1) = 0 \<and>
              (wpa_msg_ie ! pos \<noteq> 0 \<or> wpa_msg_ie ! (pos + 1) \<noteq> 0)
      then assoc_ie[pos := wpa_msg_ie ! pos, pos + 1 := wpa_msg_ie ! (pos + 1)]
      else assoc_ie)"

text \<open>\<^verbatim>\<open>wpa_compare_rsn_ie\<close>: \<^term>\<open>True\<close> stands for the C result 0.\<close>

definition wpa_compare_rsn_ie :: "bool \<Rightarrow> u8 list option \<Rightarrow> u8 list option \<Rightarrow> bool" where
  "wpa_compare_rsn_ie ft_initial_assoc ie1 ie2 =
     (case (ie1, ie2) of
        (Some a, Some b) \<Rightarrow>
          if length a = length b \<and> (a = b \<or> wpa_fixup_wpa_ie_rsn a b = b) then True
          else if ft_initial_assoc then
            let (r1, d1) = wpa_parse_wpa_ie_rsn a; (r2, d2) = wpa_parse_wpa_ie_rsn b in
            if r1 < 0 \<or> r2 < 0 then False
            else proto d1 = proto d2 \<and> pairwise_cipher d1 = pairwise_cipher d2 \<and>
                 group_cipher d1 = group_cipher d2 \<and> key_mgmt d1 = key_mgmt d2 \<and>
                 capabilities d1 = capabilities d2 \<and>
                 mgmt_group_cipher d1 = mgmt_group_cipher d2
          else False
      | _ \<Rightarrow> False)"

section \<open>Writing elements\<close>

record wpa_auth_config =
  conf_wpa_proto :: int
  conf_wpa_key_mgmt :: int
  wpa_pairwise :: int
  wpa_group_cipher :: int
  wpa_group_rekey :: int
  wpa_strict_rekey :: bool
  wpa_gmk_rekey :: int
  wpa_ptk_rekey :: int
  rsn_pairwise :: int
  rsn_preauth :: bool
  eapol_version :: u8
  conf_peerkey :: bool
  wmm_enabled :: bool
  disable_pmksa_caching :: bool
  okc :: bool
  tx_status :: bool
  disable_gtk :: bool
  mobility_domain :: "u8 list"

definition put_suites :: "u32 list \<Rightarrow> u8 list" where
  "put_suites sels = concat (map WPA_PUT_BE32 sels)"

definition wpa_key_mgmt_suites :: "int \<Rightarrow> u32 list" where
  "wpa_key_mgmt_suites m =
     (if has_bits m WPA_KEY_MGMT_IEEE8021X then [wpa_suite 1] else []) @
     (if has_bits m WPA_KEY_MGMT_PSK then [wpa_suite 2] else [])"

definition rsn_key_mgmt_suites :: "int \<Rightarrow> u32 list" where
  "rsn_key_mgmt_suites m =
     (if has_bits m WPA_KEY_MGMT_IEEE8021X then [rsn_suite 1] else []) @
     (if has_bits m WPA_KEY_MGMT_PSK then [rsn_suite 2] else []) @
     (if has_bits m WPA_KEY_MGMT_FT_IEEE8021X then [rsn_suite 3] else []) @
     (if has_bits m WPA_KEY_MGMT_FT_PSK then [rsn_suite 4] else [])"

definition put_suite_list :: "u32 list \<Rightarrow> u8 list" where
  "put_suite_list sels = WPA_PUT_LE16 (word_of_nat (length sels)) @ put_suites sels"

definition wpa_write_wpa_ie :: "wpa_auth_config \<Rightarrow> u8 list option" where
  "wpa_write_wpa_ie conf =
     (let suite = wpa_cipher_to_suite WPA_PROTO_WPA (wpa_group_cipher conf);
          pw = wpa_cipher_put_suites (wpa_pairwise conf);
          km = wpa_key_mgmt_suites (conf_wpa_key_mgmt conf) in
      if suite = 0 then None
      else if length pw = 0 then None
      else if length km = 0 then None
      else
        let body = WPA_PUT_BE32 WPA_OUI_TYPE @ WPA_PUT_LE16 1 @ WPA_PUT_BE32 suite @
                   put_suite_list pw @ put_suite_list km
        in Some ([WLAN_EID_VENDOR_SPECIFIC, word_of_nat (length body)] @ body))"

definition rsn_capab :: "wpa_auth_config \<Rightarrow> u16" where
  "rsn_capab conf =
     (if rsn_preauth conf then 1 else 0) OR (if conf_peerkey conf then push_bit 9 1 else 0) OR
     (if wmm_enabled conf then push_bit 2 3 else 0)"

definition wpa_write_rsn_ie :: "wpa_auth_config \<Rightarrow> nat \<Rightarrow> u8 list option \<Rightarrow> u8 list option" where
  "wpa_write_rsn_ie conf len pmkid_opt =
     (let suite = wpa_cipher_to_suite WPA_PROTO_RSN (wpa_group_cipher conf);
          pw = rsn_cipher_put_suites (rsn_pairwise conf);
          km = rsn_key_mgmt_suites (conf_wpa_key_mgmt conf) in
      if suite = 0 then None
      else if length pw = 0 then None
      else if length km = 0 then None
      else
        let body = WPA_PUT_LE16 1 @ WPA_PUT_BE32 suite @ put_suite_list pw @ put_suite_list km @
                   WPA_PUT_LE16 (rsn_capab conf)
        in case pmkid_opt of
             None \<Rightarrow> Some ([WLAN_EID_RSN, word_of_nat (length body)] @ body)
           | Some pid \<Rightarrow>
               if 2 + length body + 2 + 16 > len then None
               else let body = body @ WPA_PUT_LE16 1 @ pid
                    in Some ([WLAN_EID_RSN, word_of_nat (length body)] @ body))"

text \<open>\<^verbatim>\<open>wpa_insert_pmkid\<close> of \<^verbatim>\<open>wpa_common.c\<close> works in place: \<^term>\<open>buf\<close> is the whole buffer, of which the
  first \<^term>\<open>ies_len\<close> octets hold elements.  The result is the number of octets added and the buffer.\<close>

definition memmove :: "u8 list \<Rightarrow> nat \<Rightarrow> nat \<Rightarrow> nat \<Rightarrow> u8 list" where
  "memmove buf dst src n = blit buf dst (take n (drop src buf))"

function find_rsn :: "u8 list \<Rightarrow> nat \<Rightarrow> nat \<Rightarrow> nat option" where
  "find_rsn buf start ies_end =
     (if start < ies_end then
        if buf ! start = WLAN_EID_RSN then Some start
        else find_rsn buf (start + 2 + unat (buf ! (start + 1))) ies_end
      else None)"
  by pat_completeness auto

termination
  by (relation "measure (\<lambda>(_, start, ies_end). ies_end - start)") auto

declare find_rsn.simps [simp del]

definition skip_suites :: "u8 list \<Rightarrow> nat \<Rightarrow> nat" where
  "skip_suites buf rpos = rpos + 2 + unat (WPA_GET_LE16 (drop rpos buf)) * 4"

definition insert_pmkid_at :: "u8 list \<Rightarrow> nat \<Rightarrow> nat \<Rightarrow> nat \<Rightarrow> nat \<Rightarrow> u8 list \<Rightarrow> (nat \<times> u8 list) option" where
  "insert_pmkid_at buf start ies_end rpos rend pid =
     (if rpos = rend then
        let buf = memmove buf (rpos + 2 + 16) rpos (ies_end - rpos);
            buf = blit (blit buf rpos (WPA_PUT_LE16 1)) (rpos + 2) pid
        in Some (2 + 16, buf[start + 1 := buf ! (start + 1) + (2 + 16)])
      else if WPA_GET_LE16 (drop rpos buf) \<noteq> 0 then None
      else
        let buf = blit buf rpos (WPA_PUT_LE16 1); rpos = rpos + 2;
            buf = memmove buf (rpos + 16) rpos (ies_end - rpos);
            buf = blit buf rpos pid
        in Some (16, buf[start + 1 := buf ! (start + 1) + 16]))"

definition wpa_insert_pmkid :: "u8 list \<Rightarrow> nat \<Rightarrow> u8 list \<Rightarrow> (nat \<times> u8 list) option" where
  "wpa_insert_pmkid buf ies_len pid =
     (case find_rsn buf 0 ies_len of
        None \<Rightarrow> None
      | Some start \<Rightarrow>
          let rend = start + 2 + unat (buf ! (start + 1));
              rpos = skip_suites buf (skip_suites buf (start + 2 + 2 + 4))
          in if rpos = rend
             then insert_pmkid_at (blit (memmove buf (rpos + 2) rpos (ies_len - rpos)) rpos [0, 0])
                    start ies_len (rpos + 2) rend pid
             else if rpos + 2 > rend then None
             else insert_pmkid_at buf start ies_len (rpos + 2) rend pid)"

text \<open>\<^verbatim>\<open>wpa_auth_gen_wpa_ie\<close>: the RSN, mobility domain and WPA elements that the configuration calls
  for, in a buffer of 128 octets; the mobility domain element is \<^term>\<open>write_mdie room\<close>.\<close>

definition wpa_auth_gen_wpa_ie ::
  "(nat \<Rightarrow> u8 list option) \<Rightarrow> wpa_auth_config \<Rightarrow> u8 list option" where
  "wpa_auth_gen_wpa_ie write_mdie conf =
     (let rsn = (if has_bits (conf_wpa_proto conf) WPA_PROTO_RSN
                 then wpa_write_rsn_ie conf 128 None else Some []) in
      case rsn of None \<Rightarrow> None | Some r \<Rightarrow>
      (let md = (if wpa_key_mgmt_ft (conf_wpa_key_mgmt conf)
                 then write_mdie (128 - length r) else Some []) in
       case md of None \<Rightarrow> None | Some d \<Rightarrow>
       (let w = (if has_bits (conf_wpa_proto conf) WPA_PROTO_WPA
                 then wpa_write_wpa_ie conf else Some []) in
        case w of None \<Rightarrow> None | Some x \<Rightarrow> Some (r @ d @ x))))"

section \<open>EAPOL-Key key data\<close>

definition wpa_add_kde :: "u32 \<Rightarrow> u8 list \<Rightarrow> u8 list \<Rightarrow> u8 list" where
  "wpa_add_kde kde data data2 =
     [WLAN_EID_VENDOR_SPECIFIC, word_of_nat (4 + length data + length data2)] @
     WPA_PUT_BE32 kde @ data @ data2"

record wpa_eapol_ie_parse =
  kde_wpa_ie :: "u8 list option"
  kde_rsn_ie :: "u8 list option"
  kde_pmkid :: "u8 list option"
  kde_gtk :: "u8 list option"
  kde_mac_addr :: "u8 list option"
  kde_smk :: "u8 list option"
  kde_nonce :: "u8 list option"
  kde_lifetime :: "u8 list option"
  kde_error :: "u8 list option"
  kde_mdie :: "u8 list option"
  kde_ftie :: "u8 list option"

definition kde_empty :: wpa_eapol_ie_parse where
  "kde_empty = \<lparr>kde_wpa_ie = None, kde_rsn_ie = None, kde_pmkid = None, kde_gtk = None,
     kde_mac_addr = None, kde_smk = None, kde_nonce = None, kde_lifetime = None,
     kde_error = None, kde_mdie = None, kde_ftie = None\<rparr>"

abbreviation rsn_key_data :: "u8 \<Rightarrow> u32" where "rsn_key_data n \<equiv> RSN_SELECTOR 0x00 0x0f 0xac n"

text \<open>\<^verbatim>\<open>wpa_parse_generic\<close>: the C result is 1 at the end mark and 0 otherwise.\<close>

definition wpa_parse_generic :: "u8 list \<Rightarrow> wpa_eapol_ie_parse \<Rightarrow> int \<times> wpa_eapol_ie_parse" where
  "wpa_parse_generic pos ie =
     (let n = unat (pos ! 1); sel = WPA_GET_BE32 (drop 2 pos);
          body = Some (take (n - 4) (drop 6 pos)) in
      if n = 0 then (1, ie)
      else if n \<ge> 6 \<and> sel = WPA_OUI_TYPE \<and> pos ! 6 = 1 \<and> pos ! 7 = 0
      then (0, ie\<lparr>kde_wpa_ie := Some (take (n + 2) pos)\<rparr>)
      else if length pos > 5 \<and> n \<ge> 4 + 16 \<and> sel = rsn_key_data 4
      then (0, ie\<lparr>kde_pmkid := Some (take 16 (drop 6 pos))\<rparr>)
      else if n > 6 \<and> sel = rsn_key_data 1 then (0, ie\<lparr>kde_gtk := body\<rparr>)
      else if n > 6 \<and> sel = rsn_key_data 3 then (0, ie\<lparr>kde_mac_addr := body\<rparr>)
      else if n > 6 \<and> sel = rsn_key_data 5 then (0, ie\<lparr>kde_smk := body\<rparr>)
      else if n > 6 \<and> sel = rsn_key_data 6 then (0, ie\<lparr>kde_nonce := body\<rparr>)
      else if n > 6 \<and> sel = rsn_key_data 7 then (0, ie\<lparr>kde_lifetime := body\<rparr>)
      else if n > 6 \<and> sel = rsn_key_data 8 then (0, ie\<lparr>kde_error := body\<rparr>)
      else (0, ie))"

function wpa_parse_kde_loop :: "u8 list \<Rightarrow> wpa_eapol_ie_parse \<Rightarrow> int \<times> wpa_eapol_ie_parse" where
  "wpa_parse_kde_loop pos ie =
     (if \<not> length pos > 1 then (0, ie)
      else if pos ! 0 = 0xdd \<and> (length pos = 1 \<or> pos ! 1 = 0) then (0, ie)
      else let n = unat (pos ! 1); elem = Some (take (n + 2) pos); rest = drop (2 + n) pos in
      if 2 + n > length pos then (-1, ie)
      else if pos ! 0 = WLAN_EID_RSN then wpa_parse_kde_loop rest (ie\<lparr>kde_rsn_ie := elem\<rparr>)
      else if pos ! 0 = WLAN_EID_MOBILITY_DOMAIN
      then wpa_parse_kde_loop rest (ie\<lparr>kde_mdie := elem\<rparr>)
      else if pos ! 0 = WLAN_EID_FAST_BSS_TRANSITION
      then wpa_parse_kde_loop rest (ie\<lparr>kde_ftie := elem\<rparr>)
      else if pos ! 0 = WLAN_EID_VENDOR_SPECIFIC then
        let (r, ie) = wpa_parse_generic pos ie in
        if r < 0 then (r, ie) else if r > 0 then (0, ie) else wpa_parse_kde_loop rest ie
      else wpa_parse_kde_loop rest ie)"
  by pat_completeness auto

termination
  by (relation "measure (\<lambda>(pos, _). length pos)") auto

declare wpa_parse_kde_loop.simps [simp del]

definition wpa_parse_kde_ies :: "u8 list \<Rightarrow> int \<times> wpa_eapol_ie_parse" where
  "wpa_parse_kde_ies buf = wpa_parse_kde_loop buf kde_empty"

section \<open>Suite lists: what is written is what is parsed\<close>

lemma get_le16_append [simp]: "WPA_GET_LE16 (WPA_PUT_LE16 v @ xs) = v"
  using get_put_16(2) [of v] by (simp add: WPA_GET_LE16_def WPA_PUT_LE16_def)

lemma get_be32_append [simp]: "WPA_GET_BE32 (WPA_PUT_BE32 v @ xs) = v"
  using get_put_32(1) [of v] by (simp add: WPA_GET_BE32_def WPA_PUT_BE32_def)

lemma put_suites_simps [simp]:
  "put_suites [] = []"
  "put_suites (x # xs) = WPA_PUT_BE32 x @ put_suites xs"
  by (simp_all add: put_suites_def)

lemma length_put_suites [simp]: "length (put_suites sels) = length sels * 4"
  by (induction sels) simp_all

text \<open>A suite decoder reads only the selector at the front.\<close>

locale suite_decoder =
  fixes f :: "u8 list \<Rightarrow> int" and g :: "u32 \<Rightarrow> int"
  assumes front: "f (WPA_PUT_BE32 s @ xs) = g s"
begin

lemma or_suites_put:
  "or_suites f (length sels) (put_suites sels @ rest) acc = fold (\<lambda>s a. a OR g s) sels acc"
  by (induction sels arbitrary: acc) (simp_all add: front)

end

definition rsn_cipher_bits :: "u32 \<Rightarrow> int" where
  "rsn_cipher_bits s = rsn_selector_to_bitfield (WPA_PUT_BE32 s)"

definition rsn_key_mgmt_bits :: "u32 \<Rightarrow> int" where
  "rsn_key_mgmt_bits s = rsn_key_mgmt_to_bitfield (WPA_PUT_BE32 s)"

interpretation rsn_ciphers: suite_decoder rsn_selector_to_bitfield rsn_cipher_bits
  by unfold_locales (simp add: rsn_cipher_bits_def rsn_selector_to_bitfield_def get_put_32)

interpretation rsn_akms: suite_decoder rsn_key_mgmt_to_bitfield rsn_key_mgmt_bits
  by unfold_locales (simp add: rsn_key_mgmt_bits_def rsn_key_mgmt_to_bitfield_def get_put_32)

definition wpa_cipher_bits :: "u32 \<Rightarrow> int" where
  "wpa_cipher_bits s = wpa_selector_to_bitfield (WPA_PUT_BE32 s)"

definition wpa_key_mgmt_bits :: "u32 \<Rightarrow> int" where
  "wpa_key_mgmt_bits s = wpa_key_mgmt_to_bitfield (WPA_PUT_BE32 s)"

interpretation wpa_ciphers: suite_decoder wpa_selector_to_bitfield wpa_cipher_bits
  by unfold_locales (simp add: wpa_cipher_bits_def wpa_selector_to_bitfield_def get_put_32)

interpretation wpa_akms: suite_decoder wpa_key_mgmt_to_bitfield wpa_key_mgmt_bits
  by unfold_locales (simp add: wpa_key_mgmt_bits_def wpa_key_mgmt_to_bitfield_def get_put_32)

lemma and_single_bit: "(c :: int) AND 2 ^ n = 0 \<or> c AND 2 ^ n = 2 ^ n"
proof (cases "bit c n")
  case True
  then have "c AND 2 ^ n = 2 ^ n" by (intro bit_eqI) (auto simp: bit_simps)
  then show ?thesis by simp
next
  case False
  then have "c AND 2 ^ n = 0" by (intro bit_eqI) (auto simp: bit_simps)
  then show ?thesis by simp
qed

lemma and_bit_numerals:
  "(c :: int) AND 1 = (if has_bits c 1 then 1 else 0)"
  "c AND 2 = (if has_bits c 2 then 2 else 0)"
  "c AND 4 = (if has_bits c 4 then 4 else 0)"
  "c AND 8 = (if has_bits c 8 then 8 else 0)"
  "c AND 16 = (if has_bits c 16 then 16 else 0)"
  "c AND 32 = (if has_bits c 32 then 32 else 0)"
  "c AND 64 = (if has_bits c 64 then 64 else 0)"
  unfolding has_bits_def
  using and_single_bit [of c 0] and_single_bit [of c 1] and_single_bit [of c 2]
    and_single_bit [of c 3] and_single_bit [of c 4] and_single_bit [of c 5] and_single_bit [of c 6]
  by auto

definition rsn_pairwise_mask :: int where
  "rsn_pairwise_mask = WPA_CIPHER_CCMP OR WPA_CIPHER_GCMP OR WPA_CIPHER_TKIP OR WPA_CIPHER_NONE"

definition rsn_akm_mask :: int where
  "rsn_akm_mask = WPA_KEY_MGMT_IEEE8021X OR WPA_KEY_MGMT_PSK OR WPA_KEY_MGMT_FT_IEEE8021X OR
     WPA_KEY_MGMT_FT_PSK"

lemma rsn_bits_eval:
  "rsn_cipher_bits (rsn_suite 0) = 1" "rsn_cipher_bits (rsn_suite 1) = 2"
  "rsn_cipher_bits (rsn_suite 2) = 8" "rsn_cipher_bits (rsn_suite 4) = 16"
  "rsn_cipher_bits (rsn_suite 5) = 4" "rsn_cipher_bits (rsn_suite 8) = 64"
  "rsn_key_mgmt_bits (rsn_suite 1) = 1" "rsn_key_mgmt_bits (rsn_suite 2) = 2"
  "rsn_key_mgmt_bits (rsn_suite 3) = 32" "rsn_key_mgmt_bits (rsn_suite 4) = 64"
  by (simp_all add: rsn_cipher_bits_def rsn_key_mgmt_bits_def rsn_selector_to_bitfield_def
      rsn_key_mgmt_to_bitfield_def get_put_32 RSN_SELECTOR_def cipher_consts key_mgmt_consts)

lemma rsn_cipher_suites_bits:
  "fold (\<lambda>s a. a OR rsn_cipher_bits s) (rsn_cipher_put_suites c) 0 = c AND rsn_pairwise_mask"
proof -
  have "c AND rsn_pairwise_mask = c AND 16 OR c AND 64 OR c AND 8 OR c AND 1"
    by (simp only: rsn_pairwise_mask_def cipher_consts bit.conj_disj_distrib)
  then show ?thesis
    by (simp only: rsn_cipher_put_suites_def cipher_consts and_bit_numerals)
       (simp add: rsn_bits_eval)
qed

lemma rsn_akm_suites_bits:
  "fold (\<lambda>s a. a OR rsn_key_mgmt_bits s) (rsn_key_mgmt_suites c) 0 = c AND rsn_akm_mask"
proof -
  have "c AND rsn_akm_mask = c AND 1 OR c AND 2 OR c AND 32 OR c AND 64"
    by (simp only: rsn_akm_mask_def key_mgmt_consts bit.conj_disj_distrib)
  then show ?thesis
    by (simp only: rsn_key_mgmt_suites_def key_mgmt_consts and_bit_numerals)
       (simp add: rsn_bits_eval)
qed

lemma rsn_suites_length:
  "length (rsn_cipher_put_suites c) \<le> 4" "length (rsn_key_mgmt_suites m) \<le> 4"
  by (simp_all add: rsn_cipher_put_suites_def rsn_key_mgmt_suites_def)

lemma unat_small_list: "length xs \<le> 4 \<Longrightarrow> unat (word_of_nat (length xs) :: u16) = length xs"
  by (simp add: unat_of_nat)

text \<open>The cipher of a group suite: the strongest the configured mask names.\<close>

definition group_of_mask :: "int \<Rightarrow> int" where
  "group_of_mask c = (if has_bits c 16 then 16 else if has_bits c 64 then 64
     else if has_bits c 8 then 8 else if has_bits c 4 then 4 else if has_bits c 2 then 2
     else if has_bits c 1 then 1 else 0)"

lemma rsn_group_bits:
  "wpa_cipher_to_suite WPA_PROTO_RSN c \<noteq> 0 \<Longrightarrow>
    rsn_cipher_bits (wpa_cipher_to_suite WPA_PROTO_RSN c) = group_of_mask c"
  by (simp add: wpa_cipher_to_suite_def Let_def cipher_consts group_of_mask_def rsn_bits_eval
      split: if_splits)

lemma wpa_write_rsn_ie_shape:
  assumes "wpa_write_rsn_ie conf len pid = Some ie" and "\<forall>p. pid = Some p \<longrightarrow> length p = 16"
  obtains body where "ie = [WLAN_EID_RSN, word_of_nat (length body)] @ body"
    "length body \<le> 100"
    "body = WPA_PUT_LE16 1 @ WPA_PUT_BE32 (wpa_cipher_to_suite WPA_PROTO_RSN (wpa_group_cipher conf)) @
       put_suite_list (rsn_cipher_put_suites (rsn_pairwise conf)) @
       put_suite_list (rsn_key_mgmt_suites (conf_wpa_key_mgmt conf)) @
       WPA_PUT_LE16 (rsn_capab conf) @ (case pid of None \<Rightarrow> [] | Some p \<Rightarrow> WPA_PUT_LE16 1 @ p)"
    "wpa_cipher_to_suite WPA_PROTO_RSN (wpa_group_cipher conf) \<noteq> 0"
    "rsn_cipher_put_suites (rsn_pairwise conf) \<noteq> []"
    "rsn_key_mgmt_suites (conf_wpa_key_mgmt conf) \<noteq> []"
  using assms rsn_suites_length(1) [of "rsn_pairwise conf"]
    rsn_suites_length(2) [of "conf_wpa_key_mgmt conf"]
  by (auto simp: wpa_write_rsn_ie_def Let_def put_suite_list_def split: if_splits option.splits)

lemma rsn_parse_put_list:
  assumes "sels \<noteq> []" "length sels \<le> 4"
  shows "rsn_parse_pairwise d (put_suite_list sels @ rest) =
      rsn_parse_key_mgmt (d\<lparr>pairwise_cipher := fold (\<lambda>s a. a OR rsn_cipher_bits s) sels 0\<rparr>) rest"
    and "rsn_parse_key_mgmt d (put_suite_list sels @ rest) =
      rsn_parse_capab (d\<lparr>key_mgmt := fold (\<lambda>s a. a OR rsn_key_mgmt_bits s) sels 0\<rparr>) rest"
  using assms unat_small_list [OF assms(2)]
  by (simp_all add: rsn_parse_pairwise_def rsn_parse_key_mgmt_def put_suite_list_def Let_def
      rsn_ciphers.or_suites_put rsn_akms.or_suites_put)

lemma rsn_parse_tail:
  assumes "\<forall>p. pid = Some p \<longrightarrow> length p = 16"
  shows "rsn_parse_capab d (WPA_PUT_LE16 c @ (case pid of None \<Rightarrow> [] | Some p \<Rightarrow> WPA_PUT_LE16 1 @ p)) =
    (0, (d\<lparr>capabilities := uint c\<rparr>)
       \<lparr>num_pmkid := (case pid of None \<Rightarrow> num_pmkid d | Some p \<Rightarrow> 1),
        pmkid := (case pid of None \<Rightarrow> pmkid d | Some p \<Rightarrow> Some p)\<rparr>)"
  using assms
  by (cases pid) (simp_all add: rsn_parse_capab_def rsn_parse_pmkid_def Let_def get_put_16)

lemma rsn_selector_front: "rsn_selector_to_bitfield (WPA_PUT_BE32 s @ rest) = rsn_cipher_bits s"
  by (rule rsn_ciphers.front)

lemma skip_put_suite_list:
  assumes "length sels \<le> 4"
  shows "skip_suites (a @ put_suite_list sels @ b) (length a) = length a + 2 + length sels * 4"
  using unat_small_list [OF assms] by (simp add: skip_suites_def put_suite_list_def)

text \<open>Insertion at the end of the element: what follows moves up, the count and the PMKID come in.\<close>

lemma insert_pmkid_at_end:
  assumes "length pid = 16" and "18 \<le> length room" and "2 \<le> length ie"
  shows "insert_pmkid_at (ie @ rest @ room) 0 (length ie + length rest) (length ie) (length ie) pid =
    Some (18, (ie @ WPA_PUT_LE16 1 @ pid @ rest @ drop 18 room)[1 := ie ! 1 + 18])"
proof -
  let ?m = "memmove (ie @ rest @ room) (length ie + 18) (length ie) (length rest)"
  have m: "?m = ie @ take 18 (rest @ room) @ rest @ drop 18 room"
    by (simp add: memmove_def blit_def add.commute)
  obtain t where t: "take 18 (rest @ room) = t" "length t = 18" using assms(2) by simp
  have b: "blit (blit ?m (length ie) (WPA_PUT_LE16 1)) (length ie + 2) pid =
      ie @ WPA_PUT_LE16 1 @ pid @ rest @ drop 18 room"
    unfolding m t(1) using assms(1) t(2) by (simp add: blit_def)
  have "(ie @ WPA_PUT_LE16 1 @ pid @ rest @ drop 18 room) ! 1 = ie ! 1"
    using assms(3) by (simp add: nth_append)
  then show ?thesis using b by (simp add: insert_pmkid_at_def Let_def add.commute)
qed

lemma rsn_ie_parse:
  assumes "wpa_write_rsn_ie conf len pid = Some ie" and "\<forall>p. pid = Some p \<longrightarrow> length p = 16"
  shows "wpa_parse_wpa_ie_rsn ie =
    (0, \<lparr>proto = WPA_PROTO_RSN, pairwise_cipher = rsn_pairwise conf AND rsn_pairwise_mask,
         group_cipher = group_of_mask (wpa_group_cipher conf),
         key_mgmt = conf_wpa_key_mgmt conf AND rsn_akm_mask,
         capabilities = uint (rsn_capab conf),
         num_pmkid = (case pid of None \<Rightarrow> 0 | Some _ \<Rightarrow> 1), pmkid = pid, mgmt_group_cipher = 0\<rparr>)"
proof -
  obtain body where b: "ie = [WLAN_EID_RSN, word_of_nat (length body)] @ body" "length body \<le> 100"
    and body: "body = WPA_PUT_LE16 1 @
       WPA_PUT_BE32 (wpa_cipher_to_suite WPA_PROTO_RSN (wpa_group_cipher conf)) @
       put_suite_list (rsn_cipher_put_suites (rsn_pairwise conf)) @
       put_suite_list (rsn_key_mgmt_suites (conf_wpa_key_mgmt conf)) @
       WPA_PUT_LE16 (rsn_capab conf) @ (case pid of None \<Rightarrow> [] | Some p \<Rightarrow> WPA_PUT_LE16 1 @ p)"
    and ne: "wpa_cipher_to_suite WPA_PROTO_RSN (wpa_group_cipher conf) \<noteq> 0"
      "rsn_cipher_put_suites (rsn_pairwise conf) \<noteq> []"
      "rsn_key_mgmt_suites (conf_wpa_key_mgmt conf) \<noteq> []"
    using wpa_write_rsn_ie_shape [OF assms] by metis
  have len: "unat (word_of_nat (length body) :: u8) = length body"
    using b(2) by (simp add: unat_of_nat)
  have "wpa_parse_wpa_ie_rsn ie = rsn_parse_group rsn_ie_defaults (drop 2 body)"
    using b len by (simp add: wpa_parse_wpa_ie_rsn_def Let_def body)
  also have "\<dots> = rsn_parse_pairwise
      (rsn_ie_defaults\<lparr>group_cipher := group_of_mask (wpa_group_cipher conf)\<rparr>) (drop 6 body)"
    using rsn_group_bits [OF ne(1)] by (simp add: rsn_parse_group_def body rsn_selector_front)
  also have "\<dots> = (0, \<lparr>proto = WPA_PROTO_RSN,
         pairwise_cipher = rsn_pairwise conf AND rsn_pairwise_mask,
         group_cipher = group_of_mask (wpa_group_cipher conf),
         key_mgmt = conf_wpa_key_mgmt conf AND rsn_akm_mask,
         capabilities = uint (rsn_capab conf),
         num_pmkid = (case pid of None \<Rightarrow> 0 | Some _ \<Rightarrow> 1), pmkid = pid, mgmt_group_cipher = 0\<rparr>)"
    by (simp add: body rsn_parse_put_list [OF ne(2) rsn_suites_length(1)]
        rsn_parse_put_list [OF ne(3) rsn_suites_length(2)] rsn_parse_tail [OF assms(2)]
        rsn_cipher_suites_bits rsn_akm_suites_bits rsn_ie_defaults_def split: option.split)
  finally show ?thesis .
qed

section \<open>Properties\<close>

text \<open>C25. Parsing the RSN element the access point writes gives back its configuration: the strongest
  configured group cipher, exactly the pairwise ciphers and key management methods the element
  can express, the capabilities, and the PMKID if one was inserted.\<close>

theorem rsn_ie_roundtrip:
  assumes "wpa_write_rsn_ie conf len pid = Some ie" and "\<forall>p. pid = Some p \<longrightarrow> length p = 16"
  shows "wpa_parse_wpa_ie_rsn ie =
    (0, \<lparr>proto = WPA_PROTO_RSN, pairwise_cipher = rsn_pairwise conf AND rsn_pairwise_mask,
         group_cipher = group_of_mask (wpa_group_cipher conf),
         key_mgmt = conf_wpa_key_mgmt conf AND rsn_akm_mask,
         capabilities = uint (rsn_capab conf),
         num_pmkid = (case pid of None \<Rightarrow> 0 | Some _ \<Rightarrow> 1), pmkid = pid, mgmt_group_cipher = 0\<rparr>)"
  by (rule rsn_ie_parse [OF assms])

definition example_conf :: wpa_auth_config where
  "example_conf = \<lparr>conf_wpa_proto = 2, conf_wpa_key_mgmt = 2, wpa_pairwise = 8, wpa_group_cipher = 16,
     wpa_group_rekey = 600, wpa_strict_rekey = False, wpa_gmk_rekey = 86400, wpa_ptk_rekey = 0,
     rsn_pairwise = 16, rsn_preauth = False, eapol_version = 2, conf_peerkey = False,
     wmm_enabled = True, disable_pmksa_caching = False, okc = False, tx_status = True,
     disable_gtk = False, mobility_domain = [0, 0]\<rparr>"

lemma example_conf_written:
  "wpa_write_rsn_ie example_conf 128 None = Some (the (wpa_write_rsn_ie example_conf 128 None))"
  by (simp add: wpa_write_rsn_ie_def example_conf_def wpa_cipher_to_suite_def Let_def has_bits_def
      cipher_consts key_mgmt_consts rsn_cipher_put_suites_def rsn_key_mgmt_suites_def
      RSN_SELECTOR_def)

theorem rsn_ie_roundtrip_witness:
  "key_mgmt (snd (wpa_parse_wpa_ie_rsn (the (wpa_write_rsn_ie example_conf 128 None)))) =
     2 AND rsn_akm_mask"
  using rsn_ie_roundtrip [OF example_conf_written] by (simp add: example_conf_def)

text \<open>C39. Inserting a PMKID in place into a buffer that starts with the RSN element of the access point
  gives exactly the element that would have been written with that PMKID, and leaves the elements
  that follow it (a mobility domain element) unchanged behind it.\<close>

theorem insert_pmkid_is_write:
  assumes w: "wpa_write_rsn_ie conf 128 None = Some ie" and pid: "length pid = 16"
    and room: "18 \<le> length room"
  shows "\<exists>ie'. wpa_write_rsn_ie conf 128 (Some pid) = Some ie' \<and>
    wpa_insert_pmkid (ie @ rest @ room) (length ie + length rest) pid =
      Some (18, ie' @ rest @ drop 18 room)"
proof -
  let ?pw = "rsn_cipher_put_suites (rsn_pairwise conf)"
    and ?km = "rsn_key_mgmt_suites (conf_wpa_key_mgmt conf)"
    and ?hd = "WPA_PUT_LE16 1 @ WPA_PUT_BE32 (wpa_cipher_to_suite WPA_PROTO_RSN (wpa_group_cipher conf))"
  obtain body where b: "ie = [WLAN_EID_RSN, word_of_nat (length body)] @ body"
    and body: "body = ?hd @ put_suite_list ?pw @ put_suite_list ?km @ WPA_PUT_LE16 (rsn_capab conf)"
    and ne: "wpa_cipher_to_suite WPA_PROTO_RSN (wpa_group_cipher conf) \<noteq> 0" "?pw \<noteq> []" "?km \<noteq> []"
    by (rule wpa_write_rsn_ie_shape [OF w]) auto
  have lens: "length ?pw \<le> 4" "length ?km \<le> 4" by (rule rsn_suites_length)+
  then have small: "length body \<le> 50" by (simp add: body put_suite_list_def)
  let ?ie' = "[WLAN_EID_RSN, word_of_nat (length body + 18)] @ body @ WPA_PUT_LE16 1 @ pid"
  have w': "wpa_write_rsn_ie conf 128 (Some pid) = Some ?ie'"
    using ne pid small by (simp add: wpa_write_rsn_ie_def Let_def body)
  let ?h = "[WLAN_EID_RSN, word_of_nat (length body)] @ ?hd" and ?buf = "ie @ rest @ room"
  let ?t = "WPA_PUT_LE16 (rsn_capab conf) @ rest @ room"
  have buf: "?buf = ?h @ put_suite_list ?pw @ put_suite_list ?km @ ?t" by (simp add: b body)
  have s1: "skip_suites ?buf 8 = 10 + length ?pw * 4"
    using skip_put_suite_list [OF lens(1), of ?h "put_suite_list ?km @ ?t"] by (simp add: buf)
  have s2: "skip_suites ?buf (10 + length ?pw * 4) = 12 + length ?pw * 4 + length ?km * 4"
    using skip_put_suite_list [OF lens(2), of "?h @ put_suite_list ?pw" ?t]
    by (simp add: buf put_suite_list_def)
  have end_ie: "12 + length ?pw * 4 + length ?km * 4 + 2 = length ie"
    by (simp add: b body put_suite_list_def)
  have n: "unat (?buf ! 1) = length body" using small by (simp add: b unat_of_nat)
  have f: "find_rsn ?buf 0 (length ie + length rest) = Some 0"
    by (subst find_rsn.simps) (simp add: b)
  have rend: "Suc (Suc (unat (?buf ! Suc 0))) = length ie" using n by (simp add: b)
  have rpos: "skip_suites ?buf (skip_suites ?buf 8) = length ie - 2" "length ie - 2 \<noteq> length ie"
    "Suc (Suc (length ie - 2)) = length ie"
    using s1 s2 end_ie by simp_all
  have ie1: "ie ! 1 + 18 = word_of_nat (length body + 18)" by (simp add: b)
  have "wpa_insert_pmkid ?buf (length ie + length rest) pid =
      insert_pmkid_at ?buf 0 (length ie + length rest) (length ie) (length ie) pid"
    by (simp add: wpa_insert_pmkid_def Let_def f rend rpos)
  also have "\<dots> = Some (18, (ie @ WPA_PUT_LE16 1 @ pid @ rest @ drop 18 room)[1 := ie ! 1 + 18])"
    by (rule insert_pmkid_at_end [OF pid room]) (simp add: b)
  also have "(ie @ WPA_PUT_LE16 1 @ pid @ rest @ drop 18 room)[1 := ie ! 1 + 18] =
      ?ie' @ rest @ drop 18 room"
    unfolding ie1 by (simp add: b)
  finally show ?thesis using w' by blast
qed

theorem insert_pmkid_is_write_witness:
  "\<exists>ie'. wpa_insert_pmkid (the (wpa_write_rsn_ie example_conf 128 None) @ [] @ replicate 18 0)
      (length (the (wpa_write_rsn_ie example_conf 128 None)) + length ([] :: u8 list)) (replicate 16 7) =
      Some (18, ie' @ [] @ drop 18 (replicate 18 0))"
  using insert_pmkid_is_write [OF example_conf_written, of "replicate 16 7" "replicate 18 0" "[]"]
  by auto

end
