(* ===== verification/Crypto_Stream.thy ===== *)
theory Crypto_Stream
  imports Prelude
begin

text \<open>
  The two ciphers that protect the key data of EAPOL-Key frames: RC4 with skipped stream start
  (\<^verbatim>\<open>src/crypto/rc4.c\<close>) and the AES key wrap of RFC 3394 (\<^verbatim>\<open>src/crypto/aes-wrap.c\<close>,
  \<^verbatim>\<open>src/crypto/aes-unwrap.c\<close>).  The AES block functions under the key encryption key are arguments.
\<close>

section \<open>RC4\<close>

definition S_SWAP :: "u8 list \<Rightarrow> nat \<Rightarrow> nat \<Rightarrow> u8 list" where
  "S_SWAP S a b = S[a := S ! b, b := S ! a]"

text \<open>Key setup; the key position wraps at \<^verbatim>\<open>keylen\<close>.\<close>

fun rc4_setup :: "u8 list \<Rightarrow> nat \<Rightarrow> nat \<Rightarrow> nat \<Rightarrow> u8 list \<Rightarrow> nat \<Rightarrow> u8 list" where
  "rc4_setup key 0 i j S kpos = S"
| "rc4_setup key (Suc n) i j S kpos =
     (let j = (j + unat (S ! i) + unat (key ! kpos)) mod 256;
          kpos = (if kpos + 1 \<ge> length key then 0 else kpos + 1)
      in rc4_setup key n (i + 1) j (S_SWAP S i j) kpos)"

fun rc4_skip_start :: "nat \<Rightarrow> nat \<Rightarrow> nat \<Rightarrow> u8 list \<Rightarrow> nat \<times> nat \<times> u8 list" where
  "rc4_skip_start 0 i j S = (i, j, S)"
| "rc4_skip_start (Suc n) i j S =
     (let i = (i + 1) mod 256; j = (j + unat (S ! i)) mod 256 in
      rc4_skip_start n i j (S_SWAP S i j))"

fun rc4_apply :: "nat \<Rightarrow> nat \<Rightarrow> u8 list \<Rightarrow> u8 list \<Rightarrow> u8 list" where
  "rc4_apply i j S [] = []"
| "rc4_apply i j S (d # data) =
     (let i = (i + 1) mod 256; j = (j + unat (S ! i)) mod 256; S = S_SWAP S i j;
          k = S ! ((unat (S ! i) + unat (S ! j)) mod 256)
      in (d XOR k) # rc4_apply i j S data)"

definition rc4_skip :: "u8 list \<Rightarrow> nat \<Rightarrow> u8 list \<Rightarrow> u8 list" where
  "rc4_skip key skip data =
     (let S = rc4_setup key 256 0 0 (map word_of_nat [0..<256]) 0;
          (i, j, S) = rc4_skip_start skip 0 0 S
      in rc4_apply i j S data)"

section \<open>AES key wrap\<close>

text \<open>\<^verbatim>\<open>a[7] ^= t\<close>, with the step number truncated to one octet as the C assignment does.\<close>

definition xor7 :: "u8 list \<Rightarrow> nat \<Rightarrow> u8 list" where
  "xor7 a t = a[7 := a ! 7 XOR word_of_nat t]"

definition blocks8 :: "nat \<Rightarrow> u8 list \<Rightarrow> u8 list list" where
  "blocks8 n xs = map (\<lambda>i. take 8 (drop (8 * i) xs)) [0..<n]"

text \<open>The inner loop over \<^verbatim>\<open>i\<close>; \<^term>\<open>t\<close> is \<^verbatim>\<open>n * j + i\<close>.\<close>

fun wrap_pass :: "(u8 list \<Rightarrow> u8 list) \<Rightarrow> nat \<Rightarrow> u8 list \<Rightarrow> u8 list list \<Rightarrow> u8 list \<times> u8 list list" where
  "wrap_pass aes_encrypt t a [] = (a, [])"
| "wrap_pass aes_encrypt t a (r # rs) =
     (let b = aes_encrypt (a @ r);
          (a', rs') = wrap_pass aes_encrypt (t + 1) (xor7 (take 8 b) t) rs
      in (a', drop 8 b # rs'))"

fun wrap_passes :: "(u8 list \<Rightarrow> u8 list) \<Rightarrow> nat \<Rightarrow> nat list \<Rightarrow> u8 list \<Rightarrow> u8 list list \<Rightarrow>
    u8 list \<times> u8 list list" where
  "wrap_passes aes_encrypt n [] a rs = (a, rs)"
| "wrap_passes aes_encrypt n (j # js) a rs =
     (let (a, rs) = wrap_pass aes_encrypt (n * j + 1) a rs in wrap_passes aes_encrypt n js a rs)"

definition aes_wrap :: "(u8 list \<Rightarrow> u8 list) \<Rightarrow> nat \<Rightarrow> u8 list \<Rightarrow> u8 list" where
  "aes_wrap aes_encrypt n plain =
     (let (a, rs) = wrap_passes aes_encrypt n [0..<6] (replicate 8 0xa6) (blocks8 n plain)
      in a @ concat rs)"

text \<open>Unwrapping visits the blocks from the last to the first; the list is given reversed.\<close>

fun unwrap_pass :: "(u8 list \<Rightarrow> u8 list) \<Rightarrow> nat \<Rightarrow> u8 list \<Rightarrow> u8 list list \<Rightarrow> u8 list \<times> u8 list list" where
  "unwrap_pass aes_decrypt t a [] = (a, [])"
| "unwrap_pass aes_decrypt t a (r # rs) =
     (let b = aes_decrypt (xor7 a t @ r);
          (a', rs') = unwrap_pass aes_decrypt (t - 1) (take 8 b) rs
      in (a', drop 8 b # rs'))"

fun unwrap_passes :: "(u8 list \<Rightarrow> u8 list) \<Rightarrow> nat \<Rightarrow> nat list \<Rightarrow> u8 list \<Rightarrow> u8 list list \<Rightarrow>
    u8 list \<times> u8 list list" where
  "unwrap_passes aes_decrypt n [] a rs = (a, rs)"
| "unwrap_passes aes_decrypt n (j # js) a rs =
     (let (a, rs) = unwrap_pass aes_decrypt (n * j + n) a rs in unwrap_passes aes_decrypt n js a rs)"

definition aes_unwrap :: "(u8 list \<Rightarrow> u8 list) \<Rightarrow> nat \<Rightarrow> u8 list \<Rightarrow> u8 list option" where
  "aes_unwrap aes_decrypt n cipher =
     (let (a, rs) = unwrap_passes aes_decrypt n (rev [0..<6]) (take 8 cipher)
                      (rev (blocks8 n (drop 8 cipher)))
      in if a = replicate 8 0xa6 then Some (concat (rev rs)) else None)"

section \<open>RC4 is its own inverse\<close>

lemma rc4_apply_involution: "rc4_apply i j S (rc4_apply i j S data) = data"
  by (induction data arbitrary: i j S) (simp_all add: Let_def xor.assoc)

lemma rc4_apply_length: "length (rc4_apply i j S data) = length data"
  by (induction data arbitrary: i j S) (simp_all add: Let_def)

lemma mset_S_SWAP: "a < length S \<Longrightarrow> b < length S \<Longrightarrow> set (S_SWAP S a b) = set S"
  by (simp add: S_SWAP_def set_swap)

lemma length_S_SWAP [simp]: "length (S_SWAP S a b) = length S"
  by (simp add: S_SWAP_def)

lemma distinct_S_SWAP: "a < length S \<Longrightarrow> b < length S \<Longrightarrow> distinct (S_SWAP S a b) = distinct S"
  by (simp add: S_SWAP_def distinct_swap)

definition rc4_perm :: "u8 list \<Rightarrow> bool" where
  "rc4_perm S \<longleftrightarrow> length S = 256 \<and> distinct S"

lemma rc4_setup_perm: "rc4_perm S \<Longrightarrow> i + n \<le> 256 \<Longrightarrow> rc4_perm (rc4_setup key n i j S kpos)"
  by (induction n arbitrary: i j S kpos) (simp_all add: rc4_perm_def Let_def distinct_S_SWAP)

lemma rc4_skip_perm: "rc4_perm S \<Longrightarrow> rc4_perm (snd (snd (rc4_skip_start n i j S)))"
  by (induction n arbitrary: i j S) (simp_all add: rc4_perm_def Let_def distinct_S_SWAP)

lemma rc4_initial_perm: "rc4_perm (map word_of_nat [0..<256])"
proof -
  have "unat (word_of_nat n :: u8) = n" if "n < 256" for n
    using that by (simp add: unat_of_nat)
  then have "inj_on (word_of_nat :: nat \<Rightarrow> u8) {0..<256}"
    by (metis atLeastLessThan_iff inj_onI)
  then show ?thesis by (simp add: rc4_perm_def distinct_map)
qed

section \<open>Key wrap: unwrapping undoes wrapping\<close>

text \<open>The block functions are inverse on 16 octets.\<close>

definition block_inverse :: "(u8 list \<Rightarrow> u8 list) \<Rightarrow> (u8 list \<Rightarrow> u8 list) \<Rightarrow> bool" where
  "block_inverse enc dec \<longleftrightarrow>
     (\<forall>b. length b = 16 \<longrightarrow> length (enc b) = 16 \<and> dec (enc b) = b)"

lemma xor7_xor7 [simp]: "xor7 (xor7 a t) t = a"
proof (cases "7 < length a")
  case True
  then show ?thesis by (simp add: xor7_def xor.assoc)
next
  case False
  then show ?thesis by (simp add: xor7_def list_update_beyond)
qed

lemma length_xor7 [simp]: "length (xor7 a t) = length a"
  by (simp add: xor7_def)

lemma unwrap_pass_append:
  "unwrap_pass dec t a (xs @ ys) =
     (let (a1, xs') = unwrap_pass dec t a xs; (a2, ys') = unwrap_pass dec (t - length xs) a1 ys
      in (a2, xs' @ ys'))"
  by (induction xs arbitrary: t a) (simp_all add: Let_def split_beta)

lemma wrap_pass_lengths:
  assumes "block_inverse enc dec" "length a = 8" "\<forall>r\<in>set rs. length r = 8"
  shows "length (fst (wrap_pass enc t a rs)) = 8 \<and> length (snd (wrap_pass enc t a rs)) = length rs \<and>
    (\<forall>r\<in>set (snd (wrap_pass enc t a rs)). length r = 8)"
  using assms(2,3)
proof (induction rs arbitrary: t a)
  case (Cons r rs)
  have b: "length (enc (a @ r)) = 16" using assms(1) Cons.prems by (simp add: block_inverse_def)
  then have "length (xor7 (take 8 (enc (a @ r))) t) = 8" by simp
  from Cons.IH [OF this, of "t + 1"] Cons.prems b show ?case by (simp add: Let_def split_beta)
qed simp

lemma unwrap_wrap_pass:
  assumes "block_inverse enc dec" "length a = 8" "\<forall>r\<in>set rs. length r = 8" "0 < t"
  shows "unwrap_pass dec (t + length rs - 1) (fst (wrap_pass enc t a rs))
      (rev (snd (wrap_pass enc t a rs))) = (a, rev rs)"
  using assms(2-)
proof (induction rs arbitrary: t a)
  case (Cons r rs)
  let ?b = "enc (a @ r)" and ?a = "xor7 (take 8 (enc (a @ r))) t"
  have b: "length ?b = 16" "dec ?b = a @ r"
    using assms(1) Cons.prems by (simp_all add: block_inverse_def)
  have l: "length ?a = 8" using b by simp
  have IH: "unwrap_pass dec (t + length rs) (fst (wrap_pass enc (t + 1) ?a rs))
      (rev (snd (wrap_pass enc (t + 1) ?a rs))) = (?a, rev rs)"
    using Cons.IH [OF l, of "t + 1"] Cons.prems by simp
  have n: "length (snd (wrap_pass enc (t + 1) ?a rs)) = length rs"
    using wrap_pass_lengths [OF assms(1) l, of rs "t + 1"] Cons.prems by simp
  define W where "W = wrap_pass enc (t + 1) ?a rs"
  have "wrap_pass enc t a (r # rs) = (fst W, drop 8 ?b # snd W)"
    by (simp add: W_def Let_def split_beta)
  moreover have "unwrap_pass dec t ?a [drop 8 ?b] = (a, [r])"
    using b Cons.prems by simp
  ultimately show ?case using IH n unfolding W_def [symmetric]
    by (simp add: unwrap_pass_append del: unwrap_pass.simps wrap_pass.simps)
qed simp

lemma wrap_passes_append:
  "wrap_passes enc n (js @ [j]) a rs =
     (let (a, rs) = wrap_passes enc n js a rs in wrap_pass enc (n * j + 1) a rs)"
  by (induction js arbitrary: a rs) (simp_all add: Let_def split_beta)

lemma wrap_passes_lengths:
  assumes "block_inverse enc dec" "length a = 8" "\<forall>r\<in>set rs. length r = 8"
  shows "length (fst (wrap_passes enc n js a rs)) = 8 \<and>
    length (snd (wrap_passes enc n js a rs)) = length rs \<and>
    (\<forall>r\<in>set (snd (wrap_passes enc n js a rs)). length r = 8)"
  using assms(2,3)
proof (induction js arbitrary: a rs)
  case (Cons j js)
  show ?case
    using wrap_pass_lengths [OF assms(1) Cons.prems, of "n * j + 1"]
      Cons.IH [of "fst (wrap_pass enc (n * j + 1) a rs)" "snd (wrap_pass enc (n * j + 1) a rs)"]
    by (simp add: Let_def split_beta)
qed simp

lemma unwrap_wrap_passes:
  assumes "block_inverse enc dec" "length a = 8" "\<forall>r\<in>set rs. length r = 8" "length rs = n"
  shows "unwrap_passes dec n (rev js) (fst (wrap_passes enc n js a rs))
      (rev (snd (wrap_passes enc n js a rs))) = (a, rev rs)"
proof (induction js rule: rev_induct)
  case (snoc j js)
  let ?w = "wrap_passes enc n js a rs"
  have l: "length (fst ?w) = 8" "\<forall>r\<in>set (snd ?w). length r = 8" "length (snd ?w) = n"
    using wrap_passes_lengths [OF assms(1-3), of n js] assms(4) by simp_all
  have "unwrap_pass dec (n * j + n) (fst (wrap_pass enc (n * j + 1) (fst ?w) (snd ?w)))
      (rev (snd (wrap_pass enc (n * j + 1) (fst ?w) (snd ?w)))) = (fst ?w, rev (snd ?w))"
    using unwrap_wrap_pass [OF assms(1) l(1,2), of "n * j + 1"] l(3) by simp
  then show ?case using snoc by (simp add: wrap_passes_append Let_def split_beta)
qed simp

lemma concat_blocks8: "length xs = 8 * n \<Longrightarrow> concat (blocks8 n xs) = xs"
proof (induction n arbitrary: xs)
  case (Suc n)
  have "blocks8 (Suc n) xs = take 8 xs # blocks8 n (drop 8 xs)"
    unfolding blocks8_def
    by (simp add: map_upt_Suc add.commute del: upt_Suc)
  moreover have "concat (blocks8 n (drop 8 xs)) = drop 8 xs" using Suc by simp
  ultimately show ?case by simp
qed (simp add: blocks8_def)

lemma blocks8_concat:
  "\<forall>r\<in>set rs. length r = 8 \<Longrightarrow> length rs = n \<Longrightarrow> blocks8 n (concat rs) = rs"
proof (induction rs arbitrary: n)
  case (Cons r rs)
  then obtain m where m: "n = Suc m" by (cases n) auto
  have "blocks8 (Suc m) (r @ concat rs) = r # blocks8 m (concat rs)"
    using Cons.prems unfolding blocks8_def by (simp add: map_upt_Suc del: upt_Suc)
  then show ?case using Cons m by simp
qed (simp add: blocks8_def)

lemma blocks8_lengths: "length xs = 8 * n \<Longrightarrow> \<forall>r\<in>set (blocks8 n xs). length r = 8"
  by (auto simp: blocks8_def)

lemma aes_unwrap_wrap:
  assumes "block_inverse enc dec" and "length plain = 8 * n"
  shows "aes_unwrap dec n (aes_wrap enc n plain) = Some plain \<and>
         length (aes_wrap enc n plain) = 8 * n + 8"
proof -
  let ?w = "wrap_passes enc n [0..<6] (replicate 8 0xa6) (blocks8 n plain)"
  have bl: "\<forall>r\<in>set (blocks8 n plain). length r = 8" "length (blocks8 n plain) = n"
    using blocks8_lengths [OF assms(2)] by (simp_all add: blocks8_def)
  have l: "length (fst ?w) = 8" "\<forall>r\<in>set (snd ?w). length r = 8" "length (snd ?w) = n"
    using wrap_passes_lengths [OF assms(1) _ bl(1), of "replicate 8 0xa6" n "[0..<6]"] bl(2)
    by simp_all
  have w: "aes_wrap enc n plain = fst ?w @ concat (snd ?w)"
    by (simp add: aes_wrap_def Let_def split_beta)
  have "map length (snd ?w) = replicate n 8"
    using l by (intro nth_equalityI) auto
  then have "length (concat (snd ?w)) = 8 * n" by (simp add: length_concat sum_list_replicate)
  moreover have "unwrap_passes dec n (rev [0..<6]) (fst ?w) (rev (snd ?w)) =
      (replicate 8 0xa6, rev (blocks8 n plain))"
    by (rule unwrap_wrap_passes [OF assms(1) _ bl(1) bl(2)]) simp
  ultimately show ?thesis
    using l by (simp add: w aes_unwrap_def blocks8_concat concat_blocks8 [OF assms(2)])
qed

section \<open>Properties\<close>

text \<open>C37. Key data wrapped by the authenticator with the key encryption key unwraps to itself, passes
  the integrity check, and is eight octets longer when wrapped; the only assumption on AES is
  that decryption inverts encryption of a block.\<close>

theorem aes_unwrap_aes_wrap:
  assumes "block_inverse enc dec" and "length plain = 8 * n"
  shows "aes_unwrap dec n (aes_wrap enc n plain) = Some plain \<and>
         length (aes_wrap enc n plain) = 8 * n + 8"
  using assms by (rule aes_unwrap_wrap)

theorem aes_unwrap_aes_wrap_witness:
  "aes_unwrap rev 2 (aes_wrap rev 2 (map word_of_nat [0..<16])) = Some (map word_of_nat [0..<16])"
  using aes_unwrap_aes_wrap [of rev rev "map word_of_nat [0..<16]" 2] by (simp add: block_inverse_def)


end
