(* ===== verification/Wpa_State.thy ===== *)
theory Wpa_State
  imports Utils Eapol_Auth Wpa_Ie Crypto_Stream
begin

text \<open>
  The state of the WPA authenticator (\<^verbatim>\<open>src/ap/wpa_auth_i.h\<close>), its environment, and the EAPOL-Key
  frame layer of \<^verbatim>\<open>src/ap/wpa_auth.c\<close>: replay counters, message integrity codes, key derivation and
  transmission.

  A function that acts for one station works on a context \<^verbatim>\<open>wctx\<close>: the station's machine, the group
  machine it belongs to, the counters of the authenticator and the history of everything asked of
  the environment.  The callbacks of the authenticator and the random source are functions of
  that history, so they may answer differently at every call.
  Cryptographic primitives are functions of their arguments.  Memory allocation does not fail.
\<close>

section \<open>Data\<close>

datatype wpa_ptk_enum =
    WPA_PTK_INITIALIZE | WPA_PTK_DISCONNECT | WPA_PTK_DISCONNECTED | WPA_PTK_AUTHENTICATION
  | WPA_PTK_AUTHENTICATION2 | WPA_PTK_INITPMK | WPA_PTK_INITPSK | WPA_PTK_PTKSTART
  | WPA_PTK_PTKCALCNEGOTIATING | WPA_PTK_PTKCALCNEGOTIATING2 | WPA_PTK_PTKINITNEGOTIATING
  | WPA_PTK_PTKINITDONE

datatype wpa_ptk_group_enum =
    WPA_PTK_GROUP_IDLE | WPA_PTK_GROUP_REKEYNEGOTIATING | WPA_PTK_GROUP_REKEYESTABLISHED
  | WPA_PTK_GROUP_KEYERROR

datatype wpa_group_enum = WPA_GROUP_GTK_INIT | WPA_GROUP_SETKEYS | WPA_GROUP_SETKEYSDONE

datatype wpa_version_enum = WPA_VERSION_NO_WPA | WPA_VERSION_WPA | WPA_VERSION_WPA2

record wpa_key_replay_counter =
  counter :: "u8 list"
  valid :: bool

record pmksa_ref =
  pm_pmk :: "u8 list"
  pm_pmkid :: "u8 list"

text \<open>A pairwise transient key is the octets of \<^verbatim>\<open>struct wpa_ptk\<close> in order.\<close>

type_synonym wpa_ptk = "u8 list"

definition kck :: "wpa_ptk \<Rightarrow> u8 list" where "kck ptk = take 16 ptk"
definition kek :: "wpa_ptk \<Rightarrow> u8 list" where "kek ptk = take 16 (drop 16 ptk)"
definition tk1 :: "wpa_ptk \<Rightarrow> u8 list" where "tk1 ptk = drop 32 ptk"

definition ptk_zero :: wpa_ptk where "ptk_zero = replicate 64 0"

record wpa_sm =
  sm_group :: int
  sta_addr :: macaddr
  wpa_ptk_state :: wpa_ptk_enum
  wpa_ptk_group_state :: wpa_ptk_group_enum
  Init :: bool
  DeauthenticationRequest :: bool
  AuthenticationRequest :: bool
  ReAuthenticationRequest :: bool
  Disconnect :: bool
  TimeoutCtr :: int
  GTimeoutCtr :: int
  TimeoutEvt :: bool
  EAPOLKeyReceived :: bool
  EAPOLKeyPairwise :: bool
  EAPOLKeyRequest :: bool
  MICVerified :: bool
  GUpdateStationKeys :: bool
  ANonce :: "u8 list"
  SNonce :: "u8 list"
  PMK :: "u8 list"
  PTK :: wpa_ptk
  PTK_valid :: bool
  pairwise_set :: bool
  keycount :: int
  Pair :: bool
  key_replay :: "wpa_key_replay_counter list"
  prev_key_replay :: "wpa_key_replay_counter list"
  PInitAKeys :: bool
  PTKRequest :: bool
  has_GTK :: bool
  PtkGroupInit :: bool
  last_rx_eapol_key :: "u8 list"
  sm_changed :: bool
  in_step_loop :: bool
  pending_deinit :: bool
  started :: bool
  rx_eapol_key_secure :: bool
  update_snonce :: bool
  ft_completed :: bool
  is_wnmsleep :: bool
  req_replay_counter :: "u8 list"
  req_replay_counter_used :: bool
  sm_wpa_ie :: "u8 list option"
  sm_wpa :: wpa_version_enum
  pairwise :: int
  sm_key_mgmt :: int
  pmksa :: "pmksa_ref option"
  local_mic_failures :: u32
  remote_mic_failures :: u32
  xxkey :: "u8 list"
  pmk_r1_name :: "u8 list"
  sup_pmk_r1_name :: "u8 list"
  assoc_resp_ftie :: "u8 list option"
  pending_1_of_4_timeout :: bool

record wpa_group =
  vlan_id :: int
  GInit :: bool
  GKeyDoneStations :: int
  GTKReKey :: bool
  GTK_len :: nat
  GN :: nat
  GM :: nat
  GTKAuthenticator :: bool
  Counter :: "u8 list"
  wpa_group_state :: wpa_group_enum
  GMK :: "u8 list"
  GTK :: "u8 list list"
  GNonce :: "u8 list"
  grp_changed :: bool
  first_sta_seen :: bool
  reject_4way_hs_for_entropy :: bool

datatype wpa_timer = T_send_eapol_timeout macaddr | T_rekey_ptk macaddr | T_rekey_gtk | T_rekey_gmk

text \<open>Everything the authenticator asks of its environment, in order.\<close>

datatype wpa_out =
    Set_eapol macaddr wpa_eapol_variable bool
  | Set_key int wpa_alg macaddr nat "u8 list"
  | Send_eapol macaddr "u8 list" bool
  | Sta_deauth macaddr
  | Random_get_bytes nat
  | Random_add "u8 list"
  | Random_mark_pool_ready
  | Mic_failure_report macaddr
  | Register_timeout wpa_timer nat nat
  | Cancel_timeout wpa_timer
  | Ft_push_pmk_r1 macaddr
  | Peerkey_smk_m1 macaddr "u8 list"
  | Peerkey_smk_m3 macaddr "u8 list"
  | Peerkey_smk_error macaddr "u8 list"

type_synonym history = "wpa_out list"

record wctx =
  c_sm :: wpa_sm
  c_grp :: wpa_group
  handshake_failures :: u32
  auth_remote_mic_failures :: u32
  hist :: history

record wpa_env =
  conf :: wpa_auth_config
  own_addr :: macaddr
  own_wpa_ie :: "u8 list"
  random_get_bytes :: "history \<Rightarrow> nat \<Rightarrow> u8 list option"
  random_pool_ready :: "history \<Rightarrow> bool"
  ntp_timestamp :: "history \<Rightarrow> u8 list"
  group_ptr :: "int \<Rightarrow> u8 list"
  sha1_prf :: "u8 list \<Rightarrow> string \<Rightarrow> u8 list \<Rightarrow> nat \<Rightarrow> u8 list option"
  hmac_md5 :: "u8 list \<Rightarrow> u8 list \<Rightarrow> u8 list option"
  hmac_sha1 :: "u8 list \<Rightarrow> u8 list \<Rightarrow> u8 list option"
  omac1_aes_128 :: "u8 list \<Rightarrow> u8 list \<Rightarrow> u8 list option"
  aes_encrypt_init :: "u8 list \<Rightarrow> (u8 list \<Rightarrow> u8 list) option"
  set_key_result :: "history \<Rightarrow> int"
  get_seqnum :: "history \<Rightarrow> nat \<Rightarrow> u8 list option"
  get_psk :: "history \<Rightarrow> macaddr \<Rightarrow> u8 list list"
  get_msk :: "history \<Rightarrow> macaddr \<Rightarrow> u8 list option"
  get_eapol :: "history \<Rightarrow> macaddr \<Rightarrow> wpa_eapol_variable \<Rightarrow> int"
  derive_ptk_ft :: "wpa_sm \<Rightarrow> u8 list \<Rightarrow> nat \<Rightarrow> u8 list \<times> u8 list"
  write_ftie :: "nat \<Rightarrow> u8 list option"
  reassociation_deadline :: u32
  r0_key_lifetime :: u32
  mic_failure_report :: "history \<Rightarrow> int"
  uninit :: "nat \<Rightarrow> u8 list"

section \<open>Callbacks\<close>

definition usm :: "(wpa_sm \<Rightarrow> wpa_sm) \<Rightarrow> wctx \<Rightarrow> wctx" where
  "usm f c = c\<lparr>c_sm := f (c_sm c)\<rparr>"

definition ugrp :: "(wpa_group \<Rightarrow> wpa_group) \<Rightarrow> wctx \<Rightarrow> wctx" where
  "ugrp f c = c\<lparr>c_grp := f (c_grp c)\<rparr>"

definition wlog :: "wpa_out \<Rightarrow> wctx \<Rightarrow> wctx" where
  "wlog e c = c\<lparr>hist := hist c @ [e]\<rparr>"

definition wpa_auth_set_eapol :: "wpa_eapol_variable \<Rightarrow> bool \<Rightarrow> wctx \<Rightarrow> wctx" where
  "wpa_auth_set_eapol var v c = wlog (Set_eapol (sta_addr (c_sm c)) var v) c"

definition wpa_auth_set_key :: "wpa_env \<Rightarrow> int \<Rightarrow> wpa_alg \<Rightarrow> macaddr \<Rightarrow> nat \<Rightarrow> u8 list \<Rightarrow> wctx \<Rightarrow>
    int \<times> wctx" where
  "wpa_auth_set_key env vlan alg addr idx key c =
     (let c = wlog (Set_key vlan alg addr idx key) c in (set_key_result env (hist c), c))"

definition get_random :: "wpa_env \<Rightarrow> nat \<Rightarrow> wctx \<Rightarrow> u8 list option \<times> wctx" where
  "get_random env n c = (let c = wlog (Random_get_bytes n) c in (random_get_bytes env (hist c) n, c))"

definition first_psk :: "wpa_env \<Rightarrow> wctx \<Rightarrow> u8 list option" where
  "first_psk env c =
     (case get_psk env (hist c) (sta_addr (c_sm c)) of [] \<Rightarrow> None | psk # _ \<Rightarrow> Some psk)"

section \<open>Replay counters\<close>

abbreviation RSNA_MAX_EAPOL_RETRIES :: nat where "RSNA_MAX_EAPOL_RETRIES \<equiv> 4"

definition rc_zero :: wpa_key_replay_counter where
  "rc_zero = \<lparr>counter = replicate 8 0, valid = False\<rparr>"

fun wpa_replay_counter_valid :: "wpa_key_replay_counter list \<Rightarrow> u8 list \<Rightarrow> bool" where
  "wpa_replay_counter_valid [] replay_counter = False"
| "wpa_replay_counter_valid (ctr # ctrs) replay_counter =
     (if \<not> valid ctr then False
      else if replay_counter = counter ctr then True
      else wpa_replay_counter_valid ctrs replay_counter)"

definition wpa_replay_counter_mark_invalid ::
  "wpa_key_replay_counter list \<Rightarrow> u8 list option \<Rightarrow> wpa_key_replay_counter list" where
  "wpa_replay_counter_mark_invalid ctrs replay_counter =
     map (\<lambda>ctr. if valid ctr \<and> (replay_counter = None \<or> replay_counter = Some (counter ctr))
                then ctr\<lparr>valid := False\<rparr> else ctr) ctrs"

text \<open>The counters before a transmission: each entry moves down one place, the first is counted up
  and becomes valid.\<close>

definition replay_next :: "wpa_key_replay_counter list \<Rightarrow> wpa_key_replay_counter list" where
  "replay_next ctrs =
     \<lparr>counter = inc_byte_array (counter (ctrs ! 0)) 8, valid = True\<rparr> #
     take (RSNA_MAX_EAPOL_RETRIES - 1) ctrs"

section \<open>EAPOL-Key frames\<close>

definition WPA_KEY_INFO_TYPE_MASK :: u16 where "WPA_KEY_INFO_TYPE_MASK = 7"
definition WPA_KEY_INFO_TYPE_HMAC_MD5_RC4 :: u16 where "WPA_KEY_INFO_TYPE_HMAC_MD5_RC4 = 1"
definition WPA_KEY_INFO_TYPE_HMAC_SHA1_AES :: u16 where "WPA_KEY_INFO_TYPE_HMAC_SHA1_AES = 2"
definition WPA_KEY_INFO_TYPE_AES_128_CMAC :: u16 where "WPA_KEY_INFO_TYPE_AES_128_CMAC = 3"
definition WPA_KEY_INFO_KEY_TYPE :: u16 where "WPA_KEY_INFO_KEY_TYPE = 0x8"
definition WPA_KEY_INFO_INSTALL :: u16 where "WPA_KEY_INFO_INSTALL = 0x40"
definition WPA_KEY_INFO_ACK :: u16 where "WPA_KEY_INFO_ACK = 0x80"
definition WPA_KEY_INFO_MIC :: u16 where "WPA_KEY_INFO_MIC = 0x100"
definition WPA_KEY_INFO_SECURE :: u16 where "WPA_KEY_INFO_SECURE = 0x200"
definition WPA_KEY_INFO_ERROR :: u16 where "WPA_KEY_INFO_ERROR = 0x400"
definition WPA_KEY_INFO_REQUEST :: u16 where "WPA_KEY_INFO_REQUEST = 0x800"
definition WPA_KEY_INFO_ENCR_KEY_DATA :: u16 where "WPA_KEY_INFO_ENCR_KEY_DATA = 0x1000"
definition WPA_KEY_INFO_SMK_MESSAGE :: u16 where "WPA_KEY_INFO_SMK_MESSAGE = 0x2000"

lemmas key_info_consts =
  WPA_KEY_INFO_TYPE_MASK_def WPA_KEY_INFO_TYPE_HMAC_MD5_RC4_def WPA_KEY_INFO_TYPE_HMAC_SHA1_AES_def
  WPA_KEY_INFO_TYPE_AES_128_CMAC_def WPA_KEY_INFO_KEY_TYPE_def WPA_KEY_INFO_INSTALL_def
  WPA_KEY_INFO_ACK_def WPA_KEY_INFO_MIC_def WPA_KEY_INFO_SECURE_def WPA_KEY_INFO_ERROR_def
  WPA_KEY_INFO_REQUEST_def WPA_KEY_INFO_ENCR_KEY_DATA_def WPA_KEY_INFO_SMK_MESSAGE_def

definition EAPOL_KEY_TYPE_RSN :: u8 where "EAPOL_KEY_TYPE_RSN = 2"
definition EAPOL_KEY_TYPE_WPA :: u8 where "EAPOL_KEY_TYPE_WPA = 254"

definition info_has :: "u16 \<Rightarrow> u16 \<Rightarrow> bool" where
  "info_has key_info m \<longleftrightarrow> key_info AND m \<noteq> 0"

text \<open>The octets of a frame: the IEEE 802.1X header (4), then \<^verbatim>\<open>struct wpa_eapol_key\<close> (95), then the
  key data.\<close>

definition EAPOL_KEY_HDR_LEN :: nat where "EAPOL_KEY_HDR_LEN = 99"

definition ek_type :: "u8 list \<Rightarrow> u8" where "ek_type d = d ! 4"
definition ek_info :: "u8 list \<Rightarrow> u16" where "ek_info d = WPA_GET_BE16 (drop 5 d)"
definition ek_replay :: "u8 list \<Rightarrow> u8 list" where "ek_replay d = take 8 (drop 9 d)"
definition ek_nonce :: "u8 list \<Rightarrow> u8 list" where "ek_nonce d = take 32 (drop 17 d)"
definition ek_mic :: "u8 list \<Rightarrow> u8 list" where "ek_mic d = take 16 (drop 81 d)"
definition ek_data_length :: "u8 list \<Rightarrow> nat" where "ek_data_length d = unat (WPA_GET_BE16 (drop 97 d))"
definition ek_data :: "u8 list \<Rightarrow> u8 list" where "ek_data d = take (ek_data_length d) (drop 99 d)"

definition eapol_key_frame :: "u8 \<Rightarrow> u8 \<Rightarrow> u16 \<Rightarrow> u16 \<Rightarrow> u8 list \<Rightarrow> u8 list \<Rightarrow> u8 list \<Rightarrow> u8 list \<Rightarrow>
    u8 list \<Rightarrow> u16 \<Rightarrow> u8 list \<Rightarrow> u8 list" where
  "eapol_key_frame version typ info klen replay nonce iv rsc mic dlen data =
     [version, 3] @ WPA_PUT_BE16 (word_of_nat (95 + length data)) @ [typ] @ WPA_PUT_BE16 info @
     WPA_PUT_BE16 klen @ replay @ nonce @ iv @ rsc @ replicate 8 0 @ mic @ WPA_PUT_BE16 dlen @ data"

definition wpa_use_aes_cmac :: "wpa_sm \<Rightarrow> bool" where
  "wpa_use_aes_cmac sm \<longleftrightarrow> wpa_key_mgmt_ft (sm_key_mgmt sm)"

definition wpa_eapol_key_mic :: "wpa_env \<Rightarrow> u8 list \<Rightarrow> u16 \<Rightarrow> u8 list \<Rightarrow> u8 list option" where
  "wpa_eapol_key_mic env key ver buf =
     (if ver = WPA_KEY_INFO_TYPE_HMAC_MD5_RC4 then hmac_md5 env key buf
      else if ver = WPA_KEY_INFO_TYPE_HMAC_SHA1_AES
      then map_option (take 16) (hmac_sha1 env key buf)
      else if ver = WPA_KEY_INFO_TYPE_AES_128_CMAC then omac1_aes_128 env key buf
      else None)"

text \<open>\<^verbatim>\<open>wpa_verify_key_mic\<close>: \<^term>\<open>True\<close> stands for the C result 0.  A failing primitive leaves the field
  zeroed and is an error.\<close>

definition wpa_verify_key_mic :: "wpa_env \<Rightarrow> wpa_ptk \<Rightarrow> u8 list \<Rightarrow> bool" where
  "wpa_verify_key_mic env ptk data =
     (if length data < EAPOL_KEY_HDR_LEN then False
      else case wpa_eapol_key_mic env (kck ptk) (ek_info data AND WPA_KEY_INFO_TYPE_MASK)
                  (blit data 81 (replicate 16 0)) of
             None \<Rightarrow> False
           | Some m \<Rightarrow> take 16 m = ek_mic data)"

section \<open>Key derivation\<close>

fun memcmp_less :: "u8 list \<Rightarrow> u8 list \<Rightarrow> bool" where
  "memcmp_less (a # as) (b # bs) = (if a = b then memcmp_less as bs else a < b)"
| "memcmp_less _ _ = False"

definition min_max :: "u8 list \<Rightarrow> u8 list \<Rightarrow> u8 list" where
  "min_max a b = (if memcmp_less a b then a @ b else b @ a)"

definition wpa_pmk_to_ptk :: "wpa_env \<Rightarrow> u8 list \<Rightarrow> string \<Rightarrow> macaddr \<Rightarrow> macaddr \<Rightarrow> u8 list \<Rightarrow> u8 list \<Rightarrow>
    nat \<Rightarrow> wpa_ptk" where
  "wpa_pmk_to_ptk env pmk label addr1 addr2 nonce1 nonce2 ptk_len =
     (case sha1_prf env pmk label (min_max addr1 addr2 @ min_max nonce1 nonce2) ptk_len of
        Some ptk \<Rightarrow> ptk | None \<Rightarrow> uninit env ptk_len)"

definition rsn_pmkid :: "wpa_env \<Rightarrow> u8 list \<Rightarrow> macaddr \<Rightarrow> macaddr \<Rightarrow> u8 list" where
  "rsn_pmkid env pmk aa spa =
     (case hmac_sha1 env pmk (ascii ''PMK Name'' @ aa @ spa) of
        Some hash \<Rightarrow> take 16 hash | None \<Rightarrow> uninit env 16)"

definition wpa_derive_ptk :: "wpa_env \<Rightarrow> u8 list \<Rightarrow> wpa_sm \<Rightarrow> wpa_ptk \<times> wpa_sm" where
  "wpa_derive_ptk env pmk sm =
     (let ptk_len = (if pairwise sm \<noteq> WPA_CIPHER_TKIP then 48 else 64) in
      if wpa_key_mgmt_ft (sm_key_mgmt sm)
      then let (ptk, name) = derive_ptk_ft env sm pmk ptk_len in (ptk, sm\<lparr>pmk_r1_name := name\<rparr>)
      else (wpa_pmk_to_ptk env pmk ''Pairwise key expansion'' (own_addr env) (sta_addr sm)
              (ANonce sm) (SNonce sm) ptk_len, sm))"

definition wpa_gmk_to_gtk :: "wpa_env \<Rightarrow> u8 list \<Rightarrow> string \<Rightarrow> macaddr \<Rightarrow> u8 list \<Rightarrow> u8 list \<Rightarrow> nat \<Rightarrow>
    wctx \<Rightarrow> (int \<times> u8 list) \<times> wctx" where
  "wpa_gmk_to_gtk env gmk label addr gnonce gtk gtk_len c =
     (let time = ntp_timestamp env (hist c);
          (r, c) = get_random env 16 c;
          rand = (case r of Some bs \<Rightarrow> bs | None \<Rightarrow> uninit env 16);
          ret = (if r = None then -1 else 0)
      in case sha1_prf env gmk label (addr @ gnonce @ time @ rand) gtk_len of
           None \<Rightarrow> ((-1, gtk), c)
         | Some k \<Rightarrow> ((ret, k), c))"

section \<open>Transmission\<close>

definition eapol_version_of :: "wpa_sm \<Rightarrow> u16 \<Rightarrow> u16" where
  "eapol_version_of sm force_version =
     (if force_version \<noteq> 0 then force_version
      else if wpa_use_aes_cmac sm then WPA_KEY_INFO_TYPE_AES_128_CMAC
      else if pairwise sm \<noteq> WPA_CIPHER_TKIP then WPA_KEY_INFO_TYPE_HMAC_SHA1_AES
      else WPA_KEY_INFO_TYPE_HMAC_MD5_RC4)"

definition aes_version :: "u16 \<Rightarrow> bool" where
  "aes_version version \<longleftrightarrow>
     version = WPA_KEY_INFO_TYPE_HMAC_SHA1_AES \<or> version = WPA_KEY_INFO_TYPE_AES_128_CMAC"

definition pad_len_of :: "nat \<Rightarrow> nat" where
  "pad_len_of n = (if n mod 8 \<noteq> 0 then 8 - n mod 8 else 0)"

text \<open>The key information word of the frame.\<close>

definition send_key_info :: "wpa_sm \<Rightarrow> u16 \<Rightarrow> u16 \<Rightarrow> nat \<Rightarrow> bool \<Rightarrow> u16" where
  "send_key_info sm key_info version keyidx encr =
     key_info OR version OR
     (if encr \<and> sm_wpa sm = WPA_VERSION_WPA2 then WPA_KEY_INFO_ENCR_KEY_DATA else 0) OR
     (if sm_wpa sm \<noteq> WPA_VERSION_WPA2 then push_bit 4 (word_of_nat keyidx) else 0)"

text \<open>The key data field: initialization vector, value of the length field and octets, and the group
  counter, which RC4 transport uses up.  \<^term>\<open>None\<close> when the key wrap cannot be set up.\<close>

definition send_key_data :: "wpa_env \<Rightarrow> wpa_ptk \<Rightarrow> u16 \<Rightarrow> u8 list option \<Rightarrow> bool \<Rightarrow> u8 list \<Rightarrow>
    (u8 list \<times> nat \<times> u8 list \<times> u8 list) option" where
  "send_key_data env ptk version kde encr ctr =
     (case kde of
        None \<Rightarrow> Some (replicate 16 0, 0, if encr \<and> aes_version version then replicate 8 0 else [], ctr)
      | Some k \<Rightarrow>
          if \<not> encr then Some (replicate 16 0, length k, k, ctr)
          else if aes_version version then
            let pad = pad_len_of (length k);
                buf = k @ (if pad \<noteq> 0 then 0xdd # replicate (pad - 1) 0 else [])
            in case aes_encrypt_init env (kek ptk) of
                 None \<Rightarrow> None
               | Some enc \<Rightarrow>
                   Some (replicate 16 0, length buf + 8, aes_wrap enc (length buf div 8) buf, ctr)
          else
            let iv = take 16 (drop 16 ctr)
            in Some (iv, length k, rc4_skip (iv @ kek ptk) 256 k, inc_byte_array ctr 32))"

definition transmit :: "wpa_env \<Rightarrow> u16 \<Rightarrow> u16 \<Rightarrow> (u8 list \<Rightarrow> u8 list) \<Rightarrow> wctx \<Rightarrow> wctx" where
  "transmit env version key_info frame c =
     (let sm = c_sm c;
          send = (\<lambda>f. wlog (Send_eapol (sta_addr sm) f (pairwise_set sm))
                    (wpa_auth_set_eapol WPA_EAPOL_inc_EapolFramesTx True c))
      in if info_has key_info WPA_KEY_INFO_MIC then
           if \<not> PTK_valid sm then c
           else case wpa_eapol_key_mic env (kck (PTK sm)) version (frame (replicate 16 0)) of
                  Some mic \<Rightarrow> send (frame mic)
                | None \<Rightarrow> send (frame (replicate 16 0))
         else send (frame (replicate 16 0)))"

definition wpa_send_eapol_frame :: "wpa_env \<Rightarrow> u16 \<Rightarrow> u8 list option \<Rightarrow> u8 list option \<Rightarrow>
    u8 list option \<Rightarrow> nat \<Rightarrow> bool \<Rightarrow> u16 \<Rightarrow> wctx \<Rightarrow> wctx" where
  "wpa_send_eapol_frame env key_info0 key_rsc nonce kde keyidx encr force_version c =
     (let sm = c_sm c;
          version = eapol_version_of sm force_version;
          is_pairwise = info_has key_info0 WPA_KEY_INFO_KEY_TYPE;
          key_info = send_key_info sm key_info0 version keyidx encr;
          alg = (if is_pairwise then pairwise sm else wpa_group_cipher (conf env));
          klen = (if info_has key_info WPA_KEY_INFO_SMK_MESSAGE then 0
                  else word_of_nat (wpa_cipher_key_len alg));
          typ = (if sm_wpa sm = WPA_VERSION_WPA2 then EAPOL_KEY_TYPE_RSN else EAPOL_KEY_TYPE_WPA);
          c = usm (key_replay_update replay_next) c
      in case send_key_data env (PTK sm) version kde encr (Counter (c_grp c)) of
           None \<Rightarrow> c
         | Some (iv, dlen, data, ctr) \<Rightarrow>
             let c = ugrp (Counter_update (\<lambda>_. ctr)) c
             in transmit env version key_info
                  (\<lambda>mic. eapol_key_frame (eapol_version (conf env)) typ key_info klen
                    (counter (key_replay (c_sm c) ! 0))
                    (case nonce of Some n \<Rightarrow> n | None \<Rightarrow> replicate 32 0) iv
                    (case key_rsc of Some r \<Rightarrow> r | None \<Rightarrow> replicate 8 0) mic (word_of_nat dlen) data) c)"

definition eapol_key_timeout_first :: nat where "eapol_key_timeout_first = 100"
definition eapol_key_timeout_subseq :: nat where "eapol_key_timeout_subseq = 1000"
definition eapol_key_timeout_first_group :: nat where "eapol_key_timeout_first_group = 500"

definition register_eapol_timeout :: "nat \<Rightarrow> wctx \<Rightarrow> wctx" where
  "register_eapol_timeout ms c =
     wlog (Register_timeout (T_send_eapol_timeout (sta_addr (c_sm c))) (ms div 1000)
       ((ms mod 1000) * 1000)) c"

definition wpa_send_eapol :: "wpa_env \<Rightarrow> u16 \<Rightarrow> u8 list option \<Rightarrow> u8 list option \<Rightarrow>
    u8 list option \<Rightarrow> nat \<Rightarrow> bool \<Rightarrow> wctx \<Rightarrow> wctx" where
  "wpa_send_eapol env key_info key_rsc nonce kde keyidx encr c =
     (let is_pairwise = info_has key_info WPA_KEY_INFO_KEY_TYPE;
          c = wpa_send_eapol_frame env key_info key_rsc nonce kde keyidx encr 0 c;
          ctr = (if is_pairwise then TimeoutCtr (c_sm c) else GTimeoutCtr (c_sm c));
          timeout_ms = (if ctr = 1 \<and> tx_status (conf env)
                        then if is_pairwise then eapol_key_timeout_first
                             else eapol_key_timeout_first_group
                        else eapol_key_timeout_subseq);
          c = (if is_pairwise \<and> ctr = 1 \<and> \<not> info_has key_info WPA_KEY_INFO_MIC
               then usm (pending_1_of_4_timeout_update (\<lambda>_. True)) c else c)
      in register_eapol_timeout timeout_ms c)"

text \<open>A zeroed machine: what \<^verbatim>\<open>wpa_auth_sta_init\<close> allocates.\<close>

definition sm_zero :: "macaddr \<Rightarrow> int \<Rightarrow> wpa_sm" where
  "sm_zero a v =
     \<lparr>sm_group = v, sta_addr = a, wpa_ptk_state = WPA_PTK_INITIALIZE,
      wpa_ptk_group_state = WPA_PTK_GROUP_IDLE, Init = False, DeauthenticationRequest = False,
      AuthenticationRequest = False, ReAuthenticationRequest = False, Disconnect = False,
      TimeoutCtr = 0, GTimeoutCtr = 0, TimeoutEvt = False, EAPOLKeyReceived = False,
      EAPOLKeyPairwise = False, EAPOLKeyRequest = False, MICVerified = False,
      GUpdateStationKeys = False, ANonce = replicate 32 0, SNonce = replicate 32 0,
      PMK = replicate 32 0, PTK = ptk_zero, PTK_valid = False, pairwise_set = False, keycount = 0,
      Pair = False, key_replay = replicate 4 rc_zero, prev_key_replay = replicate 4 rc_zero,
      PInitAKeys = False, PTKRequest = False, has_GTK = False, PtkGroupInit = False,
      last_rx_eapol_key = [], sm_changed = False, in_step_loop = False, pending_deinit = False,
      started = False, rx_eapol_key_secure = False, update_snonce = False, ft_completed = False,
      is_wnmsleep = False, req_replay_counter = replicate 8 0, req_replay_counter_used = False,
      sm_wpa_ie = None, sm_wpa = WPA_VERSION_NO_WPA, pairwise = 0, sm_key_mgmt = 0, pmksa = None,
      local_mic_failures = 0, remote_mic_failures = 0, xxkey = [], pmk_r1_name = replicate 16 0,
      sup_pmk_r1_name = replicate 16 0, assoc_resp_ftie = None, pending_1_of_4_timeout = False\<rparr>"

section \<open>An example environment\<close>

text \<open>Random octets that count the calls, fixed answers in place of the keyed hashes, one PSK.\<close>

definition example_env :: wpa_env where
  "example_env = \<lparr>conf = example_conf, own_addr = [2, 0, 0, 0, 0, 1],
     own_wpa_ie = the (wpa_write_rsn_ie example_conf 128 None),
     random_get_bytes = (\<lambda>h n. Some (replicate n (word_of_nat (length h)))),
     random_pool_ready = (\<lambda>h. True), ntp_timestamp = (\<lambda>h. replicate 8 0), group_ptr = (\<lambda>v. replicate 4 0),
     sha1_prf = (\<lambda>k l d n. Some (replicate n 1)),
     hmac_md5 = (\<lambda>k d. Some (replicate 16 5)),
     hmac_sha1 = (\<lambda>k d. Some (replicate 20 5)),
     omac1_aes_128 = (\<lambda>k d. Some (replicate 16 5)),
     aes_encrypt_init = (\<lambda>k. Some (\<lambda>b. map (\<lambda>x. x + 1) b)),
     set_key_result = (\<lambda>h. 0), get_seqnum = (\<lambda>h i. Some (replicate 8 0)),
     get_psk = (\<lambda>h a. [replicate 32 7]), get_msk = (\<lambda>h a. None), get_eapol = (\<lambda>h a v. 0),
     derive_ptk_ft = (\<lambda>sm pmk n. (replicate n 0, replicate 16 0)), write_ftie = (\<lambda>n. None),
     reassociation_deadline = 1000, r0_key_lifetime = 10000, mic_failure_report = (\<lambda>h. 0),
     uninit = (\<lambda>n. replicate n 0)\<rparr>"

end
