(* ===== verification/Wpa_Validate.thy ===== *)
theory Wpa_Validate
  imports Wpa_State
begin

text \<open>
  The security element of an association request, \<^verbatim>\<open>wpa_validate_wpa_ie\<close> of \<^verbatim>\<open>src/ap/wpa_auth_ie.c\<close>:
  the element is checked against the configuration of the access point, and what was agreed is
  stored in the station's machine.  The two searches of the PMKSA caches are arguments: \<^verbatim>\<open>get\<close> is
  \<^verbatim>\<open>pmksa_cache_auth_get\<close> for the station's address, \<^verbatim>\<open>get_okc\<close> is the search through the caches of the
  other authenticators with the entry it adds.
\<close>

datatype wpa_ie_status =
    WPA_IE_OK | WPA_INVALID_IE | WPA_INVALID_GROUP | WPA_INVALID_PAIRWISE | WPA_INVALID_AKMP
  | WPA_NOT_ENABLED | WPA_ALLOC_FAIL | WPA_MGMT_FRAME_PROTECTION_VIOLATION
  | WPA_INVALID_MGMT_GROUP_CIPHER | WPA_INVALID_MDIE | WPA_INVALID_PROTO

text \<open>The MIB variables of \<^verbatim>\<open>struct wpa_authenticator\<close> that the validation sets.\<close>

record wpa_mib =
  dot11RSNAAuthenticationSuiteSelected :: u32
  dot11RSNAPairwiseCipherSelected :: u32
  dot11RSNAGroupCipherSelected :: u32
  dot11RSNAPMKIDUsed :: "u8 list"

definition mib_zero :: wpa_mib where
  "mib_zero = \<lparr>dot11RSNAAuthenticationSuiteSelected = 0, dot11RSNAPairwiseCipherSelected = 0,
     dot11RSNAGroupCipherSelected = 0, dot11RSNAPMKIDUsed = replicate 16 0\<rparr>"

definition suite_or :: "u32 \<Rightarrow> u32 \<Rightarrow> u32" where
  "suite_or sel dflt = (if sel = 0 then dflt else sel)"

definition mib_rsn :: "wpa_ie_data \<Rightarrow> wpa_mib \<Rightarrow> wpa_mib" where
  "mib_rsn data mib =
     mib\<lparr>dot11RSNAAuthenticationSuiteSelected :=
           (if has_bits (key_mgmt data) WPA_KEY_MGMT_FT_IEEE8021X then rsn_suite 3
            else if has_bits (key_mgmt data) WPA_KEY_MGMT_FT_PSK then rsn_suite 4
            else if has_bits (key_mgmt data) WPA_KEY_MGMT_IEEE8021X then rsn_suite 1
            else if has_bits (key_mgmt data) WPA_KEY_MGMT_PSK then rsn_suite 2
            else rsn_suite 1),
         dot11RSNAPairwiseCipherSelected :=
           suite_or (wpa_cipher_to_suite WPA_PROTO_RSN (pairwise_cipher data)) (rsn_suite 4),
         dot11RSNAGroupCipherSelected :=
           suite_or (wpa_cipher_to_suite WPA_PROTO_RSN (group_cipher data)) (rsn_suite 4)\<rparr>"

definition mib_wpa :: "wpa_ie_data \<Rightarrow> wpa_mib \<Rightarrow> wpa_mib" where
  "mib_wpa data mib =
     mib\<lparr>dot11RSNAAuthenticationSuiteSelected :=
           (if has_bits (key_mgmt data) WPA_KEY_MGMT_IEEE8021X then wpa_suite 1
            else if has_bits (key_mgmt data) WPA_KEY_MGMT_PSK then wpa_suite 2
            else wpa_suite 1),
         dot11RSNAPairwiseCipherSelected :=
           suite_or (wpa_cipher_to_suite WPA_PROTO_WPA (pairwise_cipher data)) (rsn_suite 2),
         dot11RSNAGroupCipherSelected :=
           suite_or (wpa_cipher_to_suite WPA_PROTO_WPA (group_cipher data)) (wpa_suite 2)\<rparr>"

definition select_key_mgmt :: "int \<Rightarrow> int" where
  "select_key_mgmt akm =
     (if has_bits akm WPA_KEY_MGMT_FT_IEEE8021X then WPA_KEY_MGMT_FT_IEEE8021X
      else if has_bits akm WPA_KEY_MGMT_FT_PSK then WPA_KEY_MGMT_FT_PSK
      else if has_bits akm WPA_KEY_MGMT_IEEE8021X then WPA_KEY_MGMT_IEEE8021X
      else WPA_KEY_MGMT_PSK)"

text \<open>The PMKIDs of the element, one after the other.\<close>

definition ie_pmkids :: "wpa_ie_data \<Rightarrow> u8 list list" where
  "ie_pmkids data =
     map (\<lambda>i. take 16 (drop (i * 16) (case pmkid data of Some p \<Rightarrow> p | None \<Rightarrow> []))) [0 ..< num_pmkid data]"

text \<open>A search loop: the first PMKID for which an entry is found, with the entry.\<close>

fun find_pmksa :: "(u8 list \<Rightarrow> pmksa_ref option) \<Rightarrow> u8 list list \<Rightarrow> (u8 list \<times> pmksa_ref) option" where
  "find_pmksa get [] = None"
| "find_pmksa get (p # ps) = (case get p of Some e \<Rightarrow> Some (p, e) | None \<Rightarrow> find_pmksa get ps)"

definition select_pmksa :: "bool \<Rightarrow> (u8 list \<Rightarrow> pmksa_ref option) \<Rightarrow> (u8 list \<Rightarrow> pmksa_ref option) \<Rightarrow>
    u8 list list \<Rightarrow> (u8 list \<times> pmksa_ref) option" where
  "select_pmksa use_okc get get_okc pmkids =
     (case find_pmksa get pmkids of
        Some (_, e) \<Rightarrow> Some (pm_pmkid e, e)
      | None \<Rightarrow> if use_okc then find_pmksa get_okc pmkids else None)"

definition wpa_validate_wpa_ie :: "wpa_env \<Rightarrow> (u8 list \<Rightarrow> pmksa_ref option) \<Rightarrow>
    (u8 list \<Rightarrow> pmksa_ref option) \<Rightarrow> u8 list \<Rightarrow> u8 list option \<Rightarrow> wpa_sm \<times> wpa_mib \<Rightarrow>
    wpa_ie_status \<times> wpa_sm \<times> wpa_mib" where
  "wpa_validate_wpa_ie env get get_okc wpa_ie mdie s =
     (let (sm, mib) = s; cf = conf env in
      if wpa_ie = [] then (WPA_INVALID_IE, sm, mib)
      else
        let version = (if wpa_ie ! 0 = WLAN_EID_RSN then WPA_PROTO_RSN else WPA_PROTO_WPA) in
        if \<not> has_bits (conf_wpa_proto cf) version then (WPA_INVALID_PROTO, sm, mib)
        else
          let (res, data) = (if version = WPA_PROTO_RSN then wpa_parse_wpa_ie_rsn wpa_ie
                             else wpa_parse_wpa_ie_wpa wpa_ie);
              mib = (if version = WPA_PROTO_RSN then mib_rsn data mib else mib_wpa data mib)
          in if res \<noteq> 0 then (WPA_INVALID_IE, sm, mib)
             else if group_cipher data \<noteq> wpa_group_cipher cf then (WPA_INVALID_GROUP, sm, mib)
             else
               let akm = key_mgmt data AND conf_wpa_key_mgmt cf in
               if akm = 0 then (WPA_INVALID_AKMP, sm, mib)
               else
                 let sm = sm\<lparr>sm_key_mgmt := select_key_mgmt akm\<rparr>;
                     ciphers = pairwise_cipher data AND
                       (if version = WPA_PROTO_RSN then rsn_pairwise cf else wpa_pairwise cf)
                 in if ciphers = 0 then (WPA_INVALID_PAIRWISE, sm, mib)
                    else if wpa_key_mgmt_ft (sm_key_mgmt sm) \<and>
                      (case mdie of None \<Rightarrow> True
                       | Some m \<Rightarrow> length m < 3 \<or> take 2 m \<noteq> take 2 (mobility_domain cf))
                    then (WPA_INVALID_MDIE, sm, mib)
                    else
                      let sm = sm\<lparr>pairwise := wpa_pick_pairwise_cipher ciphers False\<rparr> in
                      if pairwise sm < 0 then (WPA_INVALID_PAIRWISE, sm, mib)
                      else
                        let found = select_pmksa (okc cf) get get_okc (ie_pmkids data);
                            sm = sm\<lparr>sm_wpa := (if wpa_ie ! 0 = WLAN_EID_RSN then WPA_VERSION_WPA2
                                               else WPA_VERSION_WPA),
                                    pmksa := map_option snd found\<rparr>;
                            mib = (case found of None \<Rightarrow> mib
                                   | Some (p, _) \<Rightarrow> mib\<lparr>dot11RSNAPMKIDUsed := p\<rparr>)
                        in (WPA_IE_OK, sm\<lparr>sm_wpa_ie := Some wpa_ie\<rparr>, mib))"

section \<open>What the validation agrees on\<close>

lemma has_bits_and: "has_bits (x AND y) m \<Longrightarrow> has_bits x m \<and> has_bits y m"
proof (unfold has_bits_def, intro conjI notI)
  assume n: "(x AND y) AND m \<noteq> 0"
  assume "x AND m = 0"
  then have "(x AND m) AND y = 0" by simp
  then show False using n by (simp add: ac_simps)
next
  assume n: "(x AND y) AND m \<noteq> 0"
  assume "y AND m = 0"
  then have "x AND (y AND m) = 0" by simp
  then show False using n by (simp add: ac_simps)
qed

text \<open>Which fields of the machine the validation may write.\<close>

definition agreed :: "wpa_sm \<Rightarrow> wpa_sm \<Rightarrow> bool" where
  "agreed sm sm' \<longleftrightarrow> (\<exists>m p v e i.
     sm' = sm\<lparr>sm_key_mgmt := m, pairwise := p, sm_wpa := v, pmksa := e, sm_wpa_ie := i\<rparr>)"

lemma agreedI: "agreed sm (sm\<lparr>sm_key_mgmt := m, pairwise := p, sm_wpa := v, pmksa := e, sm_wpa_ie := i\<rparr>)"
  unfolding agreed_def by blast

lemma agreed_simps:
  "agreed sm sm" "agreed sm (sm\<lparr>sm_key_mgmt := m\<rparr>)" "agreed sm (sm\<lparr>sm_key_mgmt := m, pairwise := p\<rparr>)"
  using agreedI [of sm "sm_wpa_ie sm" "pmksa sm" "sm_wpa sm" "pairwise sm" "sm_key_mgmt sm"]
    agreedI [of sm "sm_wpa_ie sm" "pmksa sm" "sm_wpa sm" "pairwise sm" m]
    agreedI [of sm "sm_wpa_ie sm" "pmksa sm" "sm_wpa sm" p m] by simp_all

lemma validate_agreed: "agreed sm (fst (snd (wpa_validate_wpa_ie env get get_okc wpa_ie mdie (sm, mib))))"
  by (simp add: wpa_validate_wpa_ie_def Let_def case_prod_beta agreedI agreed_simps)

section \<open>Properties\<close>

lemma select_key_mgmt_bits:
  assumes "akm \<noteq> 0" and "akm AND rsn_akm_mask = akm"
  shows "has_bits akm (select_key_mgmt akm)"
proof -
  have "akm = akm AND 1 OR akm AND 2 OR akm AND 32 OR akm AND 64"
    using assms(2) by (simp only: rsn_akm_mask_def key_mgmt_consts bit.conj_disj_distrib)
  then have "akm AND 1 \<noteq> 0 \<or> akm AND 2 \<noteq> 0 \<or> akm AND 32 \<noteq> 0 \<or> akm AND 64 \<noteq> 0"
    using assms(1) by (metis or.right_neutral)
  then show ?thesis by (auto simp: select_key_mgmt_def has_bits_def key_mgmt_consts)
qed

lemma pick_pairwise_bits:
  assumes "0 \<le> wpa_pick_pairwise_cipher c False"
  shows "has_bits c (wpa_pick_pairwise_cipher c False)"
    and "wpa_pick_pairwise_cipher c False \<in> {WPA_CIPHER_CCMP, WPA_CIPHER_GCMP, WPA_CIPHER_TKIP}"
  using assms by (auto simp: wpa_pick_pairwise_cipher_def split: if_splits)

lemma masked_bits: "m AND b = b \<Longrightarrow> has_bits (c AND m) b = has_bits c b"
  by (simp add: has_bits_def and.assoc)

lemma akm_suites_nonzero:
  assumes "rsn_key_mgmt_suites c \<noteq> []"
  shows "c AND rsn_akm_mask \<noteq> 0"
proof -
  have "has_bits c 1 \<or> has_bits c 2 \<or> has_bits c 32 \<or> has_bits c 64"
    using assms by (auto simp: rsn_key_mgmt_suites_def key_mgmt_consts split: if_splits)
  then have "has_bits (c AND rsn_akm_mask) 1 \<or> has_bits (c AND rsn_akm_mask) 2 \<or>
      has_bits (c AND rsn_akm_mask) 32 \<or> has_bits (c AND rsn_akm_mask) 64"
    by (simp add: masked_bits rsn_akm_mask_def key_mgmt_consts)
  then show ?thesis by (auto simp: has_bits_def)
qed

lemma pick_pairwise_mask:
  "wpa_pick_pairwise_cipher (c AND rsn_pairwise_mask) False = wpa_pick_pairwise_cipher c False"
  by (simp add: wpa_pick_pairwise_cipher_def masked_bits rsn_pairwise_mask_def cipher_consts)

lemma select_ft: "wpa_key_mgmt_ft (select_key_mgmt (c AND rsn_akm_mask)) \<longrightarrow> wpa_key_mgmt_ft c"
proof -
  have "has_bits (c AND rsn_akm_mask) 32 = has_bits c 32" "has_bits (c AND rsn_akm_mask) 64 = has_bits c 64"
    by (simp_all add: masked_bits rsn_akm_mask_def key_mgmt_consts)
  moreover have "has_bits c (64 OR 32 OR 2048)" if "has_bits c 32 \<or> has_bits c 64"
  proof (unfold has_bits_def, rule notI)
    assume "c AND (64 OR 32 OR 2048) = 0"
    then have "(c AND (64 OR 32 OR 2048)) AND 32 = 0" "(c AND (64 OR 32 OR 2048)) AND 64 = 0" by simp_all
    then show False using that by (simp add: has_bits_def and.assoc)
  qed
  ultimately show ?thesis
    by (auto simp: select_key_mgmt_def wpa_key_mgmt_ft_def key_mgmt_consts has_bits_def split: if_splits)
qed

definition rsn_element :: "u8 list \<Rightarrow> bool" where
  "rsn_element ie \<longleftrightarrow> ie ! 0 = WLAN_EID_RSN"

lemma validate_accepted:
  assumes ok: "wpa_validate_wpa_ie env get get_okc ie mdie (sm, mib) = (WPA_IE_OK, sm', mib')"
  obtains data akm cs where "(if rsn_element ie then wpa_parse_wpa_ie_rsn ie else wpa_parse_wpa_ie_wpa ie) = (0, data)"
    "akm = key_mgmt data AND conf_wpa_key_mgmt (conf env)"
    "cs = pairwise_cipher data AND (if rsn_element ie then rsn_pairwise (conf env) else wpa_pairwise (conf env))"
    "has_bits (conf_wpa_proto (conf env)) (if rsn_element ie then WPA_PROTO_RSN else WPA_PROTO_WPA)"
    "group_cipher data = wpa_group_cipher (conf env)" "akm \<noteq> 0" "cs \<noteq> 0" "0 \<le> wpa_pick_pairwise_cipher cs False"
    "wpa_key_mgmt_ft (select_key_mgmt akm) \<longrightarrow>
      (\<exists>m. mdie = Some m \<and> 3 \<le> length m \<and> take 2 m = take 2 (mobility_domain (conf env)))"
    "sm_key_mgmt sm' = select_key_mgmt akm" "pairwise sm' = wpa_pick_pairwise_cipher cs False"
    "sm_wpa sm' = (if rsn_element ie then WPA_VERSION_WPA2 else WPA_VERSION_WPA)" "sm_wpa_ie sm' = Some ie"
proof -
  define data where "data = snd (if rsn_element ie then wpa_parse_wpa_ie_rsn ie else wpa_parse_wpa_ie_wpa ie)"
  have v: "WPA_PROTO_RSN \<noteq> WPA_PROTO_WPA" by (simp add: WPA_PROTO_RSN_def WPA_PROTO_WPA_def)
  have facts: "fst (if rsn_element ie then wpa_parse_wpa_ie_rsn ie else wpa_parse_wpa_ie_wpa ie) = 0 \<and>
    has_bits (conf_wpa_proto (conf env)) (if rsn_element ie then WPA_PROTO_RSN else WPA_PROTO_WPA) \<and>
    group_cipher data = wpa_group_cipher (conf env) \<and> key_mgmt data AND conf_wpa_key_mgmt (conf env) \<noteq> 0 \<and>
    pairwise_cipher data AND (if rsn_element ie then rsn_pairwise (conf env) else wpa_pairwise (conf env)) \<noteq> 0 \<and>
    0 \<le> wpa_pick_pairwise_cipher
      (pairwise_cipher data AND (if rsn_element ie then rsn_pairwise (conf env) else wpa_pairwise (conf env))) False \<and>
    (wpa_key_mgmt_ft (select_key_mgmt (key_mgmt data AND conf_wpa_key_mgmt (conf env))) \<longrightarrow>
      (\<exists>m. mdie = Some m \<and> 3 \<le> length m \<and> take 2 m = take 2 (mobility_domain (conf env)))) \<and>
    sm_key_mgmt sm' = select_key_mgmt (key_mgmt data AND conf_wpa_key_mgmt (conf env)) \<and>
    pairwise sm' = wpa_pick_pairwise_cipher
      (pairwise_cipher data AND (if rsn_element ie then rsn_pairwise (conf env) else wpa_pairwise (conf env))) False \<and>
    sm_wpa sm' = (if rsn_element ie then WPA_VERSION_WPA2 else WPA_VERSION_WPA) \<and> sm_wpa_ie sm' = Some ie"
    using ok v unfolding wpa_validate_wpa_ie_def Let_def case_prod_beta rsn_element_def data_def
    by (auto split: if_splits option.splits)
  then have "(if rsn_element ie then wpa_parse_wpa_ie_rsn ie else wpa_parse_wpa_ie_wpa ie) = (0, data)"
    by (simp add: data_def prod_eq_iff)
  with facts show thesis using that by metis
qed

text \<open>C9. An association whose element is accepted has agreed on nothing that one of the two sides did
  not offer: the element parses for an enabled protocol, its group cipher is the configured one,
  the key management method and the pairwise cipher stored in the station's machine are both offered by
  the station and configured, the cipher is one of CCMP, GCMP and TKIP, a fast transition needs the
  configured mobility domain, and the element is kept for the comparison in message 2/4.\<close>

theorem validate_sound:
  assumes ok: "wpa_validate_wpa_ie env get get_okc ie mdie (sm, mib) = (WPA_IE_OK, sm', mib')"
    and akms: "conf_wpa_key_mgmt (conf env) AND rsn_akm_mask = conf_wpa_key_mgmt (conf env)"
  shows "\<exists>data. (if rsn_element ie then wpa_parse_wpa_ie_rsn ie else wpa_parse_wpa_ie_wpa ie) = (0, data) \<and>
      has_bits (conf_wpa_proto (conf env)) (if rsn_element ie then WPA_PROTO_RSN else WPA_PROTO_WPA) \<and>
      sm_wpa sm' = (if rsn_element ie then WPA_VERSION_WPA2 else WPA_VERSION_WPA) \<and>
      group_cipher data = wpa_group_cipher (conf env) \<and>
      has_bits (key_mgmt data) (sm_key_mgmt sm') \<and>
      has_bits (conf_wpa_key_mgmt (conf env)) (sm_key_mgmt sm') \<and>
      pairwise sm' \<in> {WPA_CIPHER_CCMP, WPA_CIPHER_GCMP, WPA_CIPHER_TKIP} \<and>
      has_bits (pairwise_cipher data) (pairwise sm') \<and>
      has_bits (if rsn_element ie then rsn_pairwise (conf env) else wpa_pairwise (conf env)) (pairwise sm') \<and>
      (wpa_key_mgmt_ft (sm_key_mgmt sm') \<longrightarrow>
         (\<exists>m. mdie = Some m \<and> 3 \<le> length m \<and> take 2 m = take 2 (mobility_domain (conf env)))) \<and>
      sm_wpa_ie sm' = Some ie"
proof -
  let ?rsn = "rsn_element ie"
  obtain data akm cs where d: "(if ?rsn then wpa_parse_wpa_ie_rsn ie else wpa_parse_wpa_ie_wpa ie) = (0, data)"
    and akm_def: "akm = key_mgmt data AND conf_wpa_key_mgmt (conf env)"
    and cs_def: "cs = pairwise_cipher data AND (if ?rsn then rsn_pairwise (conf env) else wpa_pairwise (conf env))"
    and facts: "has_bits (conf_wpa_proto (conf env)) (if ?rsn then WPA_PROTO_RSN else WPA_PROTO_WPA)"
      "group_cipher data = wpa_group_cipher (conf env)" "akm \<noteq> 0" "cs \<noteq> 0" "0 \<le> wpa_pick_pairwise_cipher cs False"
      "wpa_key_mgmt_ft (select_key_mgmt akm) \<longrightarrow>
        (\<exists>m. mdie = Some m \<and> 3 \<le> length m \<and> take 2 m = take 2 (mobility_domain (conf env)))"
    and sm': "sm_key_mgmt sm' = select_key_mgmt akm" "pairwise sm' = wpa_pick_pairwise_cipher cs False"
      "sm_wpa sm' = (if ?rsn then WPA_VERSION_WPA2 else WPA_VERSION_WPA)" "sm_wpa_ie sm' = Some ie"
    by (rule validate_accepted [OF ok])
  have "akm AND rsn_akm_mask = akm" using akms by (simp add: akm_def and.assoc)
  then have "has_bits akm (sm_key_mgmt sm')" using select_key_mgmt_bits facts(3) sm'(1) by simp
  then have k: "has_bits (key_mgmt data) (sm_key_mgmt sm')" "has_bits (conf_wpa_key_mgmt (conf env)) (sm_key_mgmt sm')"
    using has_bits_and unfolding akm_def by blast+
  have p: "has_bits cs (pairwise sm')" "pairwise sm' \<in> {WPA_CIPHER_CCMP, WPA_CIPHER_GCMP, WPA_CIPHER_TKIP}"
    using pick_pairwise_bits [OF facts(5)] sm'(2) by simp_all
  have c: "has_bits (pairwise_cipher data) (pairwise sm')"
    "has_bits (if ?rsn then rsn_pairwise (conf env) else wpa_pairwise (conf env)) (pairwise sm')"
    using has_bits_and [OF p(1) [unfolded cs_def]] by simp_all
  show ?thesis using d facts(1,2,6) sm' k p(2) c by (intro exI [of _ data] conjI) simp_all
qed

theorem validate_sound_witness:
  "pairwise (fst (snd (wpa_validate_wpa_ie example_env (\<lambda>_. None) (\<lambda>_. None)
      (the (wpa_write_rsn_ie example_conf 128 None)) None (sm_zero [2, 0, 0, 0, 0, 2] 0, mib_zero))))
    \<in> {WPA_CIPHER_CCMP, WPA_CIPHER_GCMP, WPA_CIPHER_TKIP}"
proof -
  obtain r sm' mib' where v: "wpa_validate_wpa_ie example_env (\<lambda>_. None) (\<lambda>_. None)
      (the (wpa_write_rsn_ie example_conf 128 None)) None (sm_zero [2, 0, 0, 0, 0, 2] 0, mib_zero) = (r, sm', mib')"
    by (metis prod_cases3)
  have "fst (wpa_validate_wpa_ie example_env (\<lambda>_. None) (\<lambda>_. None)
      (the (wpa_write_rsn_ie example_conf 128 None)) None (sm_zero [2, 0, 0, 0, 0, 2] 0, mib_zero)) = WPA_IE_OK"
    by code_simp
  then have "r = WPA_IE_OK" using v by simp
  moreover have "conf_wpa_key_mgmt (conf example_env) AND rsn_akm_mask = conf_wpa_key_mgmt (conf example_env)"
    by code_simp
  ultimately have "pairwise sm' \<in> {WPA_CIPHER_CCMP, WPA_CIPHER_GCMP, WPA_CIPHER_TKIP}"
    using validate_sound [of example_env _ _ _ _ _ _ sm' mib'] v by metis
  then show ?thesis using v by simp
qed



end
