(* ===== verification/Wpa_Frames.thy ===== *)
theory Wpa_Frames
  imports Wpa_State
begin

text \<open>
  EAPOL-Key frames on the wire: every field the authenticator writes is read back where the receiving
  side looks for it, and a frame the authenticator sends is one a station that holds the same pairwise
  key accepts and can decrypt.
\<close>

section \<open>Fields\<close>

text \<open>The fixed part of a frame whose fields have the lengths of \<^verbatim>\<open>struct wpa_eapol_key\<close>.\<close>

definition frame_fields :: "u8 list \<Rightarrow> u8 list \<Rightarrow> u8 list \<Rightarrow> u8 list \<Rightarrow> u8 list \<Rightarrow> bool" where
  "frame_fields replay nonce iv rsc mic \<longleftrightarrow>
     length replay = 8 \<and> length nonce = 32 \<and> length iv = 16 \<and> length rsc = 8 \<and> length mic = 16"

lemma GET_BE16_append: "2 \<le> length xs \<Longrightarrow> WPA_GET_BE16 (xs @ ys) = WPA_GET_BE16 xs"
  by (cases xs rule: list.exhaust [case_names Nil Cons]) (auto simp: WPA_GET_BE16_def nth_append)

lemma GET_PUT_BE16: "WPA_GET_BE16 (WPA_PUT_BE16 v @ ys) = v"
  by (simp add: GET_BE16_append get_put_16)

lemma frame_read:
  assumes "frame_fields replay nonce iv rsc mic"
    and f_def: "f = eapol_key_frame version ty info klen replay nonce iv rsc mic dlen data"
  shows "length f = EAPOL_KEY_HDR_LEN + length data" "ek_type f = ty" "ek_info f = info" "ek_replay f = replay"
    "ek_nonce f = nonce" "ek_mic f = mic" "ek_data_length f = unat dlen" "ek_data f = take (unat dlen) data"
proof -
  let ?a = "[version, 3] @ WPA_PUT_BE16 (word_of_nat (95 + length data))"
  let ?b = "?a @ [ty]" let ?c = "?b @ WPA_PUT_BE16 info @ WPA_PUT_BE16 klen"
  let ?d = "?c @ replay" let ?m = "?d @ nonce @ iv @ rsc @ replicate 8 0"
  have f: "f = ?a @ ty # drop (length ?b) f" "f = ?b @ WPA_PUT_BE16 info @ drop (length ?b + 2) f"
    "f = ?c @ replay @ drop (length ?d) f" "f = ?d @ nonce @ drop (length ?d + 32) f"
    "f = ?m @ mic @ WPA_PUT_BE16 dlen @ data"
    using assms(1) by (simp_all add: f_def eapol_key_frame_def frame_fields_def)
  have l: "length ?a = 4" "length ?b = 5" "length ?c = 9" "length ?d = 17" "length ?m = 81"
    using assms(1) by (simp_all add: frame_fields_def)
  show "length f = EAPOL_KEY_HDR_LEN + length data"
    using assms(1) by (simp add: f_def eapol_key_frame_def EAPOL_KEY_HDR_LEN_def frame_fields_def)
  show "ek_type f = ty" by (subst f(1)) (simp add: ek_type_def nth_append l(1))
  have "drop 5 f = WPA_PUT_BE16 info @ drop (length ?b + 2) f" using f(2) l(2) by (metis append_eq_conv_conj)
  then show "ek_info f = info" by (simp add: ek_info_def GET_PUT_BE16)
  have "drop 9 f = replay @ drop (length ?d) f" using f(3) l(3) by (metis append_eq_conv_conj)
  then show "ek_replay f = replay" using assms(1) by (simp add: ek_replay_def frame_fields_def)
  have "drop 17 f = nonce @ drop (length ?d + 32) f" using f(4) l(4) by (metis append_eq_conv_conj)
  then show "ek_nonce f = nonce" using assms(1) by (simp add: ek_nonce_def frame_fields_def)
  have m: "drop 81 f = mic @ WPA_PUT_BE16 dlen @ data" using f(5) l(5) by (metis append_eq_conv_conj)
  then show "ek_mic f = mic" using assms(1) by (simp add: ek_mic_def frame_fields_def)
  have "drop 97 f = drop 16 (drop 81 f)" "drop 99 f = drop 18 (drop 81 f)" by simp_all
  then have d: "drop 97 f = WPA_PUT_BE16 dlen @ data" "drop 99 f = data"
    using m assms(1) by (simp_all add: frame_fields_def)
  show n: "ek_data_length f = unat dlen" by (simp add: ek_data_length_def d(1) GET_PUT_BE16)
  show "ek_data f = take (unat dlen) data" by (simp add: ek_data_def n d(2))
qed

lemma blit_middle: "length m = length z \<Longrightarrow> blit (a @ m @ b) (length a) z = a @ z @ b"
  by (simp add: blit_def)

lemma frame_zero_mic:
  assumes "frame_fields replay nonce iv rsc mic"
  shows "blit (eapol_key_frame version ty info klen replay nonce iv rsc mic dlen data) 81 (replicate 16 0) =
    eapol_key_frame version ty info klen replay nonce iv rsc (replicate 16 0) dlen data"
proof -
  let ?m = "[version, 3] @ WPA_PUT_BE16 (word_of_nat (95 + length data)) @ [ty] @ WPA_PUT_BE16 info @
     WPA_PUT_BE16 klen @ replay @ nonce @ iv @ rsc @ replicate 8 0"
  have l: "length ?m = 81" "length mic = 16" using assms by (simp_all add: frame_fields_def)
  have "blit (?m @ mic @ WPA_PUT_BE16 dlen @ data) (length ?m) (replicate 16 0) =
      ?m @ replicate 16 0 @ WPA_PUT_BE16 dlen @ data"
    by (rule blit_middle) (simp add: l(2))
  then show ?thesis unfolding eapol_key_frame_def using l(1) by simp
qed

section \<open>What is sent\<close>

text \<open>The version bits of the key information word are the version the frame was made for.\<close>

lemma version_mask:
  assumes "key_info AND WPA_KEY_INFO_TYPE_MASK = 0" and "keyidx < 4"
  shows "send_key_info sm key_info (eapol_version_of sm 0) keyidx encr AND WPA_KEY_INFO_TYPE_MASK = eapol_version_of sm 0"
proof -
  have k: "push_bit 4 (word_of_nat keyidx :: u16) AND 7 = 0"
  proof -
    have "keyidx = 0 \<or> keyidx = 1 \<or> keyidx = 2 \<or> keyidx = 3" using assms(2) by auto
    then show ?thesis by auto
  qed
  have v: "eapol_version_of sm 0 AND 7 = eapol_version_of sm 0"
    by (simp add: eapol_version_of_def key_info_consts)
  have d: "(x OR y) AND (7 :: u16) = (x AND 7) OR (y AND 7)" for x y by (rule bit.conj_disj_distrib2)
  show ?thesis using assms(1) k v
    unfolding send_key_info_def key_info_consts d by (simp split: if_split)
qed

lemma keeps_flag:
  assumes "info_has key_info WPA_KEY_INFO_MIC"
  shows "info_has (send_key_info sm key_info version keyidx encr) WPA_KEY_INFO_MIC"
proof -
  have "(key_info OR x) AND m \<noteq> 0" if "key_info AND m \<noteq> 0" for x m :: u16
  proof
    assume "(key_info OR x) AND m = 0"
    then have "key_info AND ((key_info OR x) AND m) = 0" by simp
    then have "(key_info AND (key_info OR x)) AND m = 0" by (simp only: and.assoc)
    moreover have "key_info AND (key_info OR x) = key_info" by simp
    ultimately show False using that by simp
  qed
  then show ?thesis using assms by (simp add: send_key_info_def info_has_def)
qed

text \<open>What the keyed hashes promise: a result, of the size of the digest.\<close>

definition mic_primitives :: "wpa_env \<Rightarrow> bool" where
  "mic_primitives env \<longleftrightarrow>
     (\<forall>k d. (\<exists>m. hmac_md5 env k d = Some m \<and> length m = 16) \<and>
            (\<exists>m. hmac_sha1 env k d = Some m \<and> length m = 20) \<and>
            (\<exists>m. omac1_aes_128 env k d = Some m \<and> length m = 16))"

lemma mic_defined:
  assumes "mic_primitives env"
  obtains m where "wpa_eapol_key_mic env key (eapol_version_of sm 0) buf = Some m" "length m = 16"
proof -
  have p: "\<exists>m. hmac_md5 env key buf = Some m \<and> length m = 16" "\<exists>m. hmac_sha1 env key buf = Some m \<and> length m = 20"
    "\<exists>m. omac1_aes_128 env key buf = Some m \<and> length m = 16"
    using assms by (simp_all add: mic_primitives_def)
  have "\<exists>m. wpa_eapol_key_mic env key (eapol_version_of sm 0) buf = Some m \<and> length m = 16"
    using p by (auto simp: wpa_eapol_key_mic_def eapol_version_of_def key_info_consts)
  then show thesis using that by blast
qed

text \<open>The receiver's view of key data that was wrapped: the elements and their padding.\<close>

definition padded :: "u8 list \<Rightarrow> u8 list" where
  "padded k = k @ (if pad_len_of (length k) \<noteq> 0 then 0xdd # replicate (pad_len_of (length k) - 1) 0 else [])"

lemma padded_length: "length (padded k) = length k + pad_len_of (length k)" "8 dvd length (padded k)"
  by (auto simp: padded_def pad_len_of_def) presburger

definition ek_iv :: "u8 list \<Rightarrow> u8 list" where "ek_iv d = take 16 (drop 49 d)"

definition key_data_of :: "(u8 list \<Rightarrow> u8 list) \<Rightarrow> wpa_ptk \<Rightarrow> bool \<Rightarrow> u8 list \<Rightarrow> u8 list option" where
  "key_data_of dec ptk encr f =
     (if \<not> encr then Some (ek_data f)
      else if aes_version (ek_info f AND WPA_KEY_INFO_TYPE_MASK)
      then aes_unwrap dec (ek_data_length f div 8 - 1) (ek_data f)
      else Some (rc4_skip (ek_iv f @ kek ptk) 256 (ek_data f)))"

lemma frame_iv:
  assumes "frame_fields replay nonce iv rsc mic"
  shows "ek_iv (eapol_key_frame version ty info klen replay nonce iv rsc mic dlen data) = iv"
proof -
  let ?m = "[version, 3] @ WPA_PUT_BE16 (word_of_nat (95 + length data)) @ [ty] @ WPA_PUT_BE16 info @
     WPA_PUT_BE16 klen @ replay @ nonce"
  have l: "length ?m = 49" using assms by (simp add: frame_fields_def)
  have "drop (length ?m) (?m @ iv @ rsc @ replicate 8 0 @ mic @ WPA_PUT_BE16 dlen @ data) =
      iv @ rsc @ replicate 8 0 @ mic @ WPA_PUT_BE16 dlen @ data" by (rule append_eq_conv_conj [THEN iffD1, THEN conjunct2, symmetric, OF refl])
  then show ?thesis using assms l by (simp add: ek_iv_def eapol_key_frame_def frame_fields_def)
qed

lemma rc4_twice: "rc4_skip key skip (rc4_skip key skip data) = data" "length (rc4_skip key skip data) = length data"
  by (simp_all add: rc4_skip_def Let_def case_prod_beta rc4_apply_involution rc4_apply_length)

text \<open>The key data field as it leaves and as it arrives.\<close>

lemma send_key_data_Some:
  assumes "aes_encrypt_init env (kek ptk) = Some enc"
  shows "send_key_data env ptk version (Some kde) encr ctr =
    Some (if \<not> encr then (replicate 16 0, length kde, kde, ctr)
      else if aes_version version
      then (replicate 16 0, length (padded kde) + 8, aes_wrap enc (length (padded kde) div 8) (padded kde), ctr)
      else (take 16 (drop 16 ctr), length kde, rc4_skip (take 16 (drop 16 ctr) @ kek ptk) 256 kde, inc_byte_array ctr 32))"
  using assms by (simp only: send_key_data_def padded_def Let_def option.case if_distrib [of Some] split: if_split)

lemma send_key_data_read:
  assumes "send_key_data env ptk version (Some kde) encr ctr = Some (iv, dlen, data, ctr')"
    and "aes_encrypt_init env (kek ptk) = Some enc" "block_inverse enc dec" "length ctr = 32"
  shows "length iv = 16" "dlen = length data" "length data \<le> length kde + 15"
    "(if \<not> encr then Some data
      else if aes_version version then aes_unwrap dec (length data div 8 - 1) data
      else Some (rc4_skip (iv @ kek ptk) 256 data)) = Some (if encr \<and> aes_version version then padded kde else kde)"
proof -
  obtain n where n: "length (padded kde) = 8 * n" using padded_length(2) [of kde] by (auto elim: dvdE)
  have p: "pad_len_of (length kde) \<le> 7" by (simp add: pad_len_of_def) linarith
  note w = aes_unwrap_wrap [OF assms(3) n]
  have q: "aes_unwrap dec (length (aes_wrap enc n (padded kde)) div 8 - Suc 0) (aes_wrap enc n (padded kde)) = Some (padded kde)"
    using w by simp
  show "length iv = 16" "dlen = length data" "length data \<le> length kde + 15"
    using assms(1,4) w n p padded_length(1) [of kde]
    by (auto simp: send_key_data_Some [OF assms(2)] rc4_twice split: if_splits)
  show "(if \<not> encr then Some data
      else if aes_version version then aes_unwrap dec (length data div 8 - 1) data
      else Some (rc4_skip (iv @ kek ptk) 256 data)) = Some (if encr \<and> aes_version version then padded kde else kde)"
    using assms(1) q n by (auto simp: send_key_data_Some [OF assms(2)] rc4_twice split: if_splits)
qed

lemma inc_byte_array_length: "length c = n \<Longrightarrow> length (inc_byte_array c n) = n"
  using inc_loop_val [of n c] by (auto simp: inc_byte_array_def)

section \<open>Properties\<close>

text \<open>C21. A key frame that the authenticator protects is one that a station holding the same pairwise key
  accepts and can read.  Exactly one frame is sent; its MIC is correct under the key; its replay
  counter is the next one and its nonce the given one; and its key data, decrypted the way the
  version bits of the frame prescribe, are the elements that were to be sent, with the padding of the key
  wrap.  The keyed hashes return digests of their size and the block cipher is invertible.\<close>

theorem sent_frame_accepted:
  assumes "PTK_valid (c_sm c)" and "info_has info WPA_KEY_INFO_MIC" and "info AND WPA_KEY_INFO_TYPE_MASK = 0"
    and "keyidx < 4" and "length nonce = 32" and "length rsc = 8" and "length kde \<le> 1000"
    and "length (counter (key_replay (c_sm c) ! 0)) = 8" and "length (Counter (c_grp c)) = 32"
    and "mic_primitives env" and "aes_encrypt_init env (kek (PTK (c_sm c))) = Some enc" and "block_inverse enc dec"
  shows "\<exists>f. hist (wpa_send_eapol_frame env info (Some rsc) (Some nonce) (Some kde) keyidx encr 0 c) =
      hist c @ [Set_eapol (sta_addr (c_sm c)) WPA_EAPOL_inc_EapolFramesTx True,
                Send_eapol (sta_addr (c_sm c)) f (pairwise_set (c_sm c))] \<and>
    wpa_verify_key_mic env (PTK (c_sm c)) f \<and>
    ek_replay f = inc_byte_array (counter (key_replay (c_sm c) ! 0)) 8 \<and> ek_nonce f = nonce \<and>
    key_data_of dec (PTK (c_sm c)) encr f =
      Some (if encr \<and> aes_version (eapol_version_of (c_sm c) 0) then padded kde else kde)"
proof -
  let ?sm = "c_sm c" let ?v = "eapol_version_of ?sm 0"
  let ?info = "send_key_info ?sm info ?v keyidx encr"
  let ?ctr = "inc_byte_array (counter (key_replay ?sm ! 0)) 8"
  let ?klen = "if info_has ?info WPA_KEY_INFO_SMK_MESSAGE then 0 else word_of_nat (wpa_cipher_key_len
    (if info_has info WPA_KEY_INFO_KEY_TYPE then pairwise ?sm else wpa_group_cipher (conf env))) :: u16"
  let ?ty = "if sm_wpa ?sm = WPA_VERSION_WPA2 then EAPOL_KEY_TYPE_RSN else EAPOL_KEY_TYPE_WPA"
  obtain iv dlen data ctr' where d: "send_key_data env (PTK ?sm) ?v (Some kde) encr (Counter (c_grp c)) = Some (iv, dlen, data, ctr')"
    unfolding send_key_data_Some [OF assms(11)] by (metis prod_cases4)
  note r = send_key_data_read [OF d assms(11,12,9)]
  let ?f = "\<lambda>mic. eapol_key_frame (eapol_version (conf env)) ?ty ?info ?klen ?ctr nonce iv rsc mic (word_of_nat dlen) data"
  obtain m where m: "wpa_eapol_key_mic env (kck (PTK ?sm)) ?v (?f (replicate 16 0)) = Some m" "length m = 16"
    using mic_defined [OF assms(10)] by blast
  have flds: "frame_fields ?ctr nonce iv rsc m"
    using assms(5,6) r(1) m(2) inc_byte_array_length [OF assms(8)] by (simp add: frame_fields_def)
  have dl: "unat (word_of_nat dlen :: u16) = length data" using r(2,3) assms(7) by (simp add: unat_of_nat)
  define F where "F = ?f m"
  note fr = frame_read [OF flds F_def]
  have ver: "ek_info F AND WPA_KEY_INFO_TYPE_MASK = ?v" using version_mask [OF assms(3,4)] fr(3) by simp
  have iv: "ek_iv F = iv" unfolding F_def by (rule frame_iv [OF flds])
  have z: "blit F 81 (replicate 16 0) = ?f (replicate 16 0)" unfolding F_def by (rule frame_zero_mic [OF flds])
  have "wpa_verify_key_mic env (PTK ?sm) F"
    using m fr(1,6) ver unfolding wpa_verify_key_mic_def z by simp
  moreover have "key_data_of dec (PTK ?sm) encr F = Some (if encr \<and> aes_version ?v then padded kde else kde)"
    using r(4) unfolding key_data_of_def ver fr(7,8) dl iv by (simp only: take_all_iff order_refl take_all)
  moreover have "hist (wpa_send_eapol_frame env info (Some rsc) (Some nonce) (Some kde) keyidx encr 0 c) =
      hist c @ [Set_eapol (sta_addr ?sm) WPA_EAPOL_inc_EapolFramesTx True, Send_eapol (sta_addr ?sm) F (pairwise_set ?sm)]"
    using d m F_def assms(1) keeps_flag [OF assms(2)]
    by (simp add: wpa_send_eapol_frame_def Let_def transmit_def usm_def ugrp_def wlog_def wpa_auth_set_eapol_def
        replay_next_def)
  ultimately show ?thesis using fr(4,5) by (intro exI [of _ F] conjI) simp_all
qed

text \<open>The example environment, with octet reversal for the block cipher.\<close>

definition example_ctx :: wctx where
  "example_ctx = \<lparr>c_sm = (sm_zero [2, 0, 0, 0, 0, 2] 0)\<lparr>PTK_valid := True, PTK := replicate 48 1, sm_wpa := WPA_VERSION_WPA2\<rparr>,
     c_grp = \<lparr>vlan_id = 0, GInit = False, GKeyDoneStations = 0, GTKReKey = False, GTK_len = 16, GN = 1, GM = 2,
       GTKAuthenticator = True, Counter = replicate 32 0, wpa_group_state = WPA_GROUP_SETKEYSDONE,
       GMK = replicate 32 0, GTK = replicate 2 (replicate 32 3), GNonce = replicate 32 0, grp_changed = False,
       first_sta_seen = True, reject_4way_hs_for_entropy = False\<rparr>,
     handshake_failures = 0, auth_remote_mic_failures = 0, hist = []\<rparr>"

theorem sent_frame_accepted_witness:
  "\<exists>f. wpa_verify_key_mic (example_env\<lparr>aes_encrypt_init := \<lambda>k. Some rev\<rparr>) (PTK (c_sm example_ctx)) f \<and>
    key_data_of rev (PTK (c_sm example_ctx)) True f = Some (padded [0xdd, 4, 1, 2, 3, 4])"
proof -
  let ?env = "example_env\<lparr>aes_encrypt_init := \<lambda>k. Some rev\<rparr>" and ?c = example_ctx
  have a: "aes_version (eapol_version_of (c_sm ?c) 0)"
    by (simp add: eapol_version_of_def aes_version_def example_ctx_def sm_zero_def wpa_use_aes_cmac_def
        wpa_key_mgmt_ft_def has_bits_def cipher_consts)
  have "\<exists>f. hist (wpa_send_eapol_frame ?env (WPA_KEY_INFO_MIC OR WPA_KEY_INFO_ACK) (Some (replicate 8 0))
      (Some (replicate 32 0)) (Some [0xdd, 4, 1, 2, 3, 4]) 1 True 0 ?c) =
      hist ?c @ [Set_eapol (sta_addr (c_sm ?c)) WPA_EAPOL_inc_EapolFramesTx True,
                Send_eapol (sta_addr (c_sm ?c)) f (pairwise_set (c_sm ?c))] \<and>
    wpa_verify_key_mic ?env (PTK (c_sm ?c)) f \<and>
    ek_replay f = inc_byte_array (counter (key_replay (c_sm ?c) ! 0)) 8 \<and> ek_nonce f = replicate 32 0 \<and>
    key_data_of rev (PTK (c_sm ?c)) True f =
      Some (if True \<and> aes_version (eapol_version_of (c_sm ?c) 0) then padded [0xdd, 4, 1, 2, 3, 4] else [0xdd, 4, 1, 2, 3, 4])"
    by (rule sent_frame_accepted)
      (auto simp: example_ctx_def sm_zero_def info_has_def key_info_consts rc_zero_def example_env_def
        mic_primitives_def block_inverse_def)
  then show ?thesis using a by auto
qed

end
