(* ===== verification/Wpa_Ptk.thy ===== *)
theory Wpa_Ptk
  imports Wpa_State
begin

text \<open>
  The station machines of the WPA authenticator (\<^verbatim>\<open>src/ap/wpa_auth.c\<close>): the states of the 4-way
  handshake machine \<^verbatim>\<open>WPA_PTK\<close> and of the group key machine \<^verbatim>\<open>WPA_PTK_GROUP\<close> with their step
  functions, the group key functions they call, and the reception of EAPOL-Key frames up to the
  point where the machines are stepped.  Every state is entered through \<^verbatim>\<open>SM_ENTER\<close>, which always
  marks the machine as changed.
\<close>

section \<open>Leaving and requesting keys\<close>

definition wpa_request_new_ptk :: "wctx \<Rightarrow> wctx" where
  "wpa_request_new_ptk = usm (\<lambda>sm. sm\<lparr>PTKRequest := True, PTK_valid := False\<rparr>)"

definition wpa_remove_ptk :: "wpa_env \<Rightarrow> wctx \<Rightarrow> wctx" where
  "wpa_remove_ptk env c =
     (let c = usm (\<lambda>sm. sm\<lparr>PTK_valid := False, PTK := ptk_zero\<rparr>) c;
          (_, c) = wpa_auth_set_key env 0 WPA_ALG_NONE (sta_addr (c_sm c)) 0 [] c;
          c = usm (pairwise_set_update (\<lambda>_. False)) c
      in wlog (Cancel_timeout (T_rekey_ptk (sta_addr (c_sm c)))) c)"

datatype wpa_event =
    WPA_AUTH | WPA_ASSOC | WPA_DISASSOC | WPA_DEAUTH | WPA_REAUTH | WPA_REAUTH_EAPOL | WPA_ASSOC_FT

text \<open>The end of \<^verbatim>\<open>wpa_auth_sm_event\<close>, before its call of the step function.\<close>

definition sm_event_tail :: "wpa_env \<Rightarrow> wpa_event \<Rightarrow> wctx \<Rightarrow> wctx" where
  "sm_event_tail env event c =
     (let c = usm (\<lambda>sm. sm\<lparr>ft_completed := False, PTK_valid := False, PTK := ptk_zero\<rparr>) c
      in if event \<noteq> WPA_REAUTH_EAPOL then wpa_remove_ptk env c else c)"

definition wpa_cipher_valid_pairwise :: "int \<Rightarrow> bool" where
  "wpa_cipher_valid_pairwise cipher \<longleftrightarrow>
     cipher = WPA_CIPHER_CCMP \<or> cipher = WPA_CIPHER_GCMP \<or> cipher = WPA_CIPHER_TKIP"

text \<open>\<^verbatim>\<open>wpa_ft_install_ptk\<close> of \<^verbatim>\<open>wpa_auth_ft.c\<close>.\<close>

definition wpa_ft_install_ptk :: "wpa_env \<Rightarrow> wctx \<Rightarrow> wctx" where
  "wpa_ft_install_ptk env c =
     (let sm = c_sm c in
      if \<not> wpa_cipher_valid_pairwise (pairwise sm) then c
      else
        let (r, c) = wpa_auth_set_key env 0 (wpa_cipher_to_alg (pairwise sm)) (sta_addr sm) 0
              (take (wpa_cipher_key_len (pairwise sm)) (tk1 (PTK sm))) c
        in if r \<noteq> 0 then c else usm (pairwise_set_update (\<lambda>_. True)) c)"

text \<open>\<^verbatim>\<open>ap_sta_disconnect\<close> of \<^verbatim>\<open>sta_info.c\<close> as the authenticator sees it: the frame is sent and the event
  \<^verbatim>\<open>WPA_DEAUTH\<close> comes back to the same machine.  Inside a step the nested call of the step function
  returns at once.\<close>

definition wpa_sta_disconnect :: "wpa_env \<Rightarrow> wctx \<Rightarrow> wctx" where
  "wpa_sta_disconnect env c =
     (let c = wlog (Sta_deauth (sta_addr (c_sm c))) c;
          c = usm (DeauthenticationRequest_update (\<lambda>_. True)) c
      in sm_event_tail env WPA_DEAUTH c)"

section \<open>Group keys\<close>

definition wpa_group_init_gmk_and_counter :: "wpa_env \<Rightarrow> wctx \<Rightarrow> int \<times> wctx" where
  "wpa_group_init_gmk_and_counter env c =
     (let (r, c) = get_random env 32 c in
      case r of
        None \<Rightarrow> (-1, c)
      | Some gmk \<Rightarrow>
          let c = ugrp (GMK_update (\<lambda>_. gmk)) c;
              buf = own_addr env @ ntp_timestamp env (hist c) @ group_ptr env (vlan_id (c_grp c));
              (r, c) = get_random env 32 c
          in case r of
               None \<Rightarrow> (-1, c)
             | Some rkey \<Rightarrow>
                 (case sha1_prf env rkey ''Init Counter'' buf 32 of
                    None \<Rightarrow> (-1, c)
                  | Some ctr \<Rightarrow> (0, ugrp (Counter_update (\<lambda>_. ctr)) c)))"

definition wpa_gtk_update :: "wpa_env \<Rightarrow> wctx \<Rightarrow> int \<times> wctx" where
  "wpa_gtk_update env c =
     (let c = ugrp (\<lambda>g. g\<lparr>GNonce := Counter g, Counter := inc_byte_array (Counter g) 32\<rparr>) c;
          g = c_grp c;
          ((ret, gtk), c) = wpa_gmk_to_gtk env (GMK g) ''Group key expansion'' (own_addr env) (GNonce g)
            (GTK g ! (GN g - 1)) (GTK_len g) c
      in (ret, ugrp (\<lambda>g. g\<lparr>GTK := (GTK g)[GN g - 1 := gtk]\<rparr>) c))"

definition broadcast_ether_addr :: macaddr where "broadcast_ether_addr = replicate 6 0xff"

definition wpa_group_config_group_keys :: "wpa_env \<Rightarrow> wctx \<Rightarrow> int \<times> wctx" where
  "wpa_group_config_group_keys env c =
     (let g = c_grp c;
          (r, c) = wpa_auth_set_key env (vlan_id g) (wpa_cipher_to_alg (wpa_group_cipher (conf env)))
            broadcast_ether_addr (GN g) (take (GTK_len g) (GTK g ! (GN g - 1))) c
      in (if r < 0 then -1 else 0, c))"

definition wpa_group_ensure_init :: "wpa_env \<Rightarrow> wctx \<Rightarrow> wctx" where
  "wpa_group_ensure_init env c =
     (if first_sta_seen (c_grp c) then c
      else
        let c = (if \<not> random_pool_ready env (hist c)
                 then ugrp (reject_4way_hs_for_entropy_update (\<lambda>_. True)) c
                 else ugrp (\<lambda>g. g\<lparr>first_sta_seen := True, reject_4way_hs_for_entropy := False\<rparr>) c);
            (_, c) = wpa_group_init_gmk_and_counter env c;
            (_, c) = wpa_gtk_update env c;
            (_, c) = wpa_group_config_group_keys env c
        in c)"

section \<open>States of the 4-way handshake\<close>

definition dot11RSNAConfigPairwiseUpdateCount :: int where "dot11RSNAConfigPairwiseUpdateCount = 4"
definition dot11RSNAConfigGroupUpdateCount :: int where "dot11RSNAConfigGroupUpdateCount = 4"

definition wpa_ptk_entry :: "wpa_ptk_enum \<Rightarrow> wctx \<Rightarrow> wctx" where
  "wpa_ptk_entry st = usm (\<lambda>sm. sm\<lparr>sm_changed := True, wpa_ptk_state := st\<rparr>)"

text \<open>Withdraw the station from the count of stations that still have to confirm a group key.\<close>

definition drop_group_update :: "wctx \<Rightarrow> wctx" where
  "drop_group_update c =
     (let c = (if GUpdateStationKeys (c_sm c) then ugrp (GKeyDoneStations_update (\<lambda>n. n - 1)) c else c)
      in usm (GUpdateStationKeys_update (\<lambda>_. False)) c)"

definition sm_WPA_PTK_INITIALIZE_Enter :: "wpa_env \<Rightarrow> wctx \<Rightarrow> wctx" where
  "sm_WPA_PTK_INITIALIZE_Enter env c =
     (let c = wpa_ptk_entry WPA_PTK_INITIALIZE c;
          c = (if Init (c_sm c) then usm (sm_changed_update (\<lambda>_. False)) c else c);
          c = usm (keycount_update (\<lambda>_. 0)) c;
          c = drop_group_update c;
          c = (if sm_wpa (c_sm c) = WPA_VERSION_WPA then usm (PInitAKeys_update (\<lambda>_. False)) c else c);
          c = usm (Pair_update (\<lambda>_. True)) c;
          c = wpa_auth_set_eapol WPA_EAPOL_portEnabled False c;
          c = wpa_remove_ptk env c;
          c = wpa_auth_set_eapol WPA_EAPOL_portValid False c;
          c = usm (TimeoutCtr_update (\<lambda>_. 0)) c
      in if wpa_key_mgmt_wpa_psk (sm_key_mgmt (c_sm c))
         then wpa_auth_set_eapol WPA_EAPOL_authorized False c else c)"

definition sm_WPA_PTK_DISCONNECT_Enter :: "wpa_env \<Rightarrow> wctx \<Rightarrow> wctx" where
  "sm_WPA_PTK_DISCONNECT_Enter env c =
     wpa_sta_disconnect env (usm (Disconnect_update (\<lambda>_. False)) (wpa_ptk_entry WPA_PTK_DISCONNECT c))"

definition sm_WPA_PTK_DISCONNECTED_Enter :: "wctx \<Rightarrow> wctx" where
  "sm_WPA_PTK_DISCONNECTED_Enter c =
     usm (DeauthenticationRequest_update (\<lambda>_. False)) (wpa_ptk_entry WPA_PTK_DISCONNECTED c)"

definition sm_WPA_PTK_AUTHENTICATION_Enter :: "wctx \<Rightarrow> wctx" where
  "sm_WPA_PTK_AUTHENTICATION_Enter c =
     (let c = wpa_ptk_entry WPA_PTK_AUTHENTICATION c;
          c = usm (\<lambda>sm. sm\<lparr>PTK := ptk_zero, PTK_valid := False\<rparr>) c;
          c = wpa_auth_set_eapol WPA_EAPOL_portControl_Auto True c;
          c = wpa_auth_set_eapol WPA_EAPOL_portEnabled True c
      in usm (AuthenticationRequest_update (\<lambda>_. False)) c)"

definition sm_WPA_PTK_AUTHENTICATION2_Enter :: "wpa_env \<Rightarrow> wctx \<Rightarrow> wctx" where
  "sm_WPA_PTK_AUTHENTICATION2_Enter env c =
     (let c = wpa_ptk_entry WPA_PTK_AUTHENTICATION2 c;
          c = wpa_group_ensure_init env c;
          c = usm (ReAuthenticationRequest_update (\<lambda>_. False)) c;
          (r, c) = get_random env 32 c
      in case r of
           None \<Rightarrow> usm (Disconnect_update (\<lambda>_. True)) c
         | Some nonce \<Rightarrow> usm (\<lambda>sm. sm\<lparr>ANonce := nonce, TimeoutCtr := 0\<rparr>) c)"

definition sm_WPA_PTK_INITPMK_Enter :: "wpa_env \<Rightarrow> wctx \<Rightarrow> wctx" where
  "sm_WPA_PTK_INITPMK_Enter env c =
     (let c = wpa_ptk_entry WPA_PTK_INITPMK c;
          c = usm (xxkey_update (\<lambda>_. [])) c;
          c = (case pmksa (c_sm c) of
                 Some e \<Rightarrow> usm (PMK_update (\<lambda>_. pm_pmk e)) c
               | None \<Rightarrow>
                   (case get_msk env (hist c) (sta_addr (c_sm c)) of
                      Some key \<Rightarrow>
                        let msk = take 64 key;
                            c = usm (PMK_update (\<lambda>_. take 32 msk)) c
                        in if length msk \<ge> 64 then usm (xxkey_update (\<lambda>_. drop 32 msk)) c else c
                    | None \<Rightarrow> c));
          c = usm (req_replay_counter_used_update (\<lambda>_. False)) c
      in wpa_auth_set_eapol WPA_EAPOL_keyRun False c)"

definition sm_WPA_PTK_INITPSK_Enter :: "wpa_env \<Rightarrow> wctx \<Rightarrow> wctx" where
  "sm_WPA_PTK_INITPSK_Enter env c =
     (let c = wpa_ptk_entry WPA_PTK_INITPSK c;
          c = (case first_psk env c of
                 Some psk \<Rightarrow> usm (\<lambda>sm. sm\<lparr>PMK := psk, xxkey := psk\<rparr>) c
               | None \<Rightarrow> c)
      in usm (req_replay_counter_used_update (\<lambda>_. False)) c)"

definition ptkstart_pmkid :: "wpa_env \<Rightarrow> wpa_sm \<Rightarrow> u8 list option" where
  "ptkstart_pmkid env sm =
     (if sm_wpa sm = WPA_VERSION_WPA2 \<and> wpa_key_mgmt_wpa_ieee8021x (sm_key_mgmt sm) then
        Some ([WLAN_EID_VENDOR_SPECIFIC, 4 + 16] @ WPA_PUT_BE32 (rsn_key_data 4) @
          (case pmksa sm of
             Some e \<Rightarrow> pm_pmkid e
           | None \<Rightarrow> rsn_pmkid env (PMK sm) (own_addr env) (sta_addr sm)))
      else None)"

definition sm_WPA_PTK_PTKSTART_Enter :: "wpa_env \<Rightarrow> wctx \<Rightarrow> wctx" where
  "sm_WPA_PTK_PTKSTART_Enter env c =
     (let c = wpa_ptk_entry WPA_PTK_PTKSTART c;
          c = usm (\<lambda>sm. sm\<lparr>PTKRequest := False, TimeoutEvt := False, TimeoutCtr := TimeoutCtr sm + 1\<rparr>) c
      in if TimeoutCtr (c_sm c) > dot11RSNAConfigPairwiseUpdateCount then c
         else wpa_send_eapol env (WPA_KEY_INFO_ACK OR WPA_KEY_INFO_KEY_TYPE) None
                (Some (ANonce (c_sm c))) (ptkstart_pmkid env (c_sm c)) 0 False c)"

text \<open>Look for a PMK under which the received frame has a correct MIC: the candidate PSKs in order, or
  the PMK of the machine.\<close>

definition candidate_pmks :: "wpa_env \<Rightarrow> wctx \<Rightarrow> u8 list list" where
  "candidate_pmks env c =
     (if wpa_key_mgmt_wpa_psk (sm_key_mgmt (c_sm c)) then get_psk env (hist c) (sta_addr (c_sm c))
      else [PMK (c_sm c)])"

fun try_pmks :: "wpa_env \<Rightarrow> u8 list list \<Rightarrow> wpa_sm \<Rightarrow> (u8 list \<times> wpa_ptk) option \<times> wpa_sm" where
  "try_pmks env [] sm = (None, sm)"
| "try_pmks env (pmk # pmks) sm =
     (let (ptk, sm) = wpa_derive_ptk env pmk sm in
      if wpa_verify_key_mic env ptk (last_rx_eapol_key sm) then (Some (pmk, ptk), sm)
      else try_pmks env pmks sm)"

definition sm_WPA_PTK_PTKCALCNEGOTIATING_Enter :: "wpa_env \<Rightarrow> wctx \<Rightarrow> wctx" where
  "sm_WPA_PTK_PTKCALCNEGOTIATING_Enter env c =
     (let c = wpa_ptk_entry WPA_PTK_PTKCALCNEGOTIATING c;
          c = usm (\<lambda>sm. sm\<lparr>EAPOLKeyReceived := False, update_snonce := False\<rparr>) c;
          psk = wpa_key_mgmt_wpa_psk (sm_key_mgmt (c_sm c));
          (found, sm) = try_pmks env (candidate_pmks env c) (c_sm c);
          c = c\<lparr>c_sm := sm\<rparr>
      in case found of
           None \<Rightarrow> c
         | Some (pmk, ptk) \<Rightarrow>
             if sm_wpa sm = WPA_VERSION_WPA2 \<and> wpa_key_mgmt_ft (sm_key_mgmt sm) \<and>
                sup_pmk_r1_name sm \<noteq> pmk_r1_name sm
             then c
             else
               let c = usm (pending_1_of_4_timeout_update (\<lambda>_. False)) c;
                   c = wlog (Cancel_timeout (T_send_eapol_timeout (sta_addr sm))) c;
                   c = (if psk then usm (PMK_update (\<lambda>_. pmk)) c else c)
               in usm (\<lambda>sm. sm\<lparr>MICVerified := True, PTK := ptk, PTK_valid := True\<rparr>) c)"

definition sm_WPA_PTK_PTKCALCNEGOTIATING2_Enter :: "wctx \<Rightarrow> wctx" where
  "sm_WPA_PTK_PTKCALCNEGOTIATING2_Enter c =
     usm (TimeoutCtr_update (\<lambda>_. 0)) (wpa_ptk_entry WPA_PTK_PTKCALCNEGOTIATING2 c)"

text \<open>The element of message 3/4: for a WPA-only station the RSN element in front is left out.\<close>

definition msg3_wpa_ie :: "wpa_env \<Rightarrow> wpa_sm \<Rightarrow> u8 list" where
  "msg3_wpa_ie env sm =
     (let ie = own_wpa_ie env in
      if sm_wpa sm = WPA_VERSION_WPA \<and> has_bits (conf_wpa_proto (conf env)) WPA_PROTO_RSN \<and>
         length ie > unat (ie ! 1) + 2 \<and> ie ! 0 = WLAN_EID_RSN
      then let ie = drop (unat (ie ! 1) + 2) ie in take (unat (ie ! 1) + 2) ie
      else ie)"

definition gtk_kde :: "nat \<Rightarrow> u8 list \<Rightarrow> u8 list" where
  "gtk_kde keyidx gtk = wpa_add_kde (rsn_key_data 1) [word_of_nat keyidx AND 3, 0] gtk"

definition ft_ties :: "wpa_env \<Rightarrow> u8 list" where
  "ft_ties env = [56, 5, 1] @ WPA_PUT_LE32 (reassociation_deadline env) @
     [56, 5, 2] @ WPA_PUT_LE32 (r0_key_lifetime env * 60)"

text \<open>The key data of message 3/4.  \<^term>\<open>None\<close> when an element cannot be built, in which case no frame
  is sent.\<close>

definition msg3_kde :: "wpa_env \<Rightarrow> wpa_sm \<Rightarrow> nat \<Rightarrow> u8 list option \<Rightarrow> u8 list option" where
  "msg3_kde env sm keyidx gtk =
     (let ie = msg3_wpa_ie env sm;
          gtk_part = (case gtk of None \<Rightarrow> [] | Some k \<Rightarrow> gtk_kde keyidx k)
      in if \<not> wpa_key_mgmt_ft (sm_key_mgmt sm) then Some (ie @ gtk_part)
         else
           let room = length gtk_part + 2 + 16 + 300 in
           case wpa_insert_pmkid (ie @ uninit env room) (length ie) (pmk_r1_name sm) of
             None \<Rightarrow> None
           | Some (added, buf) \<Rightarrow>
               let kde = take (length ie + added) buf @ gtk_part in
               (case write_ftie env (length ie + room - length kde) of
                  None \<Rightarrow> None
                | Some ftie \<Rightarrow> Some (kde @ ftie @ ft_ties env)))"

definition send_msg3 :: "wpa_env \<Rightarrow> bool \<Rightarrow> u8 list option \<Rightarrow> u8 list option \<Rightarrow> nat \<Rightarrow> bool \<Rightarrow> wctx \<Rightarrow> wctx" where
  "send_msg3 env secure rsc gtk keyidx encr c =
     (case msg3_kde env (c_sm c) keyidx gtk of
        None \<Rightarrow> c
      | Some kde \<Rightarrow>
          wpa_send_eapol env
            ((if secure then WPA_KEY_INFO_SECURE else 0) OR WPA_KEY_INFO_MIC OR WPA_KEY_INFO_ACK OR
             WPA_KEY_INFO_INSTALL OR WPA_KEY_INFO_KEY_TYPE)
            rsc (Some (ANonce (c_sm c))) (Some kde) keyidx encr c)"

definition sm_WPA_PTK_PTKINITNEGOTIATING_Enter :: "wpa_env \<Rightarrow> wctx \<Rightarrow> wctx" where
  "sm_WPA_PTK_PTKINITNEGOTIATING_Enter env c =
     (let c = wpa_ptk_entry WPA_PTK_PTKINITNEGOTIATING c;
          c = usm (\<lambda>sm. sm\<lparr>TimeoutEvt := False, TimeoutCtr := TimeoutCtr sm + 1\<rparr>) c
      in if TimeoutCtr (c_sm c) > dot11RSNAConfigPairwiseUpdateCount then c
         else
           let gsm = c_grp c;
               rsc = (case get_seqnum env (hist c) (GN gsm) of Some r \<Rightarrow> r | None \<Rightarrow> replicate 8 0)
           in if sm_wpa (c_sm c) = WPA_VERSION_WPA2 then
                if disable_gtk (conf env) then
                  let (r, c) = get_random env (GTK_len gsm) c in
                  (case r of None \<Rightarrow> c
                   | Some dummy \<Rightarrow> send_msg3 env True (Some rsc) (Some dummy) (GN gsm) True c)
                else send_msg3 env True (Some rsc) (Some (take (GTK_len gsm) (GTK gsm ! (GN gsm - 1))))
                       (GN gsm) True c
              else send_msg3 env (rx_eapol_key_secure (c_sm c)) None None 0 False c)"

text \<open>The end of \<^verbatim>\<open>PTKINITDONE\<close>, after the pairwise key has been installed.\<close>

definition ptkinitdone_tail :: "wctx \<Rightarrow> wctx" where
  "ptkinitdone_tail c =
     (let c = wpa_auth_set_eapol WPA_EAPOL_portValid True c;
          c = wpa_auth_set_eapol WPA_EAPOL_keyAvailable False c;
          c = wpa_auth_set_eapol WPA_EAPOL_keyDone True c;
          c = (if sm_wpa (c_sm c) = WPA_VERSION_WPA
               then usm (PInitAKeys_update (\<lambda>_. True)) c
               else usm (has_GTK_update (\<lambda>_. True)) c)
      in wlog (Ft_push_pmk_r1 (sta_addr (c_sm c))) c)"

definition sm_WPA_PTK_PTKINITDONE_Enter :: "wpa_env \<Rightarrow> wctx \<Rightarrow> wctx" where
  "sm_WPA_PTK_PTKINITDONE_Enter env c =
     (let c = wpa_ptk_entry WPA_PTK_PTKINITDONE c;
          c = usm (EAPOLKeyReceived_update (\<lambda>_. False)) c;
          sm = c_sm c
      in if Pair sm then
           let (r, c) = wpa_auth_set_key env 0 (wpa_cipher_to_alg (pairwise sm)) (sta_addr sm) 0
                 (take (wpa_cipher_key_len (pairwise sm)) (tk1 (PTK sm))) c
           in if r \<noteq> 0 then wpa_sta_disconnect env c
              else
                let c = usm (pairwise_set_update (\<lambda>_. True)) c;
                    rk = wpa_ptk_rekey (conf env);
                    c = (if rk \<noteq> 0 then
                           wlog (Register_timeout (T_rekey_ptk (sta_addr sm)) (nat rk) 0)
                             (wlog (Cancel_timeout (T_rekey_ptk (sta_addr sm))) c)
                         else c);
                    c = (if wpa_key_mgmt_wpa_psk (sm_key_mgmt sm)
                         then wpa_auth_set_eapol WPA_EAPOL_authorized True c else c)
                in ptkinitdone_tail c
         else ptkinitdone_tail c)"

definition handshake_failure :: "wctx \<Rightarrow> wctx" where
  "handshake_failure = handshake_failures_update (\<lambda>n. n + 1)"

definition key_received :: "wpa_sm \<Rightarrow> bool \<Rightarrow> bool" where
  "key_received sm pw \<longleftrightarrow> EAPOLKeyReceived sm \<and> \<not> EAPOLKeyRequest sm \<and> EAPOLKeyPairwise sm = pw"

definition sm_WPA_PTK_Step :: "wpa_env \<Rightarrow> wctx \<Rightarrow> wctx" where
  "sm_WPA_PTK_Step env c =
     (let sm = c_sm c in
      if Init sm then sm_WPA_PTK_INITIALIZE_Enter env c
      else if Disconnect sm then sm_WPA_PTK_DISCONNECT_Enter env c
      else if DeauthenticationRequest sm then sm_WPA_PTK_DISCONNECTED_Enter c
      else if AuthenticationRequest sm then sm_WPA_PTK_AUTHENTICATION_Enter c
      else if ReAuthenticationRequest sm then sm_WPA_PTK_AUTHENTICATION2_Enter env c
      else if PTKRequest sm then sm_WPA_PTK_PTKSTART_Enter env c
      else case wpa_ptk_state sm of
        WPA_PTK_INITIALIZE \<Rightarrow> c
      | WPA_PTK_DISCONNECT \<Rightarrow> sm_WPA_PTK_DISCONNECTED_Enter c
      | WPA_PTK_DISCONNECTED \<Rightarrow> sm_WPA_PTK_INITIALIZE_Enter env c
      | WPA_PTK_AUTHENTICATION \<Rightarrow> sm_WPA_PTK_AUTHENTICATION2_Enter env c
      | WPA_PTK_AUTHENTICATION2 \<Rightarrow>
          if wpa_key_mgmt_wpa_ieee8021x (sm_key_mgmt sm) \<and>
             get_eapol env (hist c) (sta_addr sm) WPA_EAPOL_keyRun > 0
          then sm_WPA_PTK_INITPMK_Enter env c
          else if wpa_key_mgmt_wpa_psk (sm_key_mgmt sm) then sm_WPA_PTK_INITPSK_Enter env c
          else c
      | WPA_PTK_INITPMK \<Rightarrow>
          if get_eapol env (hist c) (sta_addr sm) WPA_EAPOL_keyAvailable > 0
          then sm_WPA_PTK_PTKSTART_Enter env c
          else sm_WPA_PTK_DISCONNECT_Enter env (handshake_failure c)
      | WPA_PTK_INITPSK \<Rightarrow>
          if first_psk env c \<noteq> None then sm_WPA_PTK_PTKSTART_Enter env c
          else sm_WPA_PTK_DISCONNECT_Enter env (handshake_failure c)
      | WPA_PTK_PTKSTART \<Rightarrow>
          if key_received sm True then sm_WPA_PTK_PTKCALCNEGOTIATING_Enter env c
          else if TimeoutCtr sm > dot11RSNAConfigPairwiseUpdateCount
          then sm_WPA_PTK_DISCONNECT_Enter env (handshake_failure c)
          else if TimeoutEvt sm then sm_WPA_PTK_PTKSTART_Enter env c
          else c
      | WPA_PTK_PTKCALCNEGOTIATING \<Rightarrow>
          if MICVerified sm then sm_WPA_PTK_PTKCALCNEGOTIATING2_Enter c
          else if key_received sm True then sm_WPA_PTK_PTKCALCNEGOTIATING_Enter env c
          else if TimeoutEvt sm then sm_WPA_PTK_PTKSTART_Enter env c
          else c
      | WPA_PTK_PTKCALCNEGOTIATING2 \<Rightarrow> sm_WPA_PTK_PTKINITNEGOTIATING_Enter env c
      | WPA_PTK_PTKINITNEGOTIATING \<Rightarrow>
          if update_snonce sm then sm_WPA_PTK_PTKCALCNEGOTIATING_Enter env c
          else if key_received sm True \<and> MICVerified sm then sm_WPA_PTK_PTKINITDONE_Enter env c
          else if TimeoutCtr sm > dot11RSNAConfigPairwiseUpdateCount
          then sm_WPA_PTK_DISCONNECT_Enter env (handshake_failure c)
          else if TimeoutEvt sm then sm_WPA_PTK_PTKINITNEGOTIATING_Enter env c
          else c
      | WPA_PTK_PTKINITDONE \<Rightarrow> c)"

section \<open>States of the group key handshake\<close>

definition wpa_ptk_group_entry :: "wpa_ptk_group_enum \<Rightarrow> wctx \<Rightarrow> wctx" where
  "wpa_ptk_group_entry st = usm (\<lambda>sm. sm\<lparr>sm_changed := True, wpa_ptk_group_state := st\<rparr>)"

definition sm_WPA_PTK_GROUP_IDLE_Enter :: "wctx \<Rightarrow> wctx" where
  "sm_WPA_PTK_GROUP_IDLE_Enter c =
     (let c = wpa_ptk_group_entry WPA_PTK_GROUP_IDLE c;
          c = (if Init (c_sm c) then usm (sm_changed_update (\<lambda>_. False)) c else c)
      in usm (GTimeoutCtr_update (\<lambda>_. 0)) c)"

definition send_group_msg1 :: "wpa_env \<Rightarrow> u8 list \<Rightarrow> u8 list \<Rightarrow> wctx \<Rightarrow> wctx" where
  "send_group_msg1 env rsc gtk c =
     (let gsm = c_grp c in
      wpa_send_eapol env
        (WPA_KEY_INFO_SECURE OR WPA_KEY_INFO_MIC OR WPA_KEY_INFO_ACK OR
         (if \<not> Pair (c_sm c) then WPA_KEY_INFO_INSTALL else 0))
        (Some rsc) (Some (GNonce gsm))
        (Some (if sm_wpa (c_sm c) = WPA_VERSION_WPA2 then gtk_kde (GN gsm) gtk else gtk))
        (GN gsm) True c)"

definition sm_WPA_PTK_GROUP_REKEYNEGOTIATING_Enter :: "wpa_env \<Rightarrow> wctx \<Rightarrow> wctx" where
  "sm_WPA_PTK_GROUP_REKEYNEGOTIATING_Enter env c =
     (let c = wpa_ptk_group_entry WPA_PTK_GROUP_REKEYNEGOTIATING c;
          c = usm (\<lambda>sm. sm\<lparr>GTimeoutCtr := GTimeoutCtr sm + 1\<rparr>) c
      in if GTimeoutCtr (c_sm c) > dot11RSNAConfigGroupUpdateCount then c
         else
           let c = usm (\<lambda>sm. sm\<lparr>PInitAKeys := (sm_wpa sm \<noteq> WPA_VERSION_WPA \<and> PInitAKeys sm),
                               TimeoutEvt := False\<rparr>) c;
               gsm = c_grp c;
               rsc = (if wpa_group_state gsm = WPA_GROUP_SETKEYSDONE
                      then (case get_seqnum env (hist c) (GN gsm) of
                              Some r \<Rightarrow> r | None \<Rightarrow> replicate 8 0)
                      else replicate 8 0)
           in if disable_gtk (conf env) then
                let (r, c) = get_random env (GTK_len gsm) c in
                (case r of None \<Rightarrow> c | Some dummy \<Rightarrow> send_group_msg1 env rsc dummy c)
              else send_group_msg1 env rsc (take (GTK_len gsm) (GTK gsm ! (GN gsm - 1))) c)"

definition sm_WPA_PTK_GROUP_REKEYESTABLISHED_Enter :: "wctx \<Rightarrow> wctx" where
  "sm_WPA_PTK_GROUP_REKEYESTABLISHED_Enter c =
     (let c = wpa_ptk_group_entry WPA_PTK_GROUP_REKEYESTABLISHED c;
          c = usm (EAPOLKeyReceived_update (\<lambda>_. False)) c;
          c = drop_group_update c
      in usm (\<lambda>sm. sm\<lparr>GTimeoutCtr := 0, has_GTK := True\<rparr>) c)"

definition sm_WPA_PTK_GROUP_KEYERROR_Enter :: "wctx \<Rightarrow> wctx" where
  "sm_WPA_PTK_GROUP_KEYERROR_Enter c =
     usm (Disconnect_update (\<lambda>_. True))
       (drop_group_update (wpa_ptk_group_entry WPA_PTK_GROUP_KEYERROR c))"

definition sm_WPA_PTK_GROUP_Step :: "wpa_env \<Rightarrow> wctx \<Rightarrow> wctx" where
  "sm_WPA_PTK_GROUP_Step env c =
     (let sm = c_sm c in
      if Init sm \<or> PtkGroupInit sm
      then usm (PtkGroupInit_update (\<lambda>_. False)) (sm_WPA_PTK_GROUP_IDLE_Enter c)
      else case wpa_ptk_group_state sm of
        WPA_PTK_GROUP_IDLE \<Rightarrow>
          if GUpdateStationKeys sm \<or> sm_wpa sm = WPA_VERSION_WPA \<and> PInitAKeys sm
          then sm_WPA_PTK_GROUP_REKEYNEGOTIATING_Enter env c else c
      | WPA_PTK_GROUP_REKEYNEGOTIATING \<Rightarrow>
          if key_received sm False \<and> MICVerified sm then sm_WPA_PTK_GROUP_REKEYESTABLISHED_Enter c
          else if GTimeoutCtr sm > dot11RSNAConfigGroupUpdateCount
          then sm_WPA_PTK_GROUP_KEYERROR_Enter c
          else if TimeoutEvt sm then sm_WPA_PTK_GROUP_REKEYNEGOTIATING_Enter env c
          else c
      | WPA_PTK_GROUP_KEYERROR \<Rightarrow> sm_WPA_PTK_GROUP_IDLE_Enter c
      | WPA_PTK_GROUP_REKEYESTABLISHED \<Rightarrow> sm_WPA_PTK_GROUP_IDLE_Enter c)"

end
