(* ===== verification/Wpa_Receive.thy ===== *)
theory Wpa_Receive
  imports Wpa_Ptk
begin

text \<open>
  Reception of EAPOL-Key frames, \<^verbatim>\<open>wpa_receive\<close> of \<^verbatim>\<open>src/ap/wpa_auth.c\<close>, as its stages in order.  A
  stage either ends the reception with an action that remains to be taken
  (\<^verbatim>\<open>recv_act\<close>) or passes the context on.  Acting on the station's other machines, on the group
  machines and on other stations is done by the caller, in the theory of the whole authenticator.
  The PeerKey handlers are recorded as calls.
\<close>

datatype eapol_key_msg = PAIRWISE_2 | PAIRWISE_4 | GROUP_2 | REQUEST | SMK_M1 | SMK_M3 | SMK_ERROR

datatype recv_act = Recv_return | Recv_disconnect | Recv_step | Recv_rekey_gtk

text \<open>Length, overflow and descriptor type checks on the frame.\<close>

definition recv_frame_ok :: "wpa_env \<Rightarrow> u8 list \<Rightarrow> wpa_sm \<Rightarrow> bool" where
  "recv_frame_ok env data sm =
     (if conf_wpa_proto (conf env) = 0 then False
      else if length data < EAPOL_KEY_HDR_LEN then False
      else if ek_data_length data > length data - EAPOL_KEY_HDR_LEN then False
      else if sm_wpa sm = WPA_VERSION_WPA2
      then ek_type data = EAPOL_KEY_TYPE_WPA \<or> ek_type data = EAPOL_KEY_TYPE_RSN
      else ek_type data = EAPOL_KEY_TYPE_WPA)"

definition recv_msg :: "u16 \<Rightarrow> nat \<Rightarrow> eapol_key_msg" where
  "recv_msg key_info key_data_length =
     (let smk = WPA_KEY_INFO_SMK_MESSAGE OR WPA_KEY_INFO_REQUEST in
      if key_info AND smk = smk then
        if info_has key_info WPA_KEY_INFO_ERROR then SMK_ERROR else SMK_M1
      else if info_has key_info WPA_KEY_INFO_SMK_MESSAGE then SMK_M3
      else if info_has key_info WPA_KEY_INFO_REQUEST then REQUEST
      else if \<not> info_has key_info WPA_KEY_INFO_KEY_TYPE then GROUP_2
      else if key_data_length = 0 then PAIRWISE_4
      else PAIRWISE_2)"

definition recv_version_ok :: "eapol_key_msg \<Rightarrow> u16 \<Rightarrow> wpa_sm \<Rightarrow> bool" where
  "recv_version_ok msg key_info sm =
     (if msg = REQUEST \<or> msg = PAIRWISE_2 \<or> msg = PAIRWISE_4 \<or> msg = GROUP_2 then
        let ver = key_info AND WPA_KEY_INFO_TYPE_MASK in
        if pairwise sm = WPA_CIPHER_CCMP \<or> pairwise sm = WPA_CIPHER_GCMP then
          if wpa_use_aes_cmac sm \<and> ver \<noteq> WPA_KEY_INFO_TYPE_AES_128_CMAC then False
          else if \<not> wpa_use_aes_cmac sm \<and> ver \<noteq> WPA_KEY_INFO_TYPE_HMAC_SHA1_AES then False
          else True
        else True
      else True)"

text \<open>Replay protection.  \<^term>\<open>None\<close> drops the frame; the machine is returned because a late message 2/4
  with a new SNonce is let through and marked.\<close>

definition recv_replay :: "u8 list \<Rightarrow> eapol_key_msg \<Rightarrow> wpa_sm \<Rightarrow> wpa_sm option" where
  "recv_replay data msg sm =
     (let key_info = ek_info data; rc = ek_replay data in
      if info_has key_info WPA_KEY_INFO_REQUEST \<and> req_replay_counter_used sm \<and>
         \<not> memcmp_less (req_replay_counter sm) rc
      then None
      else if \<not> info_has key_info WPA_KEY_INFO_REQUEST \<and>
              \<not> wpa_replay_counter_valid (key_replay sm) rc then
        if msg = PAIRWISE_2 \<and> wpa_replay_counter_valid (prev_key_replay sm) rc \<and>
           wpa_ptk_state sm = WPA_PTK_PTKINITNEGOTIATING \<and> SNonce sm \<noteq> ek_nonce data
        then Some (sm\<lparr>update_snonce := True,
               prev_key_replay := wpa_replay_counter_mark_invalid (prev_key_replay sm) (Some rc)\<rparr>)
        else None
      else Some sm)"

text \<open>FT: message 2/4 must repeat the PMKR1Name, the mobility domain and the FT element.\<close>

definition ft_check_msg_2_of_4 :: "wpa_env \<Rightarrow> wpa_eapol_ie_parse \<Rightarrow> wpa_sm \<Rightarrow> bool \<times> wpa_sm" where
  "ft_check_msg_2_of_4 env kde sm =
     (let (r, ie) = wpa_parse_wpa_ie_rsn (case kde_rsn_ie kde of Some x \<Rightarrow> x | None \<Rightarrow> []) in
      if r < 0 \<or> num_pmkid ie \<noteq> 1 \<or> pmkid ie = None then (False, sm)
      else
        let sm = sm\<lparr>sup_pmk_r1_name := take 16 (the (pmkid ie))\<rparr> in
        case (kde_mdie kde, kde_ftie kde) of
          (Some mdie, Some ftie) \<Rightarrow>
            if mdie ! 1 < 3 \<or> take 2 (mobility_domain (conf env)) \<noteq> take 2 (drop 2 mdie)
            then (False, sm)
            else (case assoc_resp_ftie sm of
                    Some a \<Rightarrow>
                      (if ftie ! 1 \<noteq> a ! 1 \<or> take (2 + unat (a ! 1)) ftie \<noteq> take (2 + unat (a ! 1)) a
                       then (False, sm) else (True, sm))
                  | None \<Rightarrow> (True, sm))
        | _ \<Rightarrow> (False, sm))"

text \<open>What a message needs of the state: an action ends the reception, \<^term>\<open>None\<close> continues it.\<close>

definition recv_pairwise_2 :: "wpa_env \<Rightarrow> u8 list \<Rightarrow> wctx \<Rightarrow> (recv_act option) \<times> wctx" where
  "recv_pairwise_2 env data c =
     (let sm = c_sm c in
      if wpa_ptk_state sm \<noteq> WPA_PTK_PTKSTART \<and> wpa_ptk_state sm \<noteq> WPA_PTK_PTKCALCNEGOTIATING \<and>
         (\<not> update_snonce sm \<or> wpa_ptk_state sm \<noteq> WPA_PTK_PTKINITNEGOTIATING)
      then (Some Recv_return, c)
      else
        let c = wlog (Random_add (ek_nonce data)) c in
        if reject_4way_hs_for_entropy (c_grp c)
        then (Some Recv_disconnect, wlog Random_mark_pool_ready c)
        else
          let (r, kde) = wpa_parse_kde_ies (ek_data data);
              key_ie = (if kde_rsn_ie kde \<noteq> None then kde_rsn_ie kde else kde_wpa_ie kde);
              ft = (sm_wpa sm = WPA_VERSION_WPA2 \<and> wpa_key_mgmt_ft (sm_key_mgmt sm))
          in if r < 0 then (Some Recv_return, c)
             else if sm_wpa_ie sm = None \<or> \<not> wpa_compare_rsn_ie ft (sm_wpa_ie sm) key_ie
             then (Some Recv_disconnect, c)
             else if ft then
               let (ok, sm) = ft_check_msg_2_of_4 env kde sm; c = c\<lparr>c_sm := sm\<rparr> in
               if ok then (None, c) else (Some Recv_disconnect, c)
             else (None, c))"

definition recv_state :: "wpa_env \<Rightarrow> u8 list \<Rightarrow> eapol_key_msg \<Rightarrow> wctx \<Rightarrow> (recv_act option) \<times> wctx" where
  "recv_state env data msg c =
     (let sm = c_sm c in
      case msg of
        PAIRWISE_2 \<Rightarrow> recv_pairwise_2 env data c
      | PAIRWISE_4 \<Rightarrow>
          if wpa_ptk_state sm \<noteq> WPA_PTK_PTKINITNEGOTIATING \<or> \<not> PTK_valid sm
          then (Some Recv_return, c) else (None, c)
      | GROUP_2 \<Rightarrow>
          if wpa_ptk_group_state sm \<noteq> WPA_PTK_GROUP_REKEYNEGOTIATING \<or> \<not> PTK_valid sm
          then (Some Recv_return, c) else (None, c)
      | REQUEST \<Rightarrow> (None, c)
      | _ \<Rightarrow>
          if \<not> conf_peerkey (conf env) \<or> \<not> PTK_valid sm then (Some Recv_return, c) else (None, c))"

text \<open>The MIC is checked here when a PTK is in use; message 2/4 is checked later, under the PTK it
  helps to derive.\<close>

definition recv_mic :: "wpa_env \<Rightarrow> u8 list \<Rightarrow> wctx \<Rightarrow> wctx option" where
  "recv_mic env data c =
     (if info_has (ek_info data) WPA_KEY_INFO_ACK then None
      else if \<not> info_has (ek_info data) WPA_KEY_INFO_MIC then None
      else
        let c = usm (MICVerified_update (\<lambda>_. False)) c; sm = c_sm c in
        if PTK_valid sm \<and> \<not> update_snonce sm then
          if \<not> wpa_verify_key_mic env (PTK sm) data then None
          else
            let c = usm (MICVerified_update (\<lambda>_. True)) c;
                c = wlog (Cancel_timeout (T_send_eapol_timeout (sta_addr sm))) c
            in Some (usm (pending_1_of_4_timeout_update (\<lambda>_. False)) c)
        else Some c)"

text \<open>The failed checks of \<^term>\<open>recv_mic\<close> leave \<^verbatim>\<open>MICVerified\<close> cleared if both flag checks passed.\<close>

definition recv_mic_fail :: "u8 list \<Rightarrow> wctx \<Rightarrow> wctx" where
  "recv_mic_fail data c =
     (if info_has (ek_info data) WPA_KEY_INFO_ACK \<or> \<not> info_has (ek_info data) WPA_KEY_INFO_MIC then c
      else usm (MICVerified_update (\<lambda>_. False)) c)"

text \<open>\<^term>\<open>True\<close> when the station entry was removed.\<close>

definition wpa_receive_error_report :: "wpa_env \<Rightarrow> bool \<Rightarrow> wctx \<Rightarrow> bool \<times> wctx" where
  "wpa_receive_error_report env is_group c =
     (if is_group \<and> wpa_group_cipher (conf env) \<noteq> WPA_CIPHER_TKIP \<or>
         \<not> is_group \<and> pairwise (c_sm c) \<noteq> WPA_CIPHER_TKIP
      then (False, wpa_request_new_ptk c)
      else
        let c = wlog (Mic_failure_report (sta_addr (c_sm c))) c in
        if mic_failure_report env (hist c) > 0 then (True, c)
        else
          let c = usm (remote_mic_failures_update (\<lambda>n. n + 1)) c;
              c = auth_remote_mic_failures_update (\<lambda>n. n + 1) c
          in (False, wpa_request_new_ptk c))"

definition recv_request :: "wpa_env \<Rightarrow> u8 list \<Rightarrow> eapol_key_msg \<Rightarrow> wctx \<Rightarrow> (recv_act option) \<times> wctx" where
  "recv_request env data msg c =
     (if \<not> MICVerified (c_sm c) then (Some Recv_return, c)
      else
        let c = usm (\<lambda>sm. sm\<lparr>req_replay_counter_used := True, req_replay_counter := ek_replay data\<rparr>) c;
            key_info = ek_info data; addr = sta_addr (c_sm c)
        in if msg = SMK_ERROR then (Some Recv_return, wlog (Peerkey_smk_error addr data) c)
           else if info_has key_info WPA_KEY_INFO_ERROR then
             let (removed, c) =
               wpa_receive_error_report env (\<not> info_has key_info WPA_KEY_INFO_KEY_TYPE) c
             in if removed then (Some Recv_return, c) else (None, c)
           else if info_has key_info WPA_KEY_INFO_KEY_TYPE then (None, wpa_request_new_ptk c)
           else if msg = SMK_M1 then (None, wlog (Peerkey_smk_m1 addr data) c)
           else if ek_data_length data > 0 \<and> fst (wpa_parse_kde_ies (ek_data data)) = 0 \<and>
                   kde_mac_addr (snd (wpa_parse_kde_ies (ek_data data))) \<noteq> None
           then (None, c)
           else (Some Recv_rekey_gtk, wlog (Cancel_timeout T_rekey_gtk) c))"

text \<open>A reply uses up every counter: the one it carries first, then, after they have been kept aside
  for a late message 2/4, all the others.\<close>

definition recv_consume :: "u8 list \<Rightarrow> eapol_key_msg \<Rightarrow> wpa_sm \<Rightarrow> wpa_sm" where
  "recv_consume data msg sm =
     (let kr = wpa_replay_counter_mark_invalid (key_replay sm) (Some (ek_replay data));
          prev = (if msg = PAIRWISE_2 then kr else replicate RSNA_MAX_EAPOL_RETRIES rc_zero)
      in sm\<lparr>key_replay := wpa_replay_counter_mark_invalid kr None, prev_key_replay := prev\<rparr>)"

text \<open>The end of \<^verbatim>\<open>wpa_receive\<close>, before the machines are stepped.\<close>

definition recv_store :: "u8 list \<Rightarrow> wpa_sm \<Rightarrow> wpa_sm" where
  "recv_store data sm =
     (let key_info = ek_info data in
      sm\<lparr>last_rx_eapol_key := data,
         rx_eapol_key_secure := info_has key_info WPA_KEY_INFO_SECURE,
         EAPOLKeyReceived := True,
         EAPOLKeyPairwise := info_has key_info WPA_KEY_INFO_KEY_TYPE,
         EAPOLKeyRequest := info_has key_info WPA_KEY_INFO_REQUEST,
         SNonce := ek_nonce data\<rparr>)"

definition recv_tail :: "u8 list \<Rightarrow> eapol_key_msg \<Rightarrow> wctx \<Rightarrow> recv_act \<times> wctx" where
  "recv_tail data msg c =
     (if msg = SMK_M3 then (Recv_return, wlog (Peerkey_smk_m3 (sta_addr (c_sm c)) data) c)
      else (Recv_step, usm (recv_store data) c))"

definition wpa_receive :: "wpa_env \<Rightarrow> u8 list \<Rightarrow> wctx \<Rightarrow> recv_act \<times> wctx" where
  "wpa_receive env data c =
     (let msg = recv_msg (ek_info data) (ek_data_length data) in
      if \<not> recv_frame_ok env data (c_sm c) then (Recv_return, c)
      else if \<not> recv_version_ok msg (ek_info data) (c_sm c) then (Recv_return, c)
      else case recv_replay data msg (c_sm c) of
        None \<Rightarrow> (Recv_return, c)
      | Some sm \<Rightarrow>
          (case recv_state env data msg (c\<lparr>c_sm := sm\<rparr>) of
             (Some act, c) \<Rightarrow> (act, c)
           | (None, c) \<Rightarrow>
               (case recv_mic env data c of
                  None \<Rightarrow> (Recv_return, recv_mic_fail data c)
                | Some c \<Rightarrow>
                    if info_has (ek_info data) WPA_KEY_INFO_REQUEST then
                      (case recv_request env data msg c of
                         (Some act, c) \<Rightarrow> (act, c)
                       | (None, c) \<Rightarrow> recv_tail data msg c)
                    else recv_tail data msg (usm (recv_consume data msg) c))))"

end
