(* ===== verification/Wpa_World.thy ===== *)
theory Wpa_World
  imports Wpa_Receive Wpa_Validate
begin

text \<open>
  The whole WPA authenticator: the group machines, the stations and the event handlers that reach
  more than one of them (\<^verbatim>\<open>src/ap/wpa_auth.c\<close>).  Stepping a station steps its group, which on a
  group rekey steps every other station of the group, so the step functions call each other; they
  carry fuel and return \<^term>\<open>None\<close> when it does not suffice.  The pending group update
  of a station and the list of stations are visited in the order of \<^verbatim>\<open>hapd->sta_list\<close>.
\<close>

section \<open>State\<close>

record wpa_world =
  w_groups :: "wpa_group list"
  w_stas :: "wpa_sm list"
  w_failures :: u32
  w_remote_mic :: u32
  w_mib :: wpa_mib
  w_hist :: history

definition find_sta :: "macaddr \<Rightarrow> wpa_world \<Rightarrow> wpa_sm option" where
  "find_sta a w = find (\<lambda>sm. sta_addr sm = a) (w_stas w)"

definition find_grp :: "int \<Rightarrow> wpa_world \<Rightarrow> wpa_group option" where
  "find_grp v w = find (\<lambda>g. vlan_id g = v) (w_groups w)"

definition put_sta :: "macaddr \<Rightarrow> wpa_sm \<Rightarrow> wpa_world \<Rightarrow> wpa_world" where
  "put_sta a sm w = w\<lparr>w_stas := map (\<lambda>s. if sta_addr s = a then sm else s) (w_stas w)\<rparr>"

definition put_grp :: "int \<Rightarrow> wpa_group \<Rightarrow> wpa_world \<Rightarrow> wpa_world" where
  "put_grp v g w = w\<lparr>w_groups := map (\<lambda>x. if vlan_id x = v then g else x) (w_groups w)\<rparr>"

definition upd_sta :: "macaddr \<Rightarrow> (wpa_sm \<Rightarrow> wpa_sm) \<Rightarrow> wpa_world \<Rightarrow> wpa_world" where
  "upd_sta a f w = w\<lparr>w_stas := map (\<lambda>s. if sta_addr s = a then f s else s) (w_stas w)\<rparr>"

definition upd_grp :: "int \<Rightarrow> (wpa_group \<Rightarrow> wpa_group) \<Rightarrow> wpa_world \<Rightarrow> wpa_world" where
  "upd_grp v f w = w\<lparr>w_groups := map (\<lambda>g. if vlan_id g = v then f g else g) (w_groups w)\<rparr>"

definition world_log :: "wpa_out \<Rightarrow> wpa_world \<Rightarrow> wpa_world" where
  "world_log e w = w\<lparr>w_hist := w_hist w @ [e]\<rparr>"

text \<open>Run a function of one station in its context.\<close>

definition with_sta :: "macaddr \<Rightarrow> (wctx \<Rightarrow> wctx) \<Rightarrow> wpa_world \<Rightarrow> wpa_world" where
  "with_sta a f w =
     (case find_sta a w of
        None \<Rightarrow> w
      | Some sm \<Rightarrow>
          (case find_grp (sm_group sm) w of
             None \<Rightarrow> w
           | Some g \<Rightarrow>
               let c = f \<lparr>c_sm = sm, c_grp = g, handshake_failures = w_failures w,
                          auth_remote_mic_failures = w_remote_mic w, hist = w_hist w\<rparr>
               in put_grp (sm_group sm) (c_grp c) (put_sta a (c_sm c)
                    (w\<lparr>w_failures := handshake_failures c,
                       w_remote_mic := auth_remote_mic_failures c, w_hist := hist c\<rparr>))))"

text \<open>Run a function of one group; it neither reads nor changes a station, so the context holds a
  zeroed one.\<close>

definition with_grp :: "int \<Rightarrow> (wctx \<Rightarrow> wctx) \<Rightarrow> wpa_world \<Rightarrow> wpa_world" where
  "with_grp v f w =
     (case find_grp v w of
        None \<Rightarrow> w
      | Some g \<Rightarrow>
          let c = f \<lparr>c_sm = sm_zero [] v, c_grp = g, handshake_failures = w_failures w,
                     auth_remote_mic_failures = w_remote_mic w, hist = w_hist w\<rparr>
          in put_grp v (c_grp c) (w\<lparr>w_hist := hist c\<rparr>))"

section \<open>Group machine\<close>

definition wpa_group_gtk_init :: "wpa_env \<Rightarrow> wctx \<Rightarrow> wctx" where
  "wpa_group_gtk_init env c =
     snd (wpa_gtk_update env
       (ugrp (\<lambda>g. g\<lparr>grp_changed := False, wpa_group_state := WPA_GROUP_GTK_INIT,
                    GTK := replicate 2 (replicate 32 0), GN := 1, GM := 2\<rparr>) c))"

definition wpa_group_setkeysdone :: "wpa_env \<Rightarrow> wctx \<Rightarrow> wctx" where
  "wpa_group_setkeysdone env c =
     snd (wpa_group_config_group_keys env
       (ugrp (\<lambda>g. g\<lparr>grp_changed := True, wpa_group_state := WPA_GROUP_SETKEYSDONE\<rparr>) c))"

text \<open>\<^verbatim>\<open>wpa_group_setkeys\<close> up to the visit of the stations.\<close>

definition setkeys_start :: "wpa_env \<Rightarrow> wctx \<Rightarrow> wctx" where
  "setkeys_start env c =
     (let c = ugrp (\<lambda>g. g\<lparr>grp_changed := True, wpa_group_state := WPA_GROUP_SETKEYS,
                          GTKReKey := False, GM := GN g, GN := GM g\<rparr>) c;
          (_, c) = wpa_gtk_update env c
      in if GKeyDoneStations (c_grp c) \<noteq> 0 then ugrp (GKeyDoneStations_update (\<lambda>_. 0)) c else c)"

text \<open>\<^verbatim>\<open>wpa_group_update_sta\<close> up to the step of the station; the flag tells whether to step it.\<close>

definition update_sta_mark :: "int \<Rightarrow> macaddr \<Rightarrow> wpa_world \<Rightarrow> bool \<times> wpa_world" where
  "update_sta_mark v a w =
     (case find_sta a w of
        None \<Rightarrow> (False, w)
      | Some sm \<Rightarrow>
          if sm_group sm \<noteq> v then (False, w)
          else if wpa_ptk_state sm \<noteq> WPA_PTK_PTKINITDONE
          then (False, upd_sta a (GUpdateStationKeys_update (\<lambda>_. False)) w)
          else if is_wnmsleep sm then (False, w)
          else (True, upd_sta a (GUpdateStationKeys_update (\<lambda>_. True))
                        (upd_grp (sm_group sm) (GKeyDoneStations_update (\<lambda>n. n + 1)) w)))"

section \<open>Stepping\<close>

definition wpa_free_sta_sm :: "macaddr \<Rightarrow> wpa_world \<Rightarrow> wpa_world" where
  "wpa_free_sta_sm a w =
     (case find_sta a w of
        None \<Rightarrow> w
      | Some sm \<Rightarrow>
          let w = (if GUpdateStationKeys sm
                   then upd_grp (sm_group sm) (GKeyDoneStations_update (\<lambda>n. n - 1)) w else w)
          in w\<lparr>w_stas := filter (\<lambda>s. sta_addr s \<noteq> a) (w_stas w)\<rparr>)"

definition sta_flag :: "(wpa_sm \<Rightarrow> bool) \<Rightarrow> macaddr \<Rightarrow> wpa_world \<Rightarrow> bool" where
  "sta_flag f a w = (case find_sta a w of None \<Rightarrow> False | Some sm \<Rightarrow> f sm)"

text \<open>The group that \<^verbatim>\<open>wpa_auth->group\<close> points to is the first of the list.\<close>

definition default_changed :: "wpa_world \<Rightarrow> bool" where
  "default_changed w = (case w_groups w of [] \<Rightarrow> False | g # _ \<Rightarrow> grp_changed g)"

definition clear_changed :: "macaddr \<Rightarrow> wpa_world \<Rightarrow> wpa_world" where
  "clear_changed a w =
     (let w = upd_sta a (sm_changed_update (\<lambda>_. False)) w
      in case w_groups w of
           [] \<Rightarrow> w
         | g # gs \<Rightarrow> w\<lparr>w_groups := g\<lparr>grp_changed := False\<rparr> # gs\<rparr>)"

text \<open>The functions below take the step function of stations as an argument, \<^term>\<open>step\<close>, which
  \<^verbatim>\<open>wpa_sm_step\<close> then instantiates with itself at less fuel.\<close>

type_synonym sta_step = "macaddr \<Rightarrow> wpa_world \<Rightarrow> wpa_world option"

primrec wpa_group_update_stas :: "sta_step \<Rightarrow> int \<Rightarrow> macaddr list \<Rightarrow> wpa_world \<Rightarrow> wpa_world option" where
  "wpa_group_update_stas step v [] w = Some w"
| "wpa_group_update_stas step v (a # as) w =
     (let (stepit, w) = update_sta_mark v a w in
      if stepit then
        (case step a w of
           None \<Rightarrow> None
         | Some w \<Rightarrow> wpa_group_update_stas step v as w)
      else wpa_group_update_stas step v as w)"

definition wpa_group_setkeys :: "sta_step \<Rightarrow> wpa_env \<Rightarrow> int \<Rightarrow> wpa_world \<Rightarrow> wpa_world option" where
  "wpa_group_setkeys step env v w =
     (let w = with_grp v (setkeys_start env) w
      in wpa_group_update_stas step v (map sta_addr (w_stas w)) w)"

definition wpa_group_sm_step :: "sta_step \<Rightarrow> wpa_env \<Rightarrow> int \<Rightarrow> wpa_world \<Rightarrow> wpa_world option" where
  "wpa_group_sm_step step env v w =
     (case find_grp v w of
        None \<Rightarrow> Some w
      | Some g \<Rightarrow>
          if GInit g then Some (with_grp v (wpa_group_gtk_init env) w)
          else if wpa_group_state g = WPA_GROUP_GTK_INIT \<and> GTKAuthenticator g
          then Some (with_grp v (wpa_group_setkeysdone env) w)
          else if wpa_group_state g = WPA_GROUP_SETKEYSDONE \<and> GTKReKey g
          then wpa_group_setkeys step env v w
          else if wpa_group_state g = WPA_GROUP_SETKEYS then
            if GKeyDoneStations g = 0 then Some (with_grp v (wpa_group_setkeysdone env) w)
            else if GTKReKey g then wpa_group_setkeys step env v w
            else Some w
          else Some w)"

text \<open>The loop of \<^verbatim>\<open>wpa_sm_step\<close>.\<close>

primrec wpa_sm_loop :: "sta_step \<Rightarrow> nat \<Rightarrow> wpa_env \<Rightarrow> macaddr \<Rightarrow> wpa_world \<Rightarrow> wpa_world option" where
  "wpa_sm_loop step 0 env a w = None"
| "wpa_sm_loop step (Suc n) env a w =
     (if sta_flag pending_deinit a w then Some w
      else
        let w = with_sta a (sm_WPA_PTK_Step env) (clear_changed a w)
        in if sta_flag pending_deinit a w then Some w
           else
             let w = with_sta a (sm_WPA_PTK_GROUP_Step env) w
             in if sta_flag pending_deinit a w then Some w
                else
                  (case find_sta a w of
                     None \<Rightarrow> Some w
                   | Some sm \<Rightarrow>
                       (case wpa_group_sm_step step env (sm_group sm) w of
                          None \<Rightarrow> None
                        | Some w \<Rightarrow>
                            if sta_flag sm_changed a w \<or> default_changed w
                            then wpa_sm_loop step n env a w else Some w)))"

primrec wpa_sm_step :: "nat \<Rightarrow> wpa_env \<Rightarrow> macaddr \<Rightarrow> wpa_world \<Rightarrow> wpa_world option" where
  "wpa_sm_step 0 env a w = None"
| "wpa_sm_step (Suc n) env a w =
     (case find_sta a w of
        None \<Rightarrow> Some w
      | Some sm \<Rightarrow>
          if in_step_loop sm then Some w
          else
            (case wpa_sm_loop (wpa_sm_step n env) n env a
                    (upd_sta a (in_step_loop_update (\<lambda>_. True)) w) of
               None \<Rightarrow> None
             | Some w \<Rightarrow>
                 let w = upd_sta a (in_step_loop_update (\<lambda>_. False)) w
                 in if sta_flag pending_deinit a w then Some (wpa_free_sta_sm a w) else Some w))"

abbreviation group_step :: "nat \<Rightarrow> wpa_env \<Rightarrow> int \<Rightarrow> wpa_world \<Rightarrow> wpa_world option" where
  "group_step n env \<equiv> wpa_group_sm_step (wpa_sm_step n env) env"

section \<open>Events\<close>

text \<open>Timers.  Deleting the timer that fired is the event loop's work.\<close>

definition wpa_rekey_gmk :: "wpa_env \<Rightarrow> wpa_world \<Rightarrow> wpa_world" where
  "wpa_rekey_gmk env w =
     (let gmk = (\<lambda>c. case get_random env 32 c of
                   (None, c) \<Rightarrow> c
                 | (Some k, c) \<Rightarrow> ugrp (GMK_update (\<lambda>_. k)) c);
          w = (case w_groups w of [] \<Rightarrow> w | g # _ \<Rightarrow> with_grp (vlan_id g) gmk w);
          t = wpa_gmk_rekey (conf env)
      in if t \<noteq> 0 then world_log (Register_timeout T_rekey_gmk (nat t) 0) w else w)"

text \<open>The \<^verbatim>\<open>do .. while (group->changed)\<close> loop of \<^verbatim>\<open>wpa_rekey_gtk\<close>.\<close>

primrec rekey_group_loop :: "nat \<Rightarrow> nat \<Rightarrow> wpa_env \<Rightarrow> int \<Rightarrow> wpa_world \<Rightarrow> wpa_world option" where
  "rekey_group_loop 0 n env v w = None"
| "rekey_group_loop (Suc k) n env v w =
     (case group_step n env v (upd_grp v (grp_changed_update (\<lambda>_. False)) w) of
        None \<Rightarrow> None
      | Some w \<Rightarrow>
          if (case find_grp v w of None \<Rightarrow> False | Some g \<Rightarrow> grp_changed g)
          then rekey_group_loop k n env v w else Some w)"

primrec rekey_groups :: "nat \<Rightarrow> wpa_env \<Rightarrow> int list \<Rightarrow> wpa_world \<Rightarrow> wpa_world option" where
  "rekey_groups n env [] w = Some w"
| "rekey_groups n env (v # vs) w =
     (case rekey_group_loop n n env v (upd_grp v (GTKReKey_update (\<lambda>_. True)) w) of
        None \<Rightarrow> None
      | Some w \<Rightarrow> rekey_groups n env vs w)"

definition wpa_rekey_gtk :: "nat \<Rightarrow> wpa_env \<Rightarrow> wpa_world \<Rightarrow> wpa_world option" where
  "wpa_rekey_gtk n env w =
     (case rekey_groups n env (map vlan_id (w_groups w)) w of
        None \<Rightarrow> None
      | Some w \<Rightarrow>
          let t = wpa_group_rekey (conf env)
          in Some (if t \<noteq> 0 then world_log (Register_timeout T_rekey_gtk (nat t) 0) w else w))"

definition wpa_rekey_ptk :: "nat \<Rightarrow> wpa_env \<Rightarrow> macaddr \<Rightarrow> wpa_world \<Rightarrow> wpa_world option" where
  "wpa_rekey_ptk n env a w = wpa_sm_step n env a (with_sta a wpa_request_new_ptk w)"

definition wpa_send_eapol_timeout :: "nat \<Rightarrow> wpa_env \<Rightarrow> macaddr \<Rightarrow> wpa_world \<Rightarrow> wpa_world option" where
  "wpa_send_eapol_timeout n env a w =
     wpa_sm_step n env a
       (upd_sta a (\<lambda>sm. sm\<lparr>pending_1_of_4_timeout := False, TimeoutEvt := True\<rparr>) w)"

definition wpa_auth_eapol_key_tx_status :: "macaddr \<Rightarrow> bool \<Rightarrow> wpa_world \<Rightarrow> wpa_world" where
  "wpa_auth_eapol_key_tx_status a ack w =
     (if sta_flag pending_1_of_4_timeout a w \<and> ack then
        world_log (Register_timeout (T_send_eapol_timeout a) (eapol_key_timeout_subseq div 1000)
            ((eapol_key_timeout_subseq mod 1000) * 1000))
          (world_log (Cancel_timeout (T_send_eapol_timeout a)) w)
      else w)"

text \<open>A received EAPOL-Key frame.  \<^verbatim>\<open>wpa_sta_disconnect\<close> comes back as \<^verbatim>\<open>WPA_DEAUTH\<close> and steps the
  station.\<close>

definition receive_eapol_key :: "nat \<Rightarrow> wpa_env \<Rightarrow> macaddr \<Rightarrow> u8 list \<Rightarrow> wpa_world \<Rightarrow> wpa_world option" where
  "receive_eapol_key n env a data w =
     (case find_sta a w of
        None \<Rightarrow> Some w
      | Some sm \<Rightarrow>
          (case find_grp (sm_group sm) w of
             None \<Rightarrow> Some w
           | Some g \<Rightarrow>
               let act = fst (wpa_receive env data \<lparr>c_sm = sm, c_grp = g,
                           handshake_failures = w_failures w,
                           auth_remote_mic_failures = w_remote_mic w, hist = w_hist w\<rparr>);
                   w = with_sta a (\<lambda>c. snd (wpa_receive env data c)) w;
                   msg = recv_msg (ek_info data) (ek_data_length data)
               in (case act of
                     Recv_return \<Rightarrow> Some w
                   | Recv_disconnect \<Rightarrow> wpa_sm_step n env a (with_sta a (wpa_sta_disconnect env) w)
                   | Recv_step \<Rightarrow> wpa_sm_step n env a w
                   | Recv_rekey_gtk \<Rightarrow>
                       (case wpa_rekey_gtk n env w of
                          None \<Rightarrow> None
                        | Some w \<Rightarrow>
                            if msg = SMK_M3 then Some (world_log (Peerkey_smk_m3 a data) w)
                            else wpa_sm_step n env a (upd_sta a (recv_store data) w)))))"

text \<open>\<^verbatim>\<open>wpa_auth_sm_event\<close>.\<close>

definition reauth_cancel_update :: "wctx \<Rightarrow> wctx" where
  "reauth_cancel_update c =
     (let c = (if GUpdateStationKeys (c_sm c)
               then usm (\<lambda>sm. sm\<lparr>GUpdateStationKeys := False, PtkGroupInit := True\<rparr>)
                      (ugrp (GKeyDoneStations_update (\<lambda>k. k - 1)) c)
               else c)
      in usm (ReAuthenticationRequest_update (\<lambda>_. True)) c)"

definition wpa_auth_sm_event :: "nat \<Rightarrow> wpa_env \<Rightarrow> macaddr \<Rightarrow> wpa_event \<Rightarrow> wpa_world \<Rightarrow> wpa_world option" where
  "wpa_auth_sm_event n env a event w =
     (let finish = (\<lambda>w. wpa_sm_step n env a (with_sta a (sm_event_tail env event) w)) in
      case find_sta a w of
        None \<Rightarrow> Some w
      | Some sm \<Rightarrow>
          if event = WPA_AUTH \<or> event = WPA_ASSOC then finish w
          else if event = WPA_DEAUTH \<or> event = WPA_DISASSOC
          then finish (upd_sta a (DeauthenticationRequest_update (\<lambda>_. True)) w)
          else if event = WPA_REAUTH \<or> event = WPA_REAUTH_EAPOL then
            if \<not> started sm then
              (case wpa_sm_step n env a (upd_sta a (\<lambda>sm. sm\<lparr>started := True, Init := True\<rparr>) w) of
                 None \<Rightarrow> None
               | Some w \<Rightarrow>
                   if find_sta a w = None then Some w
                   else finish (upd_sta a (\<lambda>sm. sm\<lparr>Init := False, AuthenticationRequest := True\<rparr>) w))
            else finish (with_sta a reauth_cancel_update w)
          else Some (upd_sta a (ft_completed_update (\<lambda>_. True)) (with_sta a (wpa_ft_install_ptk env) w)))"

section \<open>Stations\<close>

definition wpa_auth_sta_init :: "macaddr \<Rightarrow> wpa_world \<Rightarrow> wpa_world" where
  "wpa_auth_sta_init a w =
     (case w_groups w of
        [] \<Rightarrow> w
      | g # _ \<Rightarrow> w\<lparr>w_stas := sm_zero a (vlan_id g) # w_stas w\<rparr>)"

text \<open>The element of an association request of a station.\<close>

definition validate_sta :: "wpa_env \<Rightarrow> (u8 list \<Rightarrow> pmksa_ref option) \<Rightarrow> (u8 list \<Rightarrow> pmksa_ref option) \<Rightarrow>
    macaddr \<Rightarrow> u8 list \<Rightarrow> u8 list option \<Rightarrow> wpa_world \<Rightarrow> wpa_ie_status \<times> wpa_world" where
  "validate_sta env get get_okc a wpa_ie mdie w =
     (case find_sta a w of
        None \<Rightarrow> (WPA_NOT_ENABLED, w)
      | Some sm \<Rightarrow>
          let (r, sm, mib) = wpa_validate_wpa_ie env get get_okc wpa_ie mdie (sm, w_mib w)
          in (r, put_sta a sm (w\<lparr>w_mib := mib\<rparr>)))"

definition wpa_auth_sta_associated :: "nat \<Rightarrow> wpa_env \<Rightarrow> macaddr \<Rightarrow> wpa_world \<Rightarrow> wpa_world option" where
  "wpa_auth_sta_associated n env a w =
     (case find_sta a w of
        None \<Rightarrow> Some w
      | Some sm \<Rightarrow>
          if conf_wpa_proto (conf env) = 0 then Some w
          else if ft_completed sm then Some w
          else if started sm then
            wpa_sm_step n env a
              (upd_sta a (\<lambda>sm. sm\<lparr>key_replay := replicate 4 rc_zero, ReAuthenticationRequest := True\<rparr>) w)
          else
            (case wpa_sm_step n env a (upd_sta a (\<lambda>sm. sm\<lparr>started := True, Init := True\<rparr>) w) of
               None \<Rightarrow> None
             | Some w \<Rightarrow>
                 if find_sta a w = None then Some w
                 else wpa_sm_step n env a
                        (upd_sta a (\<lambda>sm. sm\<lparr>Init := False, AuthenticationRequest := True\<rparr>) w)))"

definition wpa_auth_sta_no_wpa :: "macaddr \<Rightarrow> wpa_world \<Rightarrow> wpa_world" where
  "wpa_auth_sta_no_wpa a w = upd_sta a (sm_key_mgmt_update (\<lambda>_. 0)) w"

definition wpa_auth_sta_deinit :: "wpa_env \<Rightarrow> macaddr \<Rightarrow> wpa_world \<Rightarrow> wpa_world" where
  "wpa_auth_sta_deinit env a w =
     (case find_sta a w of
        None \<Rightarrow> w
      | Some sm \<Rightarrow>
          let w = (if wpa_strict_rekey (conf env) \<and> has_GTK sm then
                     world_log (Register_timeout T_rekey_gtk 0 500000)
                       (world_log (Cancel_timeout T_rekey_gtk) w)
                   else w);
              w = world_log (Cancel_timeout (T_send_eapol_timeout a)) w;
              w = upd_sta a (pending_1_of_4_timeout_update (\<lambda>_. False)) w;
              w = world_log (Cancel_timeout (T_rekey_ptk a)) w
          in if in_step_loop sm then upd_sta a (pending_deinit_update (\<lambda>_. True)) w
             else wpa_free_sta_sm a w)"

definition wpa_auth_sta_clear_pmksa :: "macaddr \<Rightarrow> pmksa_ref \<Rightarrow> wpa_world \<Rightarrow> wpa_world" where
  "wpa_auth_sta_clear_pmksa a entry w =
     upd_sta a (\<lambda>sm. if pmksa sm \<noteq> Some entry then sm else sm\<lparr>pmksa := None\<rparr>) w"

definition wpa_auth_sta_local_mic_failure_report :: "macaddr \<Rightarrow> wpa_world \<Rightarrow> wpa_world" where
  "wpa_auth_sta_local_mic_failure_report a w = upd_sta a (local_mic_failures_update (\<lambda>k. k + 1)) w"

section \<open>Groups\<close>

definition group_zero :: "wpa_env \<Rightarrow> int \<Rightarrow> wpa_group" where
  "group_zero env v =
     \<lparr>vlan_id = v, GInit = False, GKeyDoneStations = 0, GTKReKey = False,
      GTK_len = wpa_cipher_key_len (wpa_group_cipher (conf env)), GN = 0, GM = 0,
      GTKAuthenticator = True, Counter = replicate 32 0, wpa_group_state = WPA_GROUP_GTK_INIT,
      GMK = replicate 32 0, GTK = replicate 2 (replicate 32 0), GNonce = replicate 32 0,
      grp_changed = False, first_sta_seen = False, reject_4way_hs_for_entropy = False\<rparr>"

text \<open>Step a group once with \<^verbatim>\<open>GInit\<close> set and once without; no station is stepped.\<close>

definition step_twice :: "nat \<Rightarrow> wpa_env \<Rightarrow> int \<Rightarrow> wpa_world \<Rightarrow> wpa_world option" where
  "step_twice n env v w =
     (case group_step n env v w of
        None \<Rightarrow> None
      | Some w \<Rightarrow> group_step n env v (upd_grp v (GInit_update (\<lambda>_. False)) w))"

text \<open>\<^verbatim>\<open>wpa_group_init\<close>, and the linking of the group: it comes first if there is none yet
  (\<^verbatim>\<open>wpa_init\<close>) and second otherwise (\<^verbatim>\<open>wpa_auth_add_group\<close>).  It is linked before it is stepped, which
  nothing can observe as no station belongs to it.  \<^term>\<open>None\<close> when no random data is available.\<close>

definition wpa_group_init :: "wpa_env \<Rightarrow> int \<Rightarrow> bool \<Rightarrow> wpa_world \<Rightarrow> wpa_world option" where
  "wpa_group_init env v delay_init w =
     (let c = \<lparr>c_sm = sm_zero [] v, c_grp = group_zero env v, handshake_failures = w_failures w,
               auth_remote_mic_failures = w_remote_mic w, hist = w_hist w\<rparr>;
          (r, c) = wpa_group_init_gmk_and_counter env c;
          w = w\<lparr>w_hist := hist c\<rparr>;
          grp = (c_grp c)\<lparr>GInit := True\<rparr>
      in if r < 0 then None
         else
           let w = w\<lparr>w_groups := (case w_groups w of [] \<Rightarrow> [grp] | g # gs \<Rightarrow> g # grp # gs)\<rparr>
           in if delay_init then Some w else step_twice 0 env v w)"

text \<open>\<^verbatim>\<open>wpa_init\<close>, after the information elements have been generated.\<close>

definition wpa_init :: "wpa_env \<Rightarrow> wpa_world option" where
  "wpa_init env =
     (case wpa_group_init env 0 True \<lparr>w_groups = [], w_stas = [], w_failures = 0, w_remote_mic = 0,
             w_mib = mib_zero, w_hist = []\<rparr> of
        None \<Rightarrow> None
      | Some w \<Rightarrow>
          let t = wpa_gmk_rekey (conf env); u = wpa_group_rekey (conf env);
              w = (if t \<noteq> 0 then world_log (Register_timeout T_rekey_gmk (nat t) 0) w else w)
          in Some (if u \<noteq> 0 then world_log (Register_timeout T_rekey_gtk (nat u) 0) w else w))"

definition wpa_init_keys :: "nat \<Rightarrow> wpa_env \<Rightarrow> wpa_world \<Rightarrow> wpa_world option" where
  "wpa_init_keys n env w = (case w_groups w of [] \<Rightarrow> Some w | g # _ \<Rightarrow> step_twice n env (vlan_id g) w)"

definition wpa_reconfig :: "nat \<Rightarrow> wpa_env \<Rightarrow> wpa_world \<Rightarrow> wpa_world option" where
  "wpa_reconfig n env w =
     (case w_groups w of
        [] \<Rightarrow> Some w
      | g # _ \<Rightarrow>
          step_twice n env (vlan_id g)
            (upd_grp (vlan_id g)
              (\<lambda>g. g\<lparr>GTK_len := wpa_cipher_key_len (wpa_group_cipher (conf env)), GInit := True\<rparr>) w))"

text \<open>\<^verbatim>\<open>wpa_auth_sta_set_vlan\<close>: \<^term>\<open>None\<close> is the C result -1, when the new group cannot be set up.\<close>

definition wpa_auth_sta_set_vlan :: "wpa_env \<Rightarrow> macaddr \<Rightarrow> int \<Rightarrow> wpa_world \<Rightarrow> wpa_world option" where
  "wpa_auth_sta_set_vlan env a v w =
     (if find_sta a w = None then Some w
      else
        let w' = (if find_grp v w = None then
                    if w_groups w = [] then None else wpa_group_init env v False w
                  else Some w)
        in case w' of
             None \<Rightarrow> None
           | Some w \<Rightarrow> Some (upd_sta a (sm_group_update (\<lambda>_. v)) w))"

definition swap_and_set :: "wpa_env \<Rightarrow> wctx \<Rightarrow> wctx" where
  "swap_and_set env c =
     snd (wpa_group_config_group_keys env
       (snd (wpa_gtk_update env (ugrp (\<lambda>g. g\<lparr>GM := GN g, GN := GM g\<rparr>) c))))"

definition wpa_gtk_rekey :: "wpa_env \<Rightarrow> wpa_world \<Rightarrow> wpa_world" where
  "wpa_gtk_rekey env w =
     (case w_groups w of
        [] \<Rightarrow> w
      | g # _ \<Rightarrow> with_grp (vlan_id g) (\<lambda>c. swap_and_set env (swap_and_set env c)) w)"

end
