(* ===== verification/Wpa_Facts.thy ===== *)
theory Wpa_Facts
  imports Wpa_World
begin

text \<open>
  What the functions of the WPA authenticator change.  Every function of a context is described by
  its effect on the station machine; the entries of the two station machines follow from the
  effects of the primitives.
\<close>

section \<open>Primitives\<close>

lemma ctx_simps [simp]:
  "c_sm (usm f c) = f (c_sm c)" "c_grp (usm f c) = c_grp c" "hist (usm f c) = hist c"
  "c_sm (ugrp h c) = c_sm c" "c_grp (ugrp h c) = h (c_grp c)" "hist (ugrp h c) = hist c"
  "c_sm (wlog e c) = c_sm c" "c_grp (wlog e c) = c_grp c" "hist (wlog e c) = hist c @ [e]"
  by (simp_all add: usm_def ugrp_def wlog_def)

lemma set_eapol_simps [simp]:
  "c_sm (wpa_auth_set_eapol var v c) = c_sm c" "c_grp (wpa_auth_set_eapol var v c) = c_grp c"
  by (simp_all add: wpa_auth_set_eapol_def)

lemma set_key_simps [simp]:
  "c_sm (snd (wpa_auth_set_key env vlan alg a idx k c)) = c_sm c"
  "c_grp (snd (wpa_auth_set_key env vlan alg a idx k c)) = c_grp c"
  by (auto simp: wpa_auth_set_key_def Let_def)

lemma get_random_simps [simp]:
  "c_sm (snd (get_random env n c)) = c_sm c" "c_grp (snd (get_random env n c)) = c_grp c"
  by (auto simp: get_random_def Let_def)

lemma gmk_to_gtk_simps [simp]:
  "c_sm (snd (wpa_gmk_to_gtk env gmk l a n k len c)) = c_sm c"
  "c_grp (snd (wpa_gmk_to_gtk env gmk l a n k len c)) = c_grp c"
  by (auto simp: wpa_gmk_to_gtk_def get_random_def Let_def split: option.split)

lemma gtk_update_sm [simp]: "c_sm (snd (wpa_gtk_update env c)) = c_sm c"
  by (simp add: wpa_gtk_update_def Let_def case_prod_beta)

lemma config_group_keys_sm [simp]: "c_sm (snd (wpa_group_config_group_keys env c)) = c_sm c"
  by (simp add: wpa_group_config_group_keys_def Let_def case_prod_beta)

lemma init_gmk_sm [simp]: "c_sm (snd (wpa_group_init_gmk_and_counter env c)) = c_sm c"
  by (auto simp: wpa_group_init_gmk_and_counter_def Let_def case_prod_beta split: option.split)

lemma ensure_init_sm [simp]: "c_sm (wpa_group_ensure_init env c) = c_sm c"
  by (simp add: wpa_group_ensure_init_def Let_def case_prod_beta)

lemma transmit_simps [simp]:
  "c_sm (transmit env version info frame c) = c_sm c"
  "c_grp (transmit env version info frame c) = c_grp c"
  by (simp_all add: transmit_def Let_def split: option.split)

lemma send_frame_sm [simp]:
  "c_sm (wpa_send_eapol_frame env info rsc nonce kde idx encr fv c) = key_replay_update replay_next (c_sm c)"
  by (cases "send_key_data env (PTK (c_sm c)) (eapol_version_of (c_sm c) fv) kde encr (Counter (c_grp c))")
    (simp_all add: wpa_send_eapol_frame_def Let_def split: prod.split)

lemma send_eapol_sm:
  "\<exists>p. c_sm (wpa_send_eapol env info rsc nonce kde idx encr c) =
     (c_sm c)\<lparr>key_replay := replay_next (key_replay (c_sm c)), pending_1_of_4_timeout := p\<rparr>"
proof (cases "info_has info WPA_KEY_INFO_KEY_TYPE \<and> TimeoutCtr (c_sm c) = 1 \<and>
    \<not> info_has info WPA_KEY_INFO_MIC")
  case True
  then show ?thesis
    by (intro exI [of _ True]) (simp add: wpa_send_eapol_def register_eapol_timeout_def Let_def)
next
  case False
  then show ?thesis
    by (intro exI [of _ "pending_1_of_4_timeout (c_sm c)"])
      (auto simp: wpa_send_eapol_def register_eapol_timeout_def Let_def)
qed

lemma remove_ptk_sm [simp]:
  "c_sm (wpa_remove_ptk env c) = (c_sm c)\<lparr>PTK_valid := False, PTK := ptk_zero, pairwise_set := False\<rparr>"
  by (simp add: wpa_remove_ptk_def Let_def case_prod_beta)

lemma event_tail_sm:
  "c_sm (sm_event_tail env ev c) =
     (c_sm c)\<lparr>ft_completed := False, PTK_valid := False, PTK := ptk_zero,
       pairwise_set := (ev = WPA_REAUTH_EAPOL \<and> pairwise_set (c_sm c))\<rparr>"
  by (simp add: sm_event_tail_def Let_def)

lemma sta_disconnect_sm [simp]:
  "c_sm (wpa_sta_disconnect env c) =
     (c_sm c)\<lparr>DeauthenticationRequest := True, ft_completed := False, PTK_valid := False,
       PTK := ptk_zero, pairwise_set := False\<rparr>"
  by (simp add: wpa_sta_disconnect_def Let_def event_tail_sm)

lemma drop_group_update_sm [simp]:
  "c_sm (drop_group_update c) = (c_sm c)\<lparr>GUpdateStationKeys := False\<rparr>"
  by (simp add: drop_group_update_def)

lemma derive_ptk_sm:
  assumes "wpa_derive_ptk env pmk sm = (ptk, sm')"
  shows "\<exists>n. sm' = sm\<lparr>pmk_r1_name := n\<rparr>"
proof (cases "wpa_key_mgmt_ft (sm_key_mgmt sm)")
  case True
  then show ?thesis using assms by (auto simp: wpa_derive_ptk_def Let_def split: prod.splits)
next
  case False
  then have "sm' = sm\<lparr>pmk_r1_name := pmk_r1_name sm\<rparr>" using assms by (simp add: wpa_derive_ptk_def)
  then show ?thesis by blast
qed

lemma try_pmks_sm:
  "try_pmks env pmks sm = (r, sm') \<Longrightarrow> \<exists>n. sm' = sm\<lparr>pmk_r1_name := n\<rparr>"
proof (induction pmks arbitrary: sm)
  case Nil
  then have "sm' = sm\<lparr>pmk_r1_name := pmk_r1_name sm\<rparr>" by simp
  then show ?case by blast
next
  case (Cons p ps)
  obtain ptk sm1 where d: "wpa_derive_ptk env p sm = (ptk, sm1)" by fastforce
  from derive_ptk_sm [OF d] obtain n where "sm1 = sm\<lparr>pmk_r1_name := n\<rparr>" by blast
  then show ?case using Cons.prems Cons.IH [of sm1] d by (auto simp: Let_def split: if_splits)
qed

lemma try_pmks_verified:
  "try_pmks env pmks sm = (Some (pmk, ptk), sm') \<Longrightarrow>
     pmk \<in> set pmks \<and> wpa_verify_key_mic env ptk (last_rx_eapol_key sm)"
proof (induction pmks arbitrary: sm)
  case (Cons p ps)
  obtain k sm1 where d: "wpa_derive_ptk env p sm = (k, sm1)" by fastforce
  from derive_ptk_sm [OF d] obtain n where "sm1 = sm\<lparr>pmk_r1_name := n\<rparr>" by blast
  then show ?case using Cons.prems Cons.IH [of sm1] d by (auto simp: Let_def split: if_splits)
qed simp

section \<open>Entries of the 4-way handshake machine\<close>

lemma entry_sm [simp]:
  "c_sm (wpa_ptk_entry st c) = (c_sm c)\<lparr>sm_changed := True, wpa_ptk_state := st\<rparr>"
  "c_sm (wpa_ptk_group_entry gs c) = (c_sm c)\<lparr>sm_changed := True, wpa_ptk_group_state := gs\<rparr>"
  by (simp_all add: wpa_ptk_entry_def wpa_ptk_group_entry_def)

lemma initialize_sm [sm_simps]:
  "c_sm (sm_WPA_PTK_INITIALIZE_Enter env c) =
     (c_sm c)\<lparr>sm_changed := \<not> Init (c_sm c), wpa_ptk_state := WPA_PTK_INITIALIZE, keycount := 0,
       GUpdateStationKeys := False,
       PInitAKeys := (sm_wpa (c_sm c) \<noteq> WPA_VERSION_WPA \<and> PInitAKeys (c_sm c)), Pair := True,
       PTK_valid := False, PTK := ptk_zero, pairwise_set := False, TimeoutCtr := 0\<rparr>"
  by (simp add: sm_WPA_PTK_INITIALIZE_Enter_def Let_def)

lemma disconnect_sm [sm_simps]:
  "c_sm (sm_WPA_PTK_DISCONNECT_Enter env c) =
     (c_sm c)\<lparr>sm_changed := True, wpa_ptk_state := WPA_PTK_DISCONNECT, Disconnect := False,
       DeauthenticationRequest := True, ft_completed := False, PTK_valid := False,
       PTK := ptk_zero, pairwise_set := False\<rparr>"
  by (simp add: sm_WPA_PTK_DISCONNECT_Enter_def)

lemma disconnected_sm [sm_simps]:
  "c_sm (sm_WPA_PTK_DISCONNECTED_Enter c) =
     (c_sm c)\<lparr>sm_changed := True, wpa_ptk_state := WPA_PTK_DISCONNECTED,
       DeauthenticationRequest := False\<rparr>"
  by (simp add: sm_WPA_PTK_DISCONNECTED_Enter_def)

lemma authentication_sm [sm_simps]:
  "c_sm (sm_WPA_PTK_AUTHENTICATION_Enter c) =
     (c_sm c)\<lparr>sm_changed := True, wpa_ptk_state := WPA_PTK_AUTHENTICATION, PTK := ptk_zero,
       PTK_valid := False, AuthenticationRequest := False\<rparr>"
  by (simp add: sm_WPA_PTK_AUTHENTICATION_Enter_def Let_def)

lemma authentication2_sm [sm_simps]:
  "\<exists>n t d. c_sm (sm_WPA_PTK_AUTHENTICATION2_Enter env c) =
     (c_sm c)\<lparr>sm_changed := True, wpa_ptk_state := WPA_PTK_AUTHENTICATION2,
       ReAuthenticationRequest := False, ANonce := n, TimeoutCtr := t, Disconnect := d\<rparr>"
proof -
  let ?c = "usm (ReAuthenticationRequest_update (\<lambda>_. False))
     (wpa_group_ensure_init env (wpa_ptk_entry WPA_PTK_AUTHENTICATION2 c))"
  obtain r c' where g: "get_random env 32 ?c = (r, c')" by fastforce
  have "c_sm c' = c_sm ?c" using get_random_simps(1) [of env 32 ?c] g by simp
  then have s: "c_sm c' = (c_sm c)\<lparr>sm_changed := True, wpa_ptk_state := WPA_PTK_AUTHENTICATION2,
       ReAuthenticationRequest := False\<rparr>" by simp
  have e: "sm_WPA_PTK_AUTHENTICATION2_Enter env c =
      (case r of None \<Rightarrow> usm (Disconnect_update (\<lambda>_. True)) c'
       | Some nonce \<Rightarrow> usm (\<lambda>sm. sm\<lparr>ANonce := nonce, TimeoutCtr := 0\<rparr>) c')"
    using g by (simp add: sm_WPA_PTK_AUTHENTICATION2_Enter_def Let_def)
  show ?thesis
  proof (cases r)
    case None
    then have "c_sm (sm_WPA_PTK_AUTHENTICATION2_Enter env c) =
      (c_sm c)\<lparr>sm_changed := True, wpa_ptk_state := WPA_PTK_AUTHENTICATION2,
       ReAuthenticationRequest := False, ANonce := ANonce (c_sm c), TimeoutCtr := TimeoutCtr (c_sm c),
       Disconnect := True\<rparr>" by (simp add: e s)
    then show ?thesis by blast
  next
    case (Some nonce)
    then have "c_sm (sm_WPA_PTK_AUTHENTICATION2_Enter env c) =
      (c_sm c)\<lparr>sm_changed := True, wpa_ptk_state := WPA_PTK_AUTHENTICATION2,
       ReAuthenticationRequest := False, ANonce := nonce, TimeoutCtr := 0,
       Disconnect := Disconnect (c_sm c)\<rparr>" by (simp add: e s)
    then show ?thesis by blast
  qed
qed

lemma initpmk_sm [sm_simps]:
  "\<exists>p x. c_sm (sm_WPA_PTK_INITPMK_Enter env c) =
     (c_sm c)\<lparr>sm_changed := True, wpa_ptk_state := WPA_PTK_INITPMK, PMK := p, xxkey := x,
       req_replay_counter_used := False\<rparr>"
proof -
  let ?sm = "c_sm c"
  let ?p = "case pmksa ?sm of Some e \<Rightarrow> pm_pmk e
     | None \<Rightarrow> (case get_msk env (hist c) (sta_addr ?sm) of Some k \<Rightarrow> take 32 (take 64 k) | None \<Rightarrow> PMK ?sm)"
  let ?x = "case pmksa ?sm of Some e \<Rightarrow> []
     | None \<Rightarrow> (case get_msk env (hist c) (sta_addr ?sm) of
         Some k \<Rightarrow> if length (take 64 k) \<ge> 64 then drop 32 (take 64 k) else [] | None \<Rightarrow> [])"
  have "c_sm (sm_WPA_PTK_INITPMK_Enter env c) =
     ?sm\<lparr>sm_changed := True, wpa_ptk_state := WPA_PTK_INITPMK, PMK := ?p, xxkey := ?x,
       req_replay_counter_used := False\<rparr>"
    by (cases "pmksa ?sm"; cases "get_msk env (hist c) (sta_addr ?sm)")
      (simp_all add: sm_WPA_PTK_INITPMK_Enter_def wpa_ptk_entry_def usm_def Let_def)
  then show ?thesis by blast
qed

lemma initpsk_sm [sm_simps]:
  "\<exists>p x. c_sm (sm_WPA_PTK_INITPSK_Enter env c) =
     (c_sm c)\<lparr>sm_changed := True, wpa_ptk_state := WPA_PTK_INITPSK, PMK := p, xxkey := x,
       req_replay_counter_used := False\<rparr>"
proof (cases "first_psk env (wpa_ptk_entry WPA_PTK_INITPSK c)")
  case None
  then have "c_sm (sm_WPA_PTK_INITPSK_Enter env c) =
     (c_sm c)\<lparr>sm_changed := True, wpa_ptk_state := WPA_PTK_INITPSK, PMK := PMK (c_sm c),
       xxkey := xxkey (c_sm c), req_replay_counter_used := False\<rparr>"
    by (simp add: sm_WPA_PTK_INITPSK_Enter_def Let_def)
  then show ?thesis by blast
qed (auto simp: sm_WPA_PTK_INITPSK_Enter_def Let_def)

text \<open>A transmission moves the replay counters on, or nothing is sent.\<close>

definition sent_or_not :: "wpa_key_replay_counter list \<Rightarrow> wpa_key_replay_counter list \<Rightarrow> bool" where
  "sent_or_not kr kr' \<longleftrightarrow> kr' = kr \<or> kr' = replay_next kr"

lemma sent_or_not_intros [simp]: "sent_or_not kr kr" "sent_or_not kr (replay_next kr)"
  by (simp_all add: sent_or_not_def)

lemma ptkstart_sm [sm_simps]:
  "\<exists>kr p. sent_or_not (key_replay (c_sm c)) kr \<and> c_sm (sm_WPA_PTK_PTKSTART_Enter env c) =
     (c_sm c)\<lparr>sm_changed := True, wpa_ptk_state := WPA_PTK_PTKSTART, PTKRequest := False,
       TimeoutEvt := False, TimeoutCtr := TimeoutCtr (c_sm c) + 1, key_replay := kr,
       pending_1_of_4_timeout := p\<rparr>"
proof -
  let ?c = "usm (\<lambda>sm. sm\<lparr>PTKRequest := False, TimeoutEvt := False, TimeoutCtr := TimeoutCtr sm + 1\<rparr>)
     (wpa_ptk_entry WPA_PTK_PTKSTART c)"
  show ?thesis
  proof (cases "TimeoutCtr (c_sm ?c) > dot11RSNAConfigPairwiseUpdateCount")
    case True
    then show ?thesis
      by (intro exI [of _ "key_replay (c_sm c)"] exI [of _ "pending_1_of_4_timeout (c_sm c)"])
        (simp add: sm_WPA_PTK_PTKSTART_Enter_def Let_def)
  next
    case False
    obtain p where "c_sm (wpa_send_eapol env (WPA_KEY_INFO_ACK OR WPA_KEY_INFO_KEY_TYPE) None
        (Some (ANonce (c_sm ?c))) (ptkstart_pmkid env (c_sm ?c)) 0 False ?c) =
        (c_sm ?c)\<lparr>key_replay := replay_next (key_replay (c_sm ?c)), pending_1_of_4_timeout := p\<rparr>"
      using send_eapol_sm by blast
    then show ?thesis using False
      by (intro exI [of _ "replay_next (key_replay (c_sm c))"] exI [of _ p])
        (simp add: sm_WPA_PTK_PTKSTART_Enter_def Let_def)
  qed
qed

lemma ptkcalc_sm [sm_simps]:
  "(\<exists>n. c_sm (sm_WPA_PTK_PTKCALCNEGOTIATING_Enter env c) =
      (c_sm c)\<lparr>sm_changed := True, wpa_ptk_state := WPA_PTK_PTKCALCNEGOTIATING,
        EAPOLKeyReceived := False, update_snonce := False, pmk_r1_name := n\<rparr>) \<or>
   (\<exists>n pmk ptk. wpa_verify_key_mic env ptk (last_rx_eapol_key (c_sm c)) \<and>
      c_sm (sm_WPA_PTK_PTKCALCNEGOTIATING_Enter env c) =
      (c_sm c)\<lparr>sm_changed := True, wpa_ptk_state := WPA_PTK_PTKCALCNEGOTIATING,
        EAPOLKeyReceived := False, update_snonce := False, pmk_r1_name := n,
        pending_1_of_4_timeout := False, PMK := pmk, MICVerified := True, PTK := ptk,
        PTK_valid := True\<rparr>)"
proof -
  let ?c = "usm (\<lambda>sm. sm\<lparr>EAPOLKeyReceived := False, update_snonce := False\<rparr>)
     (wpa_ptk_entry WPA_PTK_PTKCALCNEGOTIATING c)"
  let ?psk = "wpa_key_mgmt_wpa_psk (sm_key_mgmt (c_sm c))"
  let ?pmks = "candidate_pmks env ?c"
  obtain r sm where t: "try_pmks env ?pmks (c_sm ?c) = (r, sm)" by fastforce
  from try_pmks_sm [OF t] obtain n where n: "sm = (c_sm ?c)\<lparr>pmk_r1_name := n\<rparr>" by blast
  show ?thesis
  proof (cases r)
    case None
    then show ?thesis using t n
      by (intro disjI1 exI [of _ n]) (simp add: sm_WPA_PTK_PTKCALCNEGOTIATING_Enter_def Let_def)
  next
    case (Some pp)
    obtain pmk ptk where pp: "pp = (pmk, ptk)" by fastforce
    have v: "wpa_verify_key_mic env ptk (last_rx_eapol_key (c_sm c))"
      using try_pmks_verified [of env ?pmks "c_sm ?c" pmk ptk sm] t Some pp by simp
    show ?thesis
    proof (cases "sm_wpa sm = WPA_VERSION_WPA2 \<and> wpa_key_mgmt_ft (sm_key_mgmt sm) \<and>
        sup_pmk_r1_name sm \<noteq> pmk_r1_name sm")
      case True
      then show ?thesis using t n Some pp
        by (intro disjI1 exI [of _ n]) (simp add: sm_WPA_PTK_PTKCALCNEGOTIATING_Enter_def Let_def)
    next
      case False
      then have "c_sm (sm_WPA_PTK_PTKCALCNEGOTIATING_Enter env c) =
          sm\<lparr>pending_1_of_4_timeout := False, PMK := (if ?psk then pmk else PMK (c_sm c)),
             MICVerified := True, PTK := ptk, PTK_valid := True\<rparr>"
        using t Some pp n by (cases ?psk) (auto simp: sm_WPA_PTK_PTKCALCNEGOTIATING_Enter_def Let_def)
      then show ?thesis using v unfolding n
        by (intro disjI2 exI [of _ n] exI [of _ "if ?psk then pmk else PMK (c_sm c)"] exI [of _ ptk]) simp
    qed
  qed
qed

lemma ptkcalc2_sm [sm_simps]:
  "c_sm (sm_WPA_PTK_PTKCALCNEGOTIATING2_Enter c) =
     (c_sm c)\<lparr>sm_changed := True, wpa_ptk_state := WPA_PTK_PTKCALCNEGOTIATING2, TimeoutCtr := 0\<rparr>"
  by (simp add: sm_WPA_PTK_PTKCALCNEGOTIATING2_Enter_def)

text \<open>\<^verbatim>\<open>only_sent sm sm'\<close>: the only difference is a transmission, or none.\<close>

definition only_sent :: "wpa_sm \<Rightarrow> wpa_sm \<Rightarrow> bool" where
  "only_sent sm sm' \<longleftrightarrow> (\<exists>kr p. sent_or_not (key_replay sm) kr \<and>
     sm' = sm\<lparr>key_replay := kr, pending_1_of_4_timeout := p\<rparr>)"

lemma only_sent_refl [simp]: "only_sent sm sm"
proof -
  have "sm = sm\<lparr>key_replay := key_replay sm, pending_1_of_4_timeout := pending_1_of_4_timeout sm\<rparr>" by simp
  then show ?thesis unfolding only_sent_def by (metis sent_or_not_intros(1))
qed

lemma only_sent_send [simp]:
  "only_sent (c_sm c) (c_sm (wpa_send_eapol env info rsc nonce kde idx encr c))"
  unfolding only_sent_def using send_eapol_sm [of env info rsc nonce kde idx encr c] by (auto simp: sent_or_not_def)

lemma only_sent_msgs [simp]:
  "only_sent (c_sm c) (c_sm (send_msg3 env secure rsc gtk keyidx encr c))"
  "only_sent (c_sm c) (c_sm (send_group_msg1 env rsc' gtk' c))"
  by (simp_all add: send_msg3_def send_group_msg1_def Let_def split: option.split)

lemma only_sent_random:
  assumes "\<And>k x. c_sm x = c_sm c \<Longrightarrow> only_sent (c_sm x) (c_sm (f k x))"
  shows "only_sent (c_sm c) (c_sm (case get_random env n c of (r, x) \<Rightarrow>
    (case r of None \<Rightarrow> x | Some k \<Rightarrow> f k x)))"
proof -
  obtain r x where g: "get_random env n c = (r, x)" by fastforce
  have "c_sm x = c_sm c" using get_random_simps(1) [of env n c] g by simp
  then show ?thesis using assms [of x] g by (cases r) simp_all
qed

lemma only_sent_if:
  "only_sent s (c_sm x) \<Longrightarrow> only_sent s (c_sm y) \<Longrightarrow> only_sent s (c_sm (if b then x else y))"
  by simp

lemma ptkinitneg_sm [sm_simps]:
  "only_sent ((c_sm c)\<lparr>sm_changed := True, wpa_ptk_state := WPA_PTK_PTKINITNEGOTIATING, TimeoutEvt := False,
       TimeoutCtr := TimeoutCtr (c_sm c) + 1\<rparr>) (c_sm (sm_WPA_PTK_PTKINITNEGOTIATING_Enter env c))"
proof -
  let ?c = "usm (\<lambda>sm. sm\<lparr>TimeoutEvt := False, TimeoutCtr := TimeoutCtr sm + 1\<rparr>)
     (wpa_ptk_entry WPA_PTK_PTKINITNEGOTIATING c)"
  have "only_sent (c_sm ?c) (c_sm (sm_WPA_PTK_PTKINITNEGOTIATING_Enter env c))"
    unfolding sm_WPA_PTK_PTKINITNEGOTIATING_Enter_def Let_def
    by (intro only_sent_if only_sent_random only_sent_msgs only_sent_refl)
  then show ?thesis by simp
qed

lemma ptkinitdone_tail_sm [simp]:
  "c_sm (ptkinitdone_tail c) =
     (if sm_wpa (c_sm c) = WPA_VERSION_WPA then (c_sm c)\<lparr>PInitAKeys := True\<rparr>
      else (c_sm c)\<lparr>has_GTK := True\<rparr>)"
  by (simp add: ptkinitdone_tail_def Let_def)

lemma ptkinitdone_sm [sm_simps]:
  "(\<exists>p a h. c_sm (sm_WPA_PTK_PTKINITDONE_Enter env c) =
      (c_sm c)\<lparr>sm_changed := True, wpa_ptk_state := WPA_PTK_PTKINITDONE, EAPOLKeyReceived := False,
        pairwise_set := p, PInitAKeys := a, has_GTK := h\<rparr>) \<or>
   c_sm (sm_WPA_PTK_PTKINITDONE_Enter env c) =
      (c_sm c)\<lparr>sm_changed := True, wpa_ptk_state := WPA_PTK_PTKINITDONE, EAPOLKeyReceived := False,
        DeauthenticationRequest := True, ft_completed := False, PTK_valid := False,
        PTK := ptk_zero, pairwise_set := False\<rparr>"
proof -
  let ?c = "usm (EAPOLKeyReceived_update (\<lambda>_. False)) (wpa_ptk_entry WPA_PTK_PTKINITDONE c)"
  let ?sm = "c_sm ?c"
  define Q where "Q x \<longleftrightarrow> (\<exists>p a h. c_sm x = ?sm\<lparr>pairwise_set := p, PInitAKeys := a, has_GTK := h\<rparr>)"
    for x :: wctx
  have tail: "Q (ptkinitdone_tail x)" if "c_sm x = ?sm\<lparr>pairwise_set := p\<rparr>" for x p
    unfolding Q_def using that
    by - (rule exI [of _ p], rule exI [of _ "sm_wpa ?sm = WPA_VERSION_WPA \<or> PInitAKeys ?sm"],
        rule exI [of _ "sm_wpa ?sm \<noteq> WPA_VERSION_WPA \<or> has_GTK ?sm"], simp)
  obtain r x where k: "wpa_auth_set_key env 0 (wpa_cipher_to_alg (pairwise ?sm)) (sta_addr ?sm) 0
      (take (wpa_cipher_key_len (pairwise ?sm)) (tk1 (PTK ?sm))) ?c = (r, x)" by fastforce
  have x: "c_sm x = ?sm"
    using set_key_simps(1) k by (metis snd_conv)
  show ?thesis
  proof (cases "Pair ?sm \<and> r \<noteq> 0")
    case True
    then show ?thesis using k x by (simp add: sm_WPA_PTK_PTKINITDONE_Enter_def Let_def)
  next
    case False
    have "Q (sm_WPA_PTK_PTKINITDONE_Enter env c)"
    proof (cases "Pair ?sm")
      case True
      then show ?thesis using False k x unfolding sm_WPA_PTK_PTKINITDONE_Enter_def Let_def
        by (auto intro!: tail)
    next
      case False
      then show ?thesis unfolding sm_WPA_PTK_PTKINITDONE_Enter_def Let_def
        using tail [of ?c "pairwise_set ?sm"] by simp
    qed
    then show ?thesis unfolding Q_def by auto
  qed
qed

section \<open>Entries of the group key machine\<close>

lemma group_idle_sm [sm_simps]:
  "c_sm (sm_WPA_PTK_GROUP_IDLE_Enter c) =
     (c_sm c)\<lparr>sm_changed := \<not> Init (c_sm c), wpa_ptk_group_state := WPA_PTK_GROUP_IDLE, GTimeoutCtr := 0\<rparr>"
  by (simp add: sm_WPA_PTK_GROUP_IDLE_Enter_def Let_def)

lemma group_rekeyneg_sm [sm_simps]:
  "\<exists>a t. only_sent ((c_sm c)\<lparr>sm_changed := True, wpa_ptk_group_state := WPA_PTK_GROUP_REKEYNEGOTIATING,
       GTimeoutCtr := GTimeoutCtr (c_sm c) + 1, PInitAKeys := a, TimeoutEvt := t\<rparr>)
     (c_sm (sm_WPA_PTK_GROUP_REKEYNEGOTIATING_Enter env c))"
proof -
  let ?c = "usm (\<lambda>sm. sm\<lparr>GTimeoutCtr := GTimeoutCtr sm + 1\<rparr>) (wpa_ptk_group_entry WPA_PTK_GROUP_REKEYNEGOTIATING c)"
  let ?d = "usm (\<lambda>sm. sm\<lparr>PInitAKeys := (sm_wpa sm \<noteq> WPA_VERSION_WPA \<and> PInitAKeys sm),
      TimeoutEvt := False\<rparr>) ?c"
  show ?thesis
  proof (cases "GTimeoutCtr (c_sm ?c) > dot11RSNAConfigGroupUpdateCount")
    case True
    then show ?thesis
      by - (rule exI [of _ "PInitAKeys (c_sm c)"], rule exI [of _ "TimeoutEvt (c_sm c)"],
        simp add: sm_WPA_PTK_GROUP_REKEYNEGOTIATING_Enter_def Let_def)
  next
    case False
    have "only_sent (c_sm ?d) (c_sm (sm_WPA_PTK_GROUP_REKEYNEGOTIATING_Enter env c))"
      using False unfolding sm_WPA_PTK_GROUP_REKEYNEGOTIATING_Enter_def Let_def if_not_P [OF False]
      by (intro only_sent_if only_sent_random only_sent_msgs only_sent_refl)
    then show ?thesis by auto
  qed
qed

lemma group_established_sm [sm_simps]:
  "c_sm (sm_WPA_PTK_GROUP_REKEYESTABLISHED_Enter c) =
     (c_sm c)\<lparr>sm_changed := True, wpa_ptk_group_state := WPA_PTK_GROUP_REKEYESTABLISHED,
       EAPOLKeyReceived := False, GUpdateStationKeys := False, GTimeoutCtr := 0, has_GTK := True\<rparr>"
  by (simp add: sm_WPA_PTK_GROUP_REKEYESTABLISHED_Enter_def Let_def)

lemma group_keyerror_sm [sm_simps]:
  "c_sm (sm_WPA_PTK_GROUP_KEYERROR_Enter c) =
     (c_sm c)\<lparr>sm_changed := True, wpa_ptk_group_state := WPA_PTK_GROUP_KEYERROR,
       GUpdateStationKeys := False, Disconnect := True\<rparr>"
  by (simp add: sm_WPA_PTK_GROUP_KEYERROR_Enter_def)

end
