(* ===== verification/Wpa_Reach.thy ===== *)
theory Wpa_Reach
  imports Wpa_Facts
begin

text \<open>
  From one station to the whole authenticator.  A locale states what a property of a station must
  satisfy to hold throughout: an invariant \<^verbatim>\<open>L\<close> that every step of the station machines keeps, and
  a condition \<^verbatim>\<open>R\<close> that holds whenever the station's step loop has come to rest.  Its lemmas carry
  both through the mutually recursive step functions and through every event.
\<close>

section \<open>What the steps keep of a station and of a group\<close>

definition sta_frame :: "wpa_sm \<Rightarrow> macaddr \<times> int \<times> bool \<times> bool \<times> bool" where
  "sta_frame sm = (sta_addr sm, sm_group sm, in_step_loop sm, pending_deinit sm, Init sm)"

lemma only_sent_frame: "only_sent sm sm' \<Longrightarrow> sta_frame sm' = sta_frame sm"
  by (auto simp: only_sent_def sta_frame_def)

lemma ptk_enter_frame1 [simp]:
  "sta_frame (c_sm (sm_WPA_PTK_INITIALIZE_Enter env c)) = sta_frame (c_sm c)"
  "sta_frame (c_sm (sm_WPA_PTK_DISCONNECT_Enter env c)) = sta_frame (c_sm c)"
  "sta_frame (c_sm (sm_WPA_PTK_DISCONNECTED_Enter c)) = sta_frame (c_sm c)"
  "sta_frame (c_sm (sm_WPA_PTK_AUTHENTICATION_Enter c)) = sta_frame (c_sm c)"
  "sta_frame (c_sm (sm_WPA_PTK_PTKCALCNEGOTIATING2_Enter c)) = sta_frame (c_sm c)"
  by (simp_all add: sta_frame_def initialize_sm disconnect_sm disconnected_sm authentication_sm
      ptkcalc2_sm)

lemma authentication2_frame [simp]:
  "sta_frame (c_sm (sm_WPA_PTK_AUTHENTICATION2_Enter env c)) = sta_frame (c_sm c)"
  using authentication2_sm [of env c] by (auto simp: sta_frame_def)

lemma initpmk_frame [simp]:
  "sta_frame (c_sm (sm_WPA_PTK_INITPMK_Enter env c)) = sta_frame (c_sm c)"
  using initpmk_sm [of env c] by (auto simp: sta_frame_def)

lemma initpsk_frame [simp]:
  "sta_frame (c_sm (sm_WPA_PTK_INITPSK_Enter env c)) = sta_frame (c_sm c)"
  using initpsk_sm [of env c] by (auto simp: sta_frame_def)

lemma ptkstart_frame [simp]:
  "sta_frame (c_sm (sm_WPA_PTK_PTKSTART_Enter env c)) = sta_frame (c_sm c)"
  using ptkstart_sm [of c env] by (auto simp: sta_frame_def)

lemma ptkcalc_frame [simp]:
  "sta_frame (c_sm (sm_WPA_PTK_PTKCALCNEGOTIATING_Enter env c)) = sta_frame (c_sm c)"
  using ptkcalc_sm [of env c] by (auto simp: sta_frame_def)

lemma ptkinitneg_frame [simp]:
  "sta_frame (c_sm (sm_WPA_PTK_PTKINITNEGOTIATING_Enter env c)) = sta_frame (c_sm c)"
  using only_sent_frame [OF ptkinitneg_sm [of c env]] by (simp add: sta_frame_def)

lemma ptkinitdone_frame [simp]:
  "sta_frame (c_sm (sm_WPA_PTK_PTKINITDONE_Enter env c)) = sta_frame (c_sm c)"
  using ptkinitdone_sm [of env c] by (auto simp: sta_frame_def)

lemma group_enter_frame [simp]:
  "sta_frame (c_sm (sm_WPA_PTK_GROUP_IDLE_Enter c)) = sta_frame (c_sm c)"
  "sta_frame (c_sm (sm_WPA_PTK_GROUP_REKEYNEGOTIATING_Enter env c)) = sta_frame (c_sm c)"
  "sta_frame (c_sm (sm_WPA_PTK_GROUP_REKEYESTABLISHED_Enter c)) = sta_frame (c_sm c)"
  "sta_frame (c_sm (sm_WPA_PTK_GROUP_KEYERROR_Enter c)) = sta_frame (c_sm c)"
  using group_rekeyneg_sm [of c env]
  by (auto simp: sta_frame_def group_idle_sm group_established_sm group_keyerror_sm dest!: only_sent_frame)

lemma handshake_failure_sm [simp]:
  "c_sm (handshake_failure c) = c_sm c" "c_grp (handshake_failure c) = c_grp c"
  by (simp_all add: handshake_failure_def)

lemma ptk_step_frame [simp]: "sta_frame (c_sm (sm_WPA_PTK_Step env c)) = sta_frame (c_sm c)"
  by (simp add: sm_WPA_PTK_Step_def Let_def split: wpa_ptk_enum.split)

lemma ptk_group_step_frame [simp]:
  "sta_frame (c_sm (sm_WPA_PTK_GROUP_Step env c)) = sta_frame (c_sm c)"
proof -
  have "sta_frame (sm\<lparr>PtkGroupInit := b\<rparr>) = sta_frame sm" for sm b by (simp add: sta_frame_def)
  then show ?thesis by (simp add: sm_WPA_PTK_GROUP_Step_def Let_def split: wpa_ptk_group_enum.split)
qed

section \<open>What the steps keep of the group\<close>

text \<open>The part of a group that its machine and the accounting of stations depend on.\<close>

definition grp_frame :: "wpa_group \<Rightarrow> int \<times> int \<times> bool \<times> wpa_group_enum \<times> bool \<times> bool \<times> bool" where
  "grp_frame g = (vlan_id g, GKeyDoneStations g, GTKReKey g, wpa_group_state g, GInit g,
     GTKAuthenticator g, grp_changed g)"

lemma grp_frame_upd [simp]:
  "grp_frame (g\<lparr>GNonce := a\<rparr>) = grp_frame g" "grp_frame (g\<lparr>Counter := a\<rparr>) = grp_frame g"
  "grp_frame (g\<lparr>GTK := k\<rparr>) = grp_frame g" "grp_frame (g\<lparr>GMK := a\<rparr>) = grp_frame g"
  "grp_frame (g\<lparr>first_sta_seen := b\<rparr>) = grp_frame g"
  "grp_frame (g\<lparr>reject_4way_hs_for_entropy := b\<rparr>) = grp_frame g"
  by (simp_all add: grp_frame_def)

lemma grp_frame_helpers [simp]:
  "grp_frame (c_grp (snd (wpa_gtk_update env c))) = grp_frame (c_grp c)"
  "grp_frame (c_grp (snd (wpa_group_init_gmk_and_counter env c))) = grp_frame (c_grp c)"
  "c_grp (snd (wpa_group_config_group_keys env c)) = c_grp c"
  "c_grp (wpa_remove_ptk env c) = c_grp c"
  "c_grp (sm_event_tail env ev c) = c_grp c"
  "c_grp (wpa_sta_disconnect env c) = c_grp c"
  "c_grp (wpa_ptk_entry st c) = c_grp c"
  "c_grp (wpa_ptk_group_entry gs c) = c_grp c"
  "c_grp (ptkinitdone_tail c) = c_grp c"
  "c_grp (wpa_request_new_ptk c) = c_grp c"
  by (auto simp: wpa_gtk_update_def wpa_group_config_group_keys_def wpa_group_init_gmk_and_counter_def
      wpa_remove_ptk_def sm_event_tail_def wpa_sta_disconnect_def
      wpa_ptk_entry_def wpa_ptk_group_entry_def ptkinitdone_tail_def wpa_request_new_ptk_def
      Let_def case_prod_beta split: option.split)

lemma drop_group_update_grp:
  "c_grp (drop_group_update c) =
     (if GUpdateStationKeys (c_sm c) then GKeyDoneStations_update (\<lambda>n. n - 1) (c_grp c) else c_grp c)"
  by (simp add: drop_group_update_def)

lemma ensure_init_grp [simp]: "grp_frame (c_grp (wpa_group_ensure_init env c)) = grp_frame (c_grp c)"
  by (simp add: wpa_group_ensure_init_def Let_def case_prod_beta)

lemma send_grp [simp]:
  "grp_frame (c_grp (wpa_send_eapol env info rsc nonce kde idx encr c)) = grp_frame (c_grp c)"
proof -
  have "grp_frame (c_grp (wpa_send_eapol_frame env info rsc nonce kde idx encr fv c)) = grp_frame (c_grp c)"
    for fv
    by (cases "send_key_data env (PTK (c_sm c)) (eapol_version_of (c_sm c) fv) kde encr (Counter (c_grp c))")
      (simp_all add: wpa_send_eapol_frame_def Let_def split: prod.split)
  then show ?thesis by (simp add: wpa_send_eapol_def register_eapol_timeout_def Let_def)
qed

lemma send_msgs_grp [simp]:
  "grp_frame (c_grp (send_msg3 env secure rsc gtk keyidx encr c)) = grp_frame (c_grp c)"
  "grp_frame (c_grp (send_group_msg1 env rsc' gtk' c)) = grp_frame (c_grp c)"
  by (simp_all add: send_msg3_def send_group_msg1_def Let_def split: option.split)

lemma option_ctx_grp:
  "grp_frame (c_grp x) = v \<Longrightarrow> (\<And>k. grp_frame (c_grp (f k)) = v) \<Longrightarrow>
    grp_frame (c_grp (case r of None \<Rightarrow> x | Some k \<Rightarrow> f k)) = v"
  by (cases r) simp_all

lemma ptk_enter_grp [simp]:
  "c_grp (sm_WPA_PTK_DISCONNECT_Enter env c) = c_grp c"
  "c_grp (sm_WPA_PTK_DISCONNECTED_Enter c) = c_grp c"
  "c_grp (sm_WPA_PTK_AUTHENTICATION_Enter c) = c_grp c"
  "grp_frame (c_grp (sm_WPA_PTK_AUTHENTICATION2_Enter env c)) = grp_frame (c_grp c)"
  "c_grp (sm_WPA_PTK_INITPMK_Enter env c) = c_grp c"
  "c_grp (sm_WPA_PTK_INITPSK_Enter env c) = c_grp c"
  "grp_frame (c_grp (sm_WPA_PTK_PTKSTART_Enter env c)) = grp_frame (c_grp c)"
  "c_grp (sm_WPA_PTK_PTKCALCNEGOTIATING2_Enter c) = c_grp c"
  by (simp_all add: sm_WPA_PTK_DISCONNECT_Enter_def sm_WPA_PTK_DISCONNECTED_Enter_def
      sm_WPA_PTK_AUTHENTICATION_Enter_def sm_WPA_PTK_AUTHENTICATION2_Enter_def
      sm_WPA_PTK_INITPMK_Enter_def sm_WPA_PTK_INITPSK_Enter_def sm_WPA_PTK_PTKSTART_Enter_def
      sm_WPA_PTK_PTKCALCNEGOTIATING2_Enter_def Let_def case_prod_beta split: option.split)

lemma initialize_grp:
  "c_grp (sm_WPA_PTK_INITIALIZE_Enter env c) =
     (if GUpdateStationKeys (c_sm c) then GKeyDoneStations_update (\<lambda>n. n - 1) (c_grp c) else c_grp c)"
  by (simp add: sm_WPA_PTK_INITIALIZE_Enter_def Let_def drop_group_update_grp)

lemma ptkcalc_grp [simp]: "c_grp (sm_WPA_PTK_PTKCALCNEGOTIATING_Enter env c) = c_grp c"
  by (simp add: sm_WPA_PTK_PTKCALCNEGOTIATING_Enter_def Let_def case_prod_beta split: option.split)

lemma ptkinitdone_grp [simp]: "c_grp (sm_WPA_PTK_PTKINITDONE_Enter env c) = c_grp c"
  by (simp add: sm_WPA_PTK_PTKINITDONE_Enter_def Let_def case_prod_beta)

lemma grp_frame_if:
  "grp_frame (c_grp x) = s \<Longrightarrow> grp_frame (c_grp y) = s \<Longrightarrow> grp_frame (c_grp (if b then x else y)) = s"
  by simp

lemma grp_frame_random:
  assumes "\<And>k x. c_grp x = c_grp c \<Longrightarrow> grp_frame (c_grp (f k x)) = grp_frame (c_grp x)"
  shows "grp_frame (c_grp (case get_random env n c of (r, x) \<Rightarrow>
    (case r of None \<Rightarrow> x | Some k \<Rightarrow> f k x))) = grp_frame (c_grp c)"
proof -
  obtain r x where g: "get_random env n c = (r, x)" by fastforce
  have "c_grp x = c_grp c" using get_random_simps(2) [of env n c] g by simp
  then show ?thesis using assms [of x] g by (cases r) simp_all
qed

lemma ptkinitneg_grp [simp]:
  "grp_frame (c_grp (sm_WPA_PTK_PTKINITNEGOTIATING_Enter env c)) = grp_frame (c_grp c)"
proof -
  let ?c = "usm (\<lambda>sm. sm\<lparr>TimeoutEvt := False, TimeoutCtr := TimeoutCtr sm + 1\<rparr>)
     (wpa_ptk_entry WPA_PTK_PTKINITNEGOTIATING c)"
  have "grp_frame (c_grp (sm_WPA_PTK_PTKINITNEGOTIATING_Enter env c)) = grp_frame (c_grp ?c)"
    unfolding sm_WPA_PTK_PTKINITNEGOTIATING_Enter_def Let_def
    by (intro grp_frame_if grp_frame_random send_msgs_grp refl)
  then show ?thesis by simp
qed

lemma group_enter_grp [simp]:
  "c_grp (sm_WPA_PTK_GROUP_IDLE_Enter c) = c_grp c"
  by (simp add: sm_WPA_PTK_GROUP_IDLE_Enter_def Let_def)

lemma group_rekeyneg_grp [simp]:
  "grp_frame (c_grp (sm_WPA_PTK_GROUP_REKEYNEGOTIATING_Enter env c)) = grp_frame (c_grp c)"
proof -
  let ?c = "usm (\<lambda>sm. sm\<lparr>GTimeoutCtr := GTimeoutCtr sm + 1\<rparr>)
     (wpa_ptk_group_entry WPA_PTK_GROUP_REKEYNEGOTIATING c)"
  have d: "grp_frame (c_grp (usm f ?c)) = grp_frame (c_grp ?c)" for f by simp
  have "grp_frame (c_grp (sm_WPA_PTK_GROUP_REKEYNEGOTIATING_Enter env c)) = grp_frame (c_grp ?c)"
    unfolding sm_WPA_PTK_GROUP_REKEYNEGOTIATING_Enter_def Let_def
    by (intro grp_frame_if refl trans [OF grp_frame_random d] trans [OF send_msgs_grp(2) d] send_msgs_grp)
  then show ?thesis by simp
qed

text \<open>Stations leave the count of a group exactly when their pending update is withdrawn.\<close>

definition withdraws :: "wctx \<Rightarrow> wctx \<Rightarrow> bool" where
  "withdraws c c' \<longleftrightarrow>
     GUpdateStationKeys (c_sm c') = GUpdateStationKeys (c_sm c) \<and> grp_frame (c_grp c') = grp_frame (c_grp c) \<or>
     \<not> GUpdateStationKeys (c_sm c') \<and>
       grp_frame (c_grp c') = grp_frame (if GUpdateStationKeys (c_sm c)
         then GKeyDoneStations_update (\<lambda>n. n - 1) (c_grp c) else c_grp c)"

lemma withdraws_vlan: "withdraws c c' \<Longrightarrow> vlan_id (c_grp c') = vlan_id (c_grp c)"
  by (auto simp: withdraws_def grp_frame_def split: if_splits)

lemma ptk_enter_gupd [simp]:
  "GUpdateStationKeys (c_sm (sm_WPA_PTK_DISCONNECT_Enter env c)) = GUpdateStationKeys (c_sm c)"
  "GUpdateStationKeys (c_sm (sm_WPA_PTK_DISCONNECTED_Enter c)) = GUpdateStationKeys (c_sm c)"
  "GUpdateStationKeys (c_sm (sm_WPA_PTK_AUTHENTICATION_Enter c)) = GUpdateStationKeys (c_sm c)"
  "GUpdateStationKeys (c_sm (sm_WPA_PTK_PTKCALCNEGOTIATING2_Enter c)) = GUpdateStationKeys (c_sm c)"
  by (simp_all add: disconnect_sm disconnected_sm authentication_sm ptkcalc2_sm)

lemma authentication2_gupd [simp]:
  "GUpdateStationKeys (c_sm (sm_WPA_PTK_AUTHENTICATION2_Enter env c)) = GUpdateStationKeys (c_sm c)"
  using authentication2_sm [of env c] by auto

lemma initpmk_gupd [simp]:
  "GUpdateStationKeys (c_sm (sm_WPA_PTK_INITPMK_Enter env c)) = GUpdateStationKeys (c_sm c)"
  using initpmk_sm [of env c] by auto

lemma initpsk_gupd [simp]:
  "GUpdateStationKeys (c_sm (sm_WPA_PTK_INITPSK_Enter env c)) = GUpdateStationKeys (c_sm c)"
  using initpsk_sm [of env c] by auto

lemma ptkstart_gupd [simp]:
  "GUpdateStationKeys (c_sm (sm_WPA_PTK_PTKSTART_Enter env c)) = GUpdateStationKeys (c_sm c)"
  using ptkstart_sm [of c env] by auto

lemma ptkcalc_gupd [simp]:
  "GUpdateStationKeys (c_sm (sm_WPA_PTK_PTKCALCNEGOTIATING_Enter env c)) = GUpdateStationKeys (c_sm c)"
  using ptkcalc_sm [of env c] by auto

lemma ptkinitneg_gupd [simp]:
  "GUpdateStationKeys (c_sm (sm_WPA_PTK_PTKINITNEGOTIATING_Enter env c)) = GUpdateStationKeys (c_sm c)"
  using ptkinitneg_sm [of c env] by (auto simp: only_sent_def)

lemma ptkinitdone_gupd [simp]:
  "GUpdateStationKeys (c_sm (sm_WPA_PTK_PTKINITDONE_Enter env c)) = GUpdateStationKeys (c_sm c)"
  using ptkinitdone_sm [of env c] by auto

lemma rekeyneg_gupd [simp]:
  "GUpdateStationKeys (c_sm (sm_WPA_PTK_GROUP_REKEYNEGOTIATING_Enter env c)) = GUpdateStationKeys (c_sm c)"
  using group_rekeyneg_sm [of c env] by (auto simp: only_sent_def)

lemma initialize_withdraws: "withdraws c (sm_WPA_PTK_INITIALIZE_Enter env c)"
  by (simp add: withdraws_def initialize_grp initialize_sm)

lemma withdraws_same:
  "grp_frame (c_grp x) = grp_frame (c_grp c) \<Longrightarrow>
   GUpdateStationKeys (c_sm x) = GUpdateStationKeys (c_sm c) \<Longrightarrow> withdraws c x"
  by (simp add: withdraws_def)

lemma withdraws_if: "withdraws c x \<Longrightarrow> withdraws c y \<Longrightarrow> withdraws c (if b then x else y)"
  by simp

lemma ptk_enter_withdraws:
  "withdraws c c"
  "withdraws c (sm_WPA_PTK_INITIALIZE_Enter env c)"
  "withdraws c (sm_WPA_PTK_DISCONNECT_Enter env c)"
  "withdraws c (sm_WPA_PTK_DISCONNECT_Enter env (handshake_failure c))"
  "withdraws c (sm_WPA_PTK_DISCONNECTED_Enter c)"
  "withdraws c (sm_WPA_PTK_AUTHENTICATION_Enter c)"
  "withdraws c (sm_WPA_PTK_AUTHENTICATION2_Enter env c)"
  "withdraws c (sm_WPA_PTK_INITPMK_Enter env c)"
  "withdraws c (sm_WPA_PTK_INITPSK_Enter env c)"
  "withdraws c (sm_WPA_PTK_PTKSTART_Enter env c)"
  "withdraws c (sm_WPA_PTK_PTKCALCNEGOTIATING_Enter env c)"
  "withdraws c (sm_WPA_PTK_PTKCALCNEGOTIATING2_Enter c)"
  "withdraws c (sm_WPA_PTK_PTKINITNEGOTIATING_Enter env c)"
  "withdraws c (sm_WPA_PTK_PTKINITDONE_Enter env c)"
  by (rule withdraws_same initialize_withdraws; simp)+

lemma ptk_step_withdraws: "withdraws c (sm_WPA_PTK_Step env c)"
  unfolding sm_WPA_PTK_Step_def Let_def
  by (intro withdraws_if ptk_enter_withdraws)
    (cases "wpa_ptk_state (c_sm c)"; simp only: wpa_ptk_enum.case; intro withdraws_if ptk_enter_withdraws)

lemma group_enter_withdraws:
  "withdraws c (sm_WPA_PTK_GROUP_IDLE_Enter c)"
  "withdraws c (usm (PtkGroupInit_update (\<lambda>_. False)) (sm_WPA_PTK_GROUP_IDLE_Enter c))"
  "withdraws c (sm_WPA_PTK_GROUP_REKEYNEGOTIATING_Enter env c)"
  "withdraws c (sm_WPA_PTK_GROUP_REKEYESTABLISHED_Enter c)"
  "withdraws c (sm_WPA_PTK_GROUP_KEYERROR_Enter c)"
  by (simp_all add: withdraws_def group_idle_sm group_established_sm group_keyerror_sm
      drop_group_update_grp sm_WPA_PTK_GROUP_REKEYESTABLISHED_Enter_def
      sm_WPA_PTK_GROUP_KEYERROR_Enter_def)

lemma ptk_group_step_withdraws: "withdraws c (sm_WPA_PTK_GROUP_Step env c)"
  unfolding sm_WPA_PTK_GROUP_Step_def Let_def
  by (intro withdraws_if group_enter_withdraws)
    (cases "wpa_ptk_group_state (c_sm c)"; simp only: wpa_ptk_group_enum.case;
     intro withdraws_if ptk_enter_withdraws(1) group_enter_withdraws)

section \<open>Stations and groups of a world\<close>

definition wf_world :: "wpa_world \<Rightarrow> bool" where
  "wf_world w \<longleftrightarrow> distinct (map sta_addr (w_stas w)) \<and> distinct (map vlan_id (w_groups w)) \<and>
     (\<forall>sm\<in>set (w_stas w). sm_group sm \<in> vlan_id ` set (w_groups w))"

lemma find_sta_Some: "find_sta a w = Some sm \<Longrightarrow> sm \<in> set (w_stas w) \<and> sta_addr sm = a"
  by (auto simp: find_sta_def find_Some_iff)

lemma find_sta_None: "find_sta a w = None \<longleftrightarrow> a \<notin> sta_addr ` set (w_stas w)"
  by (auto simp: find_sta_def find_None_iff)

lemma find_grp_Some: "find_grp v w = Some g \<Longrightarrow> g \<in> set (w_groups w) \<and> vlan_id g = v"
  by (auto simp: find_grp_def find_Some_iff)

lemma find_grp_None: "find_grp v w = None \<longleftrightarrow> v \<notin> vlan_id ` set (w_groups w)"
  by (auto simp: find_grp_def find_None_iff)

lemma wf_find_sta:
  "wf_world w \<Longrightarrow> sm \<in> set (w_stas w) \<Longrightarrow> find_sta (sta_addr sm) w = Some sm"
proof -
  assume "wf_world w" and m: "sm \<in> set (w_stas w)"
  then have i: "inj_on sta_addr (set (w_stas w))" by (simp add: wf_world_def distinct_map)
  obtain x where x: "find_sta (sta_addr sm) w = Some x" using m find_sta_None [of "sta_addr sm" w] by auto
  then have "x = sm" using find_sta_Some [OF x] i m by (auto dest: inj_onD)
  then show ?thesis using x by simp
qed

lemma wf_group_exists: "wf_world w \<Longrightarrow> find_sta a w = Some sm \<Longrightarrow> \<exists>g. find_grp (sm_group sm) w = Some g"
  using find_sta_Some [of a w sm] find_grp_None [of "sm_group sm" w]
  by (auto simp: wf_world_def)

text \<open>The context a station runs in.\<close>

definition ctx_of :: "wpa_sm \<Rightarrow> wpa_group \<Rightarrow> wpa_world \<Rightarrow> wctx" where
  "ctx_of sm g w = \<lparr>c_sm = sm, c_grp = g, handshake_failures = w_failures w,
     auth_remote_mic_failures = w_remote_mic w, hist = w_hist w\<rparr>"

lemma ctx_of_simps [simp]: "c_sm (ctx_of sm g w) = sm" "c_grp (ctx_of sm g w) = g"
  by (simp_all add: ctx_of_def)

lemma with_sta_stas:
  assumes "find_sta a w = Some sm" "find_grp (sm_group sm) w = Some g"
  shows "w_stas (with_sta a f w) =
    map (\<lambda>s. if sta_addr s = a then c_sm (f (ctx_of sm g w)) else s) (w_stas w)"
    and "w_groups (with_sta a f w) =
    map (\<lambda>x. if vlan_id x = sm_group sm then c_grp (f (ctx_of sm g w)) else x) (w_groups w)"
  using assms by (simp_all add: with_sta_def put_sta_def put_grp_def ctx_of_def Let_def)

lemma with_grp_stas [simp]: "w_stas (with_grp v f w) = w_stas w"
  by (simp add: with_grp_def put_grp_def Let_def split: option.split)

lemma upd_stas [simp]:
  "w_stas (upd_sta a h w) = map (\<lambda>s. if sta_addr s = a then h s else s) (w_stas w)"
  "w_groups (upd_sta a h w) = w_groups w"
  "w_stas (upd_grp v k w) = w_stas w"
  "w_groups (upd_grp v k w) = map (\<lambda>g. if vlan_id g = v then k g else g) (w_groups w)"
  "w_stas (world_log e w) = w_stas w" "w_groups (world_log e w) = w_groups w"
  by (simp_all add: upd_sta_def upd_grp_def world_log_def)

lemma find_upd_sta:
  assumes "\<And>s. sta_addr (h s) = sta_addr s"
  shows "find_sta b (upd_sta a h w) = (if b = a then map_option h (find_sta a w) else find_sta b w)"
proof -
  have "find (\<lambda>s. sta_addr s = b) (map (\<lambda>s. if sta_addr s = a then h s else s) xs) =
      (if b = a then map_option h (find (\<lambda>s. sta_addr s = a) xs) else find (\<lambda>s. sta_addr s = b) xs)" for xs
    using assms by (induction xs) auto
  then show ?thesis by (simp add: find_sta_def)
qed

lemma find_with_sta:
  assumes "\<And>c. sta_addr (c_sm (f c)) = sta_addr (c_sm c)"
    and "find_sta a w = Some sm" "find_grp (sm_group sm) w = Some g"
  shows "find_sta b (with_sta a f w) =
    (if b = a then Some (c_sm (f (ctx_of sm g w))) else find_sta b w)"
proof -
  have k: "sta_addr (c_sm (f (ctx_of sm g w))) = a" using assms find_sta_Some by simp
  have "find (\<lambda>s. sta_addr s = b) (map (\<lambda>s. if sta_addr s = a then k else s) xs) =
      (if b = a then map_option (\<lambda>_. k) (find (\<lambda>s. sta_addr s = a) xs)
       else find (\<lambda>s. sta_addr s = b) xs)" if "sta_addr k = a" for xs k
    using that by (induction xs) auto
  from this [OF k] show ?thesis using assms(2) by (simp add: find_sta_def with_sta_stas [OF assms(2,3)])
qed

section \<open>Invariants of all stations\<close>

text \<open>\<^term>\<open>stas_ok L R A w\<close>: every station satisfies \<^term>\<open>L\<close>, and \<^term>\<open>R\<close> unless it is being stepped or is in
  \<^term>\<open>A\<close>.  \<^term>\<open>keeps A w w'\<close>, for stations other than those of \<^term>\<open>A\<close>: one that is being stepped is only
  marked for a group key update, and no other is left in a step.\<close>

definition stas_ok :: "(wpa_sm \<Rightarrow> bool) \<Rightarrow> (wpa_sm \<Rightarrow> bool) \<Rightarrow> macaddr set \<Rightarrow> wpa_world \<Rightarrow> bool" where
  "stas_ok L R A w \<longleftrightarrow> wf_world w \<and>
     (\<forall>sm\<in>set (w_stas w). L sm \<and> (\<not> in_step_loop sm \<and> sta_addr sm \<notin> A \<longrightarrow> R sm))"

definition stepping :: "macaddr \<Rightarrow> wpa_world \<Rightarrow> bool" where
  "stepping b w = sta_flag in_step_loop b w"

definition keeps :: "macaddr set \<Rightarrow> wpa_world \<Rightarrow> wpa_world \<Rightarrow> bool" where
  "keeps A w w' \<longleftrightarrow> (\<forall>b. b \<notin> A \<longrightarrow> (stepping b w' \<longrightarrow> stepping b w) \<and>
     (\<forall>sm. find_sta b w = Some sm \<longrightarrow> in_step_loop sm \<longrightarrow>
       (\<exists>g. find_sta b w' = Some (sm\<lparr>GUpdateStationKeys := g\<rparr>))))"

lemma keepsD:
  "keeps A w w' \<Longrightarrow> b \<notin> A \<Longrightarrow> find_sta b w = Some sm \<Longrightarrow> in_step_loop sm \<Longrightarrow>
     \<exists>g. find_sta b w' = Some (sm\<lparr>GUpdateStationKeys := g\<rparr>)"
  by (simp add: keeps_def)

lemma keeps_marked:
  assumes "\<And>b. b \<notin> A \<Longrightarrow> \<exists>g. find_sta b w' = map_option (GUpdateStationKeys_update (\<lambda>_. g)) (find_sta b w)"
  shows "keeps A w w'"
  unfolding keeps_def
proof (intro allI impI)
  fix b assume "b \<notin> A"
  from assms [OF this] obtain g where
    g: "find_sta b w' = map_option (GUpdateStationKeys_update (\<lambda>_. g)) (find_sta b w)" by blast
  show "(stepping b w' \<longrightarrow> stepping b w) \<and>
     (\<forall>sm. find_sta b w = Some sm \<longrightarrow> in_step_loop sm \<longrightarrow>
       (\<exists>g. find_sta b w' = Some (sm\<lparr>GUpdateStationKeys := g\<rparr>)))"
    by (cases "find_sta b w") (use g in \<open>auto simp: stepping_def sta_flag_def\<close>)
qed

lemma keeps_same: "(\<And>b. b \<notin> A \<Longrightarrow> find_sta b w' = find_sta b w) \<Longrightarrow> keeps A w w'"
proof (rule keeps_marked)
  fix b
  assume "\<And>b. b \<notin> A \<Longrightarrow> find_sta b w' = find_sta b w" and "b \<notin> A"
  then have "find_sta b w' = map_option (GUpdateStationKeys_update
      (\<lambda>_. case find_sta b w of Some s \<Rightarrow> GUpdateStationKeys s | None \<Rightarrow> False)) (find_sta b w)"
    by (cases "find_sta b w") simp_all
  then show "\<exists>g. find_sta b w' = map_option (GUpdateStationKeys_update (\<lambda>_. g)) (find_sta b w)" by blast
qed

lemma keeps_trans:
  assumes A: "keeps A w w'" and B: "keeps B w' w''"
  shows "keeps (A \<union> B) w w''"
  unfolding keeps_def
proof (intro allI impI conjI)
  fix b assume b: "b \<notin> A \<union> B" and "stepping b w''"
  then show "stepping b w" using A B by (simp add: keeps_def)
next
  fix b sm
  assume b: "b \<notin> A \<union> B" "find_sta b w = Some sm" "in_step_loop sm"
  obtain g where g: "find_sta b w' = Some (sm\<lparr>GUpdateStationKeys := g\<rparr>)" using keepsD [OF A] b by blast
  then show "\<exists>g. find_sta b w'' = Some (sm\<lparr>GUpdateStationKeys := g\<rparr>)"
    using keepsD [OF B, of b "sm\<lparr>GUpdateStationKeys := g\<rparr>"] b by simp
qed

lemma keeps_mono: "keeps A w w' \<Longrightarrow> A \<subseteq> B \<Longrightarrow> keeps B w w'"
  unfolding keeps_def by blast

lemma stas_ok_mono: "stas_ok L R A w \<Longrightarrow> A \<subseteq> B \<Longrightarrow> stas_ok L R B w"
  by (auto simp: stas_ok_def)

lemma stas_okD: "stas_ok L R A w \<Longrightarrow> find_sta a w = Some sm \<Longrightarrow> L sm"
  using find_sta_Some [of a w sm] by (auto simp: stas_ok_def)

lemma map_addr_cong:
  "(\<And>s. s \<in> set xs \<Longrightarrow> f (h s) = f s) \<Longrightarrow> map (f \<circ> h) xs = map f xs"
  by simp

lemma wf_upd_sta:
  assumes "wf_world w" and "\<And>s. sta_addr (h s) = sta_addr s" and "\<And>s. sm_group (h s) = sm_group s"
  shows "wf_world (upd_sta a h w)"
proof -
  have "map sta_addr (map (\<lambda>s. if sta_addr s = a then h s else s) (w_stas w)) = map sta_addr (w_stas w)"
    using assms(2) by simp
  then have "distinct (map sta_addr (w_stas (upd_sta a h w)))"
    using assms(1) by (simp only: upd_stas wf_world_def)
  then show ?thesis using assms by (auto simp: wf_world_def)
qed

lemma wf_with_sta:
  assumes "wf_world w" and "find_sta a w = Some sm"
    and "\<And>c. sta_addr (c_sm (f c)) = sta_addr (c_sm c)" "\<And>c. sm_group (c_sm (f c)) = sm_group (c_sm c)"
    and "\<And>c. vlan_id (c_grp (f c)) = vlan_id (c_grp c)"
  shows "wf_world (with_sta a f w)"
proof -
  obtain g where g: "find_grp (sm_group sm) w = Some g" using wf_group_exists [OF assms(1,2)] by blast
  let ?c = "f (ctx_of sm g w)"
  have a: "sta_addr (c_sm ?c) = a" "sm_group (c_sm ?c) = sm_group sm" "vlan_id (c_grp ?c) = sm_group sm"
    using assms(3-5) find_sta_Some [OF assms(2)] find_grp_Some [OF g] by simp_all
  have addrs: "map sta_addr (w_stas (with_sta a f w)) = map sta_addr (w_stas w)"
    unfolding with_sta_stas [OF assms(2) g] using a(1) by simp
  have vlans: "map vlan_id (w_groups (with_sta a f w)) = map vlan_id (w_groups w)"
    unfolding with_sta_stas [OF assms(2) g] using a(3) by simp
  have grps: "sm_group s \<in> vlan_id ` set (w_groups w)" if "s \<in> set (w_stas (with_sta a f w))" for s
  proof -
    have "s = c_sm ?c \<or> s \<in> set (w_stas w)"
      using that unfolding with_sta_stas [OF assms(2) g] by auto
    then show ?thesis using assms(1) a(2) find_sta_Some [OF assms(2)] by (auto simp: wf_world_def)
  qed
  have "vlan_id ` set (w_groups (with_sta a f w)) = vlan_id ` set (w_groups w)"
    using vlans by (metis set_map)
  then show ?thesis using assms(1) addrs vlans grps by (simp add: wf_world_def)
qed

lemma map_vlan_if: "vlan_id g = v \<Longrightarrow> map vlan_id (map (\<lambda>x. if vlan_id x = v then g else x) xs) = map vlan_id xs"
  by (induction xs) auto

lemma wf_groups_cong:
  "wf_world w \<Longrightarrow> w_stas w' = w_stas w \<Longrightarrow> map vlan_id (w_groups w') = map vlan_id (w_groups w) \<Longrightarrow> wf_world w'"
  unfolding wf_world_def by (metis set_map)

lemma wf_with_grp:
  assumes "wf_world w" and "\<And>c. vlan_id (c_grp (f c)) = vlan_id (c_grp c)"
  shows "wf_world (with_grp v f w)"
proof (cases "find_grp v w")
  case None
  then show ?thesis using assms(1) by (simp add: with_grp_def)
next
  case (Some g)
  let ?g = "c_grp (f \<lparr>c_sm = sm_zero [] v, c_grp = g, handshake_failures = w_failures w,
      auth_remote_mic_failures = w_remote_mic w, hist = w_hist w\<rparr>)"
  have "vlan_id ?g = v" using assms(2) find_grp_Some [OF Some] by simp
  then have "map vlan_id (w_groups (with_grp v f w)) = map vlan_id (w_groups w)"
    using Some map_vlan_if [of ?g v] by (simp add: with_grp_def put_grp_def Let_def)
  then show ?thesis using wf_groups_cong [OF assms(1)] by simp
qed

lemma wf_upd_grp:
  assumes "wf_world w" and "\<And>g. vlan_id (k g) = vlan_id g"
  shows "wf_world (upd_grp v k w)"
proof (rule wf_groups_cong [OF assms(1)])
  show "map vlan_id (w_groups (upd_grp v k w)) = map vlan_id (w_groups w)"
    using assms(2) by simp
qed simp

lemma grp_fun_vlan [simp]:
  "vlan_id (c_grp (wpa_group_gtk_init env c)) = vlan_id (c_grp c)"
  "vlan_id (c_grp (wpa_group_setkeysdone env c)) = vlan_id (c_grp c)"
  "vlan_id (c_grp (setkeys_start env c)) = vlan_id (c_grp c)"
proof -
  have v: "vlan_id (c_grp (snd (wpa_gtk_update env d))) = vlan_id (c_grp d)" for d
    using grp_frame_helpers(1) [of env d] by (simp add: grp_frame_def)
  show "vlan_id (c_grp (wpa_group_gtk_init env c)) = vlan_id (c_grp c)"
    by (simp add: wpa_group_gtk_init_def v)
  show "vlan_id (c_grp (wpa_group_setkeysdone env c)) = vlan_id (c_grp c)"
    by (simp add: wpa_group_setkeysdone_def)
  show "vlan_id (c_grp (setkeys_start env c)) = vlan_id (c_grp c)"
    by (simp add: setkeys_start_def Let_def case_prod_beta v)
qed

end
