(* ===== verification/Wpa_Contract.thy ===== *)
theory Wpa_Contract
  imports Wpa_Reach
begin

text \<open>
  The contract between a property of one station and the authenticator that steps the stations:
  \<^verbatim>\<open>L\<close> is kept by every step and by the flags the authenticator sets, \<^verbatim>\<open>R\<close> holds once the step loop of
  the station ends.  Inside the locale both are carried through the step loop, the group
  machine that steps other stations in turn, and the events.
\<close>

locale station_contract =
  fixes env :: wpa_env and L R :: "wpa_sm \<Rightarrow> bool"
  assumes ptk: "L (c_sm c) \<Longrightarrow> L (c_sm (sm_WPA_PTK_Step env c))"
    and ptk_group: "L (c_sm c) \<Longrightarrow> L (c_sm (sm_WPA_PTK_GROUP_Step env c))"
    and L_flags: "L sm \<Longrightarrow> L (sm\<lparr>sm_changed := b\<rparr>)" "L sm \<Longrightarrow> L (sm\<lparr>in_step_loop := b\<rparr>)"
      "L sm \<Longrightarrow> L (sm\<lparr>GUpdateStationKeys := b\<rparr>)"
    and R_flags: "R (sm\<lparr>in_step_loop := b\<rparr>) = R sm" "R (sm\<lparr>GUpdateStationKeys := b\<rparr>) = R sm"
    and rest: "L (c_sm c) \<Longrightarrow> \<not> sm_changed (c_sm c) \<Longrightarrow> c_sm d = c_sm (sm_WPA_PTK_Step env c) \<Longrightarrow>
      \<not> sm_changed (c_sm (sm_WPA_PTK_GROUP_Step env d)) \<Longrightarrow> R (c_sm (sm_WPA_PTK_GROUP_Step env d))"
begin

lemma ok_upd_sta:
  assumes "stas_ok L R A w" and "\<And>s. sta_addr (h s) = sta_addr s" "\<And>s. sm_group (h s) = sm_group s"
    and "\<And>s. L s \<Longrightarrow> L (h s)"
    and "\<And>s. sta_addr s = a \<Longrightarrow> L s \<Longrightarrow> (\<not> in_step_loop s \<and> a \<notin> A \<longrightarrow> R s) \<Longrightarrow>
      \<not> in_step_loop (h s) \<Longrightarrow> a \<notin> A' \<Longrightarrow> R (h s)"
    and "A \<subseteq> A' \<union> {a}"
  shows "stas_ok L R A' (upd_sta a h w)"
proof -
  have "L (if sta_addr s = a then h s else s) \<and>
      (\<not> in_step_loop (if sta_addr s = a then h s else s) \<and>
       sta_addr (if sta_addr s = a then h s else s) \<notin> A' \<longrightarrow> R (if sta_addr s = a then h s else s))"
    if "s \<in> set (w_stas w)" for s
    using assms that by (auto simp: stas_ok_def)
  then have "\<forall>s\<in>set (w_stas (upd_sta a h w)). L s \<and> (\<not> in_step_loop s \<and> sta_addr s \<notin> A' \<longrightarrow> R s)"
    unfolding upd_stas set_map ball_simps by blast
  then show ?thesis using wf_upd_sta [of w h a] assms(1-3) unfolding stas_ok_def by blast
qed

lemma ok_with_grp: "stas_ok L R A w \<Longrightarrow> (\<And>c. vlan_id (c_grp (f c)) = vlan_id (c_grp c)) \<Longrightarrow>
    stas_ok L R A (with_grp v f w)"
  by (simp add: stas_ok_def wf_with_grp)

lemma ok_upd_grp: "stas_ok L R A w \<Longrightarrow> (\<And>g. vlan_id (k g) = vlan_id g) \<Longrightarrow> stas_ok L R A (upd_grp v k w)"
  using wf_upd_grp [of w k v] by (simp add: stas_ok_def)

lemma ok_with_sta:
  assumes "stas_ok L R A w" and "find_sta a w = Some sm"
    and frame: "\<And>c. sta_frame (c_sm (f c)) = sta_frame (c_sm c)"
    and vlan: "\<And>c. vlan_id (c_grp (f c)) = vlan_id (c_grp c)"
    and "\<And>c. c_sm c = sm \<Longrightarrow> L (c_sm (f c))"
    and "\<And>c. c_sm c = sm \<Longrightarrow> \<not> in_step_loop sm \<Longrightarrow> a \<notin> A' \<Longrightarrow> R (c_sm (f c))" and "A \<subseteq> A' \<union> {a}"
  shows "stas_ok L R A' (with_sta a f w)"
proof -
  have wf: "wf_world w" using assms(1) by (simp add: stas_ok_def)
  obtain g where g: "find_grp (sm_group sm) w = Some g" using wf_group_exists [OF wf assms(2)] by blast
  have fr: "sta_addr (c_sm (f c)) = sta_addr (c_sm c)" "sm_group (c_sm (f c)) = sm_group (c_sm c)"
    "in_step_loop (c_sm (f c)) = in_step_loop (c_sm c)" for c
    using frame [of c] by (simp_all add: sta_frame_def)
  have "L s \<and> (\<not> in_step_loop s \<and> sta_addr s \<notin> A' \<longrightarrow> R s)" if m: "s \<in> set (w_stas (with_sta a f w))" for s
  proof -
    let ?k = "c_sm (f (ctx_of sm g w))"
    obtain x where x: "x \<in> set (w_stas w)" "s = (if sta_addr x = a then ?k else x)"
      using m unfolding with_sta_stas [OF assms(2) g] set_map image_iff by blast
    show ?thesis
    proof (cases "sta_addr x = a")
      case True
      then show ?thesis
        using x assms(5,6) [of "ctx_of sm g w"] fr [of "ctx_of sm g w"] find_sta_Some [OF assms(2)] by simp
    next
      case False
      then show ?thesis using x assms(1,7) by (auto simp: stas_ok_def)
    qed
  qed
  then show ?thesis using wf_with_sta [OF wf assms(2) fr(1,2) vlan] by (simp add: stas_ok_def)
qed

lemma mark_ok:
  assumes "stas_ok L R A w" and "update_sta_mark v a w = (b, w')"
  shows "stas_ok L R A w'" and "keeps {} w w'"
proof -
  consider "w' = w"
    | "w' = upd_sta a (GUpdateStationKeys_update (\<lambda>_. False)) w"
    | x where "w' = upd_sta a (GUpdateStationKeys_update (\<lambda>_. True))
        (upd_grp x (GKeyDoneStations_update (\<lambda>n. n + 1)) w)"
    using assms(2) by (auto simp: update_sta_mark_def split: option.splits if_splits)
  then obtain k w1 where w': "w' = w \<or> w' = upd_sta a (GUpdateStationKeys_update (\<lambda>_. k)) w1"
    and w1: "w_stas w1 = w_stas w" "stas_ok L R A w1"
  proof cases
    case (3 x)
    then show ?thesis
      using that [of True "upd_grp x (GKeyDoneStations_update (\<lambda>n. n + 1)) w"]
        ok_upd_grp [OF assms(1), of "GKeyDoneStations_update (\<lambda>n. n + 1)" x] by simp
  qed (use that [of False w] assms(1) in simp_all)
  have "stas_ok L R A (upd_sta a (GUpdateStationKeys_update (\<lambda>_. k)) w1)"
    by (rule ok_upd_sta [OF w1(2)]) (auto simp: L_flags R_flags)
  then show "stas_ok L R A w'" using w' assms(1) by auto
  have f1: "find_sta c w1 = find_sta c w" for c using w1(1) by (simp add: find_sta_def)
  have "keeps {} w (upd_sta a (GUpdateStationKeys_update (\<lambda>_. k)) w1)"
  proof (rule keeps_marked)
    fix c
    have "find_sta c (upd_sta a (GUpdateStationKeys_update (\<lambda>_. k)) w1) =
        map_option (GUpdateStationKeys_update (\<lambda>_. if c = a then k else
          (case find_sta c w of Some s \<Rightarrow> GUpdateStationKeys s | None \<Rightarrow> False))) (find_sta c w)"
      by (cases "find_sta c w"; cases "c = a") (simp_all add: find_upd_sta f1)
    then show "\<exists>g. find_sta c (upd_sta a (GUpdateStationKeys_update (\<lambda>_. k)) w1) =
        map_option (GUpdateStationKeys_update (\<lambda>_. g)) (find_sta c w)" by blast
  qed
  then show "keeps {} w w'" using w' keeps_same [of "{}" w w] by auto
qed

text \<open>What a step function of stations has to do.\<close>

definition step_spec :: "sta_step \<Rightarrow> bool" where
  "step_spec step \<longleftrightarrow> (\<forall>a w w'. stas_ok L R {a} w \<longrightarrow> step a w = Some w' \<longrightarrow>
     stas_ok L R {} w' \<and> keeps {} w w')"

lemma update_stas_ok:
  assumes "step_spec step"
  shows "stas_ok L R {} w \<Longrightarrow> wpa_group_update_stas step v as w = Some w' \<Longrightarrow>
    stas_ok L R {} w' \<and> keeps {} w w'"
proof (induction as arbitrary: w)
  case Nil
  then show ?case by (simp add: keeps_same)
next
  case (Cons a as)
  obtain b w1 where m: "update_sta_mark v a w = (b, w1)" by fastforce
  note m1 = mark_ok [OF Cons.prems(1) m]
  show ?case
  proof (cases b)
    case False
    then have "stas_ok L R {} w' \<and> keeps {} w1 w'" using Cons.IH [OF m1(1)] Cons.prems(2) m by simp
    then show ?thesis using keeps_trans [OF m1(2), of "{}"] by simp
  next
    case True
    then obtain w2 where s: "step a w1 = Some w2" and r: "wpa_group_update_stas step v as w2 = Some w'"
      using Cons.prems(2) m by (auto split: option.splits)
    have w2: "stas_ok L R {} w2" "keeps {} w1 w2"
      using assms s stas_ok_mono [OF m1(1), of "{a}"] by (auto simp: step_spec_def)
    have "stas_ok L R {} w' \<and> keeps {} w2 w'" using Cons.IH [OF w2(1) r] .
    then show ?thesis using keeps_trans [OF m1(2) w2(2)] keeps_trans [of "{}" w w2 "{}" w'] by simp
  qed
qed

lemma with_grp_keeps: "keeps {} w (with_grp v f w)"
  by (rule keeps_same) (simp add: find_sta_def)

lemma group_step_ok:
  assumes "step_spec step" and ok: "stas_ok L R {} w" and "wpa_group_sm_step step env v w = Some w'"
  shows "stas_ok L R {} w' \<and> keeps {} w w'"
proof -
  have g: "stas_ok L R {} (with_grp v f w) \<and> keeps {} w (with_grp v f w)"
    if "\<And>c. vlan_id (c_grp (f c)) = vlan_id (c_grp c)" for f
    using ok_with_grp [OF ok that] with_grp_keeps by simp
  have setk: "stas_ok L R {} w' \<and> keeps {} w w'" if "wpa_group_setkeys step env v w = Some w'"
  proof -
    let ?w = "with_grp v (setkeys_start env) w"
    have "stas_ok L R {} w' \<and> keeps {} ?w w'"
      using that update_stas_ok [OF assms(1), of ?w] g [of "setkeys_start env"]
      by (simp add: wpa_group_setkeys_def Let_def)
    then show ?thesis using keeps_trans [OF with_grp_keeps, of "{}" v "setkeys_start env" w w'] by simp
  qed
  have same: "stas_ok L R {} w \<and> keeps {} w w" using ok keeps_same by blast
  show ?thesis
    using assms(3) setk same g [of "wpa_group_gtk_init env"] g [of "wpa_group_setkeysdone env"]
    by (auto simp: wpa_group_sm_step_def split: option.splits if_splits)
qed

lemma in_loop_upd:
  assumes "stas_ok L R {} w" and "find_sta a w = Some sm" and "in_step_loop sm"
    and "\<And>s. sta_addr (h s) = sta_addr s" "\<And>s. sm_group (h s) = sm_group s"
    and "\<And>s. in_step_loop (h s) = in_step_loop s" and "\<And>s. L s \<Longrightarrow> L (h s)"
  shows "stas_ok L R {} (upd_sta a h w)" and "find_sta a (upd_sta a h w) = Some (h sm)"
    and "keeps {a} w (upd_sta a h w)"
proof -
  have wf: "wf_world w" using assms(1) by (simp add: stas_ok_def)
  have "stas_ok L R {a} (upd_sta a h w)"
    by (rule ok_upd_sta [OF stas_ok_mono [OF assms(1), of "{a}"]]) (use assms in auto)
  moreover have f: "find_sta a (upd_sta a h w) = Some (h sm)"
    using assms(2) by (simp add: find_upd_sta assms(4))
  moreover have "in_step_loop s" if "s \<in> set (w_stas (upd_sta a h w))" "sta_addr s = a" for s
  proof -
    have "wf_world (upd_sta a h w)" using calculation(1) by (simp add: stas_ok_def)
    from wf_find_sta [OF this that(1)] have "s = h sm" using f that(2) by simp
    then show ?thesis using assms(3,6) by simp
  qed
  ultimately show "stas_ok L R {} (upd_sta a h w)" by (auto simp: stas_ok_def)
  show "find_sta a (upd_sta a h w) = Some (h sm)" by (rule f)
  show "keeps {a} w (upd_sta a h w)"
    by (rule keeps_same) (simp add: find_upd_sta assms(4))
qed

lemma in_loop_with:
  assumes "stas_ok L R {} w" and "find_sta a w = Some sm" and "in_step_loop sm"
    and "\<And>c. sta_frame (c_sm (f c)) = sta_frame (c_sm c)"
    and "\<And>c. vlan_id (c_grp (f c)) = vlan_id (c_grp c)"
    and "\<And>c. L (c_sm c) \<Longrightarrow> L (c_sm (f c))"
  obtains c where "c_sm c = sm" and "stas_ok L R {} (with_sta a f w)"
    and "find_sta a (with_sta a f w) = Some (c_sm (f c))" and "keeps {a} w (with_sta a f w)"
proof -
  have wf: "wf_world w" using assms(1) by (simp add: stas_ok_def)
  obtain g where g: "find_grp (sm_group sm) w = Some g" using wf_group_exists [OF wf assms(2)] by blast
  have addr: "sta_addr (c_sm (f c)) = sta_addr (c_sm c)" for c using assms(4) [of c] by (simp add: sta_frame_def)
  note f = find_with_sta [OF addr assms(2) g]
  have "stas_ok L R {} (with_sta a f w)"
    by (rule ok_with_sta [OF assms(1,2,4,5)]) (use stas_okD [OF assms(1,2)] assms(3,6) in auto)
  moreover have "keeps {a} w (with_sta a f w)" by (rule keeps_same) (simp add: f)
  ultimately show thesis using that [of "ctx_of sm g w"] f by simp
qed

lemma clear_changed_find:
  "find_sta b (clear_changed a w) = find_sta b (upd_sta a (sm_changed_update (\<lambda>_. False)) w)"
  "w_stas (clear_changed a w) = w_stas (upd_sta a (sm_changed_update (\<lambda>_. False)) w)"
  "map vlan_id (w_groups (clear_changed a w)) = map vlan_id (w_groups w)"
  by (simp_all add: clear_changed_def Let_def find_sta_def split: list.split)

lemma clear_changed_ok:
  assumes "stas_ok L R {} w" and "find_sta a w = Some sm" and "in_step_loop sm"
  shows "stas_ok L R {} (clear_changed a w)" and "find_sta a (clear_changed a w) = Some (sm\<lparr>sm_changed := False\<rparr>)"
    and "keeps {a} w (clear_changed a w)"
proof -
  let ?u = "upd_sta a (sm_changed_update (\<lambda>_. False)) w"
  have u: "stas_ok L R {} ?u" "find_sta a ?u = Some (sm\<lparr>sm_changed := False\<rparr>)" "keeps {a} w ?u"
    by (rule in_loop_upd [OF assms]; simp add: L_flags)+
  have "wf_world (clear_changed a w)"
    by (rule wf_groups_cong [of ?u]) (use u(1) clear_changed_find(2,3) in \<open>simp_all add: stas_ok_def\<close>)
  then show "stas_ok L R {} (clear_changed a w)"
    using u(1) unfolding stas_ok_def clear_changed_find(2) by simp
  show "find_sta a (clear_changed a w) = Some (sm\<lparr>sm_changed := False\<rparr>)"
    unfolding clear_changed_find(1) by (rule u(2))
  show "keeps {a} w (clear_changed a w)"
    using u(3) unfolding keeps_def stepping_def sta_flag_def clear_changed_find(1) .
qed

lemma ptk_step_vlan: "vlan_id (c_grp (sm_WPA_PTK_Step env c)) = vlan_id (c_grp c)"
  by (rule withdraws_vlan) (rule ptk_step_withdraws)

lemma ptk_group_step_vlan: "vlan_id (c_grp (sm_WPA_PTK_GROUP_Step env c)) = vlan_id (c_grp c)"
  by (rule withdraws_vlan) (rule ptk_group_step_withdraws)

text \<open>One iteration of the step loop: the station ends in \<^term>\<open>sm3\<close>, which satisfies \<^term>\<open>R\<close> unless it has
  changed.\<close>

lemma loop_body:
  assumes "stas_ok L R {} w" and "find_sta a w = Some sm" and "in_step_loop sm"
  obtains sm3 where
    "stas_ok L R {} (with_sta a (sm_WPA_PTK_GROUP_Step env) (with_sta a (sm_WPA_PTK_Step env) (clear_changed a w)))"
    "find_sta a (with_sta a (sm_WPA_PTK_GROUP_Step env) (with_sta a (sm_WPA_PTK_Step env) (clear_changed a w))) =
      Some sm3"
    "keeps {a} w (with_sta a (sm_WPA_PTK_GROUP_Step env) (with_sta a (sm_WPA_PTK_Step env) (clear_changed a w)))"
    "sta_frame sm3 = sta_frame sm" "\<not> sm_changed sm3 \<Longrightarrow> R sm3"
    "sta_flag pending_deinit a (with_sta a (sm_WPA_PTK_Step env) (clear_changed a w)) = pending_deinit sm"
proof -
  let ?w1 = "clear_changed a w" and ?sm1 = "sm\<lparr>sm_changed := False\<rparr>"
  note w1 = clear_changed_ok [OF assms]
  let ?w2 = "with_sta a (sm_WPA_PTK_Step env) ?w1"
  obtain c where c: "c_sm c = ?sm1" "stas_ok L R {} ?w2" "find_sta a ?w2 = Some (c_sm (sm_WPA_PTK_Step env c))"
    "keeps {a} ?w1 ?w2"
    by (rule in_loop_with [OF w1(1,2), of "sm_WPA_PTK_Step env"])
      (use assms(3) ptk ptk_step_vlan in simp_all)
  let ?sm2 = "c_sm (sm_WPA_PTK_Step env c)"
  have fr2: "sta_frame ?sm2 = sta_frame sm" using c(1) by (simp add: sta_frame_def [of "?sm1"] sta_frame_def [of sm])
  then have l2: "in_step_loop ?sm2" using assms(3) by (simp add: sta_frame_def)
  obtain d where d: "c_sm d = ?sm2"
    "stas_ok L R {} (with_sta a (sm_WPA_PTK_GROUP_Step env) ?w2)"
    "find_sta a (with_sta a (sm_WPA_PTK_GROUP_Step env) ?w2) = Some (c_sm (sm_WPA_PTK_GROUP_Step env d))"
    "keeps {a} ?w2 (with_sta a (sm_WPA_PTK_GROUP_Step env) ?w2)"
    by (rule in_loop_with [OF c(2,3) l2, of "sm_WPA_PTK_GROUP_Step env"])
      (use ptk_group ptk_group_step_vlan in simp_all)
  let ?sm3 = "c_sm (sm_WPA_PTK_GROUP_Step env d)"
  have "L (c_sm c)" unfolding c(1) by (rule stas_okD [OF w1(1,2)])
  then have r: "R ?sm3" if "\<not> sm_changed ?sm3" using rest [OF _ _ d(1) that] c(1) by simp
  have fr3: "sta_frame ?sm3 = sta_frame sm" using fr2 d(1) by simp
  have p: "sta_flag pending_deinit a ?w2 = pending_deinit sm"
    using c(3) fr2 by (simp add: sta_flag_def sta_frame_def)
  have k: "keeps {a} w (with_sta a (sm_WPA_PTK_GROUP_Step env) ?w2)"
    using keeps_trans [OF keeps_trans [OF w1(3) c(4)] d(4)] by simp
  show thesis by (rule that [OF d(2,3) k fr3 r p])
qed

lemma loop_ok:
  assumes "step_spec step"
  shows "stas_ok L R {} w \<Longrightarrow> find_sta a w = Some sm \<Longrightarrow> in_step_loop sm \<Longrightarrow>
    wpa_sm_loop step n env a w = Some w' \<Longrightarrow>
    stas_ok L R {} w' \<and> keeps {a} w w' \<and>
    (\<exists>sm'. find_sta a w' = Some sm' \<and> in_step_loop sm' \<and> (pending_deinit sm' \<or> R sm'))"
proof (induction n arbitrary: w sm)
  case (Suc n)
  show ?case
  proof (cases "pending_deinit sm")
    case True
    then show ?thesis using Suc.prems keeps_same [of "{a}" w w] by (auto simp: sta_flag_def)
  next
    case False
    let ?w2 = "with_sta a (sm_WPA_PTK_Step env) (clear_changed a w)"
    let ?w3 = "with_sta a (sm_WPA_PTK_GROUP_Step env) ?w2"
    obtain sm3 where b: "stas_ok L R {} ?w3" "find_sta a ?w3 = Some sm3" "keeps {a} w ?w3"
      "sta_frame sm3 = sta_frame sm" "\<not> sm_changed sm3 \<Longrightarrow> R sm3"
      "sta_flag pending_deinit a ?w2 = pending_deinit sm"
      using loop_body [OF Suc.prems(1-3)] by metis
    have nf: "\<not> sta_flag pending_deinit a w" "\<not> sta_flag pending_deinit a ?w2" "\<not> sta_flag pending_deinit a ?w3"
      using False b Suc.prems(2) by (simp_all add: sta_flag_def sta_frame_def)
    have l3: "in_step_loop sm3" using b(4) Suc.prems(3) by (simp add: sta_frame_def)
    obtain w4 where g: "wpa_group_sm_step step env (sm_group sm3) ?w3 = Some w4"
      and rest4: "(if sta_flag sm_changed a w4 \<or> default_changed w4 then wpa_sm_loop step n env a w4 else Some w4) = Some w'"
      using Suc.prems(4) nf b(2) by (auto simp: Let_def split: option.splits)
    have w4: "stas_ok L R {} w4" "keeps {} ?w3 w4" using group_step_ok [OF assms b(1) g] by simp_all
    obtain u where u: "find_sta a w4 = Some (sm3\<lparr>GUpdateStationKeys := u\<rparr>)"
      using keepsD [OF w4(2) _ b(2) l3] by blast
    have k4: "keeps {a} w w4" using keeps_trans [OF b(3) w4(2)] by simp
    show ?thesis
    proof (cases "sta_flag sm_changed a w4 \<or> default_changed w4")
      case True
      have "stas_ok L R {} w' \<and> keeps {a} w4 w' \<and>
          (\<exists>sm'. find_sta a w' = Some sm' \<and> in_step_loop sm' \<and> (pending_deinit sm' \<or> R sm'))"
        by (rule Suc.IH [OF w4(1) u]) (use l3 True rest4 in simp_all)
      then show ?thesis using keeps_trans [OF k4, of "{a}"] by simp
    next
      case no: False
      then have "\<not> sm_changed sm3" using u by (simp add: sta_flag_def)
      then have "R (sm3\<lparr>GUpdateStationKeys := u\<rparr>)" using b(5) by (simp add: R_flags)
      then show ?thesis using no rest4 w4(1) k4 u l3 by simp
    qed
  qed
qed simp

lemma keeps_idle:
  assumes "keeps {a} w x" "find_sta a w = Some sm" "\<not> in_step_loop sm" "\<not> stepping a x"
  shows "keeps {} w x"
  unfolding keeps_def
proof (intro allI impI conjI)
  fix b
  assume "stepping b x"
  moreover from this have "b \<noteq> a" using assms(4) by auto
  ultimately show "stepping b w" using assms(1) by (simp add: keeps_def)
next
  fix b s
  assume b: "find_sta b w = Some s" "in_step_loop s"
  then have "b \<noteq> a" using assms(2,3) by auto
  then show "\<exists>g. find_sta b x = Some (s\<lparr>GUpdateStationKeys := g\<rparr>)"
    using keepsD [OF assms(1) _ b] by simp
qed

lemma free_ok:
  assumes "stas_ok L R {a} w"
  shows "stas_ok L R {} (wpa_free_sta_sm a w)" and "keeps {a} w (wpa_free_sta_sm a w)"
proof -
  have f: "find_sta b (wpa_free_sta_sm a w) = find_sta b w" if "b \<noteq> a" for b
  proof -
    have "find (\<lambda>s. sta_addr s = b) (filter (\<lambda>s. sta_addr s \<noteq> a) xs) = find (\<lambda>s. sta_addr s = b) xs" for xs :: "wpa_sm list"
      using that by (induction xs) auto
    then show ?thesis by (simp add: wpa_free_sta_sm_def find_sta_def Let_def split: option.split)
  qed
  then show "keeps {a} w (wpa_free_sta_sm a w)" by (intro keeps_same) simp
  show "stas_ok L R {} (wpa_free_sta_sm a w)"
  proof (cases "find_sta a w")
    case None
    then show ?thesis using assms find_sta_None [of a w] by (auto simp: wpa_free_sta_sm_def stas_ok_def)
  next
    case (Some sm)
    let ?u = "if GUpdateStationKeys sm
      then upd_grp (sm_group sm) (GKeyDoneStations_update (\<lambda>n. n - 1)) w else w"
    have u: "wf_world ?u" "w_stas ?u = w_stas w"
      using assms wf_upd_grp [of w "GKeyDoneStations_update (\<lambda>n. n - 1)"] by (simp_all add: stas_ok_def)
    have e: "wpa_free_sta_sm a w = ?u\<lparr>w_stas := filter (\<lambda>s. sta_addr s \<noteq> a) (w_stas w)\<rparr>"
      using Some u(2) by (simp add: wpa_free_sta_sm_def Let_def)
    have "wf_world (wpa_free_sta_sm a w)"
      using u(1) unfolding wf_world_def e u(2) by (simp add: distinct_map_filter)
    then show ?thesis using assms u(2) by (auto simp: stas_ok_def e)
  qed
qed

lemma step_ok: "step_spec (wpa_sm_step n env)"
proof (induction n)
  case 0
  then show ?case by (simp add: step_spec_def)
next
  case (Suc n)
  show ?case unfolding step_spec_def
  proof (intro allI impI)
    fix a w w'
    assume ok: "stas_ok L R {a} w" and st: "wpa_sm_step (Suc n) env a w = Some w'"
    have wf: "wf_world w" using ok by (simp add: stas_ok_def)
    show "stas_ok L R {} w' \<and> keeps {} w w'"
    proof (cases "find_sta a w")
      case None
      then have "w' = w" using st by simp
      moreover have "stas_ok L R {} w" using ok None find_sta_None [of a w] by (auto simp: stas_ok_def)
      ultimately show ?thesis using keeps_same by blast
    next
      case (Some sm)
      have uniq: "s = sm" if "s \<in> set (w_stas w)" "sta_addr s = a" for s
        using wf_find_sta [OF wf that(1)] that(2) Some by simp
      show ?thesis
      proof (cases "in_step_loop sm")
        case True
        then have "w' = w" using st Some by simp
        moreover have "stas_ok L R {} w" using ok True uniq unfolding stas_ok_def by blast
        ultimately show ?thesis using keeps_same by blast
      next
        case False
        let ?w1 = "upd_sta a (in_step_loop_update (\<lambda>_. True)) w"
        have w1: "stas_ok L R {} ?w1" by (rule ok_upd_sta [OF ok]) (auto simp: L_flags)
        have f1: "find_sta a ?w1 = Some (sm\<lparr>in_step_loop := True\<rparr>)" using Some by (simp add: find_upd_sta)
        have k1: "keeps {a} w ?w1" by (rule keeps_same) (simp add: find_upd_sta)
        obtain w2 where lp: "wpa_sm_loop (wpa_sm_step n env) n env a ?w1 = Some w2"
          and w': "w' = (let w = upd_sta a (in_step_loop_update (\<lambda>_. False)) w2
            in if sta_flag pending_deinit a w then wpa_free_sta_sm a w else w)"
          using st Some False by (auto simp: Let_def split: option.splits if_splits)
        obtain sm' where w2: "stas_ok L R {} w2" "keeps {a} ?w1 w2" "find_sta a w2 = Some sm'"
          "pending_deinit sm' \<or> R sm'"
          using loop_ok [OF Suc.IH w1 f1 _ lp] by auto
        let ?w3 = "upd_sta a (in_step_loop_update (\<lambda>_. False)) w2"
        have w3: "stas_ok L R {a} ?w3"
          by (rule ok_upd_sta [OF w2(1)]) (auto simp: L_flags R_flags)
        have f3: "find_sta a ?w3 = Some (sm'\<lparr>in_step_loop := False\<rparr>)" using w2(3) by (simp add: find_upd_sta)
        have k3: "keeps {a} w2 ?w3" by (rule keeps_same) (simp add: find_upd_sta)
        have kk: "keeps {a} w ?w3"
          using keeps_trans [OF k1 keeps_trans [OF w2(2) k3]] by simp
        have nokeep: "keeps {} w x" if "keeps {a} w x" "\<not> stepping a x" for x
          using that by (rule keeps_idle [OF _ Some False])
        show ?thesis
        proof (cases "pending_deinit sm'")
          case True
          then have "w' = wpa_free_sta_sm a ?w3" using w' f3 by (simp add: sta_flag_def)
          moreover have "keeps {a} w (wpa_free_sta_sm a ?w3)"
            using keeps_trans [OF kk free_ok(2) [OF w3]] by simp
          moreover have "find_sta a (wpa_free_sta_sm a ?w3) = None"
            unfolding find_sta_None using f3 by (auto simp: wpa_free_sta_sm_def Let_def)
          ultimately show ?thesis using free_ok(1) [OF w3] nokeep by (simp add: stepping_def sta_flag_def)
        next
          case p: False
          then have e: "w' = ?w3" using w' f3 by (simp add: sta_flag_def)
          have "s = sm'\<lparr>in_step_loop := False\<rparr>" if "s \<in> set (w_stas ?w3)" "sta_addr s = a" for s
            using wf_find_sta [of ?w3 s] w3 that f3 by (simp add: stas_ok_def)
          then have "stas_ok L R {} ?w3"
            using w3 w2(4) p R_flags(1) unfolding stas_ok_def by blast
          then show ?thesis using e kk nokeep f3 by (simp add: stepping_def sta_flag_def)
        qed
      qed
    qed
  qed
qed

lemma sm_step_ok: "stas_ok L R {a} w \<Longrightarrow> wpa_sm_step n env a w = Some w' \<Longrightarrow> stas_ok L R {} w'"
  using step_ok [of n] by (simp add: step_spec_def)

lemma sm_step_ok': "stas_ok L R {} w \<Longrightarrow> wpa_sm_step n env a w = Some w' \<Longrightarrow> stas_ok L R {} w'"
  using sm_step_ok stas_ok_mono by blast

lemma group_sm_step_ok: "stas_ok L R {} w \<Longrightarrow> group_step n env v w = Some w' \<Longrightarrow> stas_ok L R {} w'"
  using group_step_ok [OF step_ok] by blast

end

section \<open>Events\<close>

datatype wpa_op =
    W_receive macaddr "u8 list"
  | W_eapol_timeout macaddr
  | W_rekey_ptk macaddr
  | W_rekey_gtk
  | W_rekey_gmk
  | W_gtk_rekey
  | W_sta_init macaddr
  | W_validate macaddr "u8 list" "u8 list option" "u8 list \<Rightarrow> pmksa_ref option" "u8 list \<Rightarrow> pmksa_ref option"
  | W_associated macaddr
  | W_no_wpa macaddr
  | W_deinit macaddr
  | W_event macaddr wpa_event
  | W_call_step macaddr
  | W_tx_status macaddr bool
  | W_set_vlan macaddr int
  | W_clear_pmksa macaddr pmksa_ref
  | W_local_mic_failure macaddr
  | W_init_keys
  | W_reconfig

text \<open>A station gets one machine only (\<^verbatim>\<open>hostapd_notif_assoc\<close>, \<^verbatim>\<open>check_assoc_ies\<close>); a VLAN whose group cannot
  be set up leaves the station where it is.\<close>

fun apply_wop :: "nat \<Rightarrow> wpa_env \<Rightarrow> wpa_op \<Rightarrow> wpa_world \<Rightarrow> wpa_world option" where
  "apply_wop n env (W_receive a data) w = receive_eapol_key n env a data w"
| "apply_wop n env (W_eapol_timeout a) w = wpa_send_eapol_timeout n env a w"
| "apply_wop n env (W_rekey_ptk a) w = wpa_rekey_ptk n env a w"
| "apply_wop n env W_rekey_gtk w = wpa_rekey_gtk n env w"
| "apply_wop n env W_rekey_gmk w = Some (wpa_rekey_gmk env w)"
| "apply_wop n env W_gtk_rekey w = Some (wpa_gtk_rekey env w)"
| "apply_wop n env (W_sta_init a) w = Some (if find_sta a w = None then wpa_auth_sta_init a w else w)"
| "apply_wop n env (W_validate a ie mdie get get_okc) w =
     Some (snd (validate_sta env get get_okc a ie mdie w))"
| "apply_wop n env (W_associated a) w = wpa_auth_sta_associated n env a w"
| "apply_wop n env (W_no_wpa a) w = Some (wpa_auth_sta_no_wpa a w)"
| "apply_wop n env (W_deinit a) w = Some (wpa_auth_sta_deinit env a w)"
| "apply_wop n env (W_event a ev) w = wpa_auth_sm_event n env a ev w"
| "apply_wop n env (W_call_step a) w = wpa_sm_step n env a w"
| "apply_wop n env (W_tx_status a ack) w = Some (wpa_auth_eapol_key_tx_status a ack w)"
| "apply_wop n env (W_set_vlan a v) w =
     Some (case wpa_auth_sta_set_vlan env a v w of Some w' \<Rightarrow> w' | None \<Rightarrow> w)"
| "apply_wop n env (W_clear_pmksa a e) w = Some (wpa_auth_sta_clear_pmksa a e w)"
| "apply_wop n env (W_local_mic_failure a) w = Some (wpa_auth_sta_local_mic_failure_report a w)"
| "apply_wop n env W_init_keys w = wpa_init_keys n env w"
| "apply_wop n env W_reconfig w = wpa_reconfig n env w"

text \<open>What the authenticator can reach: events in any order, each with fuel enough for its steps.\<close>

inductive wpa_reach :: "wpa_env \<Rightarrow> wpa_world \<Rightarrow> bool" for env where
  start: "wpa_init env = Some w \<Longrightarrow> wpa_reach env w"
| event: "wpa_reach env w \<Longrightarrow> apply_wop n env op w = Some w' \<Longrightarrow> wpa_reach env w'"

text \<open>The contract of a property whose stations also take part in the events: \<^verbatim>\<open>V\<close> is the part of the
  machine that the property is about, and the flags that events set do not belong to it.\<close>

locale station_events = station_contract +
  fixes V :: "wpa_sm \<Rightarrow> 'v"
  assumes L_view: "V sm' = V sm \<Longrightarrow> L sm \<Longrightarrow> L sm'"
    and R_view: "V sm' = V sm \<Longrightarrow> R sm \<Longrightarrow> R sm'"
    and V_flags: "V (sm\<lparr>Init := x\<rparr>) = V sm" "V (sm\<lparr>DeauthenticationRequest := x\<rparr>) = V sm"
      "V (sm\<lparr>AuthenticationRequest := x\<rparr>) = V sm" "V (sm\<lparr>ReAuthenticationRequest := x\<rparr>) = V sm"
      "V (sm\<lparr>TimeoutEvt := x\<rparr>) = V sm" "V (sm\<lparr>GUpdateStationKeys := x\<rparr>) = V sm"
      "V (sm\<lparr>PtkGroupInit := x\<rparr>) = V sm" "V (sm\<lparr>pending_deinit := x\<rparr>) = V sm"
      "V (sm\<lparr>started := x\<rparr>) = V sm" "V (sm\<lparr>ft_completed := x\<rparr>) = V sm"
      "V (sm\<lparr>pending_1_of_4_timeout := x\<rparr>) = V sm" "V (sm\<lparr>sm_group := g\<rparr>) = V sm"
      "V (sm\<lparr>sm_key_mgmt := m\<rparr>) = V sm" "V (sm\<lparr>pmksa := p\<rparr>) = V sm"
      "V (sm\<lparr>pairwise_set := x\<rparr>) = V sm" "V (local_mic_failures_update k sm) = V sm"
      "V (sm\<lparr>key_replay := kr\<rparr>) = V sm" "V (sm\<lparr>pairwise := m\<rparr>) = V sm"
      "V (sm\<lparr>sm_wpa := ver\<rparr>) = V sm" "V (sm\<lparr>sm_wpa_ie := i\<rparr>) = V sm"
    and zero: "L (sm_zero a v)" "R (sm_zero a v)"
    and receive: "L (c_sm c) \<Longrightarrow> R (c_sm c) \<Longrightarrow> L (c_sm (snd (wpa_receive env data c)))"
    and receive_rest: "L (c_sm c) \<Longrightarrow> R (c_sm c) \<Longrightarrow> fst (wpa_receive env data c) \<noteq> Recv_step \<Longrightarrow>
      R (c_sm (snd (wpa_receive env data c)))"
    and store: "L sm \<Longrightarrow> info_has (ek_info data) WPA_KEY_INFO_REQUEST \<Longrightarrow> L (recv_store data sm)"
    and clear: "L sm \<Longrightarrow> R sm \<Longrightarrow> L (sm\<lparr>PTK_valid := False, PTK := ptk_zero\<rparr>)"
    and request: "L sm \<Longrightarrow> R sm \<Longrightarrow> L (sm\<lparr>PTKRequest := True, PTK_valid := False\<rparr>)"

end
