(* ===== verification/Wpa_Events.thy ===== *)
theory Wpa_Events
  imports Wpa_Contract
begin

text \<open>
  Every event keeps what the contract of a station property promises: the lemmas of the locale
  \<^verbatim>\<open>station_events\<close>, from the reception of a frame to the handling of groups, and with them that the
  property holds of every station of every world the authenticator reaches.
\<close>

section \<open>Reception keeps the identity of the station\<close>

lemma recv_replay_frame: "recv_replay data msg sm = Some sm' \<Longrightarrow> sta_frame sm' = sta_frame sm"
  by (auto simp: recv_replay_def Let_def sta_frame_def split: if_splits)

lemma ft_check_frame: "ft_check_msg_2_of_4 env kde sm = (b, sm') \<Longrightarrow> sta_frame sm' = sta_frame sm"
  by (auto simp: ft_check_msg_2_of_4_def Let_def sta_frame_def split: if_splits option.splits prod.splits)

lemma recv_pairwise_2_frame:
  assumes "recv_pairwise_2 env data c = (r, c')"
  shows "sta_frame (c_sm c') = sta_frame (c_sm c)" "c_grp c' = c_grp c"
proof -
  obtain b sm' where f: "ft_check_msg_2_of_4 env (snd (wpa_parse_kde_ies (ek_data data))) (c_sm c) = (b, sm')"
    by fastforce
  show "sta_frame (c_sm c') = sta_frame (c_sm c)" "c_grp c' = c_grp c"
    using assms ft_check_frame [OF f] f
    by (auto simp: recv_pairwise_2_def Let_def case_prod_beta split: if_splits)
qed

lemma recv_state_frame:
  assumes "recv_state env data msg c = (r, c')"
  shows "sta_frame (c_sm c') = sta_frame (c_sm c)" "c_grp c' = c_grp c"
  using assms recv_pairwise_2_frame [of env data c r c']
  by (auto simp: recv_state_def Let_def split: eapol_key_msg.splits if_splits)

lemma recv_mic_frame:
  assumes "recv_mic env data c = Some c'"
  shows "sta_frame (c_sm c') = sta_frame (c_sm c)" "c_grp c' = c_grp c"
  using assms by (auto simp: recv_mic_def Let_def sta_frame_def split: if_splits)

lemma recv_mic_fail_frame:
  "sta_frame (c_sm (recv_mic_fail data c)) = sta_frame (c_sm c)" "c_grp (recv_mic_fail data c) = c_grp c"
  by (simp_all add: recv_mic_fail_def sta_frame_def)

lemma error_report_frame:
  "sta_frame (c_sm (snd (wpa_receive_error_report env b c))) = sta_frame (c_sm c)"
  "c_grp (snd (wpa_receive_error_report env b c)) = c_grp c"
  by (simp_all add: wpa_receive_error_report_def wpa_request_new_ptk_def sta_frame_def Let_def)

lemma recv_request_frame:
  assumes "recv_request env data msg c = (r, c')"
  shows "sta_frame (c_sm c') = sta_frame (c_sm c)" "c_grp c' = c_grp c"
proof -
  let ?c = "usm (\<lambda>sm. sm\<lparr>req_replay_counter_used := True, req_replay_counter := ek_replay data\<rparr>) c"
  have f: "sta_frame (c_sm ?c) = sta_frame (c_sm c)" "c_grp ?c = c_grp c" by (simp_all add: sta_frame_def)
  have n: "sta_frame (c_sm (wpa_request_new_ptk ?c)) = sta_frame (c_sm c)"
    by (simp add: wpa_request_new_ptk_def sta_frame_def)
  show "sta_frame (c_sm c') = sta_frame (c_sm c)" "c_grp c' = c_grp c"
    using assms f n error_report_frame [of env _ ?c]
    by (auto simp: recv_request_def Let_def case_prod_beta split: if_splits)
qed

lemma recv_tail_frame:
  "sta_frame (c_sm (snd (recv_tail data msg c))) = sta_frame (c_sm c)"
  "c_grp (snd (recv_tail data msg c)) = c_grp c"
  by (simp_all add: recv_tail_def recv_store_def sta_frame_def Let_def)

lemma recv_consume_frame: "sta_frame (recv_consume data msg sm) = sta_frame sm"
  by (simp add: recv_consume_def sta_frame_def Let_def)

lemma receive_frame:
  "sta_frame (c_sm (snd (wpa_receive env data c))) = sta_frame (c_sm c) \<and>
   c_grp (snd (wpa_receive env data c)) = c_grp c"
proof (cases "recv_replay data (recv_msg (ek_info data) (ek_data_length data)) (c_sm c)")
  case None
  then show ?thesis by (simp add: wpa_receive_def Let_def)
next
  case (Some sm)
  let ?msg = "recv_msg (ek_info data) (ek_data_length data)"
  obtain r c1 where s: "recv_state env data ?msg (c\<lparr>c_sm := sm\<rparr>) = (r, c1)" by fastforce
  have c1: "sta_frame (c_sm c1) = sta_frame (c_sm c)" "c_grp c1 = c_grp c"
    using recv_state_frame [OF s] recv_replay_frame [OF Some] by simp_all
  show ?thesis
  proof (cases "recv_mic env data c1")
    case None
    then show ?thesis using Some s c1 recv_mic_fail_frame [of data c1]
      by (cases r) (simp_all add: wpa_receive_def Let_def)
  next
    case m: (Some c2)
    have c2: "sta_frame (c_sm c2) = sta_frame (c_sm c)" "c_grp c2 = c_grp c"
      using recv_mic_frame [OF m] c1 by simp_all
    obtain r2 c3 where q: "recv_request env data ?msg c2 = (r2, c3)" by fastforce
    have c3: "sta_frame (c_sm c3) = sta_frame (c_sm c)" "c_grp c3 = c_grp c"
      using recv_request_frame [OF q] c2 by simp_all
    show ?thesis
      using Some s m q c1 c2 c3 recv_tail_frame [of data ?msg c3]
        recv_tail_frame [of data ?msg "usm (recv_consume data ?msg) c2"]
        recv_consume_frame [of data ?msg "c_sm c2"]
      by (cases r; cases r2) (simp_all add: wpa_receive_def Let_def)
  qed
qed

lemma other_frames:
  "sta_frame (c_sm (wpa_request_new_ptk c)) = sta_frame (c_sm c)"
  "sta_frame (c_sm (wpa_sta_disconnect env c)) = sta_frame (c_sm c)"
  "sta_frame (c_sm (sm_event_tail env ev c)) = sta_frame (c_sm c)"
  "sta_frame (c_sm (reauth_cancel_update c)) = sta_frame (c_sm c)"
  "vlan_id (c_grp (reauth_cancel_update c)) = vlan_id (c_grp c)"
  by (simp_all add: wpa_request_new_ptk_def event_tail_sm sta_frame_def reauth_cancel_update_def Let_def)

lemma ft_install_sm: "\<exists>p. c_sm (wpa_ft_install_ptk env c) = (c_sm c)\<lparr>pairwise_set := p\<rparr>"
proof -
  let ?r = "wpa_cipher_valid_pairwise (pairwise (c_sm c)) \<and>
    fst (wpa_auth_set_key env 0 (wpa_cipher_to_alg (pairwise (c_sm c))) (sta_addr (c_sm c)) 0
      (take (wpa_cipher_key_len (pairwise (c_sm c))) (tk1 (PTK (c_sm c)))) c) = 0"
  have "c_sm (wpa_ft_install_ptk env c) = (c_sm c)\<lparr>pairwise_set := (if ?r then True else pairwise_set (c_sm c))\<rparr>"
    by (simp add: wpa_ft_install_ptk_def Let_def case_prod_beta)
  then show ?thesis by blast
qed

lemma ft_install_grp: "c_grp (wpa_ft_install_ptk env c) = c_grp c"
  by (simp add: wpa_ft_install_ptk_def Let_def case_prod_beta)

section \<open>Events keep the contract\<close>

lemma with_sta_none: "find_sta a w = None \<Longrightarrow> with_sta a f w = w"
  by (simp add: with_sta_def)

lemma with_grp_vlans:
  assumes "\<And>c. vlan_id (c_grp (f c)) = vlan_id (c_grp c)"
  shows "map vlan_id (w_groups (with_grp v f w)) = map vlan_id (w_groups w)"
proof (cases "find_grp v w")
  case (Some g)
  let ?g = "c_grp (f \<lparr>c_sm = sm_zero [] v, c_grp = g, handshake_failures = w_failures w,
      auth_remote_mic_failures = w_remote_mic w, hist = w_hist w\<rparr>)"
  have "vlan_id ?g = v" using assms find_grp_Some [OF Some] by simp
  then show ?thesis using Some map_vlan_if [of ?g v] by (simp add: with_grp_def put_grp_def Let_def)
qed (simp add: with_grp_def)

text \<open>Without fuel no station is stepped, which is what the set-up of a new group needs.\<close>

lemma update_stas_idle:
  "wpa_group_update_stas (wpa_sm_step 0 env) v as w = Some w' \<Longrightarrow>
    map vlan_id (w_groups w') = map vlan_id (w_groups w)"
proof (induction as arbitrary: w)
  case (Cons a as)
  obtain b w1 where m: "update_sta_mark v a w = (b, w1)" by fastforce
  have "\<not> b" using Cons.prems m by (cases b) simp_all
  then have "map vlan_id (w_groups w1) = map vlan_id (w_groups w)"
    using m by (auto simp: update_sta_mark_def split: option.splits if_splits)
  then show ?case using Cons m \<open>\<not> b\<close> by simp
qed simp

lemma group_step_idle:
  assumes "group_step 0 env v w = Some w'"
  shows "map vlan_id (w_groups w') = map vlan_id (w_groups w)"
proof -
  have setk: "map vlan_id (w_groups w') = map vlan_id (w_groups w)"
    if "wpa_group_setkeys (wpa_sm_step 0 env) env v w = Some w'"
    using that update_stas_idle [of env v _ "with_grp v (setkeys_start env) w" w']
      with_grp_vlans [of "setkeys_start env" v w] by (simp add: wpa_group_setkeys_def Let_def)
  show ?thesis
    using assms setk with_grp_vlans [of "wpa_group_gtk_init env" v w] with_grp_vlans [of "wpa_group_setkeysdone env" v w]
    by (auto simp: wpa_group_sm_step_def split: option.splits if_splits)
qed

lemma step_twice_idle:
  "step_twice 0 env v w = Some w' \<Longrightarrow> map vlan_id (w_groups w') = map vlan_id (w_groups w)"
proof -
  assume "step_twice 0 env v w = Some w'"
  then obtain w1 where w1: "group_step 0 env v w = Some w1"
    and w': "group_step 0 env v (upd_grp v (GInit_update (\<lambda>_. False)) w1) = Some w'"
    by (auto simp: step_twice_def split: option.splits)
  have "map vlan_id (w_groups (upd_grp v (GInit_update (\<lambda>_. False)) w1)) = map vlan_id (w_groups w1)" by simp
  then show ?thesis using group_step_idle [OF w1] group_step_idle [OF w'] by simp
qed

context station_events
begin

text \<open>Between events no station is being stepped.\<close>

definition quiet :: "wpa_world \<Rightarrow> bool" where
  "quiet w \<longleftrightarrow> (\<forall>b. \<not> stepping b w)"

definition top_ok :: "wpa_world \<Rightarrow> bool" where
  "top_ok w \<longleftrightarrow> stas_ok L R {} w \<and> quiet w"

definition pre_ok :: "macaddr \<Rightarrow> wpa_world \<Rightarrow> bool" where
  "pre_ok a w \<longleftrightarrow> stas_ok L R {a} w \<and> quiet w"

lemma top_pre: "top_ok w \<Longrightarrow> pre_ok a w"
  using stas_ok_mono [of L R "{}" w "{a}"] by (simp add: top_ok_def pre_ok_def)

lemma quiet_sta: "quiet w \<Longrightarrow> find_sta a w = Some sm \<Longrightarrow> \<not> in_step_loop sm"
  by (metis option.simps(5) quiet_def sta_flag_def stepping_def)

lemma top_sta: "top_ok w \<Longrightarrow> find_sta a w = Some sm \<Longrightarrow> L sm \<and> R sm \<and> \<not> in_step_loop sm"
  using quiet_sta [of w a sm] find_sta_Some [of a w sm] by (auto simp: top_ok_def stas_ok_def)

lemma keeps_quiet: "keeps {} w w' \<Longrightarrow> quiet w \<Longrightarrow> quiet w'"
  by (simp add: keeps_def quiet_def)

lemma step_top: "pre_ok a w \<Longrightarrow> wpa_sm_step n env a w = Some w' \<Longrightarrow> top_ok w'"
  using step_ok [of n] keeps_quiet [of w w'] unfolding step_spec_def pre_ok_def top_ok_def by blast

lemma group_top: "top_ok w \<Longrightarrow> group_step n env v w = Some w' \<Longrightarrow> top_ok w'"
  using group_step_ok [OF step_ok, of w n v w'] keeps_quiet [of w w'] unfolding top_ok_def by blast

lemma quiet_upd_sta:
  "quiet w \<Longrightarrow> (\<And>s. sta_addr (h s) = sta_addr s) \<Longrightarrow> (\<And>s. in_step_loop (h s) = in_step_loop s) \<Longrightarrow>
    quiet (upd_sta a h w)"
  by (auto simp: quiet_def stepping_def sta_flag_def find_upd_sta split: option.splits)

lemma top_upd_sta:
  assumes "top_ok w" and "\<And>s. sta_addr (h s) = sta_addr s" "\<And>s. sm_group (h s) = sm_group s"
    "\<And>s. in_step_loop (h s) = in_step_loop s" "\<And>s. V (h s) = V s"
  shows "top_ok (upd_sta a h w)"
proof -
  have "stas_ok L R {} (upd_sta a h w)"
    by (rule ok_upd_sta [of "{}"])
      (use assms L_view R_view in \<open>auto simp: top_ok_def\<close>)
  then show ?thesis using assms quiet_upd_sta by (simp add: top_ok_def)
qed

lemma pre_upd_sta:
  assumes "top_ok w" and "\<And>s. sta_addr (h s) = sta_addr s" "\<And>s. sm_group (h s) = sm_group s"
    "\<And>s. in_step_loop (h s) = in_step_loop s" "\<And>s. L s \<Longrightarrow> L (h s)"
  shows "pre_ok a (upd_sta a h w)"
proof -
  have "stas_ok L R {a} (upd_sta a h w)"
    by (rule ok_upd_sta [of "{}"]) (use assms in \<open>auto simp: top_ok_def\<close>)
  then show ?thesis using assms quiet_upd_sta by (simp add: top_ok_def pre_ok_def)
qed

lemma find_with_frame:
  assumes "wf_world w" "\<And>c. sta_frame (c_sm (f c)) = sta_frame (c_sm c)"
  shows "quiet w \<Longrightarrow> quiet (with_sta a f w)"
proof (cases "find_sta a w")
  case (Some sm)
  assume q: "quiet w"
  obtain g where g: "find_grp (sm_group sm) w = Some g" using wf_group_exists [OF assms(1) Some] by blast
  have addr: "sta_addr (c_sm (f c)) = sta_addr (c_sm c)" "in_step_loop (c_sm (f c)) = in_step_loop (c_sm c)" for c
    using assms(2) [of c] by (simp_all add: sta_frame_def)
  note fw = find_with_sta [OF addr(1) Some g]
  show ?thesis unfolding quiet_def stepping_def sta_flag_def fw
    using q quiet_sta [OF q Some] addr(2)
    by (auto simp: quiet_def stepping_def sta_flag_def)
qed (simp add: with_sta_none)

lemma pre_with_sta:
  assumes "top_ok w" and "\<And>c. sta_frame (c_sm (f c)) = sta_frame (c_sm c)"
    and "\<And>c. vlan_id (c_grp (f c)) = vlan_id (c_grp c)"
    and "\<And>c. L (c_sm c) \<Longrightarrow> R (c_sm c) \<Longrightarrow> L (c_sm (f c))"
  shows "pre_ok a (with_sta a f w)"
proof (cases "find_sta a w")
  case None
  then show ?thesis using top_pre [OF assms(1)] by (simp add: with_sta_none)
next
  case (Some sm)
  have "stas_ok L R {a} (with_sta a f w)"
    by (rule ok_with_sta [of "{}", OF _ Some assms(2,3)])
      (use assms(1,4) top_sta [OF assms(1) Some] in \<open>auto simp: top_ok_def\<close>)
  then show ?thesis using find_with_frame [OF _ assms(2)] assms(1) by (simp add: top_ok_def pre_ok_def stas_ok_def)
qed

lemma top_with_sta:
  assumes "top_ok w" and "\<And>c. sta_frame (c_sm (f c)) = sta_frame (c_sm c)"
    and "\<And>c. vlan_id (c_grp (f c)) = vlan_id (c_grp c)"
    and "\<And>c. find_sta a w = Some (c_sm c) \<Longrightarrow> L (c_sm c) \<Longrightarrow> R (c_sm c) \<Longrightarrow> L (c_sm (f c)) \<and> R (c_sm (f c))"
  shows "top_ok (with_sta a f w)"
proof (cases "find_sta a w")
  case None
  then show ?thesis using assms(1) by (simp add: with_sta_none)
next
  case (Some sm)
  have "stas_ok L R {} (with_sta a f w)"
    by (rule ok_with_sta [of "{}", OF _ Some assms(2,3)])
      (use assms(1,4) top_sta [OF assms(1) Some] Some in \<open>auto simp: top_ok_def\<close>)
  then show ?thesis using find_with_frame [OF _ assms(2)] assms(1) by (simp add: top_ok_def stas_ok_def)
qed

lemma top_groups:
  assumes "top_ok w" and "w_stas w' = w_stas w" and "map vlan_id (w_groups w') = map vlan_id (w_groups w)"
  shows "top_ok w'"
proof -
  have "wf_world w'" using wf_groups_cong [OF _ assms(2,3)] assms(1) by (simp add: top_ok_def stas_ok_def)
  moreover have "find_sta b w' = find_sta b w" for b using assms(2) by (simp add: find_sta_def)
  ultimately show ?thesis using assms(1,2)
    by (simp add: top_ok_def stas_ok_def quiet_def stepping_def sta_flag_def)
qed

lemma top_log: "top_ok w \<Longrightarrow> top_ok (world_log e w)"
  by (rule top_groups) simp_all

lemma top_upd_grp:
  assumes "top_ok w" and "\<And>g. vlan_id (k g) = vlan_id g"
  shows "top_ok (upd_grp v k w)"
proof (rule top_groups [OF assms(1)])
  show "map vlan_id (w_groups (upd_grp v k w)) = map vlan_id (w_groups w)" using assms(2) by simp
qed simp

lemma top_with_grp:
  assumes "top_ok w" and "\<And>c. vlan_id (c_grp (f c)) = vlan_id (c_grp c)"
  shows "top_ok (with_grp v f w)"
proof -
  have "stas_ok L R {} (with_grp v f w)" using ok_with_grp assms by (simp add: top_ok_def)
  moreover have "find_sta b (with_grp v f w) = find_sta b w" for b by (simp add: find_sta_def)
  ultimately show ?thesis using assms(1) by (simp add: top_ok_def quiet_def stepping_def sta_flag_def)
qed

text \<open>The events one by one.\<close>

lemma V_tail:
  "V (sm\<lparr>ft_completed := f, PTK_valid := False, PTK := ptk_zero, pairwise_set := p\<rparr>) =
     V (sm\<lparr>PTK_valid := False, PTK := ptk_zero\<rparr>)"
proof -
  have "sm\<lparr>ft_completed := f, PTK_valid := False, PTK := ptk_zero, pairwise_set := p\<rparr> =
      ((sm\<lparr>PTK_valid := False, PTK := ptk_zero\<rparr>)\<lparr>ft_completed := f\<rparr>)\<lparr>pairwise_set := p\<rparr>" by simp
  then show ?thesis by (metis V_flags(10) V_flags(15))
qed

lemma V_disconnect:
  "V (sm\<lparr>DeauthenticationRequest := d, ft_completed := f, PTK_valid := False, PTK := ptk_zero,
       pairwise_set := p\<rparr>) = V (sm\<lparr>PTK_valid := False, PTK := ptk_zero\<rparr>)"
proof -
  have "sm\<lparr>DeauthenticationRequest := d, ft_completed := f, PTK_valid := False, PTK := ptk_zero,
      pairwise_set := p\<rparr> =
      (sm\<lparr>ft_completed := f, PTK_valid := False, PTK := ptk_zero, pairwise_set := p\<rparr>)\<lparr>DeauthenticationRequest := d\<rparr>"
    by simp
  then show ?thesis by (metis V_flags(2) V_tail)
qed

lemma timeout_top: "top_ok w \<Longrightarrow> wpa_send_eapol_timeout n env a w = Some w' \<Longrightarrow> top_ok w'"
proof -
  assume t: "top_ok w" and st: "wpa_send_eapol_timeout n env a w = Some w'"
  have "top_ok (upd_sta a (\<lambda>sm. sm\<lparr>pending_1_of_4_timeout := False, TimeoutEvt := True\<rparr>) w)"
    by (rule top_upd_sta [OF t]) (simp_all add: V_flags)
  then show ?thesis using st step_top [OF top_pre] by (simp add: wpa_send_eapol_timeout_def)
qed

lemma rekey_ptk_top: "top_ok w \<Longrightarrow> wpa_rekey_ptk n env a w = Some w' \<Longrightarrow> top_ok w'"
proof -
  assume t: "top_ok w" and st: "wpa_rekey_ptk n env a w = Some w'"
  have "pre_ok a (with_sta a wpa_request_new_ptk w)"
    by (rule pre_with_sta [OF t other_frames(1)])
      (use request in \<open>simp_all add: wpa_request_new_ptk_def\<close>)
  then show ?thesis using st step_top by (simp add: wpa_rekey_ptk_def)
qed

lemma rekey_group_loop_top: "top_ok w \<Longrightarrow> rekey_group_loop k n env v w = Some w' \<Longrightarrow> top_ok w'"
proof (induction k arbitrary: w)
  case (Suc k)
  have "top_ok (upd_grp v (grp_changed_update (\<lambda>_. False)) w)" by (rule top_upd_grp [OF Suc.prems(1)]) simp
  then show ?case using Suc.prems(2) Suc.IH
    by (auto split: option.splits if_splits dest: group_top)
qed simp

lemma rekey_groups_top: "top_ok w \<Longrightarrow> rekey_groups n env vs w = Some w' \<Longrightarrow> top_ok w'"
proof (induction vs arbitrary: w)
  case (Cons v vs)
  have "top_ok (upd_grp v (GTKReKey_update (\<lambda>_. True)) w)" by (rule top_upd_grp [OF Cons.prems(1)]) simp
  then show ?case using Cons.prems(2) Cons.IH
    by (auto split: option.splits dest: rekey_group_loop_top)
qed simp

lemma rekey_gtk_top: "top_ok w \<Longrightarrow> wpa_rekey_gtk n env w = Some w' \<Longrightarrow> top_ok w'"
  using rekey_groups_top [of w n "map vlan_id (w_groups w)"]
  by (auto simp: wpa_rekey_gtk_def Let_def top_log split: option.splits)

lemma store_upd_pre:
  assumes "top_ok w" and "info_has (ek_info data) WPA_KEY_INFO_REQUEST"
  shows "pre_ok a (upd_sta a (recv_store data) w)"
  by (rule pre_upd_sta [OF assms(1)]) (use store [OF _ assms(2)] in \<open>simp_all add: recv_store_def Let_def\<close>)

lemma rekey_act_request:
  "fst (wpa_receive env data c) = Recv_rekey_gtk \<Longrightarrow> info_has (ek_info data) WPA_KEY_INFO_REQUEST"
  by (auto simp: wpa_receive_def Let_def recv_tail_def recv_state_def recv_pairwise_2_def
      split: option.splits if_splits prod.splits eapol_key_msg.splits)

lemma receive_top: "top_ok w \<Longrightarrow> receive_eapol_key n env a data w = Some w' \<Longrightarrow> top_ok w'"
proof (cases "find_sta a w")
  case None
  assume "top_ok w" "receive_eapol_key n env a data w = Some w'"
  then show ?thesis using None by (simp add: receive_eapol_key_def)
next
  case (Some sm)
  assume t: "top_ok w" and rx: "receive_eapol_key n env a data w = Some w'"
  have "wf_world w" using t by (simp add: top_ok_def stas_ok_def)
  then obtain g where g: "find_grp (sm_group sm) w = Some g" using wf_group_exists [OF _ Some] by blast
  let ?f = "\<lambda>c. snd (wpa_receive env data c)" and ?c = "ctx_of sm g w"
  let ?w1 = "with_sta a ?f w"
  have fr: "sta_frame (c_sm (?f c)) = sta_frame (c_sm c)" "vlan_id (c_grp (?f c)) = vlan_id (c_grp c)" for c
    using receive_frame [of env data c] by simp_all
  have pre: "pre_ok a ?w1" by (rule pre_with_sta [OF t fr]) (rule receive)
  have lr: "L sm" "R sm" using top_sta [OF t Some] by simp_all
  have addr: "sta_addr (c_sm (?f c)) = sta_addr (c_sm c)" for c using fr(1) [of c] by (simp add: sta_frame_def)
  have f1: "find_sta a ?w1 = Some (c_sm (?f ?c))" using find_with_sta [OF addr Some g] by simp
  have top1: "top_ok ?w1" if "fst (wpa_receive env data ?c) \<noteq> Recv_step"
  proof -
    have "R (c_sm (?f ?c))" using receive_rest [of ?c data] lr that by simp
    moreover have "s = c_sm (?f ?c)" if "s \<in> set (w_stas ?w1)" "sta_addr s = a" for s
      using wf_find_sta [of ?w1 s] that f1 pre by (simp add: pre_ok_def stas_ok_def)
    ultimately show ?thesis using pre unfolding pre_ok_def top_ok_def stas_ok_def by blast
  qed
  have act: "receive_eapol_key n env a data w =
    (case fst (wpa_receive env data ?c) of
       Recv_return \<Rightarrow> Some ?w1
     | Recv_disconnect \<Rightarrow> wpa_sm_step n env a (with_sta a (wpa_sta_disconnect env) ?w1)
     | Recv_step \<Rightarrow> wpa_sm_step n env a ?w1
     | Recv_rekey_gtk \<Rightarrow>
         (case wpa_rekey_gtk n env ?w1 of None \<Rightarrow> None
          | Some w \<Rightarrow> if recv_msg (ek_info data) (ek_data_length data) = SMK_M3
              then Some (world_log (Peerkey_smk_m3 a data) w)
              else wpa_sm_step n env a (upd_sta a (recv_store data) w)))"
    using Some g by (simp add: receive_eapol_key_def ctx_of_def Let_def)
  have dis: "L (c_sm (wpa_sta_disconnect env c))" if "L (c_sm c)" "R (c_sm c)" for c
    by (rule L_view [OF _ clear [OF that]]) (simp only: sta_disconnect_sm V_disconnect)
  show ?thesis
  proof (cases "fst (wpa_receive env data ?c)")
    case Recv_return
    then show ?thesis using rx act top1 by simp
  next
    case Recv_disconnect
    then have "pre_ok a (with_sta a (wpa_sta_disconnect env) ?w1)"
      by (intro pre_with_sta [OF _ other_frames(2)] top1 dis) simp_all
    then show ?thesis using rx act Recv_disconnect step_top by simp
  next
    case Recv_step
    then show ?thesis using rx act pre step_top by simp
  next
    case Recv_rekey_gtk
    obtain w2 where w2: "wpa_rekey_gtk n env ?w1 = Some w2"
      and rest2: "(if recv_msg (ek_info data) (ek_data_length data) = SMK_M3
          then Some (world_log (Peerkey_smk_m3 a data) w2)
          else wpa_sm_step n env a (upd_sta a (recv_store data) w2)) = Some w'"
      using rx act Recv_rekey_gtk by (auto split: option.splits)
    have t2: "top_ok w2" using rekey_gtk_top [OF top1 w2] Recv_rekey_gtk by simp
    show ?thesis using rest2 top_log [OF t2] step_top [OF store_upd_pre [OF t2 rekey_act_request [OF Recv_rekey_gtk]]]
      by (auto split: if_splits)
  qed
qed

text \<open>Seen flatly, every station satisfies both conditions and none is being stepped.\<close>

lemma top_iff:
  "top_ok w \<longleftrightarrow> wf_world w \<and> (\<forall>sm\<in>set (w_stas w). L sm \<and> R sm \<and> \<not> in_step_loop sm)"
proof
  assume t: "top_ok w"
  then have wf: "wf_world w" by (simp add: top_ok_def stas_ok_def)
  then show "wf_world w \<and> (\<forall>sm\<in>set (w_stas w). L sm \<and> R sm \<and> \<not> in_step_loop sm)"
    using top_sta [OF t] wf_find_sta [OF wf] by blast
next
  assume a: "wf_world w \<and> (\<forall>sm\<in>set (w_stas w). L sm \<and> R sm \<and> \<not> in_step_loop sm)"
  then have "\<not> stepping b w" for b
    using find_sta_Some [of b w] by (auto simp: stepping_def sta_flag_def split: option.splits)
  then show "top_ok w" using a by (simp add: top_ok_def stas_ok_def quiet_def)
qed

lemma tail_step_top:
  assumes "top_ok w" and "wpa_sm_step n env a (with_sta a (sm_event_tail env ev) w) = Some w'"
  shows "top_ok w'"
proof -
  have "L (c_sm (sm_event_tail env ev c))" if "L (c_sm c)" "R (c_sm c)" for c
    by (rule L_view [OF _ clear [OF that]]) (simp only: event_tail_sm V_tail)
  then have "pre_ok a (with_sta a (sm_event_tail env ev) w)"
    by (intro pre_with_sta [OF assms(1) other_frames(3)]) simp_all
  then show ?thesis using assms(2) step_top by blast
qed

lemma start_step_top:
  assumes "top_ok w" and "wpa_sm_step n env a (upd_sta a (\<lambda>sm. sm\<lparr>started := x, Init := y\<rparr>) w) = Some w'"
  shows "top_ok w'" and "top_ok (upd_sta a (\<lambda>sm. sm\<lparr>Init := z, AuthenticationRequest := u\<rparr>) w')"
proof -
  have "top_ok (upd_sta a (\<lambda>sm. sm\<lparr>started := x, Init := y\<rparr>) w)"
    by (rule top_upd_sta [OF assms(1)]) (simp_all add: V_flags)
  then show t: "top_ok w'" using assms(2) step_top [OF top_pre] by blast
  show "top_ok (upd_sta a (\<lambda>sm. sm\<lparr>Init := z, AuthenticationRequest := u\<rparr>) w')"
    by (rule top_upd_sta [OF t]) (simp_all add: V_flags)
qed

lemma V_cancel: "V (c_sm (reauth_cancel_update c)) = V (c_sm c)"
  by (simp add: reauth_cancel_update_def V_flags)

lemma sm_event_top:
  assumes t: "top_ok w" and e: "wpa_auth_sm_event n env a ev w = Some w'"
  shows "top_ok w'"
proof -
  have deauth: "top_ok (upd_sta a (DeauthenticationRequest_update (\<lambda>_. True)) w)"
    by (rule top_upd_sta [OF t]) (simp_all add: V_flags)
  have cancel: "top_ok (with_sta a reauth_cancel_update w)"
    by (rule top_with_sta [OF t other_frames(4,5)]) (use L_view R_view V_cancel in blast)
  have inst: "V (c_sm (wpa_ft_install_ptk env c)) = V (c_sm c)" "sta_frame (c_sm (wpa_ft_install_ptk env c)) = sta_frame (c_sm c)" for c
    using ft_install_sm [of env c] by (auto simp: V_flags sta_frame_def)
  have ft: "top_ok (with_sta a (wpa_ft_install_ptk env) w)"
    by (rule top_with_sta [OF t inst(2)]) (use L_view R_view inst(1) ft_install_grp in auto)
  have ft2: "top_ok (upd_sta a (ft_completed_update (\<lambda>_. True)) (with_sta a (wpa_ft_install_ptk env) w))"
    by (rule top_upd_sta [OF ft]) (simp_all add: V_flags)
  show ?thesis
  proof (cases "find_sta a w")
    case None
    then show ?thesis using e t by (simp add: wpa_auth_sm_event_def)
  next
    case (Some sm)
    then show ?thesis using e
      by (auto simp: wpa_auth_sm_event_def Let_def intro: ft2
          dest: tail_step_top [OF t] tail_step_top [OF deauth] tail_step_top [OF cancel]
            start_step_top(1) [OF t] start_step_top(2) [OF t, THEN tail_step_top, rotated]
          split: if_splits option.splits)
  qed
qed

lemma associated_top:
  assumes t: "top_ok w" and e: "wpa_auth_sta_associated n env a w = Some w'"
  shows "top_ok w'"
proof -
  have re: "top_ok (upd_sta a (\<lambda>sm. sm\<lparr>key_replay := replicate 4 rc_zero, ReAuthenticationRequest := True\<rparr>) w)"
    by (rule top_upd_sta [OF t]) (simp_all add: V_flags)
  show ?thesis using e t
    by (auto simp: wpa_auth_sta_associated_def
        dest: step_top [OF top_pre [OF re]] start_step_top(1) [OF t]
          start_step_top(2) [OF t, THEN top_pre [THEN step_top], rotated]
        split: if_splits option.splits)
qed

lemma sta_init_top:
  assumes t: "top_ok w" and "find_sta a w = None"
  shows "top_ok (wpa_auth_sta_init a w)"
  using assms zero find_sta_None [of a w]
  by (auto simp: wpa_auth_sta_init_def top_iff wf_world_def sm_zero_def split: list.split)

lemma no_wpa_top: "top_ok w \<Longrightarrow> top_ok (wpa_auth_sta_no_wpa a w)"
  unfolding wpa_auth_sta_no_wpa_def by (rule top_upd_sta) (simp_all add: V_flags)

lemma clear_pmksa_top: "top_ok w \<Longrightarrow> top_ok (wpa_auth_sta_clear_pmksa a e w)"
  unfolding wpa_auth_sta_clear_pmksa_def by (rule top_upd_sta) (simp_all add: V_flags)

lemma local_mic_top: "top_ok w \<Longrightarrow> top_ok (wpa_auth_sta_local_mic_failure_report a w)"
  unfolding wpa_auth_sta_local_mic_failure_report_def by (rule top_upd_sta) (simp_all add: V_flags)

lemma tx_status_top: "top_ok w \<Longrightarrow> top_ok (wpa_auth_eapol_key_tx_status a ack w)"
  by (simp add: wpa_auth_eapol_key_tx_status_def top_log)

lemma free_top: "top_ok w \<Longrightarrow> top_ok (wpa_free_sta_sm a w)"
  using free_ok(1) [of a w] stas_ok_mono [of L R "{}" w "{a}"]
  by (auto simp: top_iff stas_ok_def wpa_free_sta_sm_def Let_def split: option.splits if_splits)

lemma deinit_top:
  assumes t: "top_ok w"
  shows "top_ok (wpa_auth_sta_deinit env a w)"
proof (cases "find_sta a w")
  case None
  then show ?thesis using t by (simp add: wpa_auth_sta_deinit_def)
next
  case (Some sm)
  have p: "top_ok (upd_sta a (pending_1_of_4_timeout_update (\<lambda>_. False)) w2)" if "top_ok w2" for w2
    by (rule top_upd_sta [OF that]) (simp_all add: V_flags)
  show ?thesis using Some top_sta [OF t Some] t
    by (auto simp: wpa_auth_sta_deinit_def Let_def intro!: free_top top_log p)
qed

lemma V_agreed: "agreed sm sm' \<Longrightarrow> V sm' = V sm"
  by (auto simp: agreed_def V_flags)

lemma validate_top:
  assumes t: "top_ok w"
  shows "top_ok (snd (validate_sta env get get_okc a ie mdie w))"
proof (cases "find_sta a w")
  case None
  then show ?thesis using t by (simp add: validate_sta_def)
next
  case (Some sm)
  define sm' where "sm' = fst (snd (wpa_validate_wpa_ie env get get_okc ie mdie (sm, w_mib w)))"
  have ag: "agreed sm sm'" unfolding sm'_def by (rule validate_agreed)
  have sm': "sta_addr sm' = sta_addr sm" "sm_group sm' = sm_group sm" "in_step_loop sm' = in_step_loop sm"
    using ag by (auto simp: agreed_def)
  have lr: "L sm'" "R sm'" "\<not> in_step_loop sm'"
    using top_sta [OF t Some] L_view [OF V_agreed [OF ag]] R_view [OF V_agreed [OF ag]] sm' by auto
  have "w_stas (snd (validate_sta env get get_okc a ie mdie w)) = map (\<lambda>s. if sta_addr s = a then sm' else s) (w_stas w)"
    "w_groups (snd (validate_sta env get get_okc a ie mdie w)) = w_groups w"
    using Some by (simp_all add: validate_sta_def case_prod_beta put_sta_def sm'_def)
  moreover have "map sta_addr (map (\<lambda>s. if sta_addr s = a then sm' else s) (w_stas w)) = map sta_addr (w_stas w)"
    using sm'(1) find_sta_Some [OF Some] by (auto intro: map_cong)
  then have "distinct (map sta_addr (map (\<lambda>s. if sta_addr s = a then sm' else s) (w_stas w)))"
    using t by (simp only: top_iff wf_world_def)
  ultimately show ?thesis using t lr sm' find_sta_Some [OF Some] unfolding top_iff wf_world_def by auto
qed

lemma step_twice_top: "top_ok w \<Longrightarrow> step_twice n env v w = Some w' \<Longrightarrow> top_ok w'"
proof -
  assume t: "top_ok w" and st: "step_twice n env v w = Some w'"
  from st obtain w1 where w1: "group_step n env v w = Some w1"
    and w': "group_step n env v (upd_grp v (GInit_update (\<lambda>_. False)) w1) = Some w'"
    by (auto simp: step_twice_def split: option.splits)
  have "top_ok (upd_grp v (GInit_update (\<lambda>_. False)) w1)" by (rule top_upd_grp [OF group_top [OF t w1]]) simp
  then show ?thesis using w' group_top by blast
qed

lemma init_keys_top: "top_ok w \<Longrightarrow> wpa_init_keys n env w = Some w' \<Longrightarrow> top_ok w'"
  by (auto simp: wpa_init_keys_def dest: step_twice_top split: list.splits)

lemma reconfig_top:
  assumes t: "top_ok w" and "wpa_reconfig n env w = Some w'"
  shows "top_ok w'"
proof -
  have "top_ok (upd_grp v (\<lambda>g. g\<lparr>GTK_len := l, GInit := True\<rparr>) w)" for v l by (rule top_upd_grp [OF t]) simp
  then show ?thesis using assms by (auto simp: wpa_reconfig_def dest: step_twice_top split: list.splits)
qed

lemma rekey_gmk_top:
  assumes t: "top_ok w"
  shows "top_ok (wpa_rekey_gmk env w)"
proof -
  let ?f = "\<lambda>c. case get_random env 32 c of (None, c) \<Rightarrow> c | (Some k, c) \<Rightarrow> ugrp (GMK_update (\<lambda>_. k)) c"
  have "vlan_id (c_grp (?f c)) = vlan_id (c_grp c)" for c
    using get_random_simps(2) [of env 32 c]
    by (cases "get_random env 32 c"; cases "fst (get_random env 32 c)") auto
  then have "top_ok (with_grp v ?f w)" for v by (rule top_with_grp [OF t])
  then show ?thesis using t by (auto simp: wpa_rekey_gmk_def Let_def intro!: top_log split: list.split)
qed

lemma swap_vlan: "vlan_id (c_grp (swap_and_set env c)) = vlan_id (c_grp c)"
proof -
  have "vlan_id (c_grp (snd (wpa_gtk_update env d))) = vlan_id (c_grp d)" for d
    using grp_frame_helpers(1) [of env d] by (simp add: grp_frame_def)
  then show ?thesis by (simp add: swap_and_set_def)
qed

lemma gtk_rekey_top: "top_ok w \<Longrightarrow> top_ok (wpa_gtk_rekey env w)"
  by (auto simp: wpa_gtk_rekey_def swap_vlan intro!: top_with_grp split: list.split)

lemma add_group_top:
  assumes "top_ok w" and "find_grp (vlan_id grp) w = None"
  shows "top_ok (w\<lparr>w_hist := h, w_groups := (case w_groups w of [] \<Rightarrow> [grp] | g # gs \<Rightarrow> g # grp # gs)\<rparr>)"
  using assms find_grp_None [of "vlan_id grp" w] by (auto simp: top_iff wf_world_def split: list.split)

lemma group_init_shape:
  assumes "wpa_group_init env v b w = Some w'"
  obtains grp h where "vlan_id grp = v"
    "(if b then Some (w\<lparr>w_hist := h, w_groups := (case w_groups w of [] \<Rightarrow> [grp] | g # gs \<Rightarrow> g # grp # gs)\<rparr>)
      else step_twice 0 env v (w\<lparr>w_hist := h, w_groups := (case w_groups w of [] \<Rightarrow> [grp] | g # gs \<Rightarrow> g # grp # gs)\<rparr>)) =
      Some w'"
proof -
  let ?c = "\<lparr>c_sm = sm_zero [] v, c_grp = group_zero env v, handshake_failures = w_failures w,
      auth_remote_mic_failures = w_remote_mic w, hist = w_hist w\<rparr>"
  obtain r c where i: "wpa_group_init_gmk_and_counter env ?c = (r, c)" by fastforce
  have "vlan_id (c_grp c) = v"
    using grp_frame_helpers(2) [of env ?c] i by (simp add: grp_frame_def group_zero_def)
  then have "vlan_id ((c_grp c)\<lparr>GInit := True\<rparr>) = v" by simp
  then show thesis using assms i that [of "(c_grp c)\<lparr>GInit := True\<rparr>" "hist c"]
    by (auto simp: wpa_group_init_def Let_def split: if_splits)
qed

lemma group_init_top:
  assumes "top_ok w" and "find_grp v w = None" and i: "wpa_group_init env v b w = Some w'"
  shows "top_ok w'" and "v \<in> vlan_id ` set (w_groups w')"
proof -
  obtain grp h where g: "vlan_id grp = v" and
    e: "(if b then Some (w\<lparr>w_hist := h, w_groups := (case w_groups w of [] \<Rightarrow> [grp] | g # gs \<Rightarrow> g # grp # gs)\<rparr>)
      else step_twice 0 env v (w\<lparr>w_hist := h, w_groups := (case w_groups w of [] \<Rightarrow> [grp] | g # gs \<Rightarrow> g # grp # gs)\<rparr>)) =
      Some w'" using group_init_shape [OF i] .
  let ?w = "w\<lparr>w_hist := h, w_groups := (case w_groups w of [] \<Rightarrow> [grp] | g # gs \<Rightarrow> g # grp # gs)\<rparr>"
  have t: "top_ok ?w" using add_group_top [OF assms(1), of grp h] assms(2) g by simp
  have v: "v \<in> set (map vlan_id (w_groups ?w))" using g by (auto split: list.split)
  have "top_ok w' \<and> map vlan_id (w_groups w') = map vlan_id (w_groups ?w)"
    using e t step_twice_top [OF t, of 0 v w'] step_twice_idle [of env v ?w w'] by (cases b) auto
  then show "top_ok w'" "v \<in> vlan_id ` set (w_groups w')" using v by (metis, metis set_map)
qed

lemma set_vlan_top:
  assumes t: "top_ok w" and s: "wpa_auth_sta_set_vlan env a v w = Some w'"
  shows "top_ok w'"
proof (cases "find_sta a w = None")
  case True
  then show ?thesis using assms by (simp add: wpa_auth_sta_set_vlan_def)
next
  case False
  obtain w1 where w1: "top_ok w1" "v \<in> vlan_id ` set (w_groups w1)" "w' = upd_sta a (sm_group_update (\<lambda>_. v)) w1"
  proof (cases "find_grp v w")
    case None
    then show thesis using s False that group_init_top [OF t None, of False]
      by (auto simp: wpa_auth_sta_set_vlan_def split: if_splits option.splits)
  next
    case (Some g)
    then show thesis using s False that [OF t] find_grp_Some [OF Some] by (auto simp: wpa_auth_sta_set_vlan_def)
  qed
  have "map sta_addr (map (\<lambda>s. if sta_addr s = a then s\<lparr>sm_group := v\<rparr> else s) (w_stas w1)) = map sta_addr (w_stas w1)"
    by (auto intro: map_cong)
  then have "distinct (map sta_addr (map (\<lambda>s. if sta_addr s = a then s\<lparr>sm_group := v\<rparr> else s) (w_stas w1)))"
    using w1(1) by (simp only: top_iff wf_world_def)
  then have wf: "wf_world w'" using w1 by (auto simp: top_iff wf_world_def)
  have "L (s\<lparr>sm_group := v\<rparr>) \<and> R (s\<lparr>sm_group := v\<rparr>)" if "L s" "R s" for s
    using L_view [OF V_flags(12)] R_view [OF V_flags(12)] that by blast
  then show ?thesis using wf w1(1) by (auto simp: top_iff w1(3))
qed

lemma init_top: "wpa_init env = Some w \<Longrightarrow> top_ok w"
proof -
  assume i: "wpa_init env = Some w"
  let ?w0 = "\<lparr>w_groups = [], w_stas = [], w_failures = 0, w_remote_mic = 0, w_mib = mib_zero, w_hist = []\<rparr>"
  have t0: "top_ok ?w0" by (simp add: top_iff wf_world_def)
  have "top_ok w1" if "wpa_group_init env 0 True ?w0 = Some w1" for w1
    by (rule group_init_top(1) [OF t0 _ that]) (simp add: find_grp_def)
  then show ?thesis using i by (auto simp: wpa_init_def Let_def top_log split: option.splits if_splits)
qed

theorem event_top:
  assumes "top_ok w" and "apply_wop n env op w = Some w'"
  shows "top_ok w'"
  using assms
  by (cases op)
    (auto simp: sta_init_top no_wpa_top deinit_top tx_status_top clear_pmksa_top local_mic_top rekey_gmk_top
      gtk_rekey_top validate_top
      dest: receive_top timeout_top rekey_ptk_top rekey_gtk_top associated_top sm_event_top init_keys_top
        reconfig_top set_vlan_top step_top [OF top_pre]
      split: option.splits if_splits)

theorem reach_top: "wpa_reach env w \<Longrightarrow> top_ok w"
  by (induction rule: wpa_reach.induct) (blast intro: init_top event_top)+

text \<open>The property holds of every station whenever the authenticator is between two events.\<close>

theorem reach_station: "wpa_reach env w \<Longrightarrow> sm \<in> set (w_stas w) \<Longrightarrow> L sm \<and> R sm \<and> \<not> in_step_loop sm"
  using reach_top top_iff by blast

theorem reach_wf: "wpa_reach env w \<Longrightarrow> wf_world w"
  using reach_top top_iff by blast

end

end
