(* ===== verification/Wpa_Handshake.thy ===== *)
theory Wpa_Handshake
  imports Wpa_Events Wpa_Frames
begin

text \<open>
  The 4-way handshake proves possession of the pairwise key.  The part of a station's machine that the
  argument is about, the states a station can get into, the invariant of those states, and the
  contract of \<^verbatim>\<open>station_events\<close> for them: every station of every world the authenticator reaches is in
  such a state and has no reply left to look at.
\<close>

section \<open>The states of a station\<close>

definition hs_core :: "wpa_sm \<Rightarrow> wpa_ptk_enum \<times> bool \<times> bool \<times> bool \<times> bool \<times> bool \<times> wpa_ptk \<times> bool \<times> u8 list" where
  "hs_core sm = (wpa_ptk_state sm, EAPOLKeyReceived sm, EAPOLKeyPairwise sm, EAPOLKeyRequest sm,
     MICVerified sm, update_snonce sm, PTK sm, PTK_valid sm, last_rx_eapol_key sm)"

text \<open>A pairwise reply that the states between message 2/4 and message 4/4 still have to look at.\<close>

definition reply_pending :: "wpa_sm \<Rightarrow> bool" where
  "reply_pending sm \<longleftrightarrow> key_received sm True \<and> \<not> update_snonce sm \<and>
     wpa_ptk_state sm \<in> {WPA_PTK_PTKCALCNEGOTIATING, WPA_PTK_PTKCALCNEGOTIATING2, WPA_PTK_PTKINITNEGOTIATING}"

definition settled :: "wpa_sm \<Rightarrow> bool" where
  "settled sm \<longleftrightarrow> \<not> reply_pending sm"

text \<open>What may happen to a station: the steps of its two machines at any time; the reception of a frame
  and the removal of its key when it is settled; the storing of a request; anything that does not
  touch the handshake.\<close>

inductive sta_reach :: "wpa_env \<Rightarrow> wpa_sm \<Rightarrow> bool" for env where
  created: "sta_reach env (sm_zero a v)"
| ptk: "sta_reach env (c_sm c) \<Longrightarrow> sta_reach env (c_sm (sm_WPA_PTK_Step env c))"
| ptk_group: "sta_reach env (c_sm c) \<Longrightarrow> sta_reach env (c_sm (sm_WPA_PTK_GROUP_Step env c))"
| control: "sta_reach env sm \<Longrightarrow> hs_core sm' = hs_core sm \<Longrightarrow> sta_reach env sm'"
| receive: "sta_reach env (c_sm c) \<Longrightarrow> settled (c_sm c) \<Longrightarrow>
    sta_reach env (c_sm (snd (wpa_receive env data c)))"
| store: "sta_reach env sm \<Longrightarrow> info_has (ek_info data) WPA_KEY_INFO_REQUEST \<Longrightarrow> sta_reach env (recv_store data sm)"
| clear: "sta_reach env sm \<Longrightarrow> settled sm \<Longrightarrow> sta_reach env (sm\<lparr>PTK_valid := False, PTK := ptk_zero\<rparr>)"
| request: "sta_reach env sm \<Longrightarrow> settled sm \<Longrightarrow> sta_reach env (sm\<lparr>PTKRequest := True, PTK_valid := False\<rparr>)"

section \<open>The invariant\<close>

text \<open>A reply that was accepted under a key in use has a correct MIC under it; past message 2/4 a pending
  reply is verified and the key is in use.\<close>

definition hs_ok :: "wpa_env \<Rightarrow> wpa_sm \<Rightarrow> bool" where
  "hs_ok env sm \<longleftrightarrow>
     (EAPOLKeyReceived sm \<and> \<not> EAPOLKeyRequest sm \<and> PTK_valid sm \<and> \<not> update_snonce sm \<longrightarrow>
        wpa_verify_key_mic env (PTK sm) (last_rx_eapol_key sm)) \<and>
     (reply_pending sm \<and> wpa_ptk_state sm \<noteq> WPA_PTK_PTKCALCNEGOTIATING \<longrightarrow> MICVerified sm \<and> PTK_valid sm) \<and>
     (reply_pending sm \<and> MICVerified sm \<longrightarrow> PTK_valid sm)"

lemmas hs_defs = hs_ok_def reply_pending_def key_received_def

lemma hs_ok_core: "hs_core sm' = hs_core sm \<Longrightarrow> hs_ok env sm' = hs_ok env sm"
  by (simp add: hs_core_def hs_defs)

lemma settled_core: "hs_core sm' = hs_core sm \<Longrightarrow> settled sm' = settled sm"
  by (simp add: hs_core_def settled_def reply_pending_def key_received_def)

lemma hs_no_reply: "\<not> EAPOLKeyReceived sm \<Longrightarrow> hs_ok env sm"
  by (simp add: hs_defs)

text \<open>Leaving the handshake.\<close>

lemma hs_ok_other:
  assumes "hs_ok env sm" and "wpa_ptk_state sm' \<notin> {WPA_PTK_PTKCALCNEGOTIATING, WPA_PTK_PTKCALCNEGOTIATING2,
      WPA_PTK_PTKINITNEGOTIATING}"
    and "EAPOLKeyReceived sm' = EAPOLKeyReceived sm" "EAPOLKeyRequest sm' = EAPOLKeyRequest sm"
      "update_snonce sm' = update_snonce sm" "last_rx_eapol_key sm' = last_rx_eapol_key sm"
    and "PTK_valid sm' \<Longrightarrow> PTK_valid sm \<and> PTK sm' = PTK sm"
  shows "hs_ok env sm'"
  using assms by (auto simp: hs_defs)

lemma only_sent_core: "only_sent sm sm' \<Longrightarrow> hs_core sm' = hs_core sm"
  by (auto simp: only_sent_def hs_core_def)

lemma hs_enter1:
  assumes "hs_ok env (c_sm c)"
  shows "hs_ok env (c_sm (sm_WPA_PTK_INITIALIZE_Enter env c))"
    "hs_ok env (c_sm (sm_WPA_PTK_DISCONNECT_Enter env c))"
    "hs_ok env (c_sm (sm_WPA_PTK_DISCONNECTED_Enter c))"
    "hs_ok env (c_sm (sm_WPA_PTK_AUTHENTICATION_Enter c))"
  by (rule hs_ok_other [OF assms]; simp add: initialize_sm disconnect_sm disconnected_sm authentication_sm)+

lemma hs_enter2:
  assumes "hs_ok env (c_sm c)"
  shows "hs_ok env (c_sm (sm_WPA_PTK_AUTHENTICATION2_Enter env c))"
    "hs_ok env (c_sm (sm_WPA_PTK_INITPMK_Enter env c))"
    "hs_ok env (c_sm (sm_WPA_PTK_INITPSK_Enter env c))"
    "hs_ok env (c_sm (sm_WPA_PTK_PTKSTART_Enter env c))"
  using authentication2_sm [of env c] initpmk_sm [of env c] initpsk_sm [of env c] ptkstart_sm [of c env]
  by (auto intro: hs_ok_other [OF assms])

lemma hs_ptkcalc: "hs_ok env (c_sm (sm_WPA_PTK_PTKCALCNEGOTIATING_Enter env c))"
  using ptkcalc_sm [of env c] by (auto intro: hs_no_reply)

lemma hs_ptkcalc2:
  assumes "hs_ok env (c_sm c)" "wpa_ptk_state (c_sm c) = WPA_PTK_PTKCALCNEGOTIATING" "MICVerified (c_sm c)"
  shows "hs_ok env (c_sm (sm_WPA_PTK_PTKCALCNEGOTIATING2_Enter c))"
  using assms by (auto simp: hs_defs ptkcalc2_sm)

lemma hs_ptkinitneg:
  assumes "hs_ok env (c_sm c)"
    "wpa_ptk_state (c_sm c) \<in> {WPA_PTK_PTKCALCNEGOTIATING2, WPA_PTK_PTKINITNEGOTIATING}"
  shows "hs_ok env (c_sm (sm_WPA_PTK_PTKINITNEGOTIATING_Enter env c))"
  unfolding hs_ok_core [OF only_sent_core [OF ptkinitneg_sm [of c env]]] using assms by (auto simp: hs_defs)

lemma hs_ptkinitdone: "hs_ok env (c_sm (sm_WPA_PTK_PTKINITDONE_Enter env c))"
  using ptkinitdone_sm [of env c] by (auto intro: hs_no_reply)

lemma hs_if: "(b \<Longrightarrow> hs_ok env (c_sm x)) \<Longrightarrow> (\<not> b \<Longrightarrow> hs_ok env (c_sm y)) \<Longrightarrow> hs_ok env (c_sm (if b then x else y))"
  by simp

lemma hs_ptk_step:
  assumes "hs_ok env (c_sm c)"
  shows "hs_ok env (c_sm (sm_WPA_PTK_Step env c))"
proof -
  have f: "hs_ok env (c_sm (sm_WPA_PTK_DISCONNECT_Enter env (handshake_failure c)))"
    using hs_enter1(2) [of env "handshake_failure c"] assms by simp
  show ?thesis
    unfolding sm_WPA_PTK_Step_def Let_def
    by (cases "wpa_ptk_state (c_sm c)"; (simp only: wpa_ptk_enum.simps)?;
        intro hs_if hs_enter1 hs_enter2 hs_ptkcalc hs_ptkcalc2 hs_ptkinitneg hs_ptkinitdone assms f; simp)
qed

lemma hs_group_step:
  assumes "hs_ok env (c_sm c)"
  shows "hs_ok env (c_sm (sm_WPA_PTK_GROUP_Step env c))"
proof -
  have idle: "hs_core (c_sm (sm_WPA_PTK_GROUP_IDLE_Enter c)) = hs_core (c_sm c)"
    "hs_core ((c_sm (sm_WPA_PTK_GROUP_IDLE_Enter c))\<lparr>PtkGroupInit := b\<rparr>) = hs_core (c_sm c)" for b
    by (simp_all add: hs_core_def group_idle_sm)
  have neg: "hs_core (c_sm (sm_WPA_PTK_GROUP_REKEYNEGOTIATING_Enter env c)) = hs_core (c_sm c)"
    using group_rekeyneg_sm [of c env] by (auto dest!: only_sent_core simp: hs_core_def)
  have err: "hs_core (c_sm (sm_WPA_PTK_GROUP_KEYERROR_Enter c)) = hs_core (c_sm c)"
    by (simp add: hs_core_def group_keyerror_sm)
  have est: "hs_ok env (c_sm (sm_WPA_PTK_GROUP_REKEYESTABLISHED_Enter c))"
    by (rule hs_no_reply) (simp add: group_established_sm)
  show ?thesis
    using assms est hs_ok_core [OF idle(1), of env] hs_ok_core [OF idle(2), of env] hs_ok_core [OF neg, of env]
      hs_ok_core [OF err, of env]
    by (simp add: sm_WPA_PTK_GROUP_Step_def Let_def split: wpa_ptk_group_enum.split)
qed

section \<open>Reception\<close>

lemma ft_check_sm: "\<exists>n. snd (ft_check_msg_2_of_4 env kde sm) = sm\<lparr>sup_pmk_r1_name := n\<rparr>"
proof -
  have "sm = sm\<lparr>sup_pmk_r1_name := sup_pmk_r1_name sm\<rparr>" by simp
  then have e: "\<exists>n. sm = sm\<lparr>sup_pmk_r1_name := n\<rparr>" by (rule exI)
  obtain r ie where p: "wpa_parse_wpa_ie_rsn (case kde_rsn_ie kde of Some x \<Rightarrow> x | None \<Rightarrow> []) = (r, ie)" by fastforce
  show ?thesis unfolding ft_check_msg_2_of_4_def p Let_def prod.case
    using e by (auto split: option.split)
qed

lemma ft_check_core: "hs_core (snd (ft_check_msg_2_of_4 env kde sm)) = hs_core sm"
  using ft_check_sm [of env kde sm] by (auto simp: hs_core_def)

lemma recv_state_core: "hs_core (c_sm (snd (recv_state env data msg c))) = hs_core (c_sm c)"
  using ft_check_core [of env "snd (wpa_parse_kde_ies (ek_data data))" "c_sm c"]
  by (simp add: recv_state_def recv_pairwise_2_def Let_def case_prod_beta split: eapol_key_msg.split)

text \<open>Which messages get past the state checks without a request.\<close>

lemma recv_state_passed:
  assumes "recv_state env data msg c = (None, c')" and "msg = recv_msg (ek_info data) (ek_data_length data)"
    and "\<not> info_has (ek_info data) WPA_KEY_INFO_REQUEST" "info_has (ek_info data) WPA_KEY_INFO_KEY_TYPE"
    and "msg \<noteq> SMK_M3"
  shows "wpa_ptk_state (c_sm c) \<in> {WPA_PTK_PTKSTART, WPA_PTK_PTKCALCNEGOTIATING} \<or>
    wpa_ptk_state (c_sm c) = WPA_PTK_PTKINITNEGOTIATING \<and> (PTK_valid (c_sm c) \<or> update_snonce (c_sm c))"
proof -
  have "key_info AND (WPA_KEY_INFO_SMK_MESSAGE OR WPA_KEY_INFO_REQUEST) \<noteq> WPA_KEY_INFO_SMK_MESSAGE OR WPA_KEY_INFO_REQUEST"
    if "key_info AND WPA_KEY_INFO_REQUEST = 0" for key_info :: u16
  proof
    assume "key_info AND (WPA_KEY_INFO_SMK_MESSAGE OR WPA_KEY_INFO_REQUEST) = WPA_KEY_INFO_SMK_MESSAGE OR WPA_KEY_INFO_REQUEST"
    then have "(key_info AND (WPA_KEY_INFO_SMK_MESSAGE OR WPA_KEY_INFO_REQUEST)) AND WPA_KEY_INFO_REQUEST =
        (WPA_KEY_INFO_SMK_MESSAGE OR WPA_KEY_INFO_REQUEST) AND WPA_KEY_INFO_REQUEST" by simp
    then have "key_info AND WPA_KEY_INFO_REQUEST = WPA_KEY_INFO_REQUEST"
      by (simp add: and.assoc key_info_consts)
    then show False using that by (simp add: key_info_consts)
  qed
  then have "msg = PAIRWISE_2 \<or> msg = PAIRWISE_4"
    using assms(2-5) by (auto simp: recv_msg_def Let_def info_has_def split: if_splits)
  then show ?thesis using assms(1)
    by (auto simp: recv_state_def recv_pairwise_2_def Let_def case_prod_beta split: if_splits)
qed

lemma recv_mic_core:
  assumes "recv_mic env data c = Some c'"
  shows "hs_core (c_sm c') = hs_core ((c_sm c)\<lparr>MICVerified := (PTK_valid (c_sm c) \<and> \<not> update_snonce (c_sm c))\<rparr>)"
    and "PTK_valid (c_sm c) \<Longrightarrow> \<not> update_snonce (c_sm c) \<Longrightarrow> wpa_verify_key_mic env (PTK (c_sm c)) data"
  using assms by (auto simp: recv_mic_def Let_def hs_core_def split: if_splits)

text \<open>A settled station stays settled, and keeps the invariant, when \<^verbatim>\<open>MICVerified\<close>, \<^verbatim>\<open>PTK_valid\<close> or
  \<^verbatim>\<open>update_snonce\<close> change the way the reception changes them.\<close>

definition less_key :: "wpa_sm \<Rightarrow> wpa_sm \<Rightarrow> bool" where
  "less_key sm sm' \<longleftrightarrow> wpa_ptk_state sm' = wpa_ptk_state sm \<and> EAPOLKeyReceived sm' = EAPOLKeyReceived sm \<and>
     EAPOLKeyPairwise sm' = EAPOLKeyPairwise sm \<and> EAPOLKeyRequest sm' = EAPOLKeyRequest sm \<and>
     (update_snonce sm \<longrightarrow> update_snonce sm') \<and> last_rx_eapol_key sm' = last_rx_eapol_key sm \<and>
     PTK sm' = PTK sm \<and> (PTK_valid sm' \<longrightarrow> PTK_valid sm)"

lemma less_key_ok: "less_key sm sm' \<Longrightarrow> hs_ok env sm \<Longrightarrow> settled sm \<Longrightarrow> hs_ok env sm' \<and> settled sm'"
  by (auto simp: less_key_def hs_defs settled_def)

lemma less_key_trans: "less_key a b \<Longrightarrow> less_key b c \<Longrightarrow> less_key a c"
  by (auto simp: less_key_def)

lemma less_key_core: "hs_core b = hs_core a \<Longrightarrow> less_key a b"
  by (simp add: less_key_def hs_core_def)

lemma recv_replay_less: "recv_replay data msg sm = Some sm' \<Longrightarrow> less_key sm sm'"
  by (auto simp: recv_replay_def Let_def less_key_def split: if_splits)

lemma recv_mic_less: "recv_mic env data c = Some c' \<Longrightarrow> less_key (c_sm c) (c_sm c')"
  using recv_mic_core(1) [of env data c c'] by (simp add: less_key_def hs_core_def)

lemma recv_mic_fail_less: "less_key (c_sm c) (c_sm (recv_mic_fail data c))"
  by (simp add: recv_mic_fail_def less_key_def)

lemma recv_request_less: "less_key (c_sm c) (c_sm (snd (recv_request env data msg c)))"
  by (simp add: recv_request_def wpa_receive_error_report_def wpa_request_new_ptk_def Let_def case_prod_beta less_key_def)

lemma store_request_ok: "info_has (ek_info data) WPA_KEY_INFO_REQUEST \<Longrightarrow> hs_ok env (recv_store data sm)"
  by (simp add: hs_defs recv_store_def Let_def)

lemma store_reply_ok:
  assumes "hs_core sm2 = hs_core (sm\<lparr>MICVerified := (PTK_valid sm \<and> \<not> update_snonce sm)\<rparr>)"
    and "PTK_valid sm \<Longrightarrow> \<not> update_snonce sm \<Longrightarrow> wpa_verify_key_mic env (PTK sm) data"
    and "info_has (ek_info data) WPA_KEY_INFO_KEY_TYPE \<Longrightarrow>
      wpa_ptk_state sm \<in> {WPA_PTK_PTKSTART, WPA_PTK_PTKCALCNEGOTIATING} \<or>
      wpa_ptk_state sm = WPA_PTK_PTKINITNEGOTIATING \<and> (PTK_valid sm \<or> update_snonce sm)"
  shows "hs_ok env (recv_store data sm2)"
  using assms by (auto simp: hs_core_def hs_defs recv_store_def Let_def)

lemma consume_core: "hs_core (recv_consume data msg sm) = hs_core sm"
  by (simp add: recv_consume_def hs_core_def Let_def)

lemma recv_tail_step:
  "fst (recv_tail data msg c) \<noteq> Recv_step \<longleftrightarrow> msg = SMK_M3"
  "msg = SMK_M3 \<Longrightarrow> c_sm (snd (recv_tail data msg c)) = c_sm c"
  "msg \<noteq> SMK_M3 \<Longrightarrow> c_sm (snd (recv_tail data msg c)) = recv_store data (c_sm c)"
  by (simp_all add: recv_tail_def)

lemma recv_request_act: "recv_request env data msg c = (Some act, c') \<Longrightarrow> act \<noteq> Recv_step"
  by (auto simp: recv_request_def Let_def split: if_splits prod.splits)

lemma recv_state_act: "recv_state env data msg c = (Some act, c') \<Longrightarrow> act \<noteq> Recv_step"
  by (auto simp: recv_state_def recv_pairwise_2_def Let_def split: if_splits prod.splits eapol_key_msg.splits)

lemma receive_hs:
  assumes ok: "hs_ok env (c_sm c)" and st: "settled (c_sm c)"
  shows "hs_ok env (c_sm (snd (wpa_receive env data c))) \<and>
    (fst (wpa_receive env data c) \<noteq> Recv_step \<longrightarrow> settled (c_sm (snd (wpa_receive env data c))))"
proof (cases "recv_replay data (recv_msg (ek_info data) (ek_data_length data)) (c_sm c)")
  case None
  then show ?thesis using assms by (simp add: wpa_receive_def Let_def)
next
  case (Some sm)
  let ?msg = "recv_msg (ek_info data) (ek_data_length data)"
  obtain r c1 where s: "recv_state env data ?msg (c\<lparr>c_sm := sm\<rparr>) = (r, c1)" by fastforce
  have core1: "hs_core (c_sm c1) = hs_core sm" using recv_state_core [of env data ?msg "c\<lparr>c_sm := sm\<rparr>"] s by simp
  have l1: "less_key (c_sm c) (c_sm c1)"
    using less_key_trans [OF recv_replay_less [OF Some] less_key_core [OF core1]] .
  note ok1 = less_key_ok [OF l1 ok st]
  consider (frame) "\<not> recv_frame_ok env data (c_sm c) \<or> \<not> recv_version_ok ?msg (ek_info data) (c_sm c)"
    | (state) act where "recv_frame_ok env data (c_sm c)" "recv_version_ok ?msg (ek_info data) (c_sm c)" "r = Some act"
    | (go) "recv_frame_ok env data (c_sm c)" "recv_version_ok ?msg (ek_info data) (c_sm c)" "r = None"
    by (cases r) auto
  then show ?thesis
  proof cases
    case frame
    then show ?thesis using assms by (auto simp: wpa_receive_def Let_def)
  next
    case state
    then show ?thesis using Some s ok1 by (simp add: wpa_receive_def Let_def)
  next
    case go
    show ?thesis
    proof (cases "recv_mic env data c1")
      case None
      then show ?thesis
        using Some s go less_key_ok [OF recv_mic_fail_less [of c1 data] conjunct1 [OF ok1] conjunct2 [OF ok1]]
        by (simp add: wpa_receive_def Let_def)
    next
      case m: (Some c2)
      note ok2 = less_key_ok [OF recv_mic_less [OF m] conjunct1 [OF ok1] conjunct2 [OF ok1]]
      show ?thesis
      proof (cases "info_has (ek_info data) WPA_KEY_INFO_REQUEST")
        case True
        obtain r2 c3 where q: "recv_request env data ?msg c2 = (r2, c3)" by fastforce
        have ok3: "hs_ok env (c_sm c3)" "settled (c_sm c3)"
          using less_key_ok [OF recv_request_less [of c2 env data ?msg] conjunct1 [OF ok2] conjunct2 [OF ok2]] q
          by simp_all
        have tail: "hs_ok env (c_sm (snd (recv_tail data ?msg c3))) \<and>
            (fst (recv_tail data ?msg c3) \<noteq> Recv_step \<longrightarrow> settled (c_sm (snd (recv_tail data ?msg c3))))"
          using ok3 store_request_ok [OF True] recv_tail_step [where msg = ?msg and data = data and c = c3]
          by (cases "?msg = SMK_M3") simp_all
        show ?thesis using Some s go m q True ok3 tail by (cases r2) (simp_all add: wpa_receive_def Let_def)
      next
        case False
        let ?c3 = "usm (recv_consume data ?msg) c2"
        have core3: "hs_core (c_sm ?c3) = hs_core (c_sm c2)" by (simp add: consume_core)
        have e: "wpa_receive env data c = recv_tail data ?msg ?c3"
          using Some s go m False by (simp add: wpa_receive_def Let_def)
        show ?thesis
        proof (cases "?msg = SMK_M3")
          case True
          then show ?thesis unfolding e using ok2 hs_ok_core [OF core3, of env] settled_core [OF core3] recv_tail_step
            by simp
        next
          case no: False
          have passed: "wpa_ptk_state sm \<in> {WPA_PTK_PTKSTART, WPA_PTK_PTKCALCNEGOTIATING} \<or>
              wpa_ptk_state sm = WPA_PTK_PTKINITNEGOTIATING \<and> (PTK_valid sm \<or> update_snonce sm)"
            if "info_has (ek_info data) WPA_KEY_INFO_KEY_TYPE"
            using recv_state_passed [of env data ?msg "c\<lparr>c_sm := sm\<rparr>" c1] s go(3) False that no by simp
          have mic: "hs_core (c_sm ?c3) = hs_core (sm\<lparr>MICVerified := (PTK_valid sm \<and> \<not> update_snonce sm)\<rparr>)"
            "PTK_valid sm \<Longrightarrow> \<not> update_snonce sm \<Longrightarrow> wpa_verify_key_mic env (PTK sm) data"
            using recv_mic_core [OF m] core1 core3 by (simp_all add: hs_core_def)
          have "hs_ok env (recv_store data (c_sm ?c3))" using store_reply_ok [OF mic passed] by simp
          then show ?thesis unfolding e using recv_tail_step [where msg = ?msg and data = data and c = ?c3] no by simp
        qed
      qed
    qed
  qed
qed

section \<open>The contract\<close>

lemma sta_reach_ok: "sta_reach env sm \<Longrightarrow> hs_ok env sm"
proof (induction rule: sta_reach.induct)
  case (created a v)
  then show ?case by (simp add: hs_no_reply sm_zero_def)
next
  case (control sm sm')
  then show ?case using hs_ok_core by blast
next
  case (clear sm)
  then show ?case by (auto simp: hs_defs settled_def)
next
  case (request sm)
  then show ?case by (auto simp: hs_defs settled_def)
qed (simp_all add: hs_ptk_step hs_group_step receive_hs store_request_ok)

text \<open>A pass of the step loop that changes nothing leaves a settled station.\<close>

lemma enter_changed:
  "\<not> Init (c_sm c) \<Longrightarrow> sm_changed (c_sm (sm_WPA_PTK_INITIALIZE_Enter env c))"
  "sm_changed (c_sm (sm_WPA_PTK_DISCONNECT_Enter env c))"
  "sm_changed (c_sm (sm_WPA_PTK_DISCONNECTED_Enter c))"
  "sm_changed (c_sm (sm_WPA_PTK_AUTHENTICATION_Enter c))"
  "sm_changed (c_sm (sm_WPA_PTK_AUTHENTICATION2_Enter env c))"
  "sm_changed (c_sm (sm_WPA_PTK_INITPMK_Enter env c))"
  "sm_changed (c_sm (sm_WPA_PTK_INITPSK_Enter env c))"
  "sm_changed (c_sm (sm_WPA_PTK_PTKSTART_Enter env c))"
  "sm_changed (c_sm (sm_WPA_PTK_PTKCALCNEGOTIATING_Enter env c))"
  "sm_changed (c_sm (sm_WPA_PTK_PTKCALCNEGOTIATING2_Enter c))"
  "sm_changed (c_sm (sm_WPA_PTK_PTKINITDONE_Enter env c))"
  using authentication2_sm [of env c] initpmk_sm [of env c] initpsk_sm [of env c] ptkstart_sm [of c env]
    ptkcalc_sm [of env c] ptkinitdone_sm [of env c]
  by (auto simp: initialize_sm disconnect_sm disconnected_sm authentication_sm ptkcalc2_sm)

lemma only_sent_changed: "only_sent sm sm' \<Longrightarrow> sm_changed sm' = sm_changed sm"
  by (auto simp: only_sent_def)

lemma ptkinitneg_changed: "sm_changed (c_sm (sm_WPA_PTK_PTKINITNEGOTIATING_Enter env c))"
  using only_sent_changed [OF ptkinitneg_sm [of c env]] by simp

lemma group_enter_changed:
  "\<not> Init (c_sm c) \<Longrightarrow> sm_changed (c_sm (sm_WPA_PTK_GROUP_IDLE_Enter c))"
  "sm_changed (c_sm (sm_WPA_PTK_GROUP_REKEYNEGOTIATING_Enter env c))"
  "sm_changed (c_sm (sm_WPA_PTK_GROUP_REKEYESTABLISHED_Enter c))"
  "sm_changed (c_sm (sm_WPA_PTK_GROUP_KEYERROR_Enter c))"
  using group_rekeyneg_sm [of c env]
  by (auto simp: group_idle_sm group_established_sm group_keyerror_sm dest!: only_sent_changed)

definition same_or_changed :: "wctx \<Rightarrow> wctx \<Rightarrow> bool" where
  "same_or_changed c x \<longleftrightarrow> x = c \<or> sm_changed (c_sm x)"

lemma same_or_changed_if:
  "same_or_changed c x \<Longrightarrow> same_or_changed c y \<Longrightarrow> same_or_changed c (if b then x else y)"
  by simp

lemma ptk_step_rest:
  assumes "\<not> Init (c_sm c)" and "\<not> sm_changed (c_sm (sm_WPA_PTK_Step env c))"
  shows "sm_WPA_PTK_Step env c = c"
proof -
  have "same_or_changed c (sm_WPA_PTK_Step env c)"
    unfolding sm_WPA_PTK_Step_def Let_def if_not_P [OF assms(1)]
    by (cases "wpa_ptk_state (c_sm c)"; simp only: wpa_ptk_enum.simps; intro same_or_changed_if;
        simp add: same_or_changed_def enter_changed ptkinitneg_changed assms(1))
  then show ?thesis using assms(2) by (simp add: same_or_changed_def)
qed

lemma group_step_rest:
  assumes "\<not> Init (c_sm c)" and "\<not> sm_changed (c_sm (sm_WPA_PTK_GROUP_Step env c))"
  shows "sm_WPA_PTK_GROUP_Step env c = c"
proof -
  have "same_or_changed c (sm_WPA_PTK_GROUP_Step env c)"
    unfolding sm_WPA_PTK_GROUP_Step_def Let_def
    by (cases "wpa_ptk_group_state (c_sm c)"; simp only: wpa_ptk_group_enum.simps; intro same_or_changed_if;
        simp add: same_or_changed_def group_enter_changed assms(1))
  then show ?thesis using assms(2) by (simp add: same_or_changed_def)
qed

lemma rest_settled:
  assumes "hs_ok env (c_sm c)" and "sm_WPA_PTK_Step env c = c" "\<not> sm_changed (c_sm c)"
  shows "settled (c_sm c)"
proof (rule ccontr)
  assume "\<not> settled (c_sm c)"
  then have p: "reply_pending (c_sm c)" by (simp add: settled_def)
  then have m: "wpa_ptk_state (c_sm c) \<noteq> WPA_PTK_PTKCALCNEGOTIATING \<longrightarrow> MICVerified (c_sm c)"
    using assms(1) by (simp add: hs_ok_def)
  show False
  proof (cases "Init (c_sm c)")
    case True
    then have "wpa_ptk_state (c_sm (sm_WPA_PTK_Step env c)) = WPA_PTK_INITIALIZE"
      by (simp add: sm_WPA_PTK_Step_def initialize_sm)
    then show False using p assms(2) by (simp add: reply_pending_def)
  next
    case False
    then have "sm_changed (c_sm (sm_WPA_PTK_Step env c))"
      using p m unfolding reply_pending_def
      by (cases "wpa_ptk_state (c_sm c)") (simp_all add: sm_WPA_PTK_Step_def Let_def enter_changed ptkinitneg_changed)
    then show False using assms(2,3) by simp
  qed
qed

lemma hs_core_flags:
  "hs_core (sm\<lparr>Init := x\<rparr>) = hs_core sm" "hs_core (sm\<lparr>DeauthenticationRequest := x\<rparr>) = hs_core sm"
  "hs_core (sm\<lparr>AuthenticationRequest := x\<rparr>) = hs_core sm" "hs_core (sm\<lparr>ReAuthenticationRequest := x\<rparr>) = hs_core sm"
  "hs_core (sm\<lparr>TimeoutEvt := x\<rparr>) = hs_core sm" "hs_core (sm\<lparr>GUpdateStationKeys := x\<rparr>) = hs_core sm"
  "hs_core (sm\<lparr>PtkGroupInit := x\<rparr>) = hs_core sm" "hs_core (sm\<lparr>pending_deinit := x\<rparr>) = hs_core sm"
  "hs_core (sm\<lparr>started := x\<rparr>) = hs_core sm" "hs_core (sm\<lparr>ft_completed := x\<rparr>) = hs_core sm"
  "hs_core (sm\<lparr>pending_1_of_4_timeout := x\<rparr>) = hs_core sm" "hs_core (sm\<lparr>sm_group := g\<rparr>) = hs_core sm"
  "hs_core (sm\<lparr>sm_key_mgmt := m\<rparr>) = hs_core sm" "hs_core (sm\<lparr>pmksa := p\<rparr>) = hs_core sm"
  "hs_core (sm\<lparr>pairwise_set := x\<rparr>) = hs_core sm" "hs_core (local_mic_failures_update k sm) = hs_core sm"
  "hs_core (sm\<lparr>key_replay := kr\<rparr>) = hs_core sm" "hs_core (sm\<lparr>pairwise := m\<rparr>) = hs_core sm"
  "hs_core (sm\<lparr>sm_wpa := ver\<rparr>) = hs_core sm" "hs_core (sm\<lparr>sm_wpa_ie := i\<rparr>) = hs_core sm"
  "hs_core (sm\<lparr>sm_changed := x\<rparr>) = hs_core sm" "hs_core (sm\<lparr>in_step_loop := x\<rparr>) = hs_core sm"
  by (simp_all add: hs_core_def)

lemma group_step_state: "wpa_ptk_state (c_sm (sm_WPA_PTK_GROUP_Step env c)) = wpa_ptk_state (c_sm c)"
proof -
  have "wpa_ptk_state (c_sm (sm_WPA_PTK_GROUP_REKEYNEGOTIATING_Enter env c)) = wpa_ptk_state (c_sm c)"
    using group_rekeyneg_sm [of c env] by (auto dest!: only_sent_core simp: hs_core_def)
  then show ?thesis
    by (simp add: sm_WPA_PTK_GROUP_Step_def Let_def group_idle_sm group_established_sm group_keyerror_sm
        split: wpa_ptk_group_enum.split)
qed

lemma loop_rest:
  assumes "sta_reach env (c_sm c)" and d: "c_sm d = c_sm (sm_WPA_PTK_Step env c)"
    and nc: "\<not> sm_changed (c_sm (sm_WPA_PTK_GROUP_Step env d))"
  shows "settled (c_sm (sm_WPA_PTK_GROUP_Step env d))"
proof (cases "Init (c_sm c)")
  case True
  then have "wpa_ptk_state (c_sm d) = WPA_PTK_INITIALIZE" unfolding d by (simp add: sm_WPA_PTK_Step_def initialize_sm)
  then show ?thesis by (simp add: settled_def reply_pending_def group_step_state)
next
  case False
  then have "\<not> Init (c_sm d)" using ptk_step_frame [of env c] unfolding d by (simp add: sta_frame_def)
  then have e: "sm_WPA_PTK_GROUP_Step env d = d" using group_step_rest nc by blast
  then have "\<not> sm_changed (c_sm (sm_WPA_PTK_Step env c))" using nc d by simp
  moreover from this have s: "sm_WPA_PTK_Step env c = c" using ptk_step_rest [OF False] by blast
  ultimately have "settled (c_sm c)" using rest_settled [OF sta_reach_ok [OF assms(1)] s] by simp
  then show ?thesis using e d s by simp
qed

interpretation hs: station_events env "sta_reach env" settled hs_core for env
proof unfold_locales
  show "sta_reach env (c_sm (sm_WPA_PTK_Step env c))" if "sta_reach env (c_sm c)" for c
    using that by (rule sta_reach.ptk)
  show "sta_reach env (c_sm (sm_WPA_PTK_GROUP_Step env c))" if "sta_reach env (c_sm c)" for c
    using that by (rule sta_reach.ptk_group)
  show "sta_reach env (sm\<lparr>sm_changed := b\<rparr>)" "sta_reach env (sm\<lparr>in_step_loop := b\<rparr>)"
    "sta_reach env (sm\<lparr>GUpdateStationKeys := b\<rparr>)" if "sta_reach env sm" for sm b
    by (rule sta_reach.control [OF that]; simp add: hs_core_flags)+
  show "settled (c_sm (sm_WPA_PTK_GROUP_Step env d))"
    if "sta_reach env (c_sm c)" "c_sm d = c_sm (sm_WPA_PTK_Step env c)"
      "\<not> sm_changed (c_sm (sm_WPA_PTK_GROUP_Step env d))" for c d
    using that by (rule loop_rest)
  show "sta_reach env sm'" if "hs_core sm' = hs_core sm" "sta_reach env sm" for sm sm'
    using that(2,1) by (rule sta_reach.control)
  show "settled (sm_zero a v)" for a v by (simp add: settled_def reply_pending_def key_received_def sm_zero_def)
  show "sta_reach env (c_sm (snd (wpa_receive env data c)))" if "sta_reach env (c_sm c)" "settled (c_sm c)" for c data
    using that by (rule sta_reach.receive)
  show "settled (c_sm (snd (wpa_receive env data c)))"
    if "sta_reach env (c_sm c)" "settled (c_sm c)" "fst (wpa_receive env data c) \<noteq> Recv_step" for c data
    using receive_hs [OF sta_reach_ok [OF that(1)] that(2), of data] that(3) by blast
  show "settled (sm\<lparr>in_step_loop := b\<rparr>) = settled sm" "settled (sm\<lparr>GUpdateStationKeys := b\<rparr>) = settled sm" for sm b
    by (rule settled_core; simp add: hs_core_flags)+
  show "settled sm'" if "hs_core sm' = hs_core sm" "settled sm" for sm sm' using settled_core [OF that(1)] that(2) by simp
  show "sta_reach env (recv_store data sm)" if "sta_reach env sm" "info_has (ek_info data) WPA_KEY_INFO_REQUEST" for sm data
    using that by (rule sta_reach.store)
  show "sta_reach env (sm_zero a v)" for a v by (rule sta_reach.created)
  show "sta_reach env (sm\<lparr>PTK_valid := False, PTK := ptk_zero\<rparr>)" if "sta_reach env sm" "settled sm" for sm
    using that by (rule sta_reach.clear)
  show "sta_reach env (sm\<lparr>PTKRequest := True, PTK_valid := False\<rparr>)" if "sta_reach env sm" "settled sm" for sm
    using that by (rule sta_reach.request)
qed (simp_all only: hs_core_flags)

section \<open>Entering the last state\<close>

lemma enter_state:
  "wpa_ptk_state (c_sm (sm_WPA_PTK_INITIALIZE_Enter env c)) = WPA_PTK_INITIALIZE"
  "wpa_ptk_state (c_sm (sm_WPA_PTK_DISCONNECT_Enter env c)) = WPA_PTK_DISCONNECT"
  "wpa_ptk_state (c_sm (sm_WPA_PTK_DISCONNECTED_Enter c)) = WPA_PTK_DISCONNECTED"
  "wpa_ptk_state (c_sm (sm_WPA_PTK_AUTHENTICATION_Enter c)) = WPA_PTK_AUTHENTICATION"
  "wpa_ptk_state (c_sm (sm_WPA_PTK_AUTHENTICATION2_Enter env c)) = WPA_PTK_AUTHENTICATION2"
  "wpa_ptk_state (c_sm (sm_WPA_PTK_INITPMK_Enter env c)) = WPA_PTK_INITPMK"
  "wpa_ptk_state (c_sm (sm_WPA_PTK_INITPSK_Enter env c)) = WPA_PTK_INITPSK"
  "wpa_ptk_state (c_sm (sm_WPA_PTK_PTKSTART_Enter env c)) = WPA_PTK_PTKSTART"
  "wpa_ptk_state (c_sm (sm_WPA_PTK_PTKCALCNEGOTIATING_Enter env c)) = WPA_PTK_PTKCALCNEGOTIATING"
  "wpa_ptk_state (c_sm (sm_WPA_PTK_PTKCALCNEGOTIATING2_Enter c)) = WPA_PTK_PTKCALCNEGOTIATING2"
  using authentication2_sm [of env c] initpmk_sm [of env c] initpsk_sm [of env c] ptkstart_sm [of c env]
    ptkcalc_sm [of env c]
  by (auto simp: initialize_sm disconnect_sm disconnected_sm authentication_sm ptkcalc2_sm)

lemma ptkinitneg_state:
  "wpa_ptk_state (c_sm (sm_WPA_PTK_PTKINITNEGOTIATING_Enter env c)) = WPA_PTK_PTKINITNEGOTIATING"
  using only_sent_core [OF ptkinitneg_sm [of c env]] by (simp add: hs_core_def)

definition done_by_reply :: "wpa_env \<Rightarrow> wctx \<Rightarrow> wctx \<Rightarrow> bool" where
  "done_by_reply env c x \<longleftrightarrow> (wpa_ptk_state (c_sm x) = WPA_PTK_PTKINITDONE \<longrightarrow>
     wpa_ptk_state (c_sm c) = WPA_PTK_PTKINITDONE \<or>
     wpa_ptk_state (c_sm c) = WPA_PTK_PTKINITNEGOTIATING \<and> reply_pending (c_sm c) \<and>
       x = sm_WPA_PTK_PTKINITDONE_Enter env c)"

lemma done_if:
  "(b \<Longrightarrow> done_by_reply env c x) \<Longrightarrow> (\<not> b \<Longrightarrow> done_by_reply env c y) \<Longrightarrow> done_by_reply env c (if b then x else y)"
  by simp

lemma step_done_by_reply: "done_by_reply env c (sm_WPA_PTK_Step env c)"
  unfolding sm_WPA_PTK_Step_def Let_def
  by (cases "wpa_ptk_state (c_sm c)"; simp only: wpa_ptk_enum.simps; intro done_if;
      simp add: done_by_reply_def enter_state ptkinitneg_state reply_pending_def)

lemma wlog_hist_mono: "set (hist c) \<subseteq> set (hist (wlog e c))"
  by auto

lemma ptkinitdone_installs:
  assumes "Pair (c_sm c)"
  shows "Set_key 0 (wpa_cipher_to_alg (pairwise (c_sm c))) (sta_addr (c_sm c)) 0
    (take (wpa_cipher_key_len (pairwise (c_sm c))) (tk1 (PTK (c_sm c)))) \<in> set (hist (sm_WPA_PTK_PTKINITDONE_Enter env c))"
  using assms
  by (simp add: sm_WPA_PTK_PTKINITDONE_Enter_def wpa_ptk_entry_def wpa_auth_set_key_def ptkinitdone_tail_def
      wpa_auth_set_eapol_def wpa_sta_disconnect_def sm_event_tail_def wpa_remove_ptk_def Let_def)

section \<open>An example handshake\<close>

text \<open>A station that answers message 1/4 and message 3/4.\<close>

definition example_ie :: "u8 list" where "example_ie = [48, 2, 1, 0]"

definition example_msg2 :: "u8 list" where
  "example_msg2 = eapol_key_frame 2 EAPOL_KEY_TYPE_RSN 0x010a 0 [0, 0, 0, 0, 0, 0, 0, 1] (replicate 32 9)
     (replicate 16 0) (replicate 8 0) (replicate 16 5) 4 example_ie"

definition example_msg4 :: "u8 list" where
  "example_msg4 = eapol_key_frame 2 EAPOL_KEY_TYPE_RSN 0x030a 0 [0, 0, 0, 0, 0, 0, 0, 1] (replicate 32 0)
     (replicate 16 0) (replicate 8 0) (replicate 16 5) 0 []"

lemma example_fields: "frame_fields [0, 0, 0, 0, 0, 0, 0, 1] (replicate 32 n) (replicate 16 0) (replicate 8 0) (replicate 16 5)"
  by (simp add: frame_fields_def)

lemmas example_msg2_read = frame_read [OF example_fields example_msg2_def]
lemmas example_msg4_read = frame_read [OF example_fields example_msg4_def]

lemma example_verified:
  "wpa_verify_key_mic example_env ptk example_msg2" "wpa_verify_key_mic example_env ptk example_msg4"
  using example_msg2_read example_msg4_read
  by (simp_all add: wpa_verify_key_mic_def wpa_eapol_key_mic_def key_info_consts example_env_def EAPOL_KEY_HDR_LEN_def)

lemma example_kde: "wpa_parse_kde_ies example_ie = (0, kde_empty\<lparr>kde_rsn_ie := Some example_ie\<rparr>)"
  unfolding example_ie_def by code_simp

definition example_sta :: "wpa_sm" where
  "example_sta = (sm_zero [2, 0, 0, 0, 0, 2] 0)\<lparr>sm_wpa := WPA_VERSION_WPA2, sm_key_mgmt := WPA_KEY_MGMT_PSK,
     pairwise := WPA_CIPHER_CCMP, key_replay := [\<lparr>counter = [0, 0, 0, 0, 0, 0, 0, 1], valid = True\<rparr>],
     sm_wpa_ie := Some example_ie, Pair := True\<rparr>"

lemma example_sta_sel:
  "wpa_ptk_state example_sta = WPA_PTK_INITIALIZE" "Init example_sta = False" "Disconnect example_sta = False"
  "DeauthenticationRequest example_sta = False" "AuthenticationRequest example_sta = False"
  "ReAuthenticationRequest example_sta = False" "PTKRequest example_sta = False"
  "EAPOLKeyReceived example_sta = False" "EAPOLKeyPairwise example_sta = False" "EAPOLKeyRequest example_sta = False"
  "MICVerified example_sta = False" "update_snonce example_sta = False" "PTK example_sta = ptk_zero"
  "PTK_valid example_sta = False" "last_rx_eapol_key example_sta = []" "sm_wpa example_sta = WPA_VERSION_WPA2"
  "sm_key_mgmt example_sta = WPA_KEY_MGMT_PSK" "pairwise example_sta = WPA_CIPHER_CCMP" "Pair example_sta = True"
  "key_replay example_sta = [\<lparr>counter = [0, 0, 0, 0, 0, 0, 0, 1], valid = True\<rparr>]"
  "sm_wpa_ie example_sta = Some example_ie" "sta_addr example_sta = [2, 0, 0, 0, 0, 2]"
  by (simp_all add: example_sta_def sm_zero_def)

lemma example_env_sel:
  "conf example_env = example_conf" "get_psk example_env h a = [replicate 32 7]"
  "sha1_prf example_env k l d n = Some (replicate n 1)"
  by (simp_all add: example_env_def)

lemma receive_reply:
  assumes "msg = recv_msg (ek_info data) (ek_data_length data)" "msg \<noteq> SMK_M3" "\<not> info_has (ek_info data) WPA_KEY_INFO_REQUEST"
    and "recv_frame_ok env data (c_sm c)" "recv_version_ok msg (ek_info data) (c_sm c)"
    and "recv_replay data msg (c_sm c) = Some (c_sm c)" "recv_state env data msg c = (None, c1)" "recv_mic env data c1 = Some c2"
  shows "c_sm (snd (wpa_receive env data c)) = recv_store data (recv_consume data msg (c_sm c2))"
proof -
  have "c\<lparr>c_sm := c_sm c\<rparr> = c" by simp
  then show ?thesis using assms unfolding wpa_receive_def Let_def assms(1) [symmetric] by (simp add: recv_tail_def)
qed

lemma example_receive2:
  assumes "c_sm c = example_sta\<lparr>wpa_ptk_state := WPA_PTK_PTKSTART\<rparr>" "\<not> reject_4way_hs_for_entropy (c_grp c)"
  shows "hs_core (c_sm (snd (wpa_receive example_env example_msg2 c))) =
    (WPA_PTK_PTKSTART, True, True, False, False, False, ptk_zero, False, example_msg2)"
proof -
  have m: "recv_msg 0x010a 4 = PAIRWISE_2" by code_simp
  have "recv_frame_ok example_env example_msg2 (c_sm c)"
    using example_msg2_read assms by (simp add: recv_frame_ok_def example_sta_sel example_env_def example_conf_def example_ie_def EAPOL_KEY_TYPE_RSN_def EAPOL_KEY_TYPE_WPA_def)
  moreover have "recv_version_ok PAIRWISE_2 0x010a (c_sm c)"
    using assms by (simp add: recv_version_ok_def example_sta_sel wpa_use_aes_cmac_def wpa_key_mgmt_ft_def has_bits_def key_mgmt_consts key_info_consts)
  moreover have "recv_replay example_msg2 PAIRWISE_2 (c_sm c) = Some (c_sm c)"
    using example_msg2_read assms by (simp add: recv_replay_def example_sta_sel info_has_def key_info_consts)
  moreover have "recv_state example_env example_msg2 PAIRWISE_2 c = (None, wlog (Random_add (replicate 32 9)) c)"
    using example_msg2_read assms example_kde
    by (simp add: recv_state_def recv_pairwise_2_def Let_def example_sta_sel kde_empty_def wpa_compare_rsn_ie_def
       wpa_key_mgmt_ft_def has_bits_def key_mgmt_consts example_ie_def)
  moreover have "recv_mic example_env example_msg2 (wlog (Random_add (replicate 32 9)) c) =
      Some (usm (MICVerified_update (\<lambda>_. False)) (wlog (Random_add (replicate 32 9)) c))"
    using example_msg2_read assms by (simp add: recv_mic_def info_has_def key_info_consts example_sta_sel)
  ultimately have "c_sm (snd (wpa_receive example_env example_msg2 c)) =
      recv_store example_msg2 (recv_consume example_msg2 PAIRWISE_2 ((c_sm c)\<lparr>MICVerified := False\<rparr>))"
    using receive_reply [of PAIRWISE_2 example_msg2 example_env c] m example_msg2_read
    by (simp add: info_has_def key_info_consts)
  then show ?thesis using assms example_msg2_read
    by (simp add: recv_store_def recv_consume_def hs_core_def example_sta_sel Let_def info_has_def key_info_consts)
qed


lemma example_receive4:
  assumes "c_sm c = example_sta\<lparr>wpa_ptk_state := WPA_PTK_PTKINITNEGOTIATING, EAPOLKeyPairwise := True, MICVerified := True,
     PTK_valid := True, PTK := ptk, last_rx_eapol_key := example_msg2\<rparr>"
  shows "hs_core (c_sm (snd (wpa_receive example_env example_msg4 c))) =
    (WPA_PTK_PTKINITNEGOTIATING, True, True, False, True, False, ptk, True, example_msg4)"
proof -
  have m: "recv_msg 0x030a 0 = PAIRWISE_4" by code_simp
  have "recv_frame_ok example_env example_msg4 (c_sm c)"
    using example_msg4_read assms by (simp add: recv_frame_ok_def example_sta_sel example_env_def example_conf_def example_ie_def EAPOL_KEY_TYPE_RSN_def EAPOL_KEY_TYPE_WPA_def)
  moreover have "recv_version_ok PAIRWISE_4 0x030a (c_sm c)"
    using assms by (simp add: recv_version_ok_def example_sta_sel wpa_use_aes_cmac_def wpa_key_mgmt_ft_def has_bits_def key_mgmt_consts key_info_consts)
  moreover have "recv_replay example_msg4 PAIRWISE_4 (c_sm c) = Some (c_sm c)"
    using example_msg4_read assms by (simp add: recv_replay_def example_sta_sel info_has_def key_info_consts)
  moreover have "recv_state example_env example_msg4 PAIRWISE_4 c = (None, c)"
    using assms by (simp add: recv_state_def example_sta_sel)
  moreover obtain c2 where "recv_mic example_env example_msg4 c = Some c2"
    and c2: "hs_core (c_sm c2) = hs_core (c_sm c)"
    using example_msg4_read assms example_verified(2) [of ptk]
    by (simp add: recv_mic_def info_has_def key_info_consts example_sta_sel hs_core_def)
  ultimately have "c_sm (snd (wpa_receive example_env example_msg4 c)) =
      recv_store example_msg4 (recv_consume example_msg4 PAIRWISE_4 (c_sm c2))"
    using receive_reply [of PAIRWISE_4 example_msg4 example_env c c c2] m example_msg4_read
    by (simp add: info_has_def key_info_consts)
  then show ?thesis using assms example_msg4_read c2
    by (simp add: recv_store_def recv_consume_def hs_core_def example_sta_sel Let_def info_has_def key_info_consts)
qed

lemma example_reach1: "sta_reach example_env (example_sta\<lparr>wpa_ptk_state := WPA_PTK_PTKSTART\<rparr>)"
proof -
  let ?c = "example_ctx\<lparr>c_sm := (sm_zero [2, 0, 0, 0, 0, 2] 0)\<lparr>PTKRequest := True\<rparr>\<rparr>"
  have "sta_reach example_env (c_sm ?c)"
    by (rule sta_reach.control [OF sta_reach.created]) (simp add: hs_core_def)
  then have "sta_reach example_env (c_sm (sm_WPA_PTK_Step example_env ?c))" by (rule sta_reach.ptk)
  moreover have "sm_WPA_PTK_Step example_env ?c = sm_WPA_PTK_PTKSTART_Enter example_env ?c"
    by (simp add: sm_WPA_PTK_Step_def sm_zero_def)
  ultimately show ?thesis
    using ptkstart_sm [of ?c example_env]
    by (auto intro: sta_reach.control simp: hs_core_def example_sta_sel sm_zero_def)
qed

lemma example_reach2:
  "sta_reach example_env (example_sta\<lparr>wpa_ptk_state := WPA_PTK_PTKCALCNEGOTIATING, EAPOLKeyPairwise := True,
     MICVerified := True, PTK_valid := True, PTK := replicate 48 1, last_rx_eapol_key := example_msg2\<rparr>)"
proof -
  let ?c1 = "example_ctx\<lparr>c_sm := example_sta\<lparr>wpa_ptk_state := WPA_PTK_PTKSTART\<rparr>\<rparr>"
  have s: "settled (c_sm ?c1)" by (simp add: settled_def reply_pending_def)
  have r: "sta_reach example_env (c_sm (snd (wpa_receive example_env example_msg2 ?c1)))"
    by (rule sta_reach.receive [OF _ s]) (simp add: example_reach1)
  let ?sm = "example_sta\<lparr>wpa_ptk_state := WPA_PTK_PTKSTART, EAPOLKeyReceived := True, EAPOLKeyPairwise := True,
    last_rx_eapol_key := example_msg2\<rparr>"
  have "hs_core ?sm = hs_core (c_sm (snd (wpa_receive example_env example_msg2 ?c1)))"
    using example_receive2 [of ?c1] by (simp add: example_ctx_def hs_core_def example_sta_sel)
  from sta_reach.control [OF r this] have "sta_reach example_env (c_sm (example_ctx\<lparr>c_sm := ?sm\<rparr>))" by simp
  then have r2: "sta_reach example_env (c_sm (sm_WPA_PTK_Step example_env (example_ctx\<lparr>c_sm := ?sm\<rparr>)))"
    by (rule sta_reach.ptk)
  have "hs_core (c_sm (sm_WPA_PTK_Step example_env (example_ctx\<lparr>c_sm := ?sm\<rparr>))) =
      (WPA_PTK_PTKCALCNEGOTIATING, False, True, False, True, False, replicate 48 1, True, example_msg2)"
    by (simp add: sm_WPA_PTK_Step_def Let_def key_received_def sm_WPA_PTK_PTKCALCNEGOTIATING_Enter_def candidate_pmks_def
       wpa_ptk_entry_def usm_def wlog_def wpa_key_mgmt_wpa_psk_def has_bits_def key_mgmt_consts wpa_derive_ptk_def wpa_pmk_to_ptk_def
       example_verified wpa_key_mgmt_ft_def example_sta_sel example_env_sel hs_core_def cipher_consts)
  then show ?thesis by (intro sta_reach.control [OF r2]) (simp add: hs_core_def example_sta_sel)
qed

lemma example_reach3:
  "sta_reach example_env (example_sta\<lparr>wpa_ptk_state := WPA_PTK_PTKINITNEGOTIATING, EAPOLKeyPairwise := True, MICVerified := True,
     PTK_valid := True, PTK := replicate 48 1, last_rx_eapol_key := example_msg2\<rparr>)"
proof -
  let ?k = "\<lambda>st. example_sta\<lparr>wpa_ptk_state := st, EAPOLKeyPairwise := True, MICVerified := True,
     PTK_valid := True, PTK := replicate 48 1, last_rx_eapol_key := example_msg2\<rparr>"
  have st: "sta_reach example_env (?k st')" if "sta_reach example_env (?k st)" 
    "hs_core (c_sm (sm_WPA_PTK_Step example_env (example_ctx\<lparr>c_sm := ?k st\<rparr>))) = hs_core (?k st')" for st st'
    using sta_reach.ptk [of example_env "example_ctx\<lparr>c_sm := ?k st\<rparr>"] that
    by (intro sta_reach.control [of example_env "c_sm (sm_WPA_PTK_Step example_env (example_ctx\<lparr>c_sm := ?k st\<rparr>))" "?k st'"]) simp_all
  have "sta_reach example_env (?k WPA_PTK_PTKCALCNEGOTIATING2)"
    by (rule st [OF example_reach2]) (simp add: sm_WPA_PTK_Step_def example_sta_sel ptkcalc2_sm hs_core_def)
  then show ?thesis
  proof (rule st)
    let ?c = "example_ctx\<lparr>c_sm := ?k WPA_PTK_PTKCALCNEGOTIATING2\<rparr>"
    have "sm_WPA_PTK_Step example_env ?c = sm_WPA_PTK_PTKINITNEGOTIATING_Enter example_env ?c"
      by (simp add: sm_WPA_PTK_Step_def example_sta_sel)
    then show "hs_core (c_sm (sm_WPA_PTK_Step example_env ?c)) = hs_core (?k WPA_PTK_PTKINITNEGOTIATING)"
      using only_sent_core [OF ptkinitneg_sm [of ?c example_env]] by (simp add: hs_core_def)
  qed
qed

section \<open>Properties\<close>

text \<open>C1. Nobody gets through the 4-way handshake without the pairwise key: when a step of the machine enters
  the state in which the key is installed and the port becomes valid, the machine was waiting for
  message 4/4, a key is in use and the frame that was received last carries a correct MIC under it; and it
  is this key whose temporal part is installed.\<close>

theorem handshake_done_verified:
  assumes "sta_reach env (c_sm c)" and "wpa_ptk_state (c_sm c) \<noteq> WPA_PTK_PTKINITDONE"
    and "wpa_ptk_state (c_sm (sm_WPA_PTK_Step env c)) = WPA_PTK_PTKINITDONE"
  shows "wpa_ptk_state (c_sm c) = WPA_PTK_PTKINITNEGOTIATING \<and> PTK_valid (c_sm c) \<and>
    wpa_verify_key_mic env (PTK (c_sm c)) (last_rx_eapol_key (c_sm c)) \<and>
    (Pair (c_sm c) \<longrightarrow> Set_key 0 (wpa_cipher_to_alg (pairwise (c_sm c))) (sta_addr (c_sm c)) 0
       (take (wpa_cipher_key_len (pairwise (c_sm c))) (tk1 (PTK (c_sm c)))) \<in> set (hist (sm_WPA_PTK_Step env c)))"
proof -
  have d: "wpa_ptk_state (c_sm c) = WPA_PTK_PTKINITNEGOTIATING" "reply_pending (c_sm c)"
    and e: "sm_WPA_PTK_Step env c = sm_WPA_PTK_PTKINITDONE_Enter env c"
    using step_done_by_reply [of env c] assms(2,3) by (simp_all add: done_by_reply_def)
  have v: "PTK_valid (c_sm c)" using sta_reach_ok [OF assms(1)] d by (simp add: hs_ok_def)
  have "wpa_verify_key_mic env (PTK (c_sm c)) (last_rx_eapol_key (c_sm c))"
    using sta_reach_ok [OF assms(1)] d(2) v by (simp add: hs_ok_def reply_pending_def key_received_def)
  then show ?thesis using d(1) v ptkinitdone_installs [of c env] e by simp
qed

theorem handshake_done_verified_witness:
  "\<exists>c. sta_reach example_env (c_sm c) \<and> wpa_ptk_state (c_sm (sm_WPA_PTK_Step example_env c)) = WPA_PTK_PTKINITDONE \<and>
    wpa_verify_key_mic example_env (PTK (c_sm c)) (last_rx_eapol_key (c_sm c))"
proof -
  let ?c = "example_ctx\<lparr>c_sm := example_sta\<lparr>wpa_ptk_state := WPA_PTK_PTKINITNEGOTIATING, EAPOLKeyPairwise := True,
     MICVerified := True, PTK_valid := True, PTK := replicate 48 1, last_rx_eapol_key := example_msg2\<rparr>\<rparr>"
  have s: "settled (c_sm ?c)" by (simp add: settled_def reply_pending_def key_received_def example_sta_sel)
  let ?sm = "example_sta\<lparr>wpa_ptk_state := WPA_PTK_PTKINITNEGOTIATING, EAPOLKeyReceived := True, EAPOLKeyPairwise := True,
     MICVerified := True, PTK_valid := True, PTK := replicate 48 1, last_rx_eapol_key := example_msg4\<rparr>"
  have "sta_reach example_env (c_sm (snd (wpa_receive example_env example_msg4 ?c)))"
    by (rule sta_reach.receive [OF _ s]) (simp add: example_reach3)
  then have r: "sta_reach example_env ?sm"
    by (rule sta_reach.control) (use example_receive4 [of ?c "replicate 48 1"] in \<open>simp add: hs_core_def example_sta_sel\<close>)
  let ?d = "example_ctx\<lparr>c_sm := ?sm\<rparr>"
  have "sm_WPA_PTK_Step example_env ?d = sm_WPA_PTK_PTKINITDONE_Enter example_env ?d"
    by (simp add: sm_WPA_PTK_Step_def Let_def example_sta_sel key_received_def)
  then have d: "wpa_ptk_state (c_sm (sm_WPA_PTK_Step example_env ?d)) = WPA_PTK_PTKINITDONE"
    using ptkinitdone_sm [of example_env ?d] by auto
  have "wpa_verify_key_mic example_env (PTK (c_sm ?d)) (last_rx_eapol_key (c_sm ?d))"
    using handshake_done_verified [of example_env ?d] r d by simp
  then show ?thesis using r d by (intro exI [of _ ?d]) simp
qed

text \<open>C3. The states the handshake theorem is about are all there are: whatever events the authenticator
  handles, in whatever order, with whatever frames, every station it holds afterwards is in one of
  them, has no reply left to look at and is not being stepped; station addresses and groups stay
  unique and every station has its group.\<close>

theorem authenticator_reach:
  assumes "wpa_reach env w"
  shows "wf_world w \<and> (\<forall>sm\<in>set (w_stas w). sta_reach env sm \<and> settled sm \<and> \<not> in_step_loop sm)"
  using hs.reach_station [OF assms] hs.reach_wf [OF assms] by blast

theorem authenticator_reach_witness:
  "\<exists>w. wpa_reach example_env w \<and> length (w_stas w) = 1 \<and> (\<forall>sm\<in>set (w_stas w). settled sm)"
proof -
  obtain w where w: "wpa_init example_env = Some w" "length (w_groups w) = 1" "w_stas w = []"
    by (simp add: wpa_init_def wpa_group_init_def wpa_group_init_gmk_and_counter_def get_random_def Let_def example_env_def
        wlog_def ugrp_def world_log_def)
  have r: "wpa_reach example_env w" using w(1) by (rule wpa_reach.start)
  let ?a = "[2, 0, 0, 0, 0, 2] :: macaddr"
  have f: "find_sta ?a w = None" using w(3) by (simp add: find_sta_def)
  then have "wpa_reach example_env (wpa_auth_sta_init ?a w)"
    by (intro wpa_reach.event [OF r, of 0 "W_sta_init ?a"]) simp
  moreover have "length (w_stas (wpa_auth_sta_init ?a w)) = 1"
    using w(2,3) by (cases "w_groups w") (simp_all add: wpa_auth_sta_init_def)
  ultimately show ?thesis using authenticator_reach by blast
qed

end
