(* ===== verification/Wpa_Terminate.thy ===== *)
theory Wpa_Terminate
  imports Wpa_Handshake
begin

text \<open>
  The WPA authenticator comes to rest.  Stepping a station repeats until neither it nor the default
  group changes, and a group rekey steps the other stations in between.  A potential bounds
  the steps: every state entered uses up a request, a timeout or a frame, or moves on towards a
  state that waits.  From it follow the fuel that suffices for every event, and that more
  fuel makes no difference.
\<close>

section \<open>The potential of a station\<close>

text \<open>What only an event sets and a step uses up.\<close>

definition pending_work :: "wpa_sm \<Rightarrow> nat" where
  "pending_work sm = of_bool (AuthenticationRequest sm) + of_bool (ReAuthenticationRequest sm) +
     of_bool (PTKRequest sm) + of_bool (TimeoutEvt sm) + of_bool (EAPOLKeyReceived sm) +
     of_bool (update_snonce sm) + of_bool (PtkGroupInit sm)"

text \<open>How far the two machines of a station are from waiting.  A group key that was not confirmed
  disconnects the station, so the group machine weighs more.\<close>

definition ptk_rank :: "wpa_sm \<Rightarrow> nat" where
  "ptk_rank sm =
     (if Disconnect sm then 3 else if DeauthenticationRequest sm then 2
      else case wpa_ptk_state sm of
        WPA_PTK_INITIALIZE \<Rightarrow> 0 | WPA_PTK_DISCONNECT \<Rightarrow> 2 | WPA_PTK_DISCONNECTED \<Rightarrow> 1
      | WPA_PTK_AUTHENTICATION \<Rightarrow> 7 | WPA_PTK_AUTHENTICATION2 \<Rightarrow> 6 | WPA_PTK_INITPMK \<Rightarrow> 5
      | WPA_PTK_INITPSK \<Rightarrow> 5 | WPA_PTK_PTKSTART \<Rightarrow> 4 | WPA_PTK_PTKCALCNEGOTIATING \<Rightarrow> 6
      | WPA_PTK_PTKCALCNEGOTIATING2 \<Rightarrow> 5 | WPA_PTK_PTKINITNEGOTIATING \<Rightarrow> 4 | WPA_PTK_PTKINITDONE \<Rightarrow> 0)"

definition group_rank :: "wpa_sm \<Rightarrow> nat" where
  "group_rank sm =
     (case wpa_ptk_group_state sm of
        WPA_PTK_GROUP_IDLE \<Rightarrow> if GTimeoutCtr sm < 3 then 1 else if GTimeoutCtr sm = 3 then 6 else 5
      | WPA_PTK_GROUP_REKEYNEGOTIATING \<Rightarrow>
          if GTimeoutCtr sm < 4 then 0 else if GTimeoutCtr sm = 4 then 5 else 4
      | WPA_PTK_GROUP_REKEYESTABLISHED \<Rightarrow> 2
      | WPA_PTK_GROUP_KEYERROR \<Rightarrow> 3)"

definition sta_work :: "wpa_sm \<Rightarrow> nat" where
  "sta_work sm = (if Init sm then 0 else 56 * pending_work sm + 8 * group_rank sm + ptk_rank sm)"

lemma ptk_rank_le: "ptk_rank sm \<le> 7"
  by (simp add: ptk_rank_def split: wpa_ptk_enum.split)

lemma group_rank_le: "group_rank sm \<le> 6"
  by (simp add: group_rank_def split: wpa_ptk_group_enum.split)

lemma pending_work_le: "pending_work sm \<le> 7"
  by (simp add: pending_work_def of_bool_def)

lemma sta_work_le: "sta_work sm \<le> 447"
  using ptk_rank_le [of sm] group_rank_le [of sm] pending_work_le [of sm] by (simp add: sta_work_def)

text \<open>One thing less to do pays for any change of state.\<close>

lemma used_up: "\<not> Init sm \<Longrightarrow> pending_work sm' < pending_work sm \<Longrightarrow> sta_work sm' < sta_work sm"
  using ptk_rank_le [of sm'] group_rank_le [of sm'] by (simp add: sta_work_def)

lemma moved_on:
  "\<not> Init sm \<Longrightarrow> pending_work sm' \<le> pending_work sm \<Longrightarrow> group_rank sm' = group_rank sm \<Longrightarrow>
    ptk_rank sm' < ptk_rank sm \<Longrightarrow> sta_work sm' < sta_work sm"
  by (simp add: sta_work_def)

lemma group_moved_on:
  "\<not> Init sm \<Longrightarrow> pending_work sm' \<le> pending_work sm \<Longrightarrow> group_rank sm' < group_rank sm \<Longrightarrow>
    sta_work sm' < sta_work sm"
  using ptk_rank_le [of sm'] by (simp add: sta_work_def)

lemma only_sent_work:
  assumes "only_sent sm sm'"
  shows "pending_work sm' = pending_work sm" "group_rank sm' = group_rank sm" "ptk_rank sm' = ptk_rank sm"
proof -
  obtain kr p where e: "sm' = sm\<lparr>key_replay := kr, pending_1_of_4_timeout := p\<rparr>"
    using assms unfolding only_sent_def by blast
  show "pending_work sm' = pending_work sm" unfolding e by (simp add: pending_work_def)
  show "group_rank sm' = group_rank sm" unfolding e by (simp add: group_rank_def)
  show "ptk_rank sm' = ptk_rank sm" unfolding e by (simp add: ptk_rank_def)
qed

section \<open>Every entry lowers the potential\<close>

lemma disconnect_work:
  assumes "\<not> Init (c_sm c)"
    and "Disconnect (c_sm c) \<or> \<not> DeauthenticationRequest (c_sm c) \<and> ptk_rank (c_sm c) > 2"
  shows "sta_work (c_sm (sm_WPA_PTK_DISCONNECT_Enter env c)) < sta_work (c_sm c)"
proof (rule moved_on [OF assms(1)])
  have "ptk_rank (c_sm (sm_WPA_PTK_DISCONNECT_Enter env c)) = 2" by (simp add: disconnect_sm ptk_rank_def)
  moreover have "ptk_rank (c_sm c) > 2" using assms(2) by (auto simp: ptk_rank_def)
  ultimately show "ptk_rank (c_sm (sm_WPA_PTK_DISCONNECT_Enter env c)) < ptk_rank (c_sm c)" by simp
qed (simp_all add: disconnect_sm pending_work_def group_rank_def)

lemma disconnected_work:
  assumes "\<not> Init (c_sm c)" "\<not> Disconnect (c_sm c)"
    and "DeauthenticationRequest (c_sm c) \<or> wpa_ptk_state (c_sm c) = WPA_PTK_DISCONNECT"
  shows "sta_work (c_sm (sm_WPA_PTK_DISCONNECTED_Enter c)) < sta_work (c_sm c)"
proof (rule moved_on [OF assms(1)])
  show "ptk_rank (c_sm (sm_WPA_PTK_DISCONNECTED_Enter c)) < ptk_rank (c_sm c)"
    using assms(2,3) by (elim disjE) (simp_all add: disconnected_sm ptk_rank_def)
qed (simp_all add: disconnected_sm pending_work_def group_rank_def)

lemma initialize_work:
  assumes "\<not> Init (c_sm c)" "\<not> Disconnect (c_sm c)" "\<not> DeauthenticationRequest (c_sm c)"
    and "wpa_ptk_state (c_sm c) = WPA_PTK_DISCONNECTED"
  shows "sta_work (c_sm (sm_WPA_PTK_INITIALIZE_Enter env c)) < sta_work (c_sm c)"
proof (rule moved_on [OF assms(1)])
  show "ptk_rank (c_sm (sm_WPA_PTK_INITIALIZE_Enter env c)) < ptk_rank (c_sm c)"
    using assms by (simp add: initialize_sm ptk_rank_def)
qed (simp_all add: initialize_sm pending_work_def group_rank_def)

lemma authentication_work:
  assumes "\<not> Init (c_sm c)" "AuthenticationRequest (c_sm c)"
  shows "sta_work (c_sm (sm_WPA_PTK_AUTHENTICATION_Enter c)) < sta_work (c_sm c)"
  by (rule used_up [OF assms(1)]) (use assms(2) in \<open>simp add: authentication_sm pending_work_def\<close>)

lemma ptkcalc2_work:
  assumes "\<not> Init (c_sm c)" "\<not> Disconnect (c_sm c)" "\<not> DeauthenticationRequest (c_sm c)"
    and "wpa_ptk_state (c_sm c) = WPA_PTK_PTKCALCNEGOTIATING"
  shows "sta_work (c_sm (sm_WPA_PTK_PTKCALCNEGOTIATING2_Enter c)) < sta_work (c_sm c)"
proof (rule moved_on [OF assms(1)])
  show "ptk_rank (c_sm (sm_WPA_PTK_PTKCALCNEGOTIATING2_Enter c)) < ptk_rank (c_sm c)"
    using assms by (simp add: ptkcalc2_sm ptk_rank_def)
qed (simp_all add: ptkcalc2_sm pending_work_def group_rank_def)

lemma authentication2_work:
  assumes "\<not> Init (c_sm c)" "\<not> Disconnect (c_sm c)" "\<not> DeauthenticationRequest (c_sm c)"
    and "ReAuthenticationRequest (c_sm c) \<or> wpa_ptk_state (c_sm c) = WPA_PTK_AUTHENTICATION"
  shows "sta_work (c_sm (sm_WPA_PTK_AUTHENTICATION2_Enter env c)) < sta_work (c_sm c)"
proof -
  obtain n t d where e: "c_sm (sm_WPA_PTK_AUTHENTICATION2_Enter env c) =
     (c_sm c)\<lparr>sm_changed := True, wpa_ptk_state := WPA_PTK_AUTHENTICATION2,
       ReAuthenticationRequest := False, ANonce := n, TimeoutCtr := t, Disconnect := d\<rparr>"
    using authentication2_sm [of env c] by blast
  show ?thesis unfolding e
  proof (cases "ReAuthenticationRequest (c_sm c)")
    case True
    then show "sta_work ((c_sm c)\<lparr>sm_changed := True, wpa_ptk_state := WPA_PTK_AUTHENTICATION2,
       ReAuthenticationRequest := False, ANonce := n, TimeoutCtr := t, Disconnect := d\<rparr>) < sta_work (c_sm c)"
      by (intro used_up [OF assms(1)]) (simp add: pending_work_def)
  next
    case False
    then show "sta_work ((c_sm c)\<lparr>sm_changed := True, wpa_ptk_state := WPA_PTK_AUTHENTICATION2,
       ReAuthenticationRequest := False, ANonce := n, TimeoutCtr := t, Disconnect := d\<rparr>) < sta_work (c_sm c)"
      by (intro moved_on [OF assms(1)]) (use assms in \<open>simp_all add: pending_work_def group_rank_def ptk_rank_def\<close>)
  qed
qed

lemma initpmk_work:
  assumes "\<not> Init (c_sm c)" "\<not> Disconnect (c_sm c)" "\<not> DeauthenticationRequest (c_sm c)"
    and "wpa_ptk_state (c_sm c) = WPA_PTK_AUTHENTICATION2"
  shows "sta_work (c_sm (sm_WPA_PTK_INITPMK_Enter env c)) < sta_work (c_sm c)"
proof -
  obtain p x where e: "c_sm (sm_WPA_PTK_INITPMK_Enter env c) =
     (c_sm c)\<lparr>sm_changed := True, wpa_ptk_state := WPA_PTK_INITPMK, PMK := p, xxkey := x,
       req_replay_counter_used := False\<rparr>" using initpmk_sm [of env c] by blast
  show ?thesis unfolding e
    by (rule moved_on [OF assms(1)]) (use assms in \<open>simp_all add: pending_work_def group_rank_def ptk_rank_def\<close>)
qed

lemma initpsk_work:
  assumes "\<not> Init (c_sm c)" "\<not> Disconnect (c_sm c)" "\<not> DeauthenticationRequest (c_sm c)"
    and "wpa_ptk_state (c_sm c) = WPA_PTK_AUTHENTICATION2"
  shows "sta_work (c_sm (sm_WPA_PTK_INITPSK_Enter env c)) < sta_work (c_sm c)"
proof -
  obtain p x where e: "c_sm (sm_WPA_PTK_INITPSK_Enter env c) =
     (c_sm c)\<lparr>sm_changed := True, wpa_ptk_state := WPA_PTK_INITPSK, PMK := p, xxkey := x,
       req_replay_counter_used := False\<rparr>" using initpsk_sm [of env c] by blast
  show ?thesis unfolding e
    by (rule moved_on [OF assms(1)]) (use assms in \<open>simp_all add: pending_work_def group_rank_def ptk_rank_def\<close>)
qed

lemma ptkstart_work:
  assumes "\<not> Init (c_sm c)" "\<not> Disconnect (c_sm c)" "\<not> DeauthenticationRequest (c_sm c)"
    and "PTKRequest (c_sm c) \<or> TimeoutEvt (c_sm c) \<or> wpa_ptk_state (c_sm c) = WPA_PTK_INITPMK \<or>
      wpa_ptk_state (c_sm c) = WPA_PTK_INITPSK"
  shows "sta_work (c_sm (sm_WPA_PTK_PTKSTART_Enter env c)) < sta_work (c_sm c)"
proof -
  let ?e = "c_sm (sm_WPA_PTK_PTKSTART_Enter env c)"
  obtain kr p where e: "?e =
     (c_sm c)\<lparr>sm_changed := True, wpa_ptk_state := WPA_PTK_PTKSTART, PTKRequest := False,
       TimeoutEvt := False, TimeoutCtr := TimeoutCtr (c_sm c) + 1, key_replay := kr,
       pending_1_of_4_timeout := p\<rparr>" using ptkstart_sm [of c env] by blast
  have pw: "pending_work ?e + of_bool (PTKRequest (c_sm c)) + of_bool (TimeoutEvt (c_sm c)) = pending_work (c_sm c)"
    unfolding e by (simp add: pending_work_def)
  show ?thesis
  proof (cases "PTKRequest (c_sm c) \<or> TimeoutEvt (c_sm c)")
    case True
    then show ?thesis using pw by (intro used_up [OF assms(1)]) (elim disjE; simp)
  next
    case False
    have "ptk_rank ?e < ptk_rank (c_sm c)" using assms False unfolding e by (elim disjE) (simp_all add: ptk_rank_def)
    moreover have "group_rank ?e = group_rank (c_sm c)" unfolding e by (simp add: group_rank_def)
    ultimately show ?thesis using pw by (intro moved_on [OF assms(1)]) simp_all
  qed
qed

lemma ptkcalc_pending:
  "pending_work (c_sm (sm_WPA_PTK_PTKCALCNEGOTIATING_Enter env c)) + of_bool (EAPOLKeyReceived (c_sm c)) +
     of_bool (update_snonce (c_sm c)) = pending_work (c_sm c)"
  using ptkcalc_sm [of env c] by (elim disjE exE conjE) (simp_all add: pending_work_def)

lemma ptkcalc_work:
  assumes "\<not> Init (c_sm c)" "EAPOLKeyReceived (c_sm c) \<or> update_snonce (c_sm c)"
  shows "sta_work (c_sm (sm_WPA_PTK_PTKCALCNEGOTIATING_Enter env c)) < sta_work (c_sm c)"
  by (rule used_up [OF assms(1)]) (use assms(2) ptkcalc_pending [of env c] in \<open>elim disjE; simp\<close>)

lemma ptkinitneg_work:
  assumes "\<not> Init (c_sm c)" "\<not> Disconnect (c_sm c)" "\<not> DeauthenticationRequest (c_sm c)"
    and "TimeoutEvt (c_sm c) \<or> wpa_ptk_state (c_sm c) = WPA_PTK_PTKCALCNEGOTIATING2"
  shows "sta_work (c_sm (sm_WPA_PTK_PTKINITNEGOTIATING_Enter env c)) < sta_work (c_sm c)"
proof -
  let ?e = "c_sm (sm_WPA_PTK_PTKINITNEGOTIATING_Enter env c)"
  note w = only_sent_work [OF ptkinitneg_sm [of c env]]
  have pw: "pending_work ?e + of_bool (TimeoutEvt (c_sm c)) = pending_work (c_sm c)"
    unfolding w by (simp add: pending_work_def)
  have gr: "group_rank ?e = group_rank (c_sm c)" unfolding w by (simp add: group_rank_def)
  show ?thesis
  proof (cases "TimeoutEvt (c_sm c)")
    case True
    then show ?thesis using pw by (intro used_up [OF assms(1)]) simp
  next
    case False
    then have "ptk_rank ?e < ptk_rank (c_sm c)" using assms unfolding w by (simp add: ptk_rank_def)
    then show ?thesis using pw gr by (intro moved_on [OF assms(1)]) simp_all
  qed
qed

lemma ptkinitdone_pending:
  "pending_work (c_sm (sm_WPA_PTK_PTKINITDONE_Enter env c)) + of_bool (EAPOLKeyReceived (c_sm c)) =
     pending_work (c_sm c)"
  using ptkinitdone_sm [of env c] by (elim disjE exE) (simp_all add: pending_work_def)

lemma ptkinitdone_work:
  assumes "\<not> Init (c_sm c)" "EAPOLKeyReceived (c_sm c)"
  shows "sta_work (c_sm (sm_WPA_PTK_PTKINITDONE_Enter env c)) < sta_work (c_sm c)"
  by (rule used_up [OF assms(1)]) (use assms(2) ptkinitdone_pending [of env c] in simp)

lemmas enter_work = disconnect_work disconnected_work initialize_work authentication_work authentication2_work
  initpmk_work initpsk_work ptkstart_work ptkcalc_work ptkcalc2_work ptkinitneg_work ptkinitdone_work

lemma failure_disconnect_work:
  assumes "\<not> Init (c_sm c)" "\<not> DeauthenticationRequest (c_sm c)" "ptk_rank (c_sm c) > 2"
  shows "sta_work (c_sm (sm_WPA_PTK_DISCONNECT_Enter env (handshake_failure c))) < sta_work (c_sm c)"
  using disconnect_work [of "handshake_failure c" env] assms by simp

text \<open>A step of the handshake machine does nothing or lowers the potential.\<close>

lemma ptk_step_work:
  assumes i: "\<not> Init (c_sm c)"
  shows "sm_WPA_PTK_Step env c = c \<or> sta_work (c_sm (sm_WPA_PTK_Step env c)) < sta_work (c_sm c)"
proof (cases "Disconnect (c_sm c) \<or> DeauthenticationRequest (c_sm c) \<or> AuthenticationRequest (c_sm c) \<or>
    ReAuthenticationRequest (c_sm c) \<or> PTKRequest (c_sm c)")
  case True
  then show ?thesis using i by (elim disjE) (simp_all add: sm_WPA_PTK_Step_def Let_def enter_work)
next
  case False
  then have f: "\<not> Disconnect (c_sm c)" "\<not> DeauthenticationRequest (c_sm c)" by simp_all
  show ?thesis using i f False
    by (cases "wpa_ptk_state (c_sm c)")
      (simp_all add: sm_WPA_PTK_Step_def Let_def key_received_def ptk_rank_def enter_work failure_disconnect_work)
qed

lemma rekeyneg_timeout:
  "TimeoutEvt (c_sm (sm_WPA_PTK_GROUP_REKEYNEGOTIATING_Enter env c)) \<longleftrightarrow>
     TimeoutEvt (c_sm c) \<and> GTimeoutCtr (c_sm c) \<ge> 4"
proof (cases "GTimeoutCtr (c_sm c) \<ge> 4")
  case True
  then show ?thesis
    by (simp add: sm_WPA_PTK_GROUP_REKEYNEGOTIATING_Enter_def Let_def dot11RSNAConfigGroupUpdateCount_def)
next
  case False
  let ?c = "usm (\<lambda>sm. sm\<lparr>GTimeoutCtr := GTimeoutCtr sm + 1\<rparr>) (wpa_ptk_group_entry WPA_PTK_GROUP_REKEYNEGOTIATING c)"
  let ?d = "usm (\<lambda>sm. sm\<lparr>PInitAKeys := (sm_wpa sm \<noteq> WPA_VERSION_WPA \<and> PInitAKeys sm),
      TimeoutEvt := False\<rparr>) ?c"
  have n: "\<not> GTimeoutCtr (c_sm ?c) > dot11RSNAConfigGroupUpdateCount"
    using False by (simp add: dot11RSNAConfigGroupUpdateCount_def)
  have "only_sent (c_sm ?d) (c_sm (sm_WPA_PTK_GROUP_REKEYNEGOTIATING_Enter env c))"
    unfolding sm_WPA_PTK_GROUP_REKEYNEGOTIATING_Enter_def Let_def if_not_P [OF n]
    by (intro only_sent_if only_sent_random only_sent_msgs only_sent_refl)
  then show ?thesis using False by (auto simp: only_sent_def)
qed

lemma rekeyneg_work:
  assumes "\<not> Init (c_sm c)"
    and "wpa_ptk_group_state (c_sm c) = WPA_PTK_GROUP_IDLE \<or>
      wpa_ptk_group_state (c_sm c) = WPA_PTK_GROUP_REKEYNEGOTIATING \<and> TimeoutEvt (c_sm c) \<and> GTimeoutCtr (c_sm c) \<le> 4"
  shows "sta_work (c_sm (sm_WPA_PTK_GROUP_REKEYNEGOTIATING_Enter env c)) < sta_work (c_sm c)"
proof -
  let ?e = "c_sm (sm_WPA_PTK_GROUP_REKEYNEGOTIATING_Enter env c)"
  obtain p t where e: "only_sent ((c_sm c)\<lparr>sm_changed := True,
      wpa_ptk_group_state := WPA_PTK_GROUP_REKEYNEGOTIATING, GTimeoutCtr := GTimeoutCtr (c_sm c) + 1,
      PInitAKeys := p, TimeoutEvt := t\<rparr>) ?e"
    using group_rekeyneg_sm [of c env] by blast
  have t: "t \<longleftrightarrow> TimeoutEvt (c_sm c) \<and> GTimeoutCtr (c_sm c) \<ge> 4"
    using e rekeyneg_timeout [of env c] by (auto simp: only_sent_def)
  show ?thesis
  proof (cases "TimeoutEvt (c_sm c) \<and> GTimeoutCtr (c_sm c) < 4")
    case True
    then show ?thesis using t by (intro used_up [OF assms(1)], unfold only_sent_work(1) [OF e]) (simp add: pending_work_def)
  next
    case False
    show ?thesis
    proof (rule group_moved_on [OF assms(1)])
      show "pending_work ?e \<le> pending_work (c_sm c)"
        using t unfolding only_sent_work(1) [OF e] by (simp add: pending_work_def)
      show "group_rank ?e < group_rank (c_sm c)"
        using assms(2) False unfolding only_sent_work(2) [OF e] by (elim disjE) (simp_all add: group_rank_def)
    qed
  qed
qed

lemma group_idle_work:
  assumes "\<not> Init (c_sm c)"
    and "wpa_ptk_group_state (c_sm c) = WPA_PTK_GROUP_KEYERROR \<or>
      wpa_ptk_group_state (c_sm c) = WPA_PTK_GROUP_REKEYESTABLISHED"
  shows "sta_work (c_sm (sm_WPA_PTK_GROUP_IDLE_Enter c)) < sta_work (c_sm c)"
proof (rule group_moved_on [OF assms(1)])
  show "group_rank (c_sm (sm_WPA_PTK_GROUP_IDLE_Enter c)) < group_rank (c_sm c)"
    using assms(2) by (elim disjE) (simp_all add: group_idle_sm group_rank_def)
qed (simp add: group_idle_sm pending_work_def)

lemma group_init_work:
  assumes "\<not> Init (c_sm c)" "PtkGroupInit (c_sm c)"
  shows "sta_work ((c_sm (sm_WPA_PTK_GROUP_IDLE_Enter c))\<lparr>PtkGroupInit := False\<rparr>) < sta_work (c_sm c)"
  by (rule used_up [OF assms(1)]) (use assms(2) in \<open>simp add: group_idle_sm pending_work_def\<close>)

lemma group_established_work:
  assumes "\<not> Init (c_sm c)" "EAPOLKeyReceived (c_sm c)"
  shows "sta_work (c_sm (sm_WPA_PTK_GROUP_REKEYESTABLISHED_Enter c)) < sta_work (c_sm c)"
  by (rule used_up [OF assms(1)]) (use assms(2) in \<open>simp add: group_established_sm pending_work_def\<close>)

lemma group_keyerror_work:
  assumes "\<not> Init (c_sm c)" "wpa_ptk_group_state (c_sm c) = WPA_PTK_GROUP_REKEYNEGOTIATING"
    and "GTimeoutCtr (c_sm c) > 4"
  shows "sta_work (c_sm (sm_WPA_PTK_GROUP_KEYERROR_Enter c)) < sta_work (c_sm c)"
proof (rule group_moved_on [OF assms(1)])
  show "group_rank (c_sm (sm_WPA_PTK_GROUP_KEYERROR_Enter c)) < group_rank (c_sm c)"
    using assms(2,3) by (simp add: group_keyerror_sm group_rank_def)
qed (simp add: group_keyerror_sm pending_work_def)

lemma group_step_work:
  assumes i: "\<not> Init (c_sm c)"
  shows "sm_WPA_PTK_GROUP_Step env c = c \<or>
    sta_work (c_sm (sm_WPA_PTK_GROUP_Step env c)) < sta_work (c_sm c)"
  using i
  by (cases "wpa_ptk_group_state (c_sm c)")
    (auto simp: sm_WPA_PTK_GROUP_Step_def Let_def key_received_def dot11RSNAConfigGroupUpdateCount_def
      intro!: group_idle_work group_init_work group_established_work group_keyerror_work rekeyneg_work)

text \<open>Both machines together, as one round of the step loop runs them.\<close>

lemma round_work:
  assumes "\<not> sm_changed (c_sm c)" and d: "c_sm d = c_sm (sm_WPA_PTK_Step env c)"
  shows "sta_work (c_sm (sm_WPA_PTK_Step env c)) \<le> sta_work (c_sm c)"
    and "sta_work (c_sm (sm_WPA_PTK_GROUP_Step env d)) \<le> sta_work (c_sm d)"
    and "sm_changed (c_sm (sm_WPA_PTK_GROUP_Step env d)) \<Longrightarrow>
      sta_work (c_sm (sm_WPA_PTK_GROUP_Step env d)) < sta_work (c_sm c)"
proof -
  have frame: "Init (c_sm (sm_WPA_PTK_Step env c)) = Init (c_sm c)"
    "Init (c_sm (sm_WPA_PTK_GROUP_Step env d)) = Init (c_sm d)"
    using ptk_step_frame [of env c] ptk_group_step_frame [of env d] by (simp_all add: sta_frame_def)
  show le1: "sta_work (c_sm (sm_WPA_PTK_Step env c)) \<le> sta_work (c_sm c)"
    using ptk_step_work [of c env] frame by (cases "Init (c_sm c)") (auto simp: sta_work_def)
  show le2: "sta_work (c_sm (sm_WPA_PTK_GROUP_Step env d)) \<le> sta_work (c_sm d)"
    using group_step_work [of d env] frame by (cases "Init (c_sm d)") (auto simp: sta_work_def)
  assume ch: "sm_changed (c_sm (sm_WPA_PTK_GROUP_Step env d))"
  show "sta_work (c_sm (sm_WPA_PTK_GROUP_Step env d)) < sta_work (c_sm c)"
  proof (cases "Init (c_sm c)")
    case True
    then have "Init (c_sm d)" using frame d by simp
    then show ?thesis using ch by (simp add: sm_WPA_PTK_GROUP_Step_def Let_def group_idle_sm)
  next
    case False
    then have "\<not> Init (c_sm d)" using frame d by simp
    from ptk_step_work [OF False, of env] group_step_work [OF this, of env] show ?thesis
      using le1 le2 d ch assms(1) by auto
  qed
qed

section \<open>The potential of a world\<close>

definition grp_work :: "wpa_group \<Rightarrow> nat" where
  "grp_work g =
     (if GInit g then 0
      else (case wpa_group_state g of
          WPA_GROUP_GTK_INIT \<Rightarrow> 2 | WPA_GROUP_SETKEYS \<Rightarrow> 1 | WPA_GROUP_SETKEYSDONE \<Rightarrow> 0) +
        (if GTKReKey g then 2 else 0))"

definition world_work :: "wpa_world \<Rightarrow> nat" where
  "world_work w = sum_list (map sta_work (w_stas w)) + sum_list (map grp_work (w_groups w))"

text \<open>A bound that depends on the number of stations and groups only.\<close>

definition world_size :: "wpa_world \<Rightarrow> nat" where
  "world_size w = 447 * length (w_stas w) + 4 * length (w_groups w)"

lemma grp_work_le: "grp_work g \<le> 4"
  by (simp add: grp_work_def split: wpa_group_enum.split)

lemma world_work_size: "world_work w \<le> world_size w"
  using sum_list_mono [of "w_stas w" sta_work "\<lambda>_. 447"] sum_list_mono [of "w_groups w" grp_work "\<lambda>_. 4"]
  by (simp add: world_work_def world_size_def sum_list_triv sta_work_le grp_work_le)

lemma grp_frame_work: "grp_frame g' = grp_frame g \<Longrightarrow> grp_work g' = grp_work g"
  by (simp add: grp_frame_def grp_work_def)

lemma withdraws_work: "withdraws c c' \<Longrightarrow> grp_work (c_grp c') = grp_work (c_grp c)"
proof -
  have "grp_work (GKeyDoneStations_update f g) = grp_work g" for f g by (simp add: grp_work_def)
  then show "withdraws c c' \<Longrightarrow> grp_work (c_grp c') = grp_work (c_grp c)"
    using grp_frame_work unfolding withdraws_def by (metis (full_types))
qed

lemma withdraws_changed: "withdraws c c' \<Longrightarrow> grp_changed (c_grp c') = grp_changed (c_grp c)"
  by (auto simp: withdraws_def grp_frame_def split: if_splits)

text \<open>Replacing the one entry that has a key.\<close>

lemma sum_list_replace:
  fixes f :: "'a \<Rightarrow> nat"
  assumes "distinct (map key xs)" and "x \<in> set xs" and "key x = a"
  shows "sum_list (map f (map (\<lambda>s. if key s = a then k else s) xs)) + f x = sum_list (map f xs) + f k"
  using assms
proof (induction xs)
  case (Cons y ys)
  show ?case
  proof (cases "key y = a")
    case True
    then have "key s \<noteq> a" if "s \<in> set ys" for s using Cons.prems(1) that by (metis distinct.simps(2) image_eqI list.map(2) set_map)
    then have "map (\<lambda>s. if key s = a then k else s) ys = ys" by (simp add: map_idI)
    moreover have "x = y" using True Cons.prems \<open>\<And>s. s \<in> set ys \<Longrightarrow> key s \<noteq> a\<close> by auto
    ultimately show ?thesis using True by simp
  next
    case False
    then show ?thesis using Cons by auto
  qed
qed simp

lemma find_sta_work_le: "find_sta a w = Some sm \<Longrightarrow> sta_work sm \<le> world_work w"
  using member_le_sum_list [of "sta_work sm" "map sta_work (w_stas w)"] find_sta_Some [of a w sm]
  by (auto simp: world_work_def intro: trans_le_add1)

lemma with_sta_work:
  assumes wf: "wf_world w" and f: "find_sta a w = Some sm" and g: "find_grp (sm_group sm) w = Some g"
  shows "world_work (with_sta a h w) + sta_work sm + grp_work g =
    world_work w + sta_work (c_sm (h (ctx_of sm g w))) + grp_work (c_grp (h (ctx_of sm g w)))"
  using sum_list_replace [of sta_addr "w_stas w" sm a sta_work "c_sm (h (ctx_of sm g w))"]
    sum_list_replace [of vlan_id "w_groups w" g "sm_group sm" grp_work "c_grp (h (ctx_of sm g w))"]
    wf find_sta_Some [OF f] find_grp_Some [OF g]
  by (simp add: world_work_def with_sta_stas [OF f g] wf_world_def)

lemma with_grp_work:
  assumes wf: "wf_world w" and g: "find_grp v w = Some g"
  obtains c where "c_grp c = g" and "world_work (with_grp v h w) + grp_work g = world_work w + grp_work (c_grp (h c))"
proof -
  let ?c = "\<lparr>c_sm = sm_zero [] v, c_grp = g, handshake_failures = w_failures w,
                     auth_remote_mic_failures = w_remote_mic w, hist = w_hist w\<rparr>"
  have "w_groups (with_grp v h w) = map (\<lambda>x. if vlan_id x = v then c_grp (h ?c) else x) (w_groups w)"
    using g by (simp add: with_grp_def put_grp_def Let_def)
  then show thesis
    using that [of ?c] sum_list_replace [of vlan_id "w_groups w" g v grp_work "c_grp (h ?c)"] wf find_grp_Some [OF g]
    by (simp add: world_work_def wf_world_def)
qed

lemma upd_sta_work: "(\<And>s. sta_work (h s) = sta_work s) \<Longrightarrow> world_work (upd_sta a h w) = world_work w"
  by (simp add: world_work_def comp_def if_distrib cong: if_cong)

lemma upd_grp_work: "(\<And>g. grp_work (k g) = grp_work g) \<Longrightarrow> world_work (upd_grp v k w) = world_work w"
  by (simp add: world_work_def comp_def if_distrib cong: if_cong)

lemma flag_work [simp]:
  "sta_work (sm\<lparr>sm_changed := b\<rparr>) = sta_work sm" "sta_work (sm\<lparr>in_step_loop := b\<rparr>) = sta_work sm"
  "sta_work (sm\<lparr>GUpdateStationKeys := b\<rparr>) = sta_work sm"
  "grp_work (GKeyDoneStations_update f g) = grp_work g" "grp_work (g\<lparr>grp_changed := b\<rparr>) = grp_work g"
  by (simp_all add: sta_work_def pending_work_def ptk_rank_def group_rank_def grp_work_def)

lemma clear_changed_work: "world_work (clear_changed a w) = world_work w"
proof -
  have "world_work (clear_changed a w) = world_work (upd_sta a (sm_changed_update (\<lambda>_. False)) w)"
    by (simp add: clear_changed_def Let_def world_work_def split: list.split)
  then show ?thesis by (simp add: upd_sta_work)
qed

lemma sizes [simp]:
  "world_size (upd_sta a h w) = world_size w" "world_size (upd_grp v k w) = world_size w"
  "world_size (world_log e w) = world_size w" "world_size (clear_changed a w) = world_size w"
  "world_size (with_sta a f w) = world_size w" "world_size (with_grp v f w) = world_size w"
  by (simp_all add: world_size_def clear_changed_def with_sta_def with_grp_def put_sta_def put_grp_def Let_def
      split: list.split option.split)

section \<open>Steps come to rest\<close>

text \<open>With nothing asked of a station, the contract still keeps worlds well formed and says what a
  step leaves of the stations that are being stepped.\<close>

interpretation wf_steps: station_contract env "\<lambda>_. True" "\<lambda>_. True" for env
  by unfold_locales simp_all

lemma wf_ok [simp]: "stas_ok (\<lambda>_. True) (\<lambda>_. True) A w = wf_world w"
  by (simp add: stas_ok_def)

definition calmer :: "wpa_world \<Rightarrow> wpa_world \<Rightarrow> bool" where
  "calmer w w' \<longleftrightarrow> wf_world w' \<and> keeps {} w w' \<and> world_work w' \<le> world_work w \<and> world_size w' \<le> world_size w"

lemma calmer_refl: "wf_world w \<Longrightarrow> calmer w w"
  by (simp add: calmer_def keeps_same)

lemma calmer_trans: "calmer w w' \<Longrightarrow> calmer w' w'' \<Longrightarrow> calmer w w''"
  using keeps_trans [of "{}" w w' "{}" w''] by (auto simp: calmer_def)

text \<open>A step function that returns on every world with less than \<^term>\<open>k\<close> to do.\<close>

definition settles :: "nat \<Rightarrow> sta_step \<Rightarrow> bool" where
  "settles k step \<longleftrightarrow> (\<forall>a w. wf_world w \<longrightarrow> world_work w < k \<longrightarrow> (\<exists>w'. step a w = Some w' \<and> calmer w w'))"

lemma settlesD: "settles k step \<Longrightarrow> wf_world w \<Longrightarrow> world_work w < k \<Longrightarrow> \<exists>w'. step a w = Some w' \<and> calmer w w'"
  by (simp add: settles_def)

lemma mark_calmer:
  assumes "wf_world w" and m: "update_sta_mark v a w = (b, w')"
  shows "calmer w w'"
proof -
  have "world_work w' = world_work w" "world_size w' = world_size w"
    using m by (auto simp: update_sta_mark_def upd_sta_work upd_grp_work split: option.splits if_splits)
  then show ?thesis using wf_steps.mark_ok [of "{}" w v a b w'] assms by (simp add: calmer_def)
qed

lemma update_stas_settle:
  assumes "settles k step"
  shows "wf_world w \<Longrightarrow> world_work w < k \<Longrightarrow>
    \<exists>w'. wpa_group_update_stas step v as w = Some w' \<and> calmer w w'"
proof (induction as arbitrary: w)
  case Nil
  then show ?case by (simp add: calmer_refl)
next
  case (Cons a as)
  obtain b w1 where m: "update_sta_mark v a w = (b, w1)" by fastforce
  have c1: "calmer w w1" by (rule mark_calmer [OF Cons.prems(1) m])
  obtain w2 where w2: "(if b then step a w1 else Some w1) = Some w2" "calmer w1 w2"
    using settlesD [OF assms, of w1 a] c1 Cons.prems(2) calmer_refl [of w1]
    by (cases b) (auto simp: calmer_def)
  obtain w' where w': "wpa_group_update_stas step v as w2 = Some w'" "calmer w2 w'"
    using Cons.IH [of w2] c1 w2(2) Cons.prems(2) by (auto simp: calmer_def)
  have "wpa_group_update_stas step v (a # as) w = Some w'" using m w2(1) w'(1) by (cases b) simp_all
  then show ?case using calmer_trans [OF c1 calmer_trans [OF w2(2) w'(2)]] by blast
qed

lemma group_fun_work:
  "grp_work (c_grp (wpa_group_gtk_init env c)) = (if GInit (c_grp c) then 0 else 2 + (if GTKReKey (c_grp c) then 2 else 0))"
  "grp_work (c_grp (wpa_group_setkeysdone env c)) =
     (if GInit (c_grp c) then 0 else if GTKReKey (c_grp c) then 2 else 0)"
  "grp_work (c_grp (setkeys_start env c)) = (if GInit (c_grp c) then 0 else 1)"
proof -
  have u: "grp_work (c_grp (snd (wpa_gtk_update env d))) = grp_work (c_grp d)" for d
    by (rule grp_frame_work) (rule grp_frame_helpers(1))
  show "grp_work (c_grp (wpa_group_gtk_init env c)) = (if GInit (c_grp c) then 0 else 2 + (if GTKReKey (c_grp c) then 2 else 0))"
    unfolding wpa_group_gtk_init_def u by (simp add: grp_work_def)
  show "grp_work (c_grp (wpa_group_setkeysdone env c)) =
     (if GInit (c_grp c) then 0 else if GTKReKey (c_grp c) then 2 else 0)"
    unfolding wpa_group_setkeysdone_def grp_frame_helpers(3) by (simp add: grp_work_def)
  show "grp_work (c_grp (setkeys_start env c)) = (if GInit (c_grp c) then 0 else 1)"
    by (simp add: setkeys_start_def Let_def case_prod_beta u) (simp add: grp_work_def)
qed

lemma with_grp_wf_keeps:
  assumes "wf_world w" and "\<And>c. vlan_id (c_grp (f c)) = vlan_id (c_grp c)"
  shows "wf_world (with_grp v f w)" "keeps {} w (with_grp v f w)"
  using wf_with_grp [OF assms] wf_steps.with_grp_keeps [of w v f] by simp_all

lemma gtk_init_calmer:
  assumes wf: "wf_world w" and g: "find_grp v w = Some g" "GInit g"
  shows "calmer w (with_grp v (wpa_group_gtk_init env) w)"
proof -
  obtain c where "c_grp c = g" "world_work (with_grp v (wpa_group_gtk_init env) w) + grp_work g =
      world_work w + grp_work (c_grp (wpa_group_gtk_init env c))"
    by (rule with_grp_work [OF wf g(1)])
  then show ?thesis using g(2) with_grp_wf_keeps [OF wf, of "wpa_group_gtk_init env" v]
    by (simp add: calmer_def group_fun_work)
qed

lemma setkeysdone_calmer:
  assumes wf: "wf_world w" and g: "find_grp v w = Some g" "\<not> GInit g" "wpa_group_state g \<noteq> WPA_GROUP_SETKEYSDONE"
  shows "calmer w (with_grp v (wpa_group_setkeysdone env) w)"
    and "world_work (with_grp v (wpa_group_setkeysdone env) w) < world_work w"
proof -
  obtain c where c: "c_grp c = g" "world_work (with_grp v (wpa_group_setkeysdone env) w) + grp_work g =
      world_work w + grp_work (c_grp (wpa_group_setkeysdone env c))"
    by (rule with_grp_work [OF wf g(1)])
  have "grp_work (c_grp (wpa_group_setkeysdone env c)) < grp_work g"
    using g c(1) unfolding group_fun_work by (cases "wpa_group_state g") (simp_all add: grp_work_def)
  then show lt: "world_work (with_grp v (wpa_group_setkeysdone env) w) < world_work w" using c(2) by simp
  show "calmer w (with_grp v (wpa_group_setkeysdone env) w)"
    using lt with_grp_wf_keeps [OF wf, of "wpa_group_setkeysdone env" v] by (simp add: calmer_def)
qed

lemma setkeys_settles:
  assumes "settles k step" and wf: "wf_world w" and k: "world_work w \<le> k"
    and g: "find_grp v w = Some g" "\<not> GInit g" "GTKReKey g"
  shows "\<exists>w'. wpa_group_setkeys step env v w = Some w' \<and> calmer w w' \<and> world_work w' < world_work w"
proof -
  let ?s = "with_grp v (setkeys_start env) w"
  obtain c where c: "c_grp c = g" "world_work ?s + grp_work g = world_work w + grp_work (c_grp (setkeys_start env c))"
    by (rule with_grp_work [OF wf g(1)])
  have "grp_work (c_grp (setkeys_start env c)) < grp_work g"
    using g c(1) unfolding group_fun_work by (simp add: grp_work_def)
  then have lt: "world_work ?s < world_work w" using c(2) by simp
  then have s: "calmer w ?s" using with_grp_wf_keeps [OF wf, of "setkeys_start env" v] by (simp add: calmer_def)
  then have "wf_world ?s" by (simp add: calmer_def)
  from update_stas_settle [OF assms(1) this, of v "map sta_addr (w_stas ?s)"] obtain w' where
    w': "wpa_group_update_stas step v (map sta_addr (w_stas ?s)) ?s = Some w'" "calmer ?s w'"
    using lt k by auto
  then show ?thesis using calmer_trans [OF s w'(2)] lt by (auto simp: wpa_group_setkeys_def Let_def calmer_def)
qed

text \<open>A group step does nothing, keeps a group initialized, or lowers the potential.\<close>

lemma group_step_settles:
  assumes "settles k step" and wf: "wf_world w" and k: "world_work w \<le> k"
  shows "\<exists>w'. wpa_group_sm_step step env v w = Some w' \<and> calmer w w' \<and>
    (world_work w' < world_work w \<or> w' = w \<or> w' = with_grp v (wpa_group_gtk_init env) w)"
proof (cases "find_grp v w")
  case None
  then show ?thesis using calmer_refl [OF wf] by (simp add: wpa_group_sm_step_def)
next
  case (Some g)
  show ?thesis
  proof (cases "GInit g")
    case True
    then show ?thesis using gtk_init_calmer [OF wf Some] Some by (simp add: wpa_group_sm_step_def)
  next
    case False
    note dn = setkeysdone_calmer [OF wf Some False, of env] and sk = setkeys_settles [OF assms Some False, of env]
    show ?thesis using Some False dn sk calmer_refl [OF wf]
      by (cases "wpa_group_state g"; cases "GTKReKey g") (auto simp: wpa_group_sm_step_def)
  qed
qed

text \<open>Without a lower potential no group becomes marked as changed.\<close>

lemma gtk_init_changed:
  assumes "g \<in> set (w_groups (with_grp v (wpa_group_gtk_init env) w))" "grp_changed g"
  shows "g \<in> set (w_groups w)"
proof -
  have "grp_changed (c_grp (snd (wpa_gtk_update env d))) = grp_changed (c_grp d)" for d
    using grp_frame_helpers(1) [of env d] by (simp add: grp_frame_def)
  then have "\<not> grp_changed (c_grp (wpa_group_gtk_init env c))" for c by (simp add: wpa_group_gtk_init_def)
  then show ?thesis using assms
    by (auto simp: with_grp_def put_grp_def Let_def split: option.splits if_splits)
qed

lemma default_changed_set: "default_changed w \<longleftrightarrow> (\<exists>g gs. w_groups w = g # gs \<and> grp_changed g)"
  by (auto simp: default_changed_def split: list.splits)

lemma gtk_init_default: "default_changed (with_grp v (wpa_group_gtk_init env) w) \<Longrightarrow> default_changed w"
proof -
  have "grp_changed (c_grp (snd (wpa_gtk_update env d))) = grp_changed (c_grp d)" for d
    using grp_frame_helpers(1) [of env d] by (simp add: grp_frame_def)
  then have "\<not> grp_changed (c_grp (wpa_group_gtk_init env c))" for c by (simp add: wpa_group_gtk_init_def)
  then show "default_changed (with_grp v (wpa_group_gtk_init env) w) \<Longrightarrow> default_changed w"
    by (auto simp: default_changed_set with_grp_def put_grp_def Let_def split: option.splits if_splits)
qed

lemma with_sta_default:
  assumes "wf_world w" "find_sta a w = Some sm" and "\<And>c. grp_changed (c_grp (f c)) = grp_changed (c_grp c)"
  shows "default_changed (with_sta a f w) = default_changed w"
proof -
  obtain g where g: "find_grp (sm_group sm) w = Some g" using wf_group_exists [OF assms(1,2)] by blast
  have i: "inj_on vlan_id (set (w_groups w))" using assms(1) by (simp add: wf_world_def distinct_map)
  have "g = x" if "x \<in> set (w_groups w)" "vlan_id x = sm_group sm" for x
    using inj_onD [OF i, of g x] that find_grp_Some [OF g] by simp
  then show ?thesis using assms(3) [of "ctx_of sm g w"]
    by (cases "w_groups w") (auto simp: default_changed_def with_sta_stas [OF assms(2) g])
qed

text \<open>One round of the step loop up to the group step.\<close>

lemma round_settles:
  assumes wf: "wf_world w" and f: "find_sta a w = Some sm" and l: "in_step_loop sm"
    and w3_def: "w3 = with_sta a (sm_WPA_PTK_GROUP_Step env) (with_sta a (sm_WPA_PTK_Step env) (clear_changed a w))"
  shows "world_work w3 \<le> world_work w" "sta_flag sm_changed a w3 \<Longrightarrow> world_work w3 < world_work w"
    "\<not> default_changed w3" "world_size w3 = world_size w"
proof -
  let ?w1 = "clear_changed a w" and ?sm1 = "sm\<lparr>sm_changed := False\<rparr>"
  have w1: "wf_world ?w1" "find_sta a ?w1 = Some ?sm1" using wf_steps.clear_changed_ok [of w a sm] wf f l by simp_all
  obtain g1 where g1: "find_grp (sm_group ?sm1) ?w1 = Some g1" using wf_group_exists [OF w1] by blast
  let ?c = "ctx_of ?sm1 g1 ?w1" and ?w2 = "with_sta a (sm_WPA_PTK_Step env) ?w1"
  let ?sm2 = "c_sm (sm_WPA_PTK_Step env ?c)"
  have fr: "sta_addr (c_sm (sm_WPA_PTK_Step env c)) = sta_addr (c_sm c)" "sm_group (c_sm (sm_WPA_PTK_Step env c)) = sm_group (c_sm c)"
    "sta_addr (c_sm (sm_WPA_PTK_GROUP_Step env c)) = sta_addr (c_sm c)" for c
    using ptk_step_frame [of env c] ptk_group_step_frame [of env c] by (simp_all add: sta_frame_def)
  have w2: "wf_world ?w2" by (rule wf_with_sta [OF w1]) (simp_all add: fr wf_steps.ptk_step_vlan)
  have f2: "find_sta a ?w2 = Some ?sm2" using find_with_sta [OF fr(1) w1(2) g1] by simp
  obtain g2 where g2: "find_grp (sm_group ?sm2) ?w2 = Some g2" using wf_group_exists [OF w2 f2] by blast
  let ?d = "ctx_of ?sm2 g2 ?w2"
  let ?sm3 = "c_sm (sm_WPA_PTK_GROUP_Step env ?d)"
  have f3: "find_sta a w3 = Some ?sm3" unfolding w3_def using find_with_sta [OF fr(3) f2 g2] by simp
  note r = round_work [of ?c ?d env, simplified]
  have e1: "world_work ?w2 + sta_work sm = world_work w + sta_work ?sm2"
    using with_sta_work [OF w1 g1, of "sm_WPA_PTK_Step env"] withdraws_work [OF ptk_step_withdraws, of env ?c]
    by (simp add: clear_changed_work)
  have e2: "world_work w3 + sta_work ?sm2 = world_work ?w2 + sta_work ?sm3"
    unfolding w3_def
    using with_sta_work [OF w2 f2 g2, of "sm_WPA_PTK_GROUP_Step env"] withdraws_work [OF ptk_group_step_withdraws, of env ?d]
    by simp
  show "world_work w3 \<le> world_work w" using e1 e2 r by simp
  show "world_work w3 < world_work w" if "sta_flag sm_changed a w3"
    using e1 e2 r that f3 by (simp add: sta_flag_def)
  have "\<not> default_changed ?w1" by (simp add: default_changed_def clear_changed_def Let_def split: list.split)
  then show "\<not> default_changed w3" unfolding w3_def
    by (simp add: with_sta_default [OF w2 f2] with_sta_default [OF w1] withdraws_changed
        [OF ptk_step_withdraws] withdraws_changed [OF ptk_group_step_withdraws])
  show "world_size w3 = world_size w" by (simp add: w3_def)
qed

lemma loop_settles:
  assumes st: "settles k step" "wf_steps.step_spec step"
  shows "wf_world w \<Longrightarrow> find_sta a w = Some sm \<Longrightarrow> in_step_loop sm \<Longrightarrow> world_work w \<le> k \<Longrightarrow> world_work w < n \<Longrightarrow>
    \<exists>w'. wpa_sm_loop step n env a w = Some w' \<and> world_work w' \<le> world_work w \<and> world_size w' \<le> world_size w"
proof (induction n arbitrary: w sm)
  case (Suc n)
  let ?w2 = "with_sta a (sm_WPA_PTK_Step env) (clear_changed a w)"
  let ?w3 = "with_sta a (sm_WPA_PTK_GROUP_Step env) ?w2"
  note r = round_settles [OF Suc.prems(1-3) refl, of env]
  obtain sm3 where b: "wf_world ?w3" "find_sta a ?w3 = Some sm3" "sta_frame sm3 = sta_frame sm"
    "sta_flag pending_deinit a ?w2 = pending_deinit sm"
    using wf_steps.loop_body [of w a sm env] Suc.prems(1-3) by (metis wf_ok)
  have l3: "in_step_loop sm3" using b(3) Suc.prems(3) by (simp add: sta_frame_def)
  show ?case
  proof (cases "pending_deinit sm")
    case True
    then show ?thesis using Suc.prems(2) by (simp add: sta_flag_def)
  next
    case np: False
    have nf: "\<not> sta_flag pending_deinit a w" "\<not> sta_flag pending_deinit a ?w2" "\<not> sta_flag pending_deinit a ?w3"
      using np b Suc.prems(2) by (simp_all add: sta_flag_def sta_frame_def)
    obtain w4 where w4: "wpa_group_sm_step step env (sm_group sm3) ?w3 = Some w4" "calmer ?w3 w4"
      "world_work w4 < world_work ?w3 \<or> w4 = ?w3 \<or> w4 = with_grp (sm_group sm3) (wpa_group_gtk_init env) ?w3"
      using group_step_settles [OF st(1) b(1), of env "sm_group sm3"] r(1) Suc.prems(4) by fastforce
    obtain u where u: "find_sta a w4 = Some (sm3\<lparr>GUpdateStationKeys := u\<rparr>)"
      using keepsD [of "{}" ?w3 w4 a sm3] w4(2) b(2) l3 by (auto simp: calmer_def)
    have le: "world_work w4 \<le> world_work w" "world_size w4 \<le> world_size w" using w4(2) r(1,4) by (simp_all add: calmer_def)
    show ?thesis
    proof (cases "sta_flag sm_changed a w4 \<or> default_changed w4")
      case True
      have lt: "world_work w4 < world_work w"
        using True w4(2,3) r u b(2) gtk_init_default by (fastforce simp: calmer_def sta_flag_def)
      obtain w' where "wpa_sm_loop step n env a w4 = Some w'" "world_work w' \<le> world_work w4" "world_size w' \<le> world_size w4"
        using Suc.IH [of w4, OF _ u] w4(2) l3 le lt Suc.prems(4,5) by (auto simp: calmer_def)
      then show ?thesis using nf True w4(1) b(2) le by (simp add: Let_def)
    next
      case False
      then show ?thesis using nf w4(1) b(2) le by (simp add: Let_def)
    qed
  qed
qed simp

lemma free_work: "world_work (wpa_free_sta_sm a w) \<le> world_work w" "world_size (wpa_free_sta_sm a w) \<le> world_size w"
proof -
  have f: "sum_list (map sta_work (filter P xs)) \<le> sum_list (map sta_work xs)" for P xs by (induction xs) auto
  have s: "w_stas (wpa_free_sta_sm a w) = w_stas w \<or>
      w_stas (wpa_free_sta_sm a w) = filter (\<lambda>s. sta_addr s \<noteq> a) (w_stas w)"
    by (simp add: wpa_free_sta_sm_def Let_def split: option.split)
  have g: "map grp_work (w_groups (wpa_free_sta_sm a w)) = map grp_work (w_groups w)"
    by (simp add: wpa_free_sta_sm_def Let_def split: option.split)
  show "world_work (wpa_free_sta_sm a w) \<le> world_work w"
    using s f unfolding world_work_def g by (elim disjE) simp_all
  have "length (w_groups (wpa_free_sta_sm a w)) = length (w_groups w)" using g by (rule map_eq_imp_length_eq)
  then show "world_size (wpa_free_sta_sm a w) \<le> world_size w"
    using s by (elim disjE) (simp_all add: world_size_def)
qed

theorem step_settles: "settles n (wpa_sm_step (Suc n) env)"
proof (induction n)
  case 0
  show ?case by (simp add: settles_def)
next
  case (Suc n)
  show ?case unfolding settles_def
  proof (intro allI impI)
    fix a w
    assume wf: "wf_world w" and k: "world_work w < Suc n"
    have "\<exists>w'. wpa_sm_step (Suc (Suc n)) env a w = Some w' \<and> world_work w' \<le> world_work w \<and> world_size w' \<le> world_size w"
    proof (cases "find_sta a w")
      case (Some sm)
      let ?w1 = "upd_sta a (in_step_loop_update (\<lambda>_. True)) w"
      have w1: "wf_world ?w1" "find_sta a ?w1 = Some (sm\<lparr>in_step_loop := True\<rparr>)" "world_work ?w1 = world_work w"
        using wf_upd_sta [OF wf] Some by (simp_all add: find_upd_sta upd_sta_work)
      obtain w2 where w2: "wpa_sm_loop (wpa_sm_step (Suc n) env) (Suc n) env a ?w1 = Some w2"
        "world_work w2 \<le> world_work w" "world_size w2 \<le> world_size w"
        using loop_settles [OF Suc.IH wf_steps.step_ok w1(1,2), of "Suc n" env] w1(3) k
        by (auto simp del: wpa_sm_loop.simps)
      let ?w3 = "upd_sta a (in_step_loop_update (\<lambda>_. False)) w2"
      have w3: "world_work ?w3 = world_work w2" "world_size ?w3 = world_size w2" by (simp_all add: upd_sta_work)
      show ?thesis
        using Some w2 w3 free_work [of a ?w3] by (cases "in_step_loop sm") (auto simp: Let_def simp del: wpa_sm_loop.simps)
    qed simp
    then obtain w' where w': "wpa_sm_step (Suc (Suc n)) env a w = Some w'" "world_work w' \<le> world_work w"
      "world_size w' \<le> world_size w" by blast
    moreover have "wf_world w' \<and> keeps {} w w'"
      using wf_steps.step_ok [of "Suc (Suc n)" env] w'(1) wf unfolding wf_steps.step_spec_def wf_ok by blast
    ultimately show "\<exists>w'. wpa_sm_step (Suc (Suc n)) env a w = Some w' \<and> calmer w w'" by (auto simp: calmer_def)
  qed
qed

section \<open>More fuel makes no difference\<close>

definition step_le :: "sta_step \<Rightarrow> sta_step \<Rightarrow> bool" where
  "step_le s t \<longleftrightarrow> (\<forall>a w w'. s a w = Some w' \<longrightarrow> t a w = Some w')"

lemma update_stas_mono:
  "step_le s t \<Longrightarrow> wpa_group_update_stas s v as w = Some w' \<Longrightarrow> wpa_group_update_stas t v as w = Some w'"
  by (induction as arbitrary: w) (auto simp: step_le_def split: prod.splits if_splits option.splits)

lemma group_sm_step_mono:
  assumes "step_le s t" and "wpa_group_sm_step s env v w = Some w'"
  shows "wpa_group_sm_step t env v w = Some w'"
proof -
  have "wpa_group_setkeys t env v w = Some w'" if "wpa_group_setkeys s env v w = Some w'"
    using that update_stas_mono [OF assms(1)] by (simp add: wpa_group_setkeys_def Let_def)
  then show ?thesis using assms(2) by (auto simp: wpa_group_sm_step_def split: option.splits if_splits)
qed

lemma loop_mono:
  assumes st: "step_le s t"
  shows "wpa_sm_loop s n env a w = Some w' \<Longrightarrow> n \<le> m \<Longrightarrow> wpa_sm_loop t m env a w = Some w'"
proof (induction n arbitrary: m w)
  case (Suc n)
  then obtain k where "m = Suc k" "n \<le> k" by (cases m) simp_all
  then show ?case using Suc.prems(1) Suc.IH group_sm_step_mono [OF st]
    by (auto simp: Let_def split: if_splits option.splits)
qed simp

lemma step_mono: "n \<le> m \<Longrightarrow> step_le (wpa_sm_step n env) (wpa_sm_step m env)"
proof (induction n arbitrary: m)
  case 0
  show ?case by (simp add: step_le_def)
next
  case (Suc n)
  then obtain k where k: "m = Suc k" "n \<le> k" by (cases m) simp_all
  show ?case unfolding step_le_def k(1)
  proof (intro allI impI)
    fix a w w'
    assume "wpa_sm_step (Suc n) env a w = Some w'"
    then show "wpa_sm_step (Suc k) env a w = Some w'"
      using loop_mono [OF Suc.IH [OF k(2)] _ k(2), of env a "upd_sta a (in_step_loop_update (\<lambda>_. True)) w"]
      by (auto simp: Let_def split: option.splits if_splits)
  qed
qed

section \<open>Every event returns\<close>

text \<open>Fuel that is enough for a world: the bound on its potential and one for each of the two nested
  recursions.\<close>

definition step_fuel :: "wpa_world \<Rightarrow> nat" where
  "step_fuel w = world_size w + 2"

definition ready :: "nat \<Rightarrow> wpa_world \<Rightarrow> bool" where
  "ready n w \<longleftrightarrow> wf_world w \<and> step_fuel w \<le> n"

lemma calmer_ready: "ready n w \<Longrightarrow> calmer w w' \<Longrightarrow> ready n w'"
  by (simp add: ready_def calmer_def step_fuel_def)

lemma ready_settles:
  assumes "ready n w"
  obtains m where "n = Suc m" "settles m (wpa_sm_step n env)" "world_work w < m"
proof (cases n)
  case (Suc m)
  then show thesis using that [of m] assms step_settles [of m env] world_work_size [of w]
    by (simp add: ready_def step_fuel_def)
qed (use assms in \<open>simp add: ready_def step_fuel_def\<close>)

lemma step_ready: "ready n w \<Longrightarrow> \<exists>w'. wpa_sm_step n env a w = Some w' \<and> ready n w'"
  using calmer_ready [of n w] by (metis ready_settles ready_def settlesD)

lemma ready_upd_sta:
  "ready n w \<Longrightarrow> (\<And>s. sta_addr (h s) = sta_addr s) \<Longrightarrow> (\<And>s. sm_group (h s) = sm_group s) \<Longrightarrow> ready n (upd_sta a h w)"
  using wf_upd_sta [of w h a] by (simp add: ready_def step_fuel_def)

lemma ready_upd_grp: "ready n w \<Longrightarrow> (\<And>g. vlan_id (k g) = vlan_id g) \<Longrightarrow> ready n (upd_grp v k w)"
  using wf_upd_grp [of w k v] by (simp add: ready_def step_fuel_def)

lemma ready_with_sta:
  assumes "ready n w" "\<And>c. sta_frame (c_sm (f c)) = sta_frame (c_sm c)" "\<And>c. vlan_id (c_grp (f c)) = vlan_id (c_grp c)"
  shows "ready n (with_sta a f w)"
proof (cases "find_sta a w")
  case None
  then show ?thesis using assms(1) by (simp add: with_sta_none)
next
  case (Some sm)
  have fr: "sta_addr (c_sm (f c)) = sta_addr (c_sm c)" "sm_group (c_sm (f c)) = sm_group (c_sm c)" for c
    using assms(2) [of c] by (simp_all add: sta_frame_def)
  show ?thesis using assms(1) wf_with_sta [OF _ Some fr assms(3)] by (simp add: ready_def step_fuel_def)
qed

lemma ready_log: "ready n w \<Longrightarrow> ready n (world_log e w)"
  using wf_groups_cong [of w "world_log e w"] by (simp add: ready_def step_fuel_def)

lemma group_ready:
  assumes "ready n w"
  shows "\<exists>w'. group_step n env v w = Some w' \<and> ready n w' \<and> world_work w' \<le> world_work w \<and>
    (world_work w' < world_work w \<or> w' = w \<or> w' = with_grp v (wpa_group_gtk_init env) w)"
proof -
  obtain m where m: "settles m (wpa_sm_step n env)" "world_work w < m" using ready_settles [OF assms] by metis
  have "wf_world w" using assms by (simp add: ready_def)
  from group_step_settles [OF m(1) this less_imp_le [OF m(2)], of env v] show ?thesis
    using calmer_ready [OF assms] by (auto simp: calmer_def)
qed

definition grp_flag :: "(wpa_group \<Rightarrow> bool) \<Rightarrow> int \<Rightarrow> wpa_world \<Rightarrow> bool" where
  "grp_flag f v w = (case find_grp v w of None \<Rightarrow> False | Some g \<Rightarrow> f g)"

lemma cleared_quiet: "\<not> grp_flag grp_changed v (upd_grp v (grp_changed_update (\<lambda>_. False)) w)"
proof (cases "find_grp v (upd_grp v (grp_changed_update (\<lambda>_. False)) w)")
  case (Some g)
  then obtain x where "g = (if vlan_id x = v then x\<lparr>grp_changed := False\<rparr> else x)" "vlan_id g = v"
    using find_grp_Some [OF Some] unfolding upd_stas set_map by blast
  then have "\<not> grp_changed g" by (simp split: if_splits)
  then show ?thesis using Some by (simp add: grp_flag_def)
qed (simp add: grp_flag_def)

lemma gtk_init_quiet:
  assumes "wf_world w" "\<not> grp_flag grp_changed v w"
  shows "\<not> grp_flag grp_changed v (with_grp v (wpa_group_gtk_init env) w)"
proof
  assume "grp_flag grp_changed v (with_grp v (wpa_group_gtk_init env) w)"
  then obtain g where f: "find_grp v (with_grp v (wpa_group_gtk_init env) w) = Some g" and c: "grp_changed g"
    by (auto simp: grp_flag_def split: option.splits)
  have g: "g \<in> set (w_groups w)" "vlan_id g = v" using gtk_init_changed [OF _ c] find_grp_Some [OF f] by blast+
  obtain x where x: "find_grp v w = Some x" using g find_grp_None [of v w] by fastforce
  have "x = g" using g find_grp_Some [OF x] assms(1) by (auto simp: wf_world_def distinct_map inj_on_eq_iff)
  then show False using assms(2) x c by (simp add: grp_flag_def)
qed

lemma rekey_group_ready:
  "ready n w \<Longrightarrow> world_work w < k \<Longrightarrow> \<exists>w'. rekey_group_loop k n env v w = Some w' \<and> ready n w'"
proof (induction k arbitrary: w)
  case (Suc k)
  let ?u = "upd_grp v (grp_changed_update (\<lambda>_. False)) w"
  have u: "ready n ?u" "world_work ?u = world_work w"
    using ready_upd_grp [OF Suc.prems(1)] by (simp_all add: upd_grp_work)
  obtain w1 where w1: "group_step n env v ?u = Some w1" "ready n w1" "world_work w1 \<le> world_work w"
    "world_work w1 < world_work w \<or> w1 = ?u \<or> w1 = with_grp v (wpa_group_gtk_init env) ?u"
    using group_ready [OF u(1), of env v] u(2) by metis
  show ?case
  proof (cases "grp_flag grp_changed v w1")
    case True
    have "wf_world ?u" using u(1) by (simp add: ready_def)
    then have "world_work w1 < k" using True w1(4) cleared_quiet [of v w] gtk_init_quiet [of ?u v env] Suc.prems(2) by auto
    from Suc.IH [OF w1(2) this] show ?thesis using True w1(1) by (simp add: grp_flag_def)
  next
    case False
    then show ?thesis using w1(1,2) by (simp add: grp_flag_def)
  qed
qed simp

lemma rekey_groups_ready: "ready n w \<Longrightarrow> \<exists>w'. rekey_groups n env vs w = Some w' \<and> ready n w'"
proof (induction vs arbitrary: w)
  case (Cons v vs)
  let ?u = "upd_grp v (GTKReKey_update (\<lambda>_. True)) w"
  have u: "ready n ?u" using ready_upd_grp [OF Cons.prems] by simp
  then have "world_work ?u < n" using world_work_size [of ?u] by (simp add: ready_def step_fuel_def)
  from rekey_group_ready [OF u this, of env v] Cons.IH show ?case by fastforce
qed simp

lemma rekey_gtk_ready: "ready n w \<Longrightarrow> \<exists>w'. wpa_rekey_gtk n env w = Some w' \<and> ready n w'"
  using rekey_groups_ready [of n w env "map vlan_id (w_groups w)"] ready_log
  by (fastforce simp: wpa_rekey_gtk_def Let_def)

lemma step_twice_ready: "ready n w \<Longrightarrow> \<exists>w'. step_twice n env v w = Some w' \<and> ready n w'"
proof -
  assume "ready n w"
  then obtain w1 where w1: "group_step n env v w = Some w1" "ready n w1" using group_ready by metis
  have "ready n (upd_grp v (GInit_update (\<lambda>_. False)) w1)" using ready_upd_grp [OF w1(2)] by simp
  from group_ready [OF this] show ?thesis using w1(1) by (auto simp: step_twice_def)
qed

lemma receive_ready:
  assumes r: "ready n w"
  shows "\<exists>w'. receive_eapol_key n env a data w = Some w'"
proof -
  let ?w1 = "with_sta a (\<lambda>c. snd (wpa_receive env data c)) w"
  have r1: "ready n ?w1" by (rule ready_with_sta [OF r]) (use receive_frame [of env data] in simp_all)
  have d: "ready n (with_sta a (wpa_sta_disconnect env) ?w1)"
    by (rule ready_with_sta [OF r1 other_frames(2)]) simp
  obtain w2 where w2: "wpa_rekey_gtk n env ?w1 = Some w2" "ready n w2" using rekey_gtk_ready [OF r1] by blast
  have s: "ready n (upd_sta a (recv_store data) w2)" by (rule ready_upd_sta [OF w2(2)]) (simp_all add: recv_store_def Let_def)
  show ?thesis
    using step_ready [OF r1, of env a] step_ready [OF d, of env a] step_ready [OF s, of env a] w2(1)
    by (auto simp: receive_eapol_key_def Let_def split: option.splits recv_act.splits)
qed

lemma start_ready:
  assumes r: "ready n w"
  shows "\<exists>w1. wpa_sm_step n env a (upd_sta a (\<lambda>sm. sm\<lparr>started := True, Init := True\<rparr>) w) = Some w1 \<and>
    ready n (upd_sta a (\<lambda>sm. sm\<lparr>Init := False, AuthenticationRequest := True\<rparr>) w1)"
proof -
  have "ready n (upd_sta a (\<lambda>sm. sm\<lparr>started := True, Init := True\<rparr>) w)" by (rule ready_upd_sta [OF r]) simp_all
  from step_ready [OF this, of env a] show ?thesis using ready_upd_sta by fastforce
qed

lemma associated_ready:
  assumes r: "ready n w"
  shows "\<exists>w'. wpa_auth_sta_associated n env a w = Some w'"
proof -
  obtain w1 where w1: "wpa_sm_step n env a (upd_sta a (\<lambda>sm. sm\<lparr>started := True, Init := True\<rparr>) w) = Some w1"
    "ready n (upd_sta a (\<lambda>sm. sm\<lparr>Init := False, AuthenticationRequest := True\<rparr>) w1)" using start_ready [OF r] by blast
  have "ready n (upd_sta a (\<lambda>sm. sm\<lparr>key_replay := replicate 4 rc_zero, ReAuthenticationRequest := True\<rparr>) w)"
    by (rule ready_upd_sta [OF r]) simp_all
  from step_ready [OF this, of env a] step_ready [OF w1(2), of env a] w1(1) show ?thesis
    by (auto simp: wpa_auth_sta_associated_def split: option.split)
qed

lemma sm_event_ready:
  assumes r: "ready n w"
  shows "\<exists>w'. wpa_auth_sm_event n env a ev w = Some w'"
proof -
  have fin: "\<exists>w'. wpa_sm_step n env a (with_sta a (sm_event_tail env ev) x) = Some w'" if "ready n x" for x
  proof -
    have "ready n (with_sta a (sm_event_tail env ev) x)" by (rule ready_with_sta [OF that]) (simp_all add: other_frames)
    then show ?thesis using step_ready by blast
  qed
  obtain w1 where w1: "wpa_sm_step n env a (upd_sta a (\<lambda>sm. sm\<lparr>started := True, Init := True\<rparr>) w) = Some w1"
    "ready n (upd_sta a (\<lambda>sm. sm\<lparr>Init := False, AuthenticationRequest := True\<rparr>) w1)" using start_ready [OF r] by blast
  have "ready n (upd_sta a (DeauthenticationRequest_update (\<lambda>_. True)) w)" by (rule ready_upd_sta [OF r]) simp_all
  moreover have "ready n (with_sta a reauth_cancel_update w)" by (rule ready_with_sta [OF r]) (simp_all add: other_frames)
  ultimately show ?thesis using fin [OF r] fin [OF w1(2)] fin w1(1)
    by (auto simp: wpa_auth_sm_event_def Let_def split: option.split)
qed

lemma reconfig_ready: "ready n w \<Longrightarrow> \<exists>w'. wpa_reconfig n env w = Some w'"
proof -
  assume r: "ready n w"
  have "ready n (upd_grp v (\<lambda>g. g\<lparr>GTK_len := l, GInit := True\<rparr>) w)" for v l by (rule ready_upd_grp [OF r]) simp
  then show ?thesis using step_twice_ready by (fastforce simp: wpa_reconfig_def split: list.split)
qed

lemma event_ready:
  assumes r: "ready n w"
  shows "\<exists>w'. apply_wop n env op w = Some w'"
proof (cases op)
  case (W_eapol_timeout a)
  have "ready n (upd_sta a (\<lambda>sm. sm\<lparr>pending_1_of_4_timeout := False, TimeoutEvt := True\<rparr>) w)"
    by (rule ready_upd_sta [OF r]) simp_all
  then show ?thesis using W_eapol_timeout step_ready by (fastforce simp: wpa_send_eapol_timeout_def)
next
  case (W_rekey_ptk a)
  have "ready n (with_sta a wpa_request_new_ptk w)"
    by (rule ready_with_sta [OF r]) (simp_all add: other_frames)
  then show ?thesis using W_rekey_ptk step_ready by (fastforce simp: wpa_rekey_ptk_def)
next
  case W_init_keys
  then show ?thesis using step_twice_ready [OF r] by (fastforce simp: wpa_init_keys_def split: list.split)
next
  case W_rekey_gtk
  then show ?thesis using rekey_gtk_ready [OF r] by fastforce
next
  case (W_call_step a)
  then show ?thesis using step_ready [OF r] by fastforce
qed (use receive_ready [OF r] associated_ready [OF r] sm_event_ready [OF r] reconfig_ready [OF r] in simp_all)

section \<open>Fuel and events\<close>

lemma sm_step_mono: "n \<le> m \<Longrightarrow> wpa_sm_step n env a w = Some w' \<Longrightarrow> wpa_sm_step m env a w = Some w'"
  using step_mono [of n m env] by (simp add: step_le_def)

lemma group_step_mono: "n \<le> m \<Longrightarrow> group_step n env v w = Some w' \<Longrightarrow> group_step m env v w = Some w'"
  using group_sm_step_mono [OF step_mono] .

lemma rekey_group_loop_mono:
  "rekey_group_loop k n env v w = Some w' \<Longrightarrow> k \<le> l \<Longrightarrow> n \<le> m \<Longrightarrow> rekey_group_loop l m env v w = Some w'"
proof (induction k arbitrary: l w)
  case (Suc k)
  then obtain j where "l = Suc j" "k \<le> j" by (cases l) simp_all
  then show ?case using Suc group_step_mono [OF Suc.prems(3)] by (auto split: option.splits if_splits)
qed simp

lemma rekey_groups_mono:
  "n \<le> m \<Longrightarrow> rekey_groups n env vs w = Some w' \<Longrightarrow> rekey_groups m env vs w = Some w'"
proof (induction vs arbitrary: w)
  case (Cons v vs)
  then show ?case using rekey_group_loop_mono [of n n env v _ _ m m] by (auto split: option.splits)
qed simp

lemma rekey_gtk_mono: "n \<le> m \<Longrightarrow> wpa_rekey_gtk n env w = Some w' \<Longrightarrow> wpa_rekey_gtk m env w = Some w'"
  using rekey_groups_mono [of n m env "map vlan_id (w_groups w)" w]
  by (auto simp: wpa_rekey_gtk_def split: option.splits)

lemma step_twice_mono: "n \<le> m \<Longrightarrow> step_twice n env v w = Some w' \<Longrightarrow> step_twice m env v w = Some w'"
  using group_step_mono [of n m env v] by (auto simp: step_twice_def split: option.splits)

lemma receive_mono:
  "n \<le> m \<Longrightarrow> receive_eapol_key n env a data w = Some w' \<Longrightarrow> receive_eapol_key m env a data w = Some w'"
  using sm_step_mono [of n m env a] rekey_gtk_mono [of n m env]
  by (auto simp: receive_eapol_key_def Let_def split: option.splits recv_act.splits if_splits)

lemma associated_mono:
  "n \<le> m \<Longrightarrow> wpa_auth_sta_associated n env a w = Some w' \<Longrightarrow> wpa_auth_sta_associated m env a w = Some w'"
  using sm_step_mono [of n m env a]
  by (auto simp: wpa_auth_sta_associated_def split: option.splits if_splits)

lemma sm_event_mono:
  "n \<le> m \<Longrightarrow> wpa_auth_sm_event n env a ev w = Some w' \<Longrightarrow> wpa_auth_sm_event m env a ev w = Some w'"
  using sm_step_mono [of n m env a]
  by (auto simp: wpa_auth_sm_event_def Let_def split: option.splits if_splits)

lemma event_mono: "n \<le> m \<Longrightarrow> apply_wop n env op w = Some w' \<Longrightarrow> apply_wop m env op w = Some w'"
  using receive_mono [of n m env] associated_mono [of n m env] sm_event_mono [of n m env] sm_step_mono [of n m env]
    rekey_gtk_mono [of n m env] step_twice_mono [of n m env]
  by (cases op) (auto simp: wpa_send_eapol_timeout_def wpa_rekey_ptk_def wpa_init_keys_def wpa_reconfig_def split: list.splits)

text \<open>The set-up of a new group steps no station, so that it needs no fuel and fails only for want of
  random data.\<close>

lemma find_replaced:
  "find P xs = Some g \<Longrightarrow> (\<And>x. P x \<Longrightarrow> P (h x)) \<Longrightarrow> find P (map (\<lambda>x. if P x then h x else x) xs) = Some (h g)"
  by (induction xs) (auto split: if_splits)

lemma step_twice_fresh:
  assumes "find_grp v w = Some g" "GInit g" "GTKAuthenticator g"
  shows "\<exists>w'. step_twice 0 env v w = Some w'"
proof -
  let ?c = "\<lparr>c_sm = sm_zero [] v, c_grp = g, handshake_failures = w_failures w,
      auth_remote_mic_failures = w_remote_mic w, hist = w_hist w\<rparr>"
  let ?g = "c_grp (wpa_group_gtk_init env ?c)"
  have fr: "grp_frame (c_grp (snd (wpa_gtk_update env d))) = grp_frame (c_grp d)" for d by (rule grp_frame_helpers(1))
  have g: "vlan_id ?g = v" "wpa_group_state ?g = WPA_GROUP_GTK_INIT" "GTKAuthenticator ?g"
    using fr assms find_grp_Some [OF assms(1)] by (simp_all add: wpa_group_gtk_init_def grp_frame_def)
  let ?w1 = "with_grp v (wpa_group_gtk_init env) w"
  have "find_grp v ?w1 = Some ?g"
    using find_replaced [of "\<lambda>x. vlan_id x = v" "w_groups w" g "\<lambda>_. ?g"] assms(1) g(1)
    by (simp add: find_grp_def with_grp_def put_grp_def Let_def)
  then have "find_grp v (upd_grp v (GInit_update (\<lambda>_. False)) ?w1) = Some (?g\<lparr>GInit := False\<rparr>)"
    using find_replaced [of "\<lambda>x. vlan_id x = v" "w_groups ?w1" ?g "\<lambda>x. x\<lparr>GInit := False\<rparr>"]
    by (simp add: find_grp_def upd_grp_def)
  then show ?thesis using assms g by (simp add: step_twice_def wpa_group_sm_step_def)
qed

theorem group_init_fails_iff:
  assumes "find_grp v w = None"
  shows "wpa_group_init env v delay w = None \<longleftrightarrow>
    fst (wpa_group_init_gmk_and_counter env \<lparr>c_sm = sm_zero [] v, c_grp = group_zero env v,
      handshake_failures = w_failures w, auth_remote_mic_failures = w_remote_mic w, hist = w_hist w\<rparr>) < 0"
proof -
  let ?c = "\<lparr>c_sm = sm_zero [] v, c_grp = group_zero env v,
      handshake_failures = w_failures w, auth_remote_mic_failures = w_remote_mic w, hist = w_hist w\<rparr>"
  obtain r d where i: "wpa_group_init_gmk_and_counter env ?c = (r, d)" by fastforce
  let ?g = "(c_grp d)\<lparr>GInit := True\<rparr>"
  let ?w = "w\<lparr>w_hist := hist d, w_groups := (case w_groups w of [] \<Rightarrow> [?g] | g # gs \<Rightarrow> g # ?g # gs)\<rparr>"
  have g: "vlan_id ?g = v" "GTKAuthenticator ?g"
    using grp_frame_helpers(2) [of env ?c] i by (simp_all add: grp_frame_def group_zero_def)
  have "find_grp v ?w = Some ?g" using g(1) assms by (auto simp: find_grp_def split: list.split if_splits)
  then obtain w' where "step_twice 0 env v ?w = Some w'" using step_twice_fresh [of v ?w ?g env] g(2) by auto
  then show ?thesis using i by (simp add: wpa_group_init_def Let_def)
qed



end
