(* ===== verification/Pmksa_Cache.thy ===== *)
theory Pmksa_Cache
  imports Wpa_Validate
begin

text \<open>
  The PMKSA cache of the authenticator (\<^verbatim>\<open>src/ap/pmksa_cache_auth.c\<close>): entries linked twice, into
  one list ordered by expiration time and into 128 chains by the first octet of the PMKID, with one
  timer for the entry that expires first.  The cache is shown to keep both structures equal, to
  answer a lookup through the chains as a search of all entries would, to drop exactly the
  expired entries, and to leave no station with a reference to a freed entry.

  Entries carry their address, by which the code compares them; the address of a new entry is an
  argument, the answer of the allocator.  The expiration time and the clock are integers in
  seconds; the timer runs on the same clock.
\<close>

section \<open>Data\<close>

text \<open>What an IEEE 802.1X machine and its station hand to a cache entry.\<close>

record eapol_data =
  ed_identity :: "u8 list option"
  ed_radius_cui :: "u8 list option"
  ed_radius_class :: "u8 list list"
  ed_eap_type_authsrv :: u8
  ed_vlan_id :: int

record pmksa_entry =
  e_ptr :: nat
  e_pmkid :: "u8 list"
  e_pmk :: "u8 list"
  e_expiration :: int
  e_akmp :: int
  e_spa :: macaddr
  e_identity :: "u8 list option"
  e_cui :: "u8 list option"
  e_radius_class :: "u8 list list"
  e_eap_type_authsrv :: u8
  e_vlan_id :: int
  e_opportunistic :: bool

text \<open>The cache, with the \<^verbatim>\<open>pmksa\<close> pointer of every station's WPA machine, which the free callback of
  the authenticator clears.\<close>

record pmksa_cache =
  pmkid_hash :: "pmksa_entry list list"
  pmksa_list :: "pmksa_entry list"
  pmksa_count :: int
  expire_at :: "int option"
  sta_pmksa :: "macaddr \<Rightarrow> nat option"

abbreviation PMKID_HASH_SIZE :: nat where "PMKID_HASH_SIZE \<equiv> 128"
abbreviation PMK_LEN :: nat where "PMK_LEN \<equiv> 32"
abbreviation pmksa_cache_max_entries :: int where "pmksa_cache_max_entries \<equiv> 1024"
abbreviation dot11RSNAConfigPMKLifetime :: int where "dot11RSNAConfigPMKLifetime \<equiv> 43200"

definition PMKID_HASH :: "u8 list \<Rightarrow> nat" where
  "PMKID_HASH p = unat (p ! 0 AND 0x7f)"

section \<open>Operations\<close>

definition wpa_auth_pmksa_free_cb :: "nat \<Rightarrow> (macaddr \<Rightarrow> nat option) \<Rightarrow> macaddr \<Rightarrow> nat option" where
  "wpa_auth_pmksa_free_cb p refs = (\<lambda>a. if refs a = Some p then None else refs a)"

text \<open>Unlinking an entry from a chain: the walk stops at the first element with its address.\<close>

fun unlink :: "nat \<Rightarrow> pmksa_entry list \<Rightarrow> pmksa_entry list" where
  "unlink p [] = []"
| "unlink p (e # es) = (if e_ptr e = p then es else e # unlink p es)"

definition pmksa_cache_free_entry :: "pmksa_cache \<Rightarrow> pmksa_entry \<Rightarrow> pmksa_cache" where
  "pmksa_cache_free_entry c e =
     (let h = PMKID_HASH (e_pmkid e) in
      c\<lparr>pmksa_count := pmksa_count c - 1,
        sta_pmksa := wpa_auth_pmksa_free_cb (e_ptr e) (sta_pmksa c),
        pmkid_hash := (pmkid_hash c)[h := unlink (e_ptr e) (pmkid_hash c ! h)],
        pmksa_list := unlink (e_ptr e) (pmksa_list c)\<rparr>)"

definition pmksa_cache_set_expiration :: "int \<Rightarrow> pmksa_cache \<Rightarrow> pmksa_cache" where
  "pmksa_cache_set_expiration now c =
     (case pmksa_list c of
        [] \<Rightarrow> c\<lparr>expire_at := None\<rparr>
      | e # _ \<Rightarrow>
          let sec = e_expiration e - now; sec = (if sec < 0 then 0 else sec)
          in c\<lparr>expire_at := Some (now + (sec + 1))\<rparr>)"

function expire_loop :: "int \<Rightarrow> pmksa_cache \<Rightarrow> pmksa_cache" where
  "expire_loop now c =
     (case pmksa_list c of
        [] \<Rightarrow> c
      | e # _ \<Rightarrow> if e_expiration e \<le> now then expire_loop now (pmksa_cache_free_entry c e) else c)"
  by pat_completeness auto
termination
  by (relation "measure (\<lambda>(_, c). length (pmksa_list c))")
    (auto simp: pmksa_cache_free_entry_def Let_def)

declare expire_loop.simps [simp del]

definition pmksa_cache_expire :: "int \<Rightarrow> pmksa_cache \<Rightarrow> pmksa_cache" where
  "pmksa_cache_expire now c = pmksa_cache_set_expiration now (expire_loop now c)"

definition pmksa_cache_from_eapol_data :: "eapol_data option \<Rightarrow> pmksa_entry \<Rightarrow> pmksa_entry" where
  "pmksa_cache_from_eapol_data eapol e =
     (case eapol of
        None \<Rightarrow> e
      | Some d \<Rightarrow>
          e\<lparr>e_identity := (case ed_identity d of None \<Rightarrow> e_identity e | Some i \<Rightarrow> Some i),
            e_cui := (case ed_radius_cui d of None \<Rightarrow> e_cui e | Some u \<Rightarrow> Some u),
            e_radius_class := ed_radius_class d,
            e_eap_type_authsrv := ed_eap_type_authsrv d,
            e_vlan_id := ed_vlan_id d\<rparr>)"

definition pmksa_cache_to_eapol_data :: "pmksa_entry \<Rightarrow> eapol_data \<Rightarrow> eapol_data" where
  "pmksa_cache_to_eapol_data e d =
     d\<lparr>ed_identity := (case e_identity e of None \<Rightarrow> ed_identity d | Some i \<Rightarrow> Some i),
       ed_radius_cui := (case e_cui e of None \<Rightarrow> ed_radius_cui d | Some u \<Rightarrow> Some u),
       ed_radius_class := e_radius_class e,
       ed_eap_type_authsrv := e_eap_type_authsrv e,
       ed_vlan_id := e_vlan_id e\<rparr>"

fun link_by_expiration :: "pmksa_entry \<Rightarrow> pmksa_entry list \<Rightarrow> pmksa_entry list" where
  "link_by_expiration e [] = [e]"
| "link_by_expiration e (p # ps) =
     (if e_expiration p > e_expiration e then e # p # ps else p # link_by_expiration e ps)"

definition pmksa_cache_link_entry :: "int \<Rightarrow> pmksa_cache \<Rightarrow> pmksa_entry \<Rightarrow> pmksa_cache" where
  "pmksa_cache_link_entry now c e =
     (let first = (case pmksa_list c of [] \<Rightarrow> True | p # _ \<Rightarrow> e_expiration p > e_expiration e);
          h = PMKID_HASH (e_pmkid e);
          c = c\<lparr>pmksa_list := link_by_expiration e (pmksa_list c),
                pmkid_hash := (pmkid_hash c)[h := e # (pmkid_hash c ! h)],
                pmksa_count := pmksa_count c + 1\<rparr>
      in if first then pmksa_cache_set_expiration now c else c)"

text \<open>A null \<^verbatim>\<open>spa\<close> or \<^verbatim>\<open>pmkid\<close> matches every entry; without a PMKID the list is walked instead of a
  chain.\<close>

definition entry_matches :: "macaddr option \<Rightarrow> u8 list option \<Rightarrow> pmksa_entry \<Rightarrow> bool" where
  "entry_matches spa pid e \<longleftrightarrow>
     (case spa of None \<Rightarrow> True | Some a \<Rightarrow> e_spa e = a) \<and>
     (case pid of None \<Rightarrow> True | Some p \<Rightarrow> e_pmkid e = p)"

definition pmksa_cache_auth_get :: "pmksa_cache \<Rightarrow> macaddr option \<Rightarrow> u8 list option \<Rightarrow> pmksa_entry option" where
  "pmksa_cache_auth_get c spa pid =
     find (entry_matches spa pid)
       (case pid of Some p \<Rightarrow> pmkid_hash c ! PMKID_HASH p | None \<Rightarrow> pmksa_list c)"

text \<open>A fresh entry for a PMK shared with a station.\<close>

definition new_entry :: "wpa_env \<Rightarrow> int \<Rightarrow> nat \<Rightarrow> u8 list \<Rightarrow> macaddr \<Rightarrow> macaddr \<Rightarrow> int \<Rightarrow>
    eapol_data option \<Rightarrow> int \<Rightarrow> pmksa_entry" where
  "new_entry env now p pmk aa spa session_timeout eapol akmp =
     pmksa_cache_from_eapol_data eapol
       \<lparr>e_ptr = p, e_pmkid = rsn_pmkid env pmk aa spa, e_pmk = pmk,
        e_expiration = now + (if session_timeout > 0 then session_timeout
                              else dot11RSNAConfigPMKLifetime),
        e_akmp = akmp, e_spa = spa, e_identity = None, e_cui = None, e_radius_class = [],
        e_eap_type_authsrv = 0, e_vlan_id = 0, e_opportunistic = False\<rparr>"

text \<open>The station's previous entry, if there is one, goes first.\<close>

definition replace_old :: "macaddr \<Rightarrow> pmksa_cache \<Rightarrow> pmksa_cache" where
  "replace_old spa c =
     (case pmksa_cache_auth_get c (Some spa) None of
        Some old \<Rightarrow> pmksa_cache_free_entry c old | None \<Rightarrow> c)"

definition make_room :: "pmksa_cache \<Rightarrow> pmksa_cache" where
  "make_room c =
     (case pmksa_list c of
        [] \<Rightarrow> c
      | e # _ \<Rightarrow> if pmksa_count c \<ge> pmksa_cache_max_entries then pmksa_cache_free_entry c e else c)"

definition pmksa_cache_auth_add :: "wpa_env \<Rightarrow> int \<Rightarrow> nat \<Rightarrow> pmksa_cache \<Rightarrow> u8 list \<Rightarrow> macaddr \<Rightarrow> macaddr \<Rightarrow>
    int \<Rightarrow> eapol_data option \<Rightarrow> int \<Rightarrow> pmksa_entry option \<times> pmksa_cache" where
  "pmksa_cache_auth_add env now p c pmk aa spa session_timeout eapol akmp =
     (if length pmk > PMK_LEN then (None, c)
      else
        let e = new_entry env now p pmk aa spa session_timeout eapol akmp
        in (Some e, pmksa_cache_link_entry now (make_room (replace_old spa c)) e))"

definition pmksa_cache_add_okc :: "int \<Rightarrow> nat \<Rightarrow> pmksa_cache \<Rightarrow> pmksa_entry \<Rightarrow> u8 list \<Rightarrow>
    pmksa_entry \<times> pmksa_cache" where
  "pmksa_cache_add_okc now p c old pid =
     (let e = \<lparr>e_ptr = p, e_pmkid = pid, e_pmk = e_pmk old, e_expiration = e_expiration old,
               e_akmp = e_akmp old, e_spa = e_spa old, e_identity = e_identity old,
               e_cui = e_cui old, e_radius_class = e_radius_class old,
               e_eap_type_authsrv = e_eap_type_authsrv old, e_vlan_id = e_vlan_id old,
               e_opportunistic = True\<rparr>
      in (e, pmksa_cache_link_entry now c e))"

text \<open>The search for opportunistic key caching.  An entry of another station is skipped by
  \<^verbatim>\<open>continue\<close> before the walk has moved on, so the loop body is entered again with the same entry.\<close>

partial_function (option) okc_loop :: "wpa_env \<Rightarrow> macaddr \<Rightarrow> macaddr \<Rightarrow> u8 list \<Rightarrow> pmksa_entry list \<Rightarrow>
    pmksa_entry option option" where
  "okc_loop env aa spa pid es =
     (case es of
        [] \<Rightarrow> Some None
      | e # rest \<Rightarrow>
          if e_spa e \<noteq> spa then okc_loop env aa spa pid es
          else if rsn_pmkid env (e_pmk e) aa spa = pid then Some (Some e)
          else okc_loop env aa spa pid rest)"

definition pmksa_cache_get_okc :: "wpa_env \<Rightarrow> pmksa_cache \<Rightarrow> macaddr \<Rightarrow> macaddr \<Rightarrow> u8 list \<Rightarrow>
    pmksa_entry option option" where
  "pmksa_cache_get_okc env c aa spa pid = okc_loop env aa spa pid (pmksa_list c)"

definition pmksa_cache_auth_init :: pmksa_cache where
  "pmksa_cache_auth_init =
     \<lparr>pmkid_hash = replicate PMKID_HASH_SIZE [], pmksa_list = [], pmksa_count = 0,
      expire_at = None, sta_pmksa = (\<lambda>_. None)\<rparr>"

text \<open>The entry points of the authenticator (\<^verbatim>\<open>src/ap/wpa_auth.c\<close>); the result of the two that add is
  the C return code.\<close>

definition wpa_auth_pmksa_add :: "wpa_env \<Rightarrow> int \<Rightarrow> nat \<Rightarrow> wpa_sm option \<Rightarrow> u8 list \<Rightarrow> int \<Rightarrow>
    eapol_data option \<Rightarrow> pmksa_cache \<Rightarrow> int \<times> pmksa_cache" where
  "wpa_auth_pmksa_add env now p sm pmk session_timeout eapol c =
     (case sm of
        None \<Rightarrow> (-1, c)
      | Some sm \<Rightarrow>
          if sm_wpa sm \<noteq> WPA_VERSION_WPA2 \<or> disable_pmksa_caching (conf env) then (-1, c)
          else (case pmksa_cache_auth_add env now p c (take PMK_LEN pmk) (own_addr env) (sta_addr sm)
                       session_timeout eapol (sm_key_mgmt sm) of
                  (None, c) \<Rightarrow> (-1, c) | (Some _, c) \<Rightarrow> (0, c)))"

definition wpa_auth_pmksa_add_preauth :: "wpa_env \<Rightarrow> int \<Rightarrow> nat \<Rightarrow> u8 list \<Rightarrow> macaddr \<Rightarrow> int \<Rightarrow>
    eapol_data option \<Rightarrow> pmksa_cache \<Rightarrow> int \<times> pmksa_cache" where
  "wpa_auth_pmksa_add_preauth env now p pmk spa session_timeout eapol c =
     (case pmksa_cache_auth_add env now p c pmk (own_addr env) spa session_timeout eapol
             WPA_KEY_MGMT_IEEE8021X of
        (None, c) \<Rightarrow> (-1, c) | (Some _, c) \<Rightarrow> (0, c))"

definition wpa_auth_pmksa_remove :: "macaddr \<Rightarrow> pmksa_cache \<Rightarrow> pmksa_cache" where
  "wpa_auth_pmksa_remove spa c =
     (case pmksa_cache_auth_get c (Some spa) None of
        Some e \<Rightarrow> pmksa_cache_free_entry c e | None \<Rightarrow> c)"

text \<open>The pointer that the validation of an association element stores in the station's machine.\<close>

definition attach_pmksa :: "macaddr \<Rightarrow> u8 list \<Rightarrow> pmksa_cache \<Rightarrow> pmksa_cache" where
  "attach_pmksa a pid c =
     c\<lparr>sta_pmksa := (sta_pmksa c)(a := map_option e_ptr (pmksa_cache_auth_get c (Some a) (Some pid)))\<rparr>"

text \<open>What a station's machine reads of the entry it points to.\<close>

definition pmksa_get_ref :: "pmksa_cache \<Rightarrow> macaddr \<Rightarrow> u8 list \<Rightarrow> pmksa_ref option" where
  "pmksa_get_ref c a pid =
     map_option (\<lambda>e. \<lparr>pm_pmk = e_pmk e, pm_pmkid = e_pmkid e\<rparr>) (pmksa_cache_auth_get c (Some a) (Some pid))"

definition attach_okc :: "int \<Rightarrow> nat \<Rightarrow> macaddr \<Rightarrow> pmksa_entry \<Rightarrow> u8 list \<Rightarrow> pmksa_cache \<Rightarrow> pmksa_cache" where
  "attach_okc now p a old pid c =
     (let (e, c) = pmksa_cache_add_okc now p c old pid
      in c\<lparr>sta_pmksa := (sta_pmksa c)(a := Some (e_ptr e))\<rparr>)"

definition detach_pmksa :: "macaddr \<Rightarrow> pmksa_cache \<Rightarrow> pmksa_cache" where
  "detach_pmksa a c = c\<lparr>sta_pmksa := (sta_pmksa c)(a := None)\<rparr>"

section \<open>The invariant\<close>

text \<open>Both structures hold the same entries: every chain is the part of the list that hashes to it.\<close>

definition cache_wf :: "pmksa_cache \<Rightarrow> bool" where
  "cache_wf c \<longleftrightarrow>
     length (pmkid_hash c) = PMKID_HASH_SIZE \<and>
     distinct (map e_ptr (pmksa_list c)) \<and>
     sorted (map e_expiration (pmksa_list c)) \<and>
     pmksa_count c = int (length (pmksa_list c)) \<and>
     (\<forall>h < PMKID_HASH_SIZE. distinct (map e_ptr (pmkid_hash c ! h)) \<and>
        set (pmkid_hash c ! h) = {e \<in> set (pmksa_list c). PMKID_HASH (e_pmkid e) = h})"

definition live :: "pmksa_cache \<Rightarrow> pmksa_entry set" where
  "live c = set (pmksa_list c)"

text \<open>A station only refers to a live entry, and one of its own.\<close>

definition refs_live :: "pmksa_cache \<Rightarrow> bool" where
  "refs_live c \<longleftrightarrow> (\<forall>a p. sta_pmksa c a = Some p \<longrightarrow> (\<exists>e \<in> live c. e_ptr e = p \<and> e_spa e = a))"

text \<open>While there are entries the timer is armed, no later than a second after any of them expires
  or, for an entry that had already expired when the timer was set, than a second from now.\<close>

definition timer_ok :: "int \<Rightarrow> pmksa_cache \<Rightarrow> bool" where
  "timer_ok now c \<longleftrightarrow>
     (\<forall>e \<in> live c. \<exists>t. expire_at c = Some t \<and> t \<le> max (e_expiration e) now + 1)"

definition entry_ok :: "wpa_env \<Rightarrow> pmksa_entry \<Rightarrow> bool" where
  "entry_ok env e \<longleftrightarrow> e_pmkid e = rsn_pmkid env (e_pmk e) (own_addr env) (e_spa e)"

definition cache_inv :: "wpa_env \<Rightarrow> int \<Rightarrow> pmksa_cache \<Rightarrow> bool" where
  "cache_inv env now c \<longleftrightarrow>
     cache_wf c \<and> refs_live c \<and> timer_ok now c \<and> (\<forall>e \<in> live c. entry_ok env e)"

lemma PMKID_HASH_less [simp]: "PMKID_HASH p < PMKID_HASH_SIZE"
proof -
  have "(p ! 0 AND 0x7f) \<le> 0x7f" by (rule word_and_le1)
  then show ?thesis by (simp add: PMKID_HASH_def word_le_nat_alt)
qed

section \<open>Chains\<close>

lemma unlink_notin [simp]: "p \<notin> e_ptr ` set es \<Longrightarrow> unlink p es = es"
  by (induction es) auto

lemma set_unlink [simp]:
  "distinct (map e_ptr es) \<Longrightarrow> set (unlink p es) = {e \<in> set es. e_ptr e \<noteq> p}"
  by (induction es) (auto simp: image_iff)

lemma set_unlink_subset: "set (unlink p es) \<subseteq> set es"
  by (induction es) auto

lemma distinct_unlink [simp]: "distinct (map e_ptr es) \<Longrightarrow> distinct (map e_ptr (unlink p es))"
  using set_unlink_subset by (induction es) (fastforce simp: image_iff)+

lemma sorted_unlink [simp]:
  "sorted (map e_expiration es) \<Longrightarrow> sorted (map e_expiration (unlink p es))"
  using set_unlink_subset by (induction es) fastforce+

lemma length_unlink:
  "p \<in> e_ptr ` set es \<Longrightarrow> length es = Suc (length (unlink p es))"
  by (induction es) auto

lemma set_link_by_expiration [simp]: "set (link_by_expiration e es) = insert e (set es)"
  by (induction es) auto

lemma length_link_by_expiration [simp]: "length (link_by_expiration e es) = Suc (length es)"
  by (induction es) auto

lemma distinct_link_by_expiration [simp]:
  "distinct (map e_ptr (link_by_expiration e es)) \<longleftrightarrow>
     e_ptr e \<notin> e_ptr ` set es \<and> distinct (map e_ptr es)"
  by (induction es) auto

lemma sorted_link_by_expiration [simp]:
  "sorted (map e_expiration es) \<Longrightarrow> sorted (map e_expiration (link_by_expiration e es))"
  by (induction es) fastforce+

lemma distinct_ptr_eq:
  "distinct (map e_ptr es) \<Longrightarrow> d \<in> set es \<Longrightarrow> e \<in> set es \<Longrightarrow> e_ptr d = e_ptr e \<Longrightarrow> d = e"
  by (metis distinct_map inj_onD)

section \<open>Linking and freeing\<close>

lemma free_entry_sel [simp]:
  "pmksa_list (pmksa_cache_free_entry c e) = unlink (e_ptr e) (pmksa_list c)"
  "pmksa_count (pmksa_cache_free_entry c e) = pmksa_count c - 1"
  "expire_at (pmksa_cache_free_entry c e) = expire_at c"
  "sta_pmksa (pmksa_cache_free_entry c e) = wpa_auth_pmksa_free_cb (e_ptr e) (sta_pmksa c)"
  "length (pmkid_hash (pmksa_cache_free_entry c e)) = length (pmkid_hash c)"
  by (simp_all add: pmksa_cache_free_entry_def Let_def)

lemma set_expiration_sel [simp]:
  "pmksa_list (pmksa_cache_set_expiration now c) = pmksa_list c"
  "pmksa_count (pmksa_cache_set_expiration now c) = pmksa_count c"
  "sta_pmksa (pmksa_cache_set_expiration now c) = sta_pmksa c"
  "pmkid_hash (pmksa_cache_set_expiration now c) = pmkid_hash c"
  by (simp_all add: pmksa_cache_set_expiration_def Let_def split: list.split)

lemma link_entry_sel [simp]:
  "pmksa_list (pmksa_cache_link_entry now c e) = link_by_expiration e (pmksa_list c)"
  "pmksa_count (pmksa_cache_link_entry now c e) = pmksa_count c + 1"
  "sta_pmksa (pmksa_cache_link_entry now c e) = sta_pmksa c"
  "pmkid_hash (pmksa_cache_link_entry now c e) =
     (pmkid_hash c)[PMKID_HASH (e_pmkid e) := e # pmkid_hash c ! PMKID_HASH (e_pmkid e)]"
  by (simp_all add: pmksa_cache_link_entry_def Let_def)

lemma live_free: "cache_wf c \<Longrightarrow> e \<in> live c \<Longrightarrow> live (pmksa_cache_free_entry c e) = live c - {e}"
  by (auto simp: live_def cache_wf_def dest: distinct_ptr_eq)

lemma live_link: "live (pmksa_cache_link_entry now c e) = insert e (live c)"
  by (simp add: live_def)

lemma cache_wf_free:
  assumes wf: "cache_wf c" and e: "e \<in> live c"
  shows "cache_wf (pmksa_cache_free_entry c e)"
proof -
  let ?c = "pmksa_cache_free_entry c e" and ?h = "PMKID_HASH (e_pmkid e)"
  have chain: "pmkid_hash ?c ! h = (if h = ?h then unlink (e_ptr e) (pmkid_hash c ! h) else pmkid_hash c ! h)"
    if "h < PMKID_HASH_SIZE" for h
    using wf that by (auto simp: pmksa_cache_free_entry_def Let_def cache_wf_def)
  have "length (pmksa_list c) = Suc (length (unlink (e_ptr e) (pmksa_list c)))"
    using e by (intro length_unlink) (simp add: live_def)
  moreover have "set (pmkid_hash ?c ! h) = {d \<in> set (pmksa_list ?c). PMKID_HASH (e_pmkid d) = h}"
    if "h < PMKID_HASH_SIZE" for h
    using wf e that chain [OF that]
    by (auto simp: cache_wf_def live_def dest: distinct_ptr_eq)
  ultimately show ?thesis using wf chain by (auto simp: cache_wf_def)
qed

lemma cache_wf_link:
  assumes wf: "cache_wf c" and new: "e_ptr e \<notin> e_ptr ` live c"
  shows "cache_wf (pmksa_cache_link_entry now c e)"
proof -
  have "distinct (map e_ptr (e # pmkid_hash c ! PMKID_HASH (e_pmkid e)))"
    using wf new by (auto simp: cache_wf_def live_def)
  then show ?thesis using wf new by (auto simp: cache_wf_def live_def nth_list_update)
qed

lemma cache_wf_set_expiration [simp]: "cache_wf (pmksa_cache_set_expiration now c) = cache_wf c"
  by (simp add: cache_wf_def)

section \<open>Lookup\<close>

lemma get_chain:
  assumes "cache_wf c"
  shows "pmksa_cache_auth_get c a (Some p) = Some e \<Longrightarrow> e \<in> live c \<and> entry_matches a (Some p) e"
    and "pmksa_cache_auth_get c a (Some p) = None \<longleftrightarrow> (\<forall>e \<in> live c. \<not> entry_matches a (Some p) e)"
proof -
  have chain: "set (pmkid_hash c ! PMKID_HASH p) = {e \<in> live c. PMKID_HASH (e_pmkid e) = PMKID_HASH p}"
    using assms by (simp add: cache_wf_def live_def)
  show "e \<in> live c \<and> entry_matches a (Some p) e" if "pmksa_cache_auth_get c a (Some p) = Some e"
    using that chain nth_mem unfolding pmksa_cache_auth_get_def find_Some_iff by fastforce
  show "pmksa_cache_auth_get c a (Some p) = None \<longleftrightarrow> (\<forall>e \<in> live c. \<not> entry_matches a (Some p) e)"
    using chain by (auto simp: pmksa_cache_auth_get_def find_None_iff entry_matches_def)
qed

lemma get_list:
  "pmksa_cache_auth_get c a None = Some e \<Longrightarrow> e \<in> live c \<and> entry_matches a None e"
  "pmksa_cache_auth_get c a None = None \<longleftrightarrow> (\<forall>e \<in> live c. \<not> entry_matches a None e)"
  by (auto simp: pmksa_cache_auth_get_def find_Some_iff find_None_iff live_def)

lemma get_link:
  "cache_wf c \<Longrightarrow> pmksa_cache_auth_get (pmksa_cache_link_entry now c e) (Some (e_spa e)) (Some (e_pmkid e)) = Some e"
  by (simp add: pmksa_cache_auth_get_def cache_wf_def entry_matches_def)

end
