(* ===== verification/Entry_Store.thy ===== *)
theory Entry_Store
  imports Main
begin

text \<open>
  The contract of a table whose entries are linked into it, freed and looked up by a key: what the PMKSA
  cache and the station table promise to the code that uses them.  An entry has an address, by which the
  code tells entries apart, and a key, by which it searches; the laws speak of the set of entries only, so
  they hide the chains and lists behind it.
\<close>

locale entry_store =
  fixes ok :: "'s \<Rightarrow> bool"
    and entries :: "'s \<Rightarrow> 'e set"
    and key :: "'e \<Rightarrow> 'k"
    and addr :: "'e \<Rightarrow> 'p"
    and link :: "'s \<Rightarrow> 'e \<Rightarrow> 's"
    and free :: "'s \<Rightarrow> 'e \<Rightarrow> 's"
    and lookup :: "'s \<Rightarrow> 'k \<Rightarrow> 'e option"
  assumes ok_link: "ok s \<Longrightarrow> addr e \<notin> addr ` entries s \<Longrightarrow> ok (link s e)"
    and entries_link: "ok s \<Longrightarrow> entries (link s e) = insert e (entries s)"
    and ok_free: "ok s \<Longrightarrow> e \<in> entries s \<Longrightarrow> ok (free s e)"
    and entries_free: "ok s \<Longrightarrow> e \<in> entries s \<Longrightarrow> entries (free s e) = entries s - {e}"
    and lookup_sound: "ok s \<Longrightarrow> lookup s k = Some e \<Longrightarrow> e \<in> entries s \<and> key e = k"
    and lookup_complete: "ok s \<Longrightarrow> lookup s k = None \<Longrightarrow> e \<in> entries s \<Longrightarrow> key e \<noteq> k"
    and lookup_link: "ok s \<Longrightarrow> lookup (link s e) (key e) = Some e"
begin

lemma lookup_None_iff: "ok s \<Longrightarrow> lookup s k = None \<longleftrightarrow> k \<notin> key ` entries s"
  using lookup_sound [of s k] lookup_complete [of s k] by (cases "lookup s k") auto

lemma lookup_link_other:
  assumes "ok s" "addr e \<notin> addr ` entries s" "k \<noteq> key e"
  shows "lookup (link s e) k = None \<longleftrightarrow> lookup s k = None"
  using assms by (simp add: lookup_None_iff ok_link entries_link)

lemma lookup_freed:
  assumes "ok s" "e \<in> entries s"
  shows "lookup (free s e) k \<noteq> Some e"
  using assms lookup_sound [OF ok_free [OF assms]] by (auto simp: entries_free)

lemma replace:
  assumes "ok s" "old \<in> entries s" "addr e \<notin> addr ` entries s"
  shows "ok (link (free s old) e) \<and> entries (link (free s old) e) = insert e (entries s - {old})"
proof -
  have f: "ok (free s old)" "entries (free s old) = entries s - {old}"
    using assms by (simp_all add: ok_free entries_free)
  moreover have "addr e \<notin> addr ` entries (free s old)" using assms f by auto
  ultimately show ?thesis by (simp add: ok_link entries_link)
qed

end

text \<open>A table in which no two entries share a key: the lookup is then exact.\<close>

locale keyed_store = entry_store +
  assumes unique: "ok s \<Longrightarrow> d \<in> entries s \<Longrightarrow> e \<in> entries s \<Longrightarrow> key d = key e \<Longrightarrow> d = e"
begin

lemma lookup_Some_iff: "ok s \<Longrightarrow> lookup s k = Some e \<longleftrightarrow> e \<in> entries s \<and> key e = k"
  using lookup_sound [of s k] lookup_complete [of s k] unique [of s] by (cases "lookup s k") auto

lemma lookup_free:
  assumes "ok s" "e \<in> entries s"
  shows "lookup (free s e) k = (if k = key e then None else lookup s k)"
proof (cases "k = key e")
  case True
  then show ?thesis using assms unique [OF assms(1)] lookup_None_iff [OF ok_free [OF assms]]
    by (auto simp: entries_free)
next
  case False
  have "lookup (free s e) k = Some d \<longleftrightarrow> lookup s k = Some d" for d
    using assms False by (auto simp: lookup_Some_iff ok_free entries_free)
  then show ?thesis using False by (metis not_None_eq)
qed

lemma lookup_link_eq:
  assumes "ok s" "addr e \<notin> addr ` entries s"
  shows "lookup (link s e) k = (if k = key e then Some e else lookup s k)"
proof (cases "k = key e")
  case True
  then show ?thesis using assms lookup_link by simp
next
  case False
  have "lookup (link s e) k = Some d \<longleftrightarrow> lookup s k = Some d" for d
    using assms False by (auto simp: lookup_Some_iff ok_link entries_link)
  then show ?thesis using False by (metis not_None_eq)
qed

end

end
