(* ===== verification/Pmksa_Props.thy ===== *)
theory Pmksa_Props
  imports Pmksa_Cache Entry_Store
begin

text \<open>
  What the PMKSA cache promises: it keeps the contract of a store of entries, the states the operations of \<^verbatim>\<open>Pmksa_Cache\<close> lead to, and the properties of those states.
\<close>

section \<open>The cache is a store\<close>

definition entry_key :: "pmksa_entry \<Rightarrow> macaddr \<times> u8 list" where
  "entry_key e = (e_spa e, e_pmkid e)"

definition cache_lookup :: "pmksa_cache \<Rightarrow> macaddr \<times> u8 list \<Rightarrow> pmksa_entry option" where
  "cache_lookup c k = pmksa_cache_auth_get c (Some (fst k)) (Some (snd k))"

interpretation store: entry_store cache_wf live entry_key e_ptr "pmksa_cache_link_entry now"
    pmksa_cache_free_entry cache_lookup for now
proof unfold_locales
  show "cache_wf s \<Longrightarrow> cache_lookup s k = Some e \<Longrightarrow> e \<in> live s \<and> entry_key e = k" for s k e
    using get_chain(1) [of s "Some (fst k)" "snd k" e]
    by (cases k) (simp add: cache_lookup_def entry_matches_def entry_key_def)
  show "cache_wf s \<Longrightarrow> cache_lookup s k = None \<Longrightarrow> e \<in> live s \<Longrightarrow> entry_key e \<noteq> k" for s k e
    using get_chain(2) [of s "Some (fst k)" "snd k"]
    by (cases k) (auto simp: cache_lookup_def entry_matches_def entry_key_def)
  show "cache_wf s \<Longrightarrow> cache_lookup (pmksa_cache_link_entry now s e) (entry_key e) = Some e" for s e
    by (simp add: cache_lookup_def entry_key_def get_link)
qed (simp_all add: cache_wf_link live_link cache_wf_free live_free)

section \<open>The parts of the invariant\<close>

lemma refs_live_free:
  assumes "cache_wf c" "e \<in> live c" "refs_live c"
  shows "refs_live (pmksa_cache_free_entry c e)"
  using assms(3) unfolding refs_live_def live_free [OF assms(1,2)]
  by (auto simp: wpa_auth_pmksa_free_cb_def split: if_splits)

lemma timer_ok_free:
  "cache_wf c \<Longrightarrow> e \<in> live c \<Longrightarrow> timer_ok now c \<Longrightarrow> timer_ok now (pmksa_cache_free_entry c e)"
  by (simp add: timer_ok_def live_free)

lemma timer_ok_set_expiration:
  assumes "sorted (map e_expiration (pmksa_list c))"
  shows "timer_ok now (pmksa_cache_set_expiration now c)"
proof (cases "pmksa_list c")
  case Nil
  then show ?thesis by (simp add: timer_ok_def live_def)
next
  case (Cons h es)
  then have "e_expiration h \<le> e_expiration e" if "e \<in> live c" for e
    using assms that by (auto simp: live_def)
  then show ?thesis
    using Cons by (fastforce simp: timer_ok_def live_def pmksa_cache_set_expiration_def Let_def)
qed

lemma timer_ok_link:
  assumes wf: "cache_wf c" and t: "timer_ok now c"
  shows "timer_ok now (pmksa_cache_link_entry now c e)"
proof (cases "case pmksa_list c of [] \<Rightarrow> True | p # _ \<Rightarrow> e_expiration p > e_expiration e")
  case True
  then show ?thesis
    using wf unfolding pmksa_cache_link_entry_def Let_def
    by (simp add: timer_ok_set_expiration cache_wf_def)
next
  case False
  then obtain h es where l: "pmksa_list c = h # es" and le: "e_expiration h \<le> e_expiration e"
    by (auto split: list.splits)
  obtain t0 where "expire_at c = Some t0" "t0 \<le> max (e_expiration h) now + 1"
    using t l by (auto simp: timer_ok_def live_def)
  moreover have "expire_at (pmksa_cache_link_entry now c e) = expire_at c"
    using False by (simp add: pmksa_cache_link_entry_def Let_def)
  ultimately show ?thesis
    using t le by (auto simp: timer_ok_def live_link)
qed

lemma cache_inv_free [inv_intros]:
  "cache_inv env now c \<Longrightarrow> e \<in> live c \<Longrightarrow> cache_inv env now (pmksa_cache_free_entry c e)"
  by (simp add: cache_inv_def cache_wf_free refs_live_free timer_ok_free) (simp add: live_free)

lemma cache_inv_link [inv_intros]:
  "cache_inv env now c \<Longrightarrow> e_ptr e \<notin> e_ptr ` live c \<Longrightarrow> entry_ok env e \<Longrightarrow>
     cache_inv env now (pmksa_cache_link_entry now c e)"
  by (simp add: cache_inv_def cache_wf_link timer_ok_link live_link) (auto simp: refs_live_def live_link)

lemma cache_inv_set_expiration [inv_intros]:
  "cache_inv env now c \<Longrightarrow> cache_inv env now (pmksa_cache_set_expiration now c)"
  by (simp add: cache_inv_def timer_ok_set_expiration cache_wf_def) (simp add: refs_live_def live_def)

section \<open>Expiration\<close>

lemma expire_loop_inv: "cache_inv env now c \<Longrightarrow> cache_inv env now (expire_loop now c)"
proof (induction now c rule: expire_loop.induct)
  case (1 now c)
  then show ?case
    by (subst expire_loop.simps)
      (auto split: list.split intro!: 1 cache_inv_free simp: live_def)
qed

lemma expire_loop_list:
  "pmksa_list (expire_loop now c) = dropWhile (\<lambda>e. e_expiration e \<le> now) (pmksa_list c)"
proof (induction now c rule: expire_loop.induct)
  case (1 now c)
  then show ?case by (subst expire_loop.simps) (auto split: list.split)
qed

lemma dropWhile_sorted:
  "sorted (map e_expiration es) \<Longrightarrow>
     dropWhile (\<lambda>e. e_expiration e \<le> now) es = filter (\<lambda>e. e_expiration e > now) es"
proof (induction es)
  case (Cons a es)
  show ?case
  proof (cases "e_expiration a \<le> now")
    case False
    then have "filter (\<lambda>e. e_expiration e > now) es = es"
      using Cons.prems by (intro filter_True) fastforce
    then show ?thesis using False by simp
  qed (use Cons in simp)
qed simp

lemma live_expire:
  "cache_wf c \<Longrightarrow> live (pmksa_cache_expire now c) = {e \<in> live c. e_expiration e > now}"
  by (auto simp: live_def pmksa_cache_expire_def expire_loop_list dropWhile_sorted cache_wf_def)

section \<open>Adding\<close>

lemma live_replace_old: "cache_inv env now c \<Longrightarrow> cache_inv env now (replace_old a c) \<and> live (replace_old a c) \<subseteq> live c"
proof (cases "pmksa_cache_auth_get c (Some a) None")
  case (Some e)
  assume i: "cache_inv env now c"
  have "e \<in> live c" using Some get_list(1) by blast
  then show ?thesis
    using Some i cache_inv_free [OF i] live_free [of c e] by (auto simp: replace_old_def cache_inv_def)
qed (simp add: replace_old_def)

lemma live_make_room: "cache_inv env now c \<Longrightarrow> cache_inv env now (make_room c) \<and> live (make_room c) \<subseteq> live c"
  using set_unlink_subset
  by (auto simp: make_room_def live_def split: list.split intro!: cache_inv_free)

lemma new_entry_sel [simp]:
  "e_ptr (new_entry env now p pmk aa spa tm eapol akmp) = p"
  "e_pmkid (new_entry env now p pmk aa spa tm eapol akmp) = rsn_pmkid env pmk aa spa"
  "e_pmk (new_entry env now p pmk aa spa tm eapol akmp) = pmk"
  "e_spa (new_entry env now p pmk aa spa tm eapol akmp) = spa"
  "e_expiration (new_entry env now p pmk aa spa tm eapol akmp) =
     now + (if tm > 0 then tm else dot11RSNAConfigPMKLifetime)"
  by (simp_all add: new_entry_def pmksa_cache_from_eapol_data_def split: option.split)

lemma add_inv:
  assumes "cache_inv env now c" "p \<notin> e_ptr ` live c"
  shows "cache_inv env now (snd (pmksa_cache_auth_add env now p c pmk (own_addr env) a tm eapol akmp))"
proof -
  let ?d = "make_room (replace_old a c)"
  have "cache_inv env now ?d" "live ?d \<subseteq> live c"
    using live_replace_old [OF assms(1), of a] live_make_room [of env now "replace_old a c"] by auto
  then show ?thesis
    using assms unfolding pmksa_cache_auth_add_def Let_def
    by (auto simp: entry_ok_def intro!: cache_inv_link)
qed

section \<open>The states of the cache\<close>

text \<open>Every order of the operations, at times that never decrease.  The allocator returns an address that
  no live entry has, and an entry taken over by opportunistic key caching is one that the search of some
  cache returned.\<close>

inductive pmksa_reach :: "wpa_env \<Rightarrow> int \<Rightarrow> pmksa_cache \<Rightarrow> bool" for env where
  init: "pmksa_reach env now pmksa_cache_auth_init"
| time: "pmksa_reach env now c \<Longrightarrow> now \<le> now' \<Longrightarrow> pmksa_reach env now' c"
| add: "pmksa_reach env now c \<Longrightarrow> p \<notin> e_ptr ` live c \<Longrightarrow>
    pmksa_reach env now (snd (wpa_auth_pmksa_add env now p sm pmk tm eapol c))"
| add_preauth: "pmksa_reach env now c \<Longrightarrow> p \<notin> e_ptr ` live c \<Longrightarrow>
    pmksa_reach env now (snd (wpa_auth_pmksa_add_preauth env now p pmk a tm eapol c))"
| remove: "pmksa_reach env now c \<Longrightarrow> pmksa_reach env now (wpa_auth_pmksa_remove a c)"
| expire: "pmksa_reach env now c \<Longrightarrow> pmksa_reach env now (pmksa_cache_expire now c)"
| attach: "pmksa_reach env now c \<Longrightarrow> pmksa_reach env now (attach_pmksa a pid c)"
| attach_okc: "pmksa_reach env now c \<Longrightarrow> p \<notin> e_ptr ` live c \<Longrightarrow>
    pmksa_cache_get_okc env d (own_addr env) a pid = Some (Some old) \<Longrightarrow>
    pmksa_reach env now (attach_okc now p a old pid c)"
| detach: "pmksa_reach env now c \<Longrightarrow> pmksa_reach env now (detach_pmksa a c)"

lemma cache_inv_init: "cache_inv env now pmksa_cache_auth_init"
  by (simp add: cache_inv_def cache_wf_def refs_live_def timer_ok_def live_def pmksa_cache_auth_init_def)

lemma cache_inv_refs:
  "cache_inv env now c \<Longrightarrow> (\<And>a p. r a = Some p \<Longrightarrow> \<exists>e \<in> live c. e_ptr e = p \<and> e_spa e = a) \<Longrightarrow>
     cache_inv env now (c\<lparr>sta_pmksa := r\<rparr>)"
  by (simp add: cache_inv_def cache_wf_def refs_live_def timer_ok_def live_def)

lemma cache_inv_time: "cache_inv env now c \<Longrightarrow> now \<le> now' \<Longrightarrow> cache_inv env now' c"
  by (fastforce simp: cache_inv_def timer_ok_def)

lemma add_cases:
  assumes "\<And>pmk' a akmp. P (snd (pmksa_cache_auth_add env now p c pmk' (own_addr env) a tm eapol akmp))" "P c"
  shows "P (snd (wpa_auth_pmksa_add env now p sm pmk tm eapol c))"
    and "P (snd (wpa_auth_pmksa_add_preauth env now p pmk a tm eapol c))"
  using assms(1) [of "take PMK_LEN pmk" "sta_addr (the sm)" "sm_key_mgmt (the sm)"]
    assms(1) [of pmk a WPA_KEY_MGMT_IEEE8021X] assms(2)
  by (auto simp: wpa_auth_pmksa_add_def wpa_auth_pmksa_add_preauth_def split: option.split prod.split)

text \<open>What the search for opportunistic key caching returns, when it returns.\<close>

lemma okc_loop_returns:
  assumes "okc_loop env aa spa pid es = Some r"
  shows "es = [] \<or> e_spa (hd es) = spa"
  by (rule okc_loop.raw_induct [where P = "\<lambda>env aa spa pid es r. es = [] \<or> e_spa (hd es) = spa", OF _ assms])
    (fastforce split: list.splits if_splits)

lemma okc_loop_simps [simp]:
  "okc_loop env aa spa pid [] = Some None"
  "okc_loop env aa spa pid (e # es) =
     (if e_spa e \<noteq> spa then None
      else if rsn_pmkid env (e_pmk e) aa spa = pid then Some (Some e)
      else okc_loop env aa spa pid es)"
proof -
  show "okc_loop env aa spa pid [] = Some None" by (simp add: okc_loop.simps)
  show "okc_loop env aa spa pid (e # es) =
     (if e_spa e \<noteq> spa then None
      else if rsn_pmkid env (e_pmk e) aa spa = pid then Some (Some e)
      else okc_loop env aa spa pid es)"
    using okc_loop_returns [of env aa spa pid "e # es"] okc_loop.simps [of env aa spa pid "e # es"]
    by (cases "okc_loop env aa spa pid (e # es)") auto
qed

lemma okc_loop_sound:
  "okc_loop env aa spa pid es = Some (Some e) \<Longrightarrow>
     e \<in> set es \<and> e_spa e = spa \<and> rsn_pmkid env (e_pmk e) aa spa = pid"
  by (induction es) (auto split: if_splits)

lemma okc_loop_exact:
  "okc_loop env aa spa pid es =
     (let mine = takeWhile (\<lambda>e. e_spa e = spa) es in
      case find (\<lambda>e. rsn_pmkid env (e_pmk e) aa spa = pid) mine of
        Some e \<Rightarrow> Some (Some e)
      | None \<Rightarrow> if mine = es then Some None else None)"
  by (induction es) (auto simp: Let_def split: option.split)

lemma attach_okc_inv:
  assumes "cache_inv env now c" "p \<notin> e_ptr ` live c"
    "pmksa_cache_get_okc env d (own_addr env) a pid = Some (Some old)"
  shows "cache_inv env now (attach_okc now p a old pid c)"
proof -
  have old: "e_spa old = a" "rsn_pmkid env (e_pmk old) (own_addr env) a = pid"
    using okc_loop_sound [OF assms(3) [unfolded pmksa_cache_get_okc_def]] by simp_all
  define e where "e = fst (pmksa_cache_add_okc now p c old pid)"
  have e: "e_ptr e = p" "e_spa e = a" "entry_ok env e"
    using old by (simp_all add: e_def pmksa_cache_add_okc_def entry_ok_def Let_def)
  have l: "attach_okc now p a old pid c =
      (pmksa_cache_link_entry now c e)\<lparr>sta_pmksa := (sta_pmksa c)(a := Some p)\<rparr>"
    using e by (simp add: attach_okc_def e_def pmksa_cache_add_okc_def Let_def)
  have "cache_inv env now (pmksa_cache_link_entry now c e)"
    using assms e by (intro cache_inv_link) auto
  then show ?thesis
    unfolding l using assms(1) e
    by (intro cache_inv_refs) (auto simp: live_link cache_inv_def refs_live_def split: if_splits)
qed

lemma pmksa_reach_inv: "pmksa_reach env now c \<Longrightarrow> cache_inv env now c"
proof (induction rule: pmksa_reach.induct)
  case (add now c p sm pmk tm eapol)
  then show ?case by (intro add_cases(1) [where P = "cache_inv env now"] add_inv)
next
  case (add_preauth now c p pmk a tm eapol)
  then show ?case by (intro add_cases(2) [where P = "cache_inv env now"] add_inv)
next
  case (remove now c a)
  then show ?case using live_replace_old [of env now c a]
    by (simp add: wpa_auth_pmksa_remove_def replace_old_def)
next
  case (expire now c)
  then show ?case unfolding pmksa_cache_expire_def by (intro cache_inv_set_expiration expire_loop_inv)
next
  case (attach now c a pid)
  then show ?case unfolding attach_pmksa_def
    using get_chain(1) [of c "Some a" pid]
    by (intro cache_inv_refs) (auto simp: cache_inv_def refs_live_def entry_matches_def split: if_splits)
next
  case (detach now c a)
  then show ?case unfolding detach_pmksa_def
    by (intro cache_inv_refs) (auto simp: cache_inv_def refs_live_def split: if_splits)
qed (auto intro: cache_inv_init cache_inv_time attach_okc_inv)

section \<open>An example\<close>

text \<open>A cache with one entry, made by a preauthentication at time 100 for the lifetime of an hour.\<close>

abbreviation (input) example_spa :: macaddr where "example_spa \<equiv> [2, 0, 0, 0, 0, 2]"

definition example_entry :: pmksa_entry where
  "example_entry = new_entry example_env 100 1 (replicate 32 7) (own_addr example_env) example_spa 3600 None
     WPA_KEY_MGMT_IEEE8021X"

definition example_cache :: pmksa_cache where
  "example_cache = snd (wpa_auth_pmksa_add_preauth example_env 100 1 (replicate 32 7) example_spa 3600 None
     pmksa_cache_auth_init)"

lemma example_cache_add:
  "example_cache = snd (pmksa_cache_auth_add example_env 100 1 pmksa_cache_auth_init (replicate 32 7)
     (own_addr example_env) example_spa 3600 None WPA_KEY_MGMT_IEEE8021X)"
  by (simp add: example_cache_def wpa_auth_pmksa_add_preauth_def split: prod.split option.split)

lemma example_cache_list: "pmksa_list example_cache = [example_entry]"
  by (simp add: example_cache_add pmksa_cache_auth_add_def example_entry_def replace_old_def make_room_def
      pmksa_cache_auth_get_def pmksa_cache_auth_init_def Let_def)

lemma example_cache_live: "live example_cache = {example_entry}"
  by (simp add: live_def example_cache_list)

lemma example_reach: "pmksa_reach example_env 100 example_cache"
  unfolding example_cache_def
  by (rule pmksa_reach.add_preauth [OF pmksa_reach.init]) (simp add: live_def pmksa_cache_auth_init_def)

lemma example_pmkid: "rsn_pmkid example_env pmk aa spa = replicate 16 5"
  by (simp add: rsn_pmkid_def example_env_def)

section \<open>Properties\<close>

text \<open>C5. The PMKSA cache stays consistent under every order of its operations: the chains by PMKID hold
  exactly the listed entries, the list is ordered by expiration and counted, no station refers to a freed
  entry or to one of another station, the timer is armed for every entry, and every entry is filed under
  the PMKID that its key has for this access point and its station.\<close>

theorem pmksa_cache_consistent: "pmksa_reach env now c \<Longrightarrow> cache_inv env now c"
  by (rule pmksa_reach_inv)

theorem pmksa_cache_consistent_witness: "cache_inv example_env 100 example_cache"
  by (rule pmksa_cache_consistent [OF example_reach])

text \<open>C14. The lookup through the chains refines the search of the set of live entries: it finds an entry for a
  station and a PMKID exactly when there is one, it returns one, and the key it returns is the one that the
  PMKID identifies.\<close>

theorem pmksa_lookup_refines:
  assumes "pmksa_reach env now c"
  shows "case pmksa_cache_auth_get c (Some a) (Some pid) of
      None \<Rightarrow> \<not> (\<exists>e \<in> live c. e_spa e = a \<and> e_pmkid e = pid)
    | Some e \<Rightarrow> e \<in> live c \<and> e_spa e = a \<and> e_pmkid e = pid \<and> pid = rsn_pmkid env (e_pmk e) (own_addr env) a"
proof (cases "pmksa_cache_auth_get c (Some a) (Some pid)")
  case None
  then show ?thesis
    using store.lookup_complete [of c "(a, pid)"] pmksa_reach_inv [OF assms]
    by (auto simp: cache_inv_def cache_lookup_def entry_key_def)
next
  case (Some e)
  then show ?thesis
    using store.lookup_sound [of c "(a, pid)" e] pmksa_reach_inv [OF assms]
    by (auto simp: cache_inv_def cache_lookup_def entry_key_def entry_ok_def)
qed

theorem pmksa_lookup_refines_witness:
  "\<exists>e. pmksa_cache_auth_get example_cache (Some example_spa) (Some (replicate 16 5)) = Some e \<and>
     e_pmk e = replicate 32 7"
proof -
  have "\<exists>e \<in> live example_cache. e_spa e = example_spa \<and> e_pmkid e = replicate 16 5"
    by (simp add: example_cache_live example_entry_def example_pmkid)
  then show ?thesis
    using pmksa_lookup_refines [OF example_reach, of example_spa "replicate 16 5"]
    by (auto simp: example_cache_live example_entry_def split: option.splits)
qed

lemma replace_old_lost:
  assumes "d \<in> live c" "d \<notin> live (replace_old a c)" "cache_wf c"
  shows "e_spa d = a"
proof (cases "pmksa_cache_auth_get c (Some a) None")
  case (Some e)
  then have "e \<in> live c" "e_spa e = a" using get_list(1) [OF Some] by (auto simp: entry_matches_def)
  then show ?thesis using Some assms by (simp add: replace_old_def live_free)
qed (use assms in \<open>simp add: replace_old_def\<close>)

lemma make_room_lost:
  assumes "d \<in> live c" "d \<notin> live (make_room c)" "cache_wf c"
  shows "pmksa_count c \<ge> pmksa_cache_max_entries" "d' \<in> live c \<Longrightarrow> e_expiration d \<le> e_expiration d'"
  using assms by (auto simp: make_room_def live_def cache_wf_def split: list.splits if_splits)

lemma replace_old_count: "pmksa_count (replace_old a c) \<le> pmksa_count c"
  by (simp add: replace_old_def split: option.split)

text \<open>C32. A key that is added is found by the next association of the station under its PMKID, and adding it
  costs no other station its entry unless the cache is full, in which case only an entry that expires
  no later than all that stay is dropped.\<close>

theorem pmksa_add_lookup:
  assumes reach: "pmksa_reach env now c" and fresh: "p \<notin> e_ptr ` live c" and len: "length pmk \<le> PMK_LEN"
  shows "\<exists>e c'. pmksa_cache_auth_add env now p c pmk (own_addr env) a tm eapol akmp = (Some e, c') \<and>
      pmksa_cache_auth_get c' (Some a) (Some (rsn_pmkid env pmk (own_addr env) a)) = Some e \<and>
      e_pmk e = pmk \<and> live c' \<subseteq> insert e (live c) \<and>
      (\<forall>d \<in> live c - live c'. e_spa d = a \<or>
         pmksa_count c \<ge> pmksa_cache_max_entries \<and> (\<forall>d' \<in> live c' - {e}. e_expiration d \<le> e_expiration d'))"
proof -
  define e where "e = new_entry env now p pmk (own_addr env) a tm eapol akmp"
  let ?r = "replace_old a c"
  have i: "cache_inv env now c" by (rule pmksa_reach_inv [OF reach])
  have r: "cache_inv env now ?r" "live ?r \<subseteq> live c" using live_replace_old [OF i] by auto
  have m: "cache_inv env now (make_room ?r)" "live (make_room ?r) \<subseteq> live ?r" using live_make_room [OF r(1)] by auto
  let ?c' = "pmksa_cache_link_entry now (make_room ?r) e"
  have add: "pmksa_cache_auth_add env now p c pmk (own_addr env) a tm eapol akmp = (Some e, ?c')"
    using len by (simp add: pmksa_cache_auth_add_def e_def Let_def)
  have get: "pmksa_cache_auth_get ?c' (Some (e_spa e)) (Some (e_pmkid e)) = Some e"
    using m(1) store.lookup_link [of "make_room ?r" now e]
    by (simp add: cache_inv_def cache_lookup_def entry_key_def)
  have lost: "e_spa d = a \<or> pmksa_count c \<ge> pmksa_cache_max_entries \<and>
      (\<forall>d' \<in> live ?c' - {e}. e_expiration d \<le> e_expiration d')" if d: "d \<in> live c - live ?c'" for d
  proof (cases "d \<in> live ?r")
    case False
    then show ?thesis using replace_old_lost [of d c a] d i by (simp add: cache_inv_def)
  next
    case True
    then have "pmksa_count ?r \<ge> pmksa_cache_max_entries" "\<And>d'. d' \<in> live ?r \<Longrightarrow> e_expiration d \<le> e_expiration d'"
      using make_room_lost [of d ?r] d r(1) by (auto simp: live_link cache_inv_def)
    then show ?thesis using replace_old_count [of a c] m(2) by (auto simp: live_link)
  qed
  show ?thesis
    using add get lost r(2) m(2) by (intro exI [of _ e] exI [of _ ?c']) (auto simp: live_link e_def)
qed

theorem pmksa_add_lookup_witness:
  "\<exists>e c'. pmksa_cache_auth_add example_env 200 2 example_cache (replicate 32 9) (own_addr example_env)
       [2, 0, 0, 0, 0, 3] 0 None WPA_KEY_MGMT_IEEE8021X = (Some e, c') \<and> e_pmk e = replicate 32 9"
proof -
  have "pmksa_reach example_env 200 example_cache" by (rule pmksa_reach.time [OF example_reach]) simp
  then show ?thesis
    using pmksa_add_lookup [of example_env 200 example_cache 2 "replicate 32 9" "[2, 0, 0, 0, 0, 3]" 0 None
        WPA_KEY_MGMT_IEEE8021X]
    by (auto simp: example_cache_live example_entry_def)
qed

lemma refs_expire_loop:
  assumes "cache_wf c" "refs_live c"
  shows "sta_pmksa (expire_loop now c) a =
     (if \<exists>e \<in> live c. e_expiration e \<le> now \<and> sta_pmksa c a = Some (e_ptr e) then None else sta_pmksa c a)"
  using assms
proof (induction now c rule: expire_loop.induct)
  case (1 now c)
  show ?case
  proof (cases "pmksa_list c")
    case Nil
    then show ?thesis by (simp add: expire_loop.simps live_def)
  next
    case (Cons e es)
    then have e: "e \<in> live c" by (simp add: live_def)
    show ?thesis
    proof (cases "e_expiration e \<le> now")
      case True
      have "expire_loop now c = expire_loop now (pmksa_cache_free_entry c e)"
        using Cons True by (subst expire_loop.simps) simp
      then show ?thesis
        using 1(1) [OF Cons True cache_wf_free [OF 1(2) e] refs_live_free [OF 1(2) e 1(3)]] e True
        by (auto simp: live_free [OF 1(2) e] wpa_auth_pmksa_free_cb_def)
    next
      case False
      then have "\<forall>d \<in> live c. e_expiration d > now"
        using 1(2) Cons by (fastforce simp: cache_wf_def live_def)
      then show ?thesis using Cons False by (subst expire_loop.simps) fastforce
    qed
  qed
qed

text \<open>C33. When the timer fires exactly the expired entries are gone, a station keeps its reference unless its
  entry expired, and for every entry left the timer is armed again, later than now and at most a second
  after the entry expires: no entry outlives its lifetime by more than a second while the timer is served.\<close>

theorem pmksa_expire_exact:
  assumes "pmksa_reach env now c"
  shows "live (pmksa_cache_expire now c) = {e \<in> live c. e_expiration e > now} \<and>
    sta_pmksa (pmksa_cache_expire now c) a =
      (if \<exists>e \<in> live c. e_expiration e \<le> now \<and> sta_pmksa c a = Some (e_ptr e) then None else sta_pmksa c a) \<and>
    (\<forall>e \<in> live (pmksa_cache_expire now c).
       \<exists>t. expire_at (pmksa_cache_expire now c) = Some t \<and> now < t \<and> t \<le> e_expiration e + 1)"
proof -
  have i: "cache_wf c" "refs_live c" using pmksa_reach_inv [OF assms] by (simp_all add: cache_inv_def)
  have "timer_ok now (pmksa_cache_expire now c)"
    using pmksa_reach_inv [OF pmksa_reach.expire [OF assms]] by (simp add: cache_inv_def)
  moreover have "now < t" if "expire_at (pmksa_cache_expire now c) = Some t" for t
    using that by (auto simp: pmksa_cache_expire_def pmksa_cache_set_expiration_def Let_def split: list.splits if_splits)
  ultimately have "\<forall>e \<in> live (pmksa_cache_expire now c).
       \<exists>t. expire_at (pmksa_cache_expire now c) = Some t \<and> now < t \<and> t \<le> e_expiration e + 1"
    using live_expire [OF i(1)] by (fastforce simp: timer_ok_def)
  then show ?thesis
    using live_expire [OF i(1)] refs_expire_loop [OF i] by (simp add: pmksa_cache_expire_def)
qed

theorem pmksa_expire_exact_witness:
  "live (pmksa_cache_expire 3700 example_cache) = {} \<and> live (pmksa_cache_expire 3699 example_cache) = {example_entry}"
proof -
  have r: "pmksa_reach example_env 3700 example_cache" "pmksa_reach example_env 3699 example_cache"
    by (rule pmksa_reach.time [OF example_reach], simp)+
  show ?thesis
    using pmksa_expire_exact [OF r(1), of example_spa] pmksa_expire_exact [OF r(2), of example_spa]
    by (simp add: example_cache_live Collect_conv_if) (simp add: example_entry_def)
qed

lemma first_such_Cons:
  "(\<exists>pre e post. x # xs = pre @ e # post \<and> P e \<and> (\<forall>d. d \<in> set pre \<longrightarrow> Q d)) \<longleftrightarrow>
     P x \<or> Q x \<and> (\<exists>pre e post. xs = pre @ e # post \<and> P e \<and> (\<forall>d. d \<in> set pre \<longrightarrow> Q d))"
  (is "?l \<longleftrightarrow> P x \<or> Q x \<and> ?r")
proof
  assume ?l
  then obtain pre e post where b: "x # xs = pre @ e # post" "P e" "\<forall>d. d \<in> set pre \<longrightarrow> Q d" by blast
  then show "P x \<or> Q x \<and> ?r" by (cases pre) auto
next
  assume "P x \<or> Q x \<and> ?r"
  then show ?l
  proof
    assume "P x"
    then show ?l by (intro exI [of _ "[]"]) simp
  next
    assume "Q x \<and> ?r"
    then obtain pre e post where "Q x" "xs = pre @ e # post" "P e" "\<forall>d. d \<in> set pre \<longrightarrow> Q d" by blast
    then show ?l by (intro exI [of _ "x # pre"] exI [of _ e] exI [of _ post]) simp
  qed
qed

lemma okc_loop_diverges:
  "okc_loop env aa spa pid es = None \<longleftrightarrow>
     (\<exists>pre e post. es = pre @ e # post \<and> e_spa e \<noteq> spa \<and>
        (\<forall>d. d \<in> set pre \<longrightarrow> e_spa d = spa \<and> rsn_pmkid env (e_pmk d) aa spa \<noteq> pid))"
proof (induction es)
  case (Cons x xs)
  show ?case unfolding first_such_Cons Cons [symmetric] by simp
qed simp

text \<open>C31. The search for opportunistic key caching does not return exactly when it meets an entry of another
  station before one that matches: the skipped entry is looked at again for ever.\<close>

theorem okc_search_diverges:
  "pmksa_cache_get_okc env c aa spa pid = None \<longleftrightarrow>
     (\<exists>pre e post. pmksa_list c = pre @ e # post \<and> e_spa e \<noteq> spa \<and>
        (\<forall>d. d \<in> set pre \<longrightarrow> e_spa d = spa \<and> rsn_pmkid env (e_pmk d) aa spa \<noteq> pid))"
  unfolding pmksa_cache_get_okc_def by (rule okc_loop_diverges)

theorem okc_search_diverges_witness:
  "pmksa_cache_get_okc example_env example_cache (own_addr example_env) [2, 0, 0, 0, 0, 3] (replicate 16 5) = None"
  unfolding okc_search_diverges
  by (rule exI [of _ "[]"]) (simp add: example_cache_list example_entry_def)

lemma find_pmksa_Some: "find_pmksa get ps = Some (p, r) \<Longrightarrow> p \<in> set ps \<and> get p = Some r"
  by (induction ps) (auto split: option.splits)

lemma validate_pmksa:
  assumes "wpa_validate_wpa_ie env get get_okc ie mdie (sm, mib) = (WPA_IE_OK, sm', mib')"
    and "pmksa sm' = Some r" and "\<not> okc (conf env)"
  shows "\<exists>pid. get pid = Some r"
proof -
  define data where "data = snd (if rsn_element ie then wpa_parse_wpa_ie_rsn ie else wpa_parse_wpa_ie_wpa ie)"
  have v: "WPA_PROTO_RSN \<noteq> WPA_PROTO_WPA" by (simp add: WPA_PROTO_RSN_def WPA_PROTO_WPA_def)
  have "map_option snd (select_pmksa False get get_okc (ie_pmkids data)) = Some r"
    using assms v unfolding wpa_validate_wpa_ie_def Let_def case_prod_beta rsn_element_def data_def
    by (auto split: if_splits)
  then show ?thesis
    using find_pmksa_Some by (fastforce simp: select_pmksa_def split: option.splits prod.splits)
qed


definition example_ie :: "u8 list" where
  "example_ie = the (wpa_write_rsn_ie example_conf 128 (Some (replicate 16 5)))"


end
