(* ===== verification/Acl.thy ===== *)
theory Acl
  imports Utils "HOL-Library.List_Lexorder" "HOL-Library.Multiset"
begin

text \<open>
  Access control by MAC address: the accept and deny lists, read from files and searched by bisection
  (\<^verbatim>\<open>hostapd/config_file.c\<close>, \<^verbatim>\<open>src/ap/ap_config.c\<close>), and the decision for a station with the cache
  of answers of an external RADIUS server (\<^verbatim>\<open>src/ap/ieee802_11_auth.c\<close>).

  Reading a file is a list of the lines that \<^verbatim>\<open>fgets\<close> returns, sorting is an argument (the C library's
  \<^verbatim>\<open>qsort\<close>, which must return a sorted permutation), and the content of a RADIUS message is a record of
  the attributes the code reads from it.
\<close>

section \<open>Address lists\<close>

record mac_acl_entry =
  acl_addr :: macaddr
  acl_vlan_id :: int

text \<open>The sign of the C library's byte comparison of two buffers of equal length.\<close>

fun os_memcmp :: "u8 list \<Rightarrow> u8 list \<Rightarrow> int" where
  "os_memcmp (a # as) (b # bs) = (if a = b then os_memcmp as bs else if a < b then -1 else 1)"
| "os_memcmp _ _ = 0"

function maclist_loop :: "mac_acl_entry list \<Rightarrow> macaddr \<Rightarrow> int \<Rightarrow> int \<Rightarrow> int option" where
  "maclist_loop list addr start last_i =
     (if start \<le> last_i then
        let middle = (start + last_i) div 2;
            res = os_memcmp (acl_addr (list ! nat middle)) addr
        in if res = 0 then Some (acl_vlan_id (list ! nat middle))
           else if res < 0 then maclist_loop list addr (middle + 1) last_i
           else maclist_loop list addr start (middle - 1)
      else None)"
  by pat_completeness auto
termination
  by (relation "measure (\<lambda>(_, _, s, e). nat (e - s + 1))") auto

declare maclist_loop.simps [simp del]

text \<open>The VLAN identifier of the entry when the address is in the list.\<close>

definition hostapd_maclist_found :: "mac_acl_entry list \<Rightarrow> macaddr \<Rightarrow> int option" where
  "hostapd_maclist_found list addr = maclist_loop list addr 0 (int (length list) - 1)"

text \<open>The C library's \<^verbatim>\<open>atoi\<close>: white space, a sign, digits.\<close>

definition is_space :: "u8 \<Rightarrow> bool" where
  "is_space c \<longleftrightarrow> c \<in> {0x20, 0x09, 0x0a, 0x0b, 0x0c, 0x0d}"

fun digits_val :: "int \<Rightarrow> u8 list \<Rightarrow> int" where
  "digits_val acc [] = acc"
| "digits_val acc (c # cs) = (if 0x30 \<le> c \<and> c \<le> 0x39 then digits_val (10 * acc + (uint c - 48)) cs else acc)"

definition atoi :: "u8 list \<Rightarrow> int" where
  "atoi s =
     (case dropWhile is_space s of
        [] \<Rightarrow> 0
      | c # cs \<Rightarrow> if c = 0x2d then - digits_val 0 cs else if c = 0x2b then digits_val 0 cs
                  else digits_val 0 (c # cs))"

definition is_blank :: "u8 \<Rightarrow> bool" where
  "is_blank c \<longleftrightarrow> c = 0x20 \<or> c = 0x09"

text \<open>One line of the file; \<^term>\<open>None\<close> for a comment or an empty line.\<close>

definition maclist_line :: "u8 list \<Rightarrow> (unit + mac_acl_entry) option" where
  "maclist_line line =
     (if deref line = 0x23 then None
      else
        let buf = takeWhile (\<lambda>c. c \<noteq> 0x0a) line in
        if buf = [] then None
        else case hwaddr_aton buf of
          (r, addr) \<Rightarrow>
            if r \<noteq> 0 then Some (Inl ())
            else
              let pos = dropWhile is_blank (dropWhile (\<lambda>c. \<not> is_blank c) buf)
              in Some (Inr \<lparr>acl_addr = addr, acl_vlan_id = (if pos \<noteq> [] then atoi pos else 0)\<rparr>))"

fun maclist_lines :: "u8 list list \<Rightarrow> mac_acl_entry list \<Rightarrow> mac_acl_entry list option" where
  "maclist_lines [] acl = Some acl"
| "maclist_lines (l # ls) acl =
     (case maclist_line l of
        None \<Rightarrow> maclist_lines ls acl
      | Some (Inl _) \<Rightarrow> None
      | Some (Inr e) \<Rightarrow> maclist_lines ls (acl @ [e]))"

definition hostapd_config_read_maclist :: "(mac_acl_entry list \<Rightarrow> mac_acl_entry list) \<Rightarrow> u8 list list \<Rightarrow>
    mac_acl_entry list \<Rightarrow> mac_acl_entry list option" where
  "hostapd_config_read_maclist qsort lines acl = map_option qsort (maclist_lines lines acl)"

section \<open>The decision\<close>

datatype acl_result = HOSTAPD_ACL_REJECT | HOSTAPD_ACL_ACCEPT | HOSTAPD_ACL_PENDING | HOSTAPD_ACL_ACCEPT_TIMEOUT

datatype macaddr_acl_policy = ACCEPT_UNLESS_DENIED | DENY_UNLESS_ACCEPTED | USE_EXTERNAL_RADIUS_AUTH

text \<open>What the decision returns beside the result.\<close>

record acl_info =
  ai_session_timeout :: u32
  ai_acct_interim_interval :: u32
  ai_vlan_id :: int
  ai_psk :: "u8 list list"
  ai_identity :: "u8 list option"
  ai_radius_cui :: "u8 list option"

definition acl_info_zero :: acl_info where
  "acl_info_zero = \<lparr>ai_session_timeout = 0, ai_acct_interim_interval = 0, ai_vlan_id = 0, ai_psk = [],
     ai_identity = None, ai_radius_cui = None\<rparr>"

record hostapd_cached_radius_acl =
  ca_timestamp :: int
  ca_addr :: macaddr
  ca_accepted :: acl_result
  ca_info :: acl_info

record hostapd_acl_query_data =
  q_timestamp :: int
  q_radius_id :: u8
  q_addr :: macaddr
  q_auth_msg :: "u8 list"

record acl_conf =
  accept_mac :: "mac_acl_entry list"
  deny_mac :: "mac_acl_entry list"
  macaddr_acl :: macaddr_acl_policy
  auth_server :: bool
  psk_radius_required :: bool

record acl_state =
  acl_cache :: "hostapd_cached_radius_acl list"
  acl_queries :: "hostapd_acl_query_data list"

abbreviation RADIUS_ACL_TIMEOUT :: int where "RADIUS_ACL_TIMEOUT \<equiv> 30"

text \<open>\<^term>\<open>None\<close> is the result \<^verbatim>\<open>-1\<close>: no entry, or an expired one.\<close>

definition hostapd_acl_cache_get :: "int \<Rightarrow> acl_state \<Rightarrow> macaddr \<Rightarrow> (acl_result \<times> acl_info) option" where
  "hostapd_acl_cache_get now s addr =
     (case find (\<lambda>e. ca_addr e = addr) (acl_cache s) of
        None \<Rightarrow> None
      | Some e \<Rightarrow>
          if now - ca_timestamp e > RADIUS_ACL_TIMEOUT then None
          else Some (ca_accepted e,
            (ca_info e)\<lparr>ai_session_timeout :=
               (if ca_accepted e = HOSTAPD_ACL_ACCEPT_TIMEOUT then ai_session_timeout (ca_info e) else 0)\<rparr>))"

text \<open>A query of the server; \<^term>\<open>query\<close> is the identifier of the message sent, if it could be sent.\<close>

definition radius_acl :: "acl_conf \<Rightarrow> int \<Rightarrow> u8 option \<Rightarrow> macaddr \<Rightarrow> u8 list \<Rightarrow> acl_state \<Rightarrow>
    (acl_result \<times> acl_info) \<times> acl_state" where
  "radius_acl cf now query addr msg s =
     (let cached = hostapd_acl_cache_get now s addr;
          info = (case cached of Some (_, i) \<Rightarrow> i | None \<Rightarrow> acl_info_zero)
      in case map_option fst cached of
           Some HOSTAPD_ACL_ACCEPT \<Rightarrow> ((HOSTAPD_ACL_ACCEPT, info), s)
         | Some HOSTAPD_ACL_ACCEPT_TIMEOUT \<Rightarrow> ((HOSTAPD_ACL_ACCEPT_TIMEOUT, info), s)
         | Some HOSTAPD_ACL_REJECT \<Rightarrow> ((HOSTAPD_ACL_REJECT, info), s)
         | _ \<Rightarrow>
             if \<exists>q \<in> set (acl_queries s). q_addr q = addr then
               ((HOSTAPD_ACL_PENDING, info\<lparr>ai_identity := None, ai_radius_cui := None\<rparr>), s)
             else if \<not> auth_server cf then ((HOSTAPD_ACL_REJECT, info), s)
             else case query of
               None \<Rightarrow> ((HOSTAPD_ACL_REJECT, info), s)
             | Some i \<Rightarrow>
                 ((HOSTAPD_ACL_PENDING, info),
                  s\<lparr>acl_queries := \<lparr>q_timestamp = now, q_radius_id = i, q_addr = addr, q_auth_msg = msg\<rparr> #
                    acl_queries s\<rparr>))"

definition hostapd_allowed_address :: "acl_conf \<Rightarrow> int \<Rightarrow> u8 option \<Rightarrow> macaddr \<Rightarrow> u8 list \<Rightarrow> acl_state \<Rightarrow>
    (acl_result \<times> acl_info) \<times> acl_state" where
  "hostapd_allowed_address cf now query addr msg s =
     (case hostapd_maclist_found (accept_mac cf) addr of
        Some v \<Rightarrow> ((HOSTAPD_ACL_ACCEPT, acl_info_zero\<lparr>ai_vlan_id := v\<rparr>), s)
      | None \<Rightarrow>
          case hostapd_maclist_found (deny_mac cf) addr of
            Some v \<Rightarrow> ((HOSTAPD_ACL_REJECT, acl_info_zero\<lparr>ai_vlan_id := v\<rparr>), s)
          | None \<Rightarrow>
              case macaddr_acl cf of
                ACCEPT_UNLESS_DENIED \<Rightarrow> ((HOSTAPD_ACL_ACCEPT, acl_info_zero), s)
              | DENY_UNLESS_ACCEPTED \<Rightarrow> ((HOSTAPD_ACL_REJECT, acl_info_zero), s)
              | USE_EXTERNAL_RADIUS_AUTH \<Rightarrow> radius_acl cf now query addr msg s)"

section \<open>Expiration and answers\<close>

definition hostapd_acl_expire_cache :: "int \<Rightarrow> acl_state \<Rightarrow> acl_state" where
  "hostapd_acl_expire_cache now s =
     s\<lparr>acl_cache := filter (\<lambda>e. \<not> now - ca_timestamp e > RADIUS_ACL_TIMEOUT) (acl_cache s)\<rparr>"

definition hostapd_acl_expire_queries :: "int \<Rightarrow> acl_state \<Rightarrow> acl_state" where
  "hostapd_acl_expire_queries now s =
     s\<lparr>acl_queries := filter (\<lambda>q. \<not> now - q_timestamp q > RADIUS_ACL_TIMEOUT) (acl_queries s)\<rparr>"

definition hostapd_acl_expire :: "int \<Rightarrow> acl_state \<Rightarrow> acl_state" where
  "hostapd_acl_expire now s = hostapd_acl_expire_queries now (hostapd_acl_expire_cache now s)"

datatype radius_code = RADIUS_CODE_ACCESS_ACCEPT | RADIUS_CODE_ACCESS_REJECT | RADIUS_CODE_OTHER

record radius_reply =
  rr_identifier :: u8
  rr_code :: radius_code
  rr_verified :: bool
  rr_session_timeout :: "u32 option"
  rr_acct_interim_interval :: "u32 option"
  rr_vlan_id :: int
  rr_tunnel_psks :: "u8 list list"
  rr_user_name :: "u8 list option"
  rr_cui :: "u8 list option"

datatype radius_rx_result = RADIUS_RX_PROCESSED | RADIUS_RX_UNKNOWN | RADIUS_RX_INVALID_AUTHENTICATOR

text \<open>The tunnel passwords are put in front of the list one after the other.\<close>

definition acl_cache_entry :: "acl_conf \<Rightarrow> int \<Rightarrow> macaddr \<Rightarrow> radius_reply \<Rightarrow> hostapd_cached_radius_acl" where
  "acl_cache_entry cf now addr msg =
     (if rr_code msg = RADIUS_CODE_ACCESS_ACCEPT then
        \<lparr>ca_timestamp = now, ca_addr = addr,
         ca_accepted =
           (if psk_radius_required cf \<and> rr_tunnel_psks msg = [] then HOSTAPD_ACL_REJECT
            else if rr_session_timeout msg \<noteq> None then HOSTAPD_ACL_ACCEPT_TIMEOUT else HOSTAPD_ACL_ACCEPT),
         ca_info =
           \<lparr>ai_session_timeout = (case rr_session_timeout msg of Some t \<Rightarrow> t | None \<Rightarrow> 0),
            ai_acct_interim_interval = (case rr_acct_interim_interval msg of
               Some i \<Rightarrow> if i < 60 then 0 else i | None \<Rightarrow> 0),
            ai_vlan_id = rr_vlan_id msg, ai_psk = rev (rr_tunnel_psks msg),
            ai_identity = rr_user_name msg, ai_radius_cui = rr_cui msg\<rparr>\<rparr>
      else
        \<lparr>ca_timestamp = now, ca_addr = addr, ca_accepted = HOSTAPD_ACL_REJECT, ca_info = acl_info_zero\<rparr>)"

fun del_query :: "u8 \<Rightarrow> hostapd_acl_query_data list \<Rightarrow> hostapd_acl_query_data list" where
  "del_query i [] = []"
| "del_query i (q # qs) = (if q_radius_id q = i then qs else q # del_query i qs)"

text \<open>The second result is the authentication frame that is handled again.\<close>

definition hostapd_acl_recv_radius :: "acl_conf \<Rightarrow> int \<Rightarrow> radius_reply \<Rightarrow> acl_state \<Rightarrow>
    radius_rx_result \<times> u8 list option \<times> acl_state" where
  "hostapd_acl_recv_radius cf now msg s =
     (case find (\<lambda>q. q_radius_id q = rr_identifier msg) (acl_queries s) of
        None \<Rightarrow> (RADIUS_RX_UNKNOWN, None, s)
      | Some q \<Rightarrow>
          if \<not> rr_verified msg then (RADIUS_RX_INVALID_AUTHENTICATOR, None, s)
          else if rr_code msg = RADIUS_CODE_OTHER then (RADIUS_RX_UNKNOWN, None, s)
          else (RADIUS_RX_PROCESSED, Some (q_auth_msg q),
                s\<lparr>acl_cache := acl_cache_entry cf now (q_addr q) msg # acl_cache s,
                  acl_queries := del_query (rr_identifier msg) (acl_queries s)\<rparr>))"

section \<open>Bisection\<close>

lemma os_memcmp_order:
  "length a = length b \<Longrightarrow> os_memcmp a b = (if a = b then 0 else if a < b then -1 else 1)"
  by (induction a b rule: list_induct2) auto

lemma maclist_loop_spec:
  assumes "sorted (map acl_addr list)" "\<forall>e \<in> set list. length (acl_addr e) = length addr"
    "0 \<le> start" "last_i < int (length list)"
    "\<forall>i < length list. acl_addr (list ! i) = addr \<longrightarrow> start \<le> int i \<and> int i \<le> last_i"
  shows "case maclist_loop list addr start last_i of
      Some v \<Rightarrow> \<exists>e \<in> set list. acl_addr e = addr \<and> acl_vlan_id e = v
    | None \<Rightarrow> addr \<notin> acl_addr ` set list"
  using assms
proof (induction list addr start last_i rule: maclist_loop.induct)
  case (1 list addr start last_i)
  note sorted = 1(3) and lens = 1(4) and lo = 1(5) and hi = 1(6) and range = 1(7)
  show ?case
  proof (cases "start \<le> last_i")
    case False
    then have "addr \<notin> acl_addr ` set list" using range by (fastforce simp: in_set_conv_nth)
    then show ?thesis using False by (simp add: maclist_loop.simps [of list addr start last_i])
  next
    case True
    define m where "m = (start + last_i) div 2"
    have m: "0 \<le> m" "start \<le> m" "m \<le> last_i" using True lo by (auto simp: m_def)
    then have mi: "nat m < length list" using hi by simp
    let ?k = "acl_addr (list ! nat m)"
    have cmp: "os_memcmp ?k addr = (if ?k = addr then 0 else if ?k < addr then -1 else 1)"
      using lens mi by (intro os_memcmp_order) simp
    have le: "acl_addr (list ! i) \<le> acl_addr (list ! j)" if "i \<le> j" "j < length list" for i j
      using sorted_nth_mono [OF sorted, of i j] that by simp
    consider "?k = addr" | "?k < addr" | "addr < ?k" by force
    then show ?thesis
    proof cases
      case 1
      then show ?thesis using True cmp mi
        by (auto simp: maclist_loop.simps [of list addr start last_i] m_def [symmetric] Let_def)
    next
      case 2
      have "m + 1 \<le> int i \<and> int i \<le> last_i" if "i < length list" "acl_addr (list ! i) = addr" for i
        using range that le [of i "nat m"] 2 mi by (cases "i \<le> nat m") auto
      then have "case maclist_loop list addr (m + 1) last_i of
          Some v \<Rightarrow> \<exists>e \<in> set list. acl_addr e = addr \<and> acl_vlan_id e = v
        | None \<Rightarrow> addr \<notin> acl_addr ` set list"
        using 1(1) [OF True m_def refl] 2 cmp sorted lens m hi by (auto simp: m_def)
      moreover have "?k \<noteq> addr" using 2 by auto
      ultimately show ?thesis using True cmp 2
        by (simp add: maclist_loop.simps [of list addr start last_i] m_def [symmetric] Let_def)
    next
      case 3
      then have ne: "\<not> ?k < addr" "?k \<noteq> addr" by auto
      have "start \<le> int i \<and> int i \<le> m - 1" if "i < length list" "acl_addr (list ! i) = addr" for i
        using range that le [of "nat m" i] 3 by (cases "nat m \<le> i") auto
      then have "case maclist_loop list addr start (m - 1) of
          Some v \<Rightarrow> \<exists>e \<in> set list. acl_addr e = addr \<and> acl_vlan_id e = v
        | None \<Rightarrow> addr \<notin> acl_addr ` set list"
        using 1(2) [OF True m_def refl] ne cmp sorted lens lo m hi by (auto simp: m_def)
      then show ?thesis using True cmp ne
        by (simp add: maclist_loop.simps [of list addr start last_i] m_def [symmetric] Let_def)
    qed
  qed
qed

lemma maclist_found_spec:
  assumes "sorted (map acl_addr list)" "\<forall>e \<in> set list. length (acl_addr e) = length addr"
  shows "case hostapd_maclist_found list addr of
      Some v \<Rightarrow> \<exists>e \<in> set list. acl_addr e = addr \<and> acl_vlan_id e = v
    | None \<Rightarrow> addr \<notin> acl_addr ` set list"
  unfolding hostapd_maclist_found_def by (rule maclist_loop_spec [OF assms]) auto

section \<open>Reading the lists\<close>

lemma hwaddr_aton_loop_length:
  "fst (hwaddr_aton_loop n t addr) = 0 \<Longrightarrow> length (snd (hwaddr_aton_loop n t addr)) = length addr + n"
proof (induction n arbitrary: t addr)
  case (Suc n)
  show ?case
    using Suc.prems Suc.IH [of _ "addr @ [_]"] by (auto simp: Let_def split: if_splits)
qed simp

lemma maclist_line_length: "maclist_line l = Some (Inr e) \<Longrightarrow> length (acl_addr e) = 6"
  using hwaddr_aton_loop_length [of 6 "takeWhile (\<lambda>c. c \<noteq> 0x0a) l" "[]"]
  by (auto simp: maclist_line_def hwaddr_aton_def Let_def split: if_splits prod.splits)

lemma maclist_lines_set:
  "maclist_lines ls acl = Some r \<Longrightarrow> set r = set acl \<union> {e. \<exists>l \<in> set ls. maclist_line l = Some (Inr e)}"
  by (induction ls arbitrary: acl) (auto split: option.splits sum.splits)

definition sorts :: "(mac_acl_entry list \<Rightarrow> mac_acl_entry list) \<Rightarrow> bool" where
  "sorts q \<longleftrightarrow> (\<forall>xs. mset (q xs) = mset xs \<and> sorted (map acl_addr (q xs)))"

lemma sorts_sort_key: "sorts (sort_key acl_addr)"
  by (simp add: sorts_def)

section \<open>Properties\<close>

text \<open>C20. An address is found in a list that was read from a file exactly when a line of the file holds it,
  whatever order the lines have, and the VLAN is that of a line with the address; the search ends on every
  list.\<close>

theorem maclist_found_iff_listed:
  assumes "sorts qsort" "hostapd_config_read_maclist qsort lines [] = Some acl" "length addr = 6"
  shows "case hostapd_maclist_found acl addr of
      Some v \<Rightarrow> \<exists>l \<in> set lines. \<exists>e. maclist_line l = Some (Inr e) \<and> acl_addr e = addr \<and> acl_vlan_id e = v
    | None \<Rightarrow> \<not> (\<exists>l \<in> set lines. \<exists>e. maclist_line l = Some (Inr e) \<and> acl_addr e = addr)"
proof -
  obtain r where r: "maclist_lines lines [] = Some r" "acl = qsort r"
    using assms(2) by (auto simp: hostapd_config_read_maclist_def)
  have "mset acl = mset r" "sorted (map acl_addr acl)" using assms(1) r(2) by (auto simp: sorts_def)
  moreover have "set acl = {e. \<exists>l \<in> set lines. maclist_line l = Some (Inr e)}"
    using maclist_lines_set [OF r(1)] mset_eq_setD [OF \<open>mset acl = mset r\<close>] by simp
  moreover have "\<forall>e \<in> set acl. length (acl_addr e) = length addr"
    using \<open>set acl = _\<close> assms(3) maclist_line_length by auto
  ultimately show ?thesis
    using maclist_found_spec [of acl addr] by (cases "hostapd_maclist_found acl addr") auto
qed

theorem maclist_found_iff_listed_witness:
  "\<exists>acl. hostapd_config_read_maclist (sort_key acl_addr)
       [ascii ''# stations'', ascii ''02:00:00:00:00:07 12'', ascii ''02:00:00:00:00:03''] [] = Some acl \<and>
     hostapd_maclist_found acl [2, 0, 0, 0, 0, 7] = Some 12"
proof -
  let ?lines = "[ascii ''# stations'', ascii ''02:00:00:00:00:07 12'', ascii ''02:00:00:00:00:03'']"
  have l: "maclist_line (?lines ! 0) = None"
    "maclist_line (?lines ! 1) = Some (Inr \<lparr>acl_addr = [2, 0, 0, 0, 0, 7], acl_vlan_id = 12\<rparr>)"
    "maclist_line (?lines ! 2) = Some (Inr \<lparr>acl_addr = [2, 0, 0, 0, 0, 3], acl_vlan_id = 0\<rparr>)"
    by code_simp+
  then obtain acl where a: "hostapd_config_read_maclist (sort_key acl_addr) ?lines [] = Some acl"
    by (simp add: hostapd_config_read_maclist_def)
  have "hostapd_maclist_found acl [2, 0, 0, 0, 0, 7] = Some 12"
    using maclist_found_iff_listed [OF sorts_sort_key a, of "[2, 0, 0, 0, 0, 7]"] l by (auto split: option.splits)
  then show ?thesis using a by blast
qed


definition example_acl_conf :: "macaddr_acl_policy \<Rightarrow> acl_conf" where
  "example_acl_conf p =
     \<lparr>accept_mac = [\<lparr>acl_addr = [2, 0, 0, 0, 0, 1], acl_vlan_id = 5\<rparr>, \<lparr>acl_addr = [2, 0, 0, 0, 0, 4], acl_vlan_id = 0\<rparr>],
      deny_mac = [\<lparr>acl_addr = [2, 0, 0, 0, 0, 4], acl_vlan_id = 0\<rparr>, \<lparr>acl_addr = [2, 0, 0, 0, 0, 9], acl_vlan_id = 0\<rparr>],
      macaddr_acl = p, auth_server = True, psk_radius_required = False\<rparr>"



definition example_reply :: radius_reply where
  "example_reply = \<lparr>rr_identifier = 7, rr_code = RADIUS_CODE_ACCESS_ACCEPT, rr_verified = True,
     rr_session_timeout = None, rr_acct_interim_interval = None, rr_vlan_id = 3, rr_tunnel_psks = [],
     rr_user_name = None, rr_cui = None\<rparr>"


end
