(* ===== verification/Elems.thy ===== *)
theory Elems
  imports Prelude
begin

text \<open>
  Information elements of management frames (\<^verbatim>\<open>src/common/ieee802_11_common.c\<close>): the parser of an element
  list, the element counter, the concatenation of vendor elements and the small frame helpers.

  \<^verbatim>\<open>struct ieee802_11_elems\<close> is a map from the names of its fields to the octets that a field points to;
  the length of the octets is the field with the suffix \<^verbatim>\<open>_len\<close>.
\<close>

section \<open>Data\<close>

datatype elem_name =
    E_ssid | E_supp_rates | E_fh_params | E_ds_params | E_cf_params | E_tim | E_ibss_params | E_challenge
  | E_erp_info | E_ext_supp_rates | E_wpa_ie | E_rsn_ie | E_wmm | E_wmm_tspec | E_wps_ie | E_power_cap
  | E_supp_channels | E_mdie | E_ftie | E_timeout_int | E_ht_capabilities | E_ht_operation
  | E_vht_capabilities | E_vht_operation | E_vendor_ht_cap | E_p2p | E_wfd | E_link_id | E_interworking
  | E_qos_map_set | E_hs20 | E_ext_capab | E_bss_max_idle_period | E_ssid_list

type_synonym ieee802_11_elems = "elem_name \<Rightarrow> u8 list option"

datatype ParseRes = ParseOK | ParseUnknown | ParseFailed

abbreviation WLAN_EID_VENDOR_SPECIFIC :: u8 where "WLAN_EID_VENDOR_SPECIFIC \<equiv> 221"

section \<open>Parsing\<close>

text \<open>The field of a vendor specific element; \<^term>\<open>None\<close> is the result \<^verbatim>\<open>-1\<close> that counts it as unknown.\<close>

definition ieee802_11_parse_vendor_specific :: "u8 list \<Rightarrow> elem_name option" where
  "ieee802_11_parse_vendor_specific pos =
     (if length pos < 4 then None
      else
        let oui = WPA_GET_BE24 pos; t = pos ! 3 in
        if oui = 0x0050f2 then
          if t = 1 then Some E_wpa_ie
          else if t = 2 then
            if length pos < 5 then None
            else if pos ! 4 = 0 \<or> pos ! 4 = 1 then Some E_wmm
            else if pos ! 4 = 2 then Some E_wmm_tspec
            else None
          else if t = 4 then Some E_wps_ie
          else None
        else if oui = 0x506f9a then
          if t = 9 then Some E_p2p
          else if t = 10 then Some E_wfd
          else if t = 16 then Some E_hs20
          else None
        else if oui = 0x00904c then
          if t = 0x33 then Some E_vendor_ht_cap else None
        else None)"

text \<open>The switch over the element identifiers, with the least length that a case asks for.\<close>

definition elem_table :: "(u8 \<times> elem_name) list" where
  "elem_table =
     [(0, E_ssid), (1, E_supp_rates), (2, E_fh_params), (3, E_ds_params), (4, E_cf_params), (5, E_tim),
      (6, E_ibss_params), (16, E_challenge), (42, E_erp_info), (50, E_ext_supp_rates), (48, E_rsn_ie),
      (33, E_power_cap), (36, E_supp_channels), (54, E_mdie), (55, E_ftie), (56, E_timeout_int),
      (45, E_ht_capabilities), (61, E_ht_operation), (191, E_vht_capabilities), (192, E_vht_operation),
      (101, E_link_id), (107, E_interworking), (110, E_qos_map_set), (127, E_ext_capab),
      (90, E_bss_max_idle_period), (84, E_ssid_list)]"

definition elem_min_len :: "elem_name \<Rightarrow> nat" where
  "elem_min_len f =
     (case f of E_link_id \<Rightarrow> 18 | E_qos_map_set \<Rightarrow> 16 | E_bss_max_idle_period \<Rightarrow> 3 | _ \<Rightarrow> 0)"

text \<open>One element: whether it counts as unknown, and the fields after it.\<close>

definition store_elem :: "u8 \<Rightarrow> u8 list \<Rightarrow> ieee802_11_elems \<Rightarrow> bool \<times> ieee802_11_elems" where
  "store_elem i d elems =
     (if i = WLAN_EID_VENDOR_SPECIFIC then
        case ieee802_11_parse_vendor_specific d of
          None \<Rightarrow> (True, elems) | Some f \<Rightarrow> (False, elems(f := Some d))
      else case map_of elem_table i of
        None \<Rightarrow> (True, elems)
      | Some f \<Rightarrow> (False, if length d < elem_min_len f then elems else elems(f := Some d)))"

function parse_elems_loop :: "u8 list \<Rightarrow> nat \<Rightarrow> ieee802_11_elems \<Rightarrow> ParseRes \<times> ieee802_11_elems" where
  "parse_elems_loop [] unknown elems = (if unknown \<noteq> 0 then ParseUnknown else ParseOK, elems)"
| "parse_elems_loop [c] unknown elems = (ParseFailed, elems)"
| "parse_elems_loop (i # elen # rest) unknown elems =
     (if unat elen > length rest then (ParseFailed, elems)
      else case store_elem i (take (unat elen) rest) elems of
        (u, elems) \<Rightarrow> parse_elems_loop (drop (unat elen) rest) (if u then unknown + 1 else unknown) elems)"
  by pat_completeness auto
termination by (relation "measure (\<lambda>(b, _, _). length b)") auto

definition ieee802_11_parse_elems :: "u8 list \<Rightarrow> ParseRes \<times> ieee802_11_elems" where
  "ieee802_11_parse_elems buf = parse_elems_loop buf 0 (\<lambda>_. None)"

function ieee802_11_ie_count :: "u8 list \<Rightarrow> nat" where
  "ieee802_11_ie_count [] = 0"
| "ieee802_11_ie_count [c] = 0"
| "ieee802_11_ie_count (i # elen # rest) =
     (if unat elen > length rest then 0 else Suc (ieee802_11_ie_count (drop (unat elen) rest)))"
  by pat_completeness auto
termination by (relation "measure length") auto

definition vendor_ie_matches :: "u32 \<Rightarrow> u8 \<Rightarrow> u8 list \<Rightarrow> bool" where
  "vendor_ie_matches oui_type i d \<longleftrightarrow>
     i = WLAN_EID_VENDOR_SPECIFIC \<and> length d \<ge> 4 \<and> WPA_GET_BE32 d = oui_type"

text \<open>The first walk stops at the first element of the type; a truncated element before it gives no result.\<close>

function vendor_ie_first :: "u32 \<Rightarrow> u8 list \<Rightarrow> u8 list option" where
  "vendor_ie_first oui_type [] = None"
| "vendor_ie_first oui_type [c] = None"
| "vendor_ie_first oui_type (i # elen # rest) =
     (if unat elen > length rest then None
      else if vendor_ie_matches oui_type i (take (unat elen) rest) then Some (i # elen # rest)
      else vendor_ie_first oui_type (drop (unat elen) rest))"
  by pat_completeness auto
termination by (relation "measure (\<lambda>(_, b). length b)") auto

text \<open>The second walk collects the data behind the OUI and the type.\<close>

function vendor_ie_collect :: "u32 \<Rightarrow> u8 list \<Rightarrow> u8 list" where
  "vendor_ie_collect oui_type [] = []"
| "vendor_ie_collect oui_type [c] = []"
| "vendor_ie_collect oui_type (i # elen # rest) =
     (if unat elen > length rest then []
      else (if vendor_ie_matches oui_type i (take (unat elen) rest) then drop 4 (take (unat elen) rest) else []) @
        vendor_ie_collect oui_type (drop (unat elen) rest))"
  by pat_completeness auto
termination by (relation "measure (\<lambda>(_, b). length b)") auto

definition ieee802_11_vendor_ie_concat :: "u8 list \<Rightarrow> u32 \<Rightarrow> u8 list option" where
  "ieee802_11_vendor_ie_concat ies oui_type =
     map_option (vendor_ie_collect oui_type) (vendor_ie_first oui_type ies)"

section \<open>Frame helpers\<close>

text \<open>Frame control: the type in bits 2 and 3, the subtype in bits 4 to 7.\<close>

definition WLAN_FC_GET_TYPE :: "u16 \<Rightarrow> u16" where
  "WLAN_FC_GET_TYPE fc = drop_bit 2 (fc AND 0x000c)"

definition WLAN_FC_GET_STYPE :: "u16 \<Rightarrow> u16" where
  "WLAN_FC_GET_STYPE fc = drop_bit 4 (fc AND 0x00f0)"

definition get_hdr_bssid :: "u8 list \<Rightarrow> macaddr option" where
  "get_hdr_bssid hdr =
     (if length hdr < 16 then None
      else
        let fc = WPA_GET_LE16 hdr; ty = WLAN_FC_GET_TYPE fc; stype = WLAN_FC_GET_STYPE fc;
            addr1 = take 6 (drop 4 hdr); addr2 = take 6 (drop 10 hdr); addr3 = take 6 (drop 16 hdr)
        in if ty = 2 then
             if length hdr < 24 then None
             else
               let ds = fc AND 0x0300 in
               if ds = 0x0300 \<or> ds = 0x0100 then Some addr1
               else if ds = 0x0200 then Some addr2
               else None
           else if ty = 1 then if stype \<noteq> 10 then None else Some addr1
           else if ty = 0 then Some addr3
           else None)"

datatype hostapd_hw_mode =
    HOSTAPD_MODE_IEEE80211B | HOSTAPD_MODE_IEEE80211G | HOSTAPD_MODE_IEEE80211A
  | HOSTAPD_MODE_IEEE80211AD | NUM_HOSTAPD_MODES

text \<open>\<^term>\<open>None\<close> in the second place: the channel is not written.\<close>

definition ieee80211_freq_to_chan :: "int \<Rightarrow> hostapd_hw_mode \<times> u8 option" where
  "ieee80211_freq_to_chan freq =
     (if freq \<ge> 2412 \<and> freq \<le> 2472 then (HOSTAPD_MODE_IEEE80211G, Some (word_of_int ((freq - 2407) div 5)))
      else if freq = 2484 then (HOSTAPD_MODE_IEEE80211B, Some 14)
      else if freq \<ge> 4900 \<and> freq < 5000 then (HOSTAPD_MODE_IEEE80211A, Some (word_of_int ((freq - 4000) div 5)))
      else if freq \<ge> 5000 \<and> freq < 5900 then (HOSTAPD_MODE_IEEE80211A, Some (word_of_int ((freq - 5000) div 5)))
      else if freq \<ge> 56160 + 2160 * 1 \<and> freq \<le> 56160 + 2160 * 4 then
        (HOSTAPD_MODE_IEEE80211AD, Some (word_of_int ((freq - 56160) div 2160)))
      else (NUM_HOSTAPD_MODES, None))"

definition is_11b :: "u8 \<Rightarrow> bool" where
  "is_11b rate \<longleftrightarrow> rate = 0x02 \<or> rate = 0x04 \<or> rate = 0x0b \<or> rate = 0x16"

definition supp_rates_11b_only :: "ieee802_11_elems \<Rightarrow> bool" where
  "supp_rates_11b_only elems =
     (if elems E_supp_rates = None \<and> elems E_ext_supp_rates = None then False
      else
        let rates = (case elems E_supp_rates of Some r \<Rightarrow> r | None \<Rightarrow> []) @
                    (case elems E_ext_supp_rates of Some r \<Rightarrow> r | None \<Rightarrow> [])
        in length (filter is_11b rates) > 0 \<and> length (filter (\<lambda>r. \<not> is_11b r) rates) = 0)"

section \<open>Element lists\<close>

text \<open>A list of elements, each an identifier with its octets, as it stands in a frame.\<close>

definition ies_ok :: "(u8 \<times> u8 list) list \<Rightarrow> bool" where
  "ies_ok ies \<longleftrightarrow> (\<forall>(i, d) \<in> set ies. length d < 256)"

fun tlv :: "u8 \<times> u8 list \<Rightarrow> u8 list" where
  "tlv (i, d) = i # word_of_nat (length d) # d"

definition put_ies :: "(u8 \<times> u8 list) list \<Rightarrow> u8 list" where
  "put_ies ies = concat (map tlv ies)"

lemma put_ies_simps [simp]:
  "put_ies [] = []" "put_ies ((i, d) # ies) = i # word_of_nat (length d) # d @ put_ies ies"
  by (simp_all add: put_ies_def)

lemma ies_ok_simps [simp]: "ies_ok []" "ies_ok ((i, d) # ies) \<longleftrightarrow> length d < 256 \<and> ies_ok ies"
  by (auto simp: ies_ok_def)

lemma unat_u8_length [simp]: "n < 256 \<Longrightarrow> unat (word_of_nat n :: u8) = n"
  by (simp add: unat_of_nat)

text \<open>Every buffer is a list of elements, or one followed by a truncated rest.\<close>

definition truncated :: "u8 list \<Rightarrow> bool" where
  "truncated b \<longleftrightarrow> (case b of [] \<Rightarrow> False | [_] \<Rightarrow> True | i # elen # rest \<Rightarrow> unat elen > length rest)"

lemma split_ies: "\<exists>ies rest. ies_ok ies \<and> b = put_ies ies @ rest \<and> (rest = [] \<or> truncated rest)"
proof (induction b rule: ieee802_11_ie_count.induct)
  case (3 i elen rest)
  show ?case
  proof (cases "unat elen > length rest")
    case True
    then show ?thesis by (intro exI [of _ "[]"] exI [of _ "i # elen # rest"]) (simp add: truncated_def)
  next
    case False
    then obtain ies r where ies: "ies_ok ies" "drop (unat elen) rest = put_ies ies @ r" "r = [] \<or> truncated r"
      using 3 by blast
    let ?d = "take (unat elen) rest"
    have "length ?d = unat elen" "unat elen < 256" using False unsigned_less [of elen] by simp_all
    then have "i # elen # rest = put_ies ((i, ?d) # ies) @ r" "ies_ok ((i, ?d) # ies)"
      using ies by (simp_all flip: ies(2))
    then show ?thesis using ies(3) by blast
  qed
next
  case (2 c)
  show ?case by (intro exI [of _ "[]"] exI [of _ "[c]"]) (simp add: truncated_def)
qed (auto intro: exI [of _ "[]"])

text \<open>What a list of elements leaves in the fields.\<close>

fun store_ies :: "(u8 \<times> u8 list) list \<Rightarrow> nat \<Rightarrow> ieee802_11_elems \<Rightarrow> nat \<times> ieee802_11_elems" where
  "store_ies [] unknown elems = (unknown, elems)"
| "store_ies ((i, d) # ies) unknown elems =
     (case store_elem i d elems of (u, elems) \<Rightarrow> store_ies ies (if u then unknown + 1 else unknown) elems)"

lemma parse_put_ies:
  "ies_ok ies \<Longrightarrow> parse_elems_loop (put_ies ies @ rest) unknown elems =
     (case store_ies ies unknown elems of (u, e) \<Rightarrow> parse_elems_loop rest u e)"
  by (induction ies arbitrary: unknown elems) (auto split: prod.split)

lemma parse_truncated: "truncated rest \<Longrightarrow> fst (parse_elems_loop rest unknown elems) = ParseFailed"
  by (auto simp: truncated_def split: list.splits)

text \<open>The value of a field comes from the last element that is stored in it.\<close>

definition elem_field :: "u8 \<times> u8 list \<Rightarrow> elem_name option" where
  "elem_field e = (case e of (i, d) \<Rightarrow>
     if i = WLAN_EID_VENDOR_SPECIFIC then ieee802_11_parse_vendor_specific d
     else case map_of elem_table i of
       Some f \<Rightarrow> if length d < elem_min_len f then None else Some f | None \<Rightarrow> None)"

definition last_elem :: "elem_name \<Rightarrow> (u8 \<times> u8 list) list \<Rightarrow> u8 list option" where
  "last_elem f ies = map_option snd (find (\<lambda>e. elem_field e = Some f) (rev ies))"

lemma find_append: "find P (xs @ ys) = (case find P xs of Some x \<Rightarrow> Some x | None \<Rightarrow> find P ys)"
  by (induction xs) auto

lemma store_ies_last:
  "snd (store_ies ies unknown elems) f = (case last_elem f ies of Some d \<Rightarrow> Some d | None \<Rightarrow> elems f)"
proof (induction ies arbitrary: unknown elems)
  case (Cons e ies)
  obtain i d where e: "e = (i, d)" by force
  have "snd (store_elem i d elems) f = (if elem_field e = Some f then Some d else elems f)"
    by (auto simp: store_elem_def elem_field_def e split: option.splits)
  then show ?case using Cons.IH [of _ "snd (store_elem i d elems)"]
    by (auto simp: e last_elem_def find_append split: prod.splits option.splits)
qed (simp add: last_elem_def)

lemma ie_count_put: "ies_ok ies \<Longrightarrow> rest = [] \<or> truncated rest \<Longrightarrow> ieee802_11_ie_count (put_ies ies @ rest) = length ies"
  by (induction ies) (auto simp: truncated_def split: list.splits)

lemma parse_truncated_fields: "truncated rest \<Longrightarrow> snd (parse_elems_loop rest unknown elems) = elems"
  by (auto simp: truncated_def split: list.splits)

lemma parse_fields:
  assumes "ies_ok ies" "rest = [] \<or> truncated rest"
  shows "snd (ieee802_11_parse_elems (put_ies ies @ rest)) f = last_elem f ies"
  using assms store_ies_last [of ies 0 "\<lambda>_. None" f]
  by (auto simp: ieee802_11_parse_elems_def parse_put_ies parse_truncated_fields split: prod.split option.splits)

lemma last_elem_Some:
  assumes "last_elem f ies = Some d"
  shows "\<exists>i. (i, d) \<in> set ies \<and> elem_field (i, d) = Some f"
  using assms by (auto simp: last_elem_def find_Some_iff) (metis length_rev nth_mem set_rev)

lemma put_ies_append: "put_ies (a @ b) = put_ies a @ put_ies b"
  by (simp add: put_ies_def)

lemma in_ies_in_frame: "(i, d) \<in> set ies \<Longrightarrow> \<exists>pre post. put_ies ies = pre @ tlv (i, d) @ post"
proof -
  assume "(i, d) \<in> set ies"
  then obtain a b where "ies = a @ (i, d) # b" using split_list by fast
  then have "put_ies ies = put_ies a @ tlv (i, d) @ put_ies b" by (simp add: put_ies_append)
  then show ?thesis by blast
qed

lemma vendor_collect_put:
  "ies_ok ies \<Longrightarrow> vendor_ie_collect oui_type (put_ies ies) =
     concat (map (\<lambda>e. drop 4 (snd e)) (filter (\<lambda>e. vendor_ie_matches oui_type (fst e) (snd e)) ies))"
  by (induction ies) auto

lemma vendor_first_put:
  "ies_ok ies \<Longrightarrow> vendor_ie_first oui_type (put_ies ies) =
     (case dropWhile (\<lambda>e. \<not> vendor_ie_matches oui_type (fst e) (snd e)) ies of [] \<Rightarrow> None | r \<Rightarrow> Some (put_ies r))"
  by (induction ies) auto

lemma ies_ok_dropWhile: "ies_ok ies \<Longrightarrow> ies_ok (dropWhile P ies)"
  by (auto simp: ies_ok_def dest: set_dropWhileD)

lemma filter_dropWhile_not: "filter P (dropWhile (\<lambda>x. \<not> P x) xs) = filter P xs"
  by (induction xs) auto

section \<open>Properties\<close>

text \<open>C22. The parser refuses exactly the buffers that are not a sequence of whole elements.\<close>

theorem parse_fails_iff_malformed:
  "fst (ieee802_11_parse_elems buf) = ParseFailed \<longleftrightarrow> \<not> (\<exists>ies. ies_ok ies \<and> buf = put_ies ies)"
proof -
  obtain ies rest where s: "ies_ok ies" "buf = put_ies ies @ rest" "rest = [] \<or> truncated rest"
    using split_ies by blast
  have good: "fst (ieee802_11_parse_elems (put_ies es)) \<noteq> ParseFailed" if "ies_ok es" for es
    using parse_put_ies [OF that, of "[]"] by (auto simp: ieee802_11_parse_elems_def split: prod.split)
  show ?thesis
  proof (cases "rest = []")
    case True
    then show ?thesis using s good by auto
  next
    case False
    then have "fst (ieee802_11_parse_elems buf) = ParseFailed"
      using s by (auto simp: ieee802_11_parse_elems_def parse_put_ies parse_truncated split: prod.split)
    then show ?thesis using good by auto
  qed
qed

text \<open>C24. What the parser stores of a sequence of elements: every field holds the octets of the last element
  of its kind and is empty when there is none, and the count of the elements is right.\<close>

theorem parse_elems_roundtrip:
  assumes "ies_ok ies"
  shows "fst (ieee802_11_parse_elems (put_ies ies)) \<noteq> ParseFailed \<and>
    snd (ieee802_11_parse_elems (put_ies ies)) f = last_elem f ies \<and>
    ieee802_11_ie_count (put_ies ies) = length ies"
proof -
  have "fst (ieee802_11_parse_elems (put_ies ies)) \<noteq> ParseFailed"
    using parse_put_ies [OF assms, of "[]"] by (auto simp: ieee802_11_parse_elems_def split: prod.split)
  then show ?thesis using parse_fields [OF assms, of "[]" f] ie_count_put [OF assms, of "[]"] by simp
qed

theorem parse_elems_roundtrip_witness:
  "snd (ieee802_11_parse_elems (put_ies [(0, [0x61]), (1, [2, 4, 11]), (0, [0x62, 0x63])])) E_ssid = Some [0x62, 0x63] \<and>
   snd (ieee802_11_parse_elems (put_ies [(0, [0x61]), (1, [2, 4, 11]), (0, [0x62, 0x63])])) E_rsn_ie = None"
  using parse_elems_roundtrip [of "[(0, [0x61]), (1, [2, 4, 11]), (0, [0x62, 0x63])]" E_ssid]
    parse_elems_roundtrip [of "[(0, [0x61]), (1, [2, 4, 11]), (0, [0x62, 0x63])]" E_rsn_ie]
  by (simp add: last_elem_def elem_field_def elem_table_def elem_min_len_def)

text \<open>C36. The parser reads no octet outside the frame: whatever the buffer, also one it refuses, each field
  it sets is the body of an element that stands in the buffer, of the kind the field is for.\<close>

theorem parsed_field_in_frame:
  assumes "snd (ieee802_11_parse_elems buf) f = Some d"
  shows "\<exists>pre i post. buf = pre @ tlv (i, d) @ post \<and> elem_field (i, d) = Some f"
proof -
  obtain ies rest where s: "ies_ok ies" "buf = put_ies ies @ rest" "rest = [] \<or> truncated rest"
    using split_ies by blast
  then have "last_elem f ies = Some d" using parse_fields [OF s(1,3), of f] assms by simp
  then obtain i where i: "(i, d) \<in> set ies" "elem_field (i, d) = Some f" using last_elem_Some by blast
  then obtain pre post where "put_ies ies = pre @ tlv (i, d) @ post" using in_ies_in_frame by blast
  then have "buf = pre @ tlv (i, d) @ (post @ rest)" using s(2) by simp
  then show ?thesis using i(2) by blast
qed

theorem parsed_field_in_frame_witness:
  "\<exists>pre i post. [0, 1, 0x61, 48, 9, 1] = pre @ tlv (i, [0x61]) @ post \<and> elem_field (i, [0x61]) = Some E_ssid"
  by (rule parsed_field_in_frame)
    (simp add: ieee802_11_parse_elems_def store_elem_def elem_table_def elem_min_len_def)

text \<open>The data of a vendor element that is spread over several elements is put together in order, and
  there is no result exactly when no element has the type.\<close>

theorem vendor_ie_concat_all:
  assumes "ies_ok ies"
  shows "ieee802_11_vendor_ie_concat (put_ies ies) oui_type =
     (let parts = filter (\<lambda>e. vendor_ie_matches oui_type (fst e) (snd e)) ies in
      if parts = [] then None else Some (concat (map (\<lambda>e. drop 4 (snd e)) parts)))"
proof -
  define P where "P = (\<lambda>e. vendor_ie_matches oui_type (fst e) (snd e))"
  define r where "r = dropWhile (\<lambda>e. \<not> P e) ies"
  have r: "r = [] \<longleftrightarrow> filter P ies = []" "filter P r = filter P ies"
    unfolding r_def by (auto simp: dropWhile_eq_Nil_conv filter_empty_conv filter_dropWhile_not)
  have "vendor_ie_collect oui_type (put_ies r) = concat (map (\<lambda>e. drop 4 (snd e)) (filter P r))"
    unfolding P_def by (rule vendor_collect_put) (simp add: r_def ies_ok_dropWhile assms)
  moreover have "vendor_ie_first oui_type (put_ies ies) = (if r = [] then None else Some (put_ies r))"
  proof -
    have d: "dropWhile (\<lambda>e. \<not> vendor_ie_matches oui_type (fst e) (snd e)) ies = r" unfolding r_def P_def ..
    show ?thesis unfolding vendor_first_put [OF assms] d by (cases r) simp_all
  qed
  ultimately show ?thesis
    unfolding P_def [symmetric] Let_def using r by (simp add: ieee802_11_vendor_ie_concat_def)
qed

theorem vendor_ie_concat_all_witness:
  "ieee802_11_vendor_ie_concat
     (put_ies [(221, [0, 0x50, 0xf2, 4, 1, 2]), (0, []), (221, [0, 0x50, 0xf2, 4, 3])]) 0x0050f204 = Some [1, 2, 3]"
proof -
  have "vendor_ie_matches 0x0050f204 221 [0, 0x50, 0xf2, 4, 1, 2]" "vendor_ie_matches 0x0050f204 221 [0, 0x50, 0xf2, 4, 3]"
    by code_simp+
  then show ?thesis
    using vendor_ie_concat_all [of "[(221, [0, 0x50, 0xf2, 4, 1, 2]), (0, []), (221, [0, 0x50, 0xf2, 4, 3])]" "0x0050f204"]
    by (simp add: vendor_ie_matches_def Let_def)
qed

end
