(* ===== verification/Sta_Table.thy ===== *)
theory Sta_Table
  imports Elems Acl Entry_Store Wpa_World
begin

text \<open>
  The station table of a BSS (\<^verbatim>\<open>src/ap/sta_info.c\<close>), with the association identifiers and the
  protection counters that its entries hold (\<^verbatim>\<open>src/ap/ieee802_11.c\<close>, \<^verbatim>\<open>src/ap/ieee802_11_ht.c\<close>).

  An entry is named by its MAC address: it is set when the entry is made and an entry is only made
  for an address that has none, so the address stands for the pointer in the list and the chains of
  the hash table.  The timers of the event loop are fields of the entry, the seconds they were
  registered with.  The interface has this one BSS.  Calls into the driver, the IEEE 802.1X and WPA machines and accounting are
  recorded in the history; what the driver and the random source answer is a function of it.
\<close>

section \<open>Data\<close>

datatype timeout_enum = STA_NULLFUNC | STA_DISASSOC | STA_DEAUTH | STA_REMOVE | STA_DISASSOC_FROM_CLI

text \<open>The flags are bit positions: \<^verbatim>\<open>sta->flags |= WLAN_STA_AUTH\<close> sets bit 0.\<close>

abbreviation (input) WLAN_STA_AUTH :: nat where "WLAN_STA_AUTH \<equiv> 0"
abbreviation (input) WLAN_STA_ASSOC :: nat where "WLAN_STA_ASSOC \<equiv> 1"
abbreviation (input) WLAN_STA_AUTHORIZED :: nat where "WLAN_STA_AUTHORIZED \<equiv> 5"
abbreviation (input) WLAN_STA_PENDING_POLL :: nat where "WLAN_STA_PENDING_POLL \<equiv> 6"
abbreviation (input) WLAN_STA_SHORT_PREAMBLE :: nat where "WLAN_STA_SHORT_PREAMBLE \<equiv> 7"
abbreviation (input) WLAN_STA_PREAUTH :: nat where "WLAN_STA_PREAUTH \<equiv> 8"
abbreviation (input) WLAN_STA_WMM :: nat where "WLAN_STA_WMM \<equiv> 9"
abbreviation (input) WLAN_STA_HT :: nat where "WLAN_STA_HT \<equiv> 11"
abbreviation (input) WLAN_STA_WPS :: nat where "WLAN_STA_WPS \<equiv> 12"
abbreviation (input) WLAN_STA_MAYBE_WPS :: nat where "WLAN_STA_MAYBE_WPS \<equiv> 13"
abbreviation (input) WLAN_STA_WDS :: nat where "WLAN_STA_WDS \<equiv> 14"
abbreviation (input) WLAN_STA_ASSOC_REQ_OK :: nat where "WLAN_STA_ASSOC_REQ_OK \<equiv> 15"
abbreviation (input) WLAN_STA_WPS2 :: nat where "WLAN_STA_WPS2 \<equiv> 16"
abbreviation (input) WLAN_STA_GAS :: nat where "WLAN_STA_GAS \<equiv> 17"
abbreviation (input) WLAN_STA_VHT :: nat where "WLAN_STA_VHT \<equiv> 18"
abbreviation (input) WLAN_STA_PENDING_DISASSOC_CB :: nat where "WLAN_STA_PENDING_DISASSOC_CB \<equiv> 29"
abbreviation (input) WLAN_STA_PENDING_DEAUTH_CB :: nat where "WLAN_STA_PENDING_DEAUTH_CB \<equiv> 30"
abbreviation (input) WLAN_STA_NONERP :: nat where "WLAN_STA_NONERP \<equiv> 31"

record sta_info =
  addr :: macaddr
  aid :: nat
  flags :: u32
  capability :: u16
  listen_interval :: u16
  supported_rates :: "u8 list"
  qosinfo :: u8
  nonerp_set :: bool
  no_short_slot_time_set :: bool
  no_short_preamble_set :: bool
  no_ht_gf_set :: bool
  no_ht_set :: bool
  ht_20mhz_set :: bool
  auth_alg :: u16
  previous_ap :: macaddr
  timeout_next :: timeout_enum
  deauth_reason :: u16
  disassoc_reason :: u16
  has_eapol_sm :: bool
  has_wpa_sm :: bool
  last_assoc_req :: "u8 list option"
  challenge :: "u8 list option"
  sta_vlan_id :: int
  sta_psk :: "u8 list list"
  sta_identity :: "u8 list option"
  sta_radius_cui :: "u8 list option"
  acct_interim_interval :: u32
  ht_capabilities :: "u8 list option"
  vht_capabilities :: "u8 list option"
  sta_wps_ie :: "u8 list option"
  handle_timer :: "nat option"
  session_timer :: "nat option"
  deauth_cb_timer :: "nat option"
  disassoc_cb_timer :: "nat option"

text \<open>Calls that leave the component.\<close>

datatype sta_act =
    Set_beacons
  | Drv_wds_remove macaddr | Drv_sta_remove macaddr | Drv_sta_deauth macaddr u16 | Drv_sta_disassoc macaddr u16
  | Drv_poll_client macaddr bool | Drv_sta_add macaddr nat u16 "u8 list" u16 u32 u8 | Drv_set_flags macaddr
  | Drv_set_authorized macaddr bool | Drv_wds_add macaddr | Drv_bind_vlan macaddr int
  | Drv_get_inact_sec macaddr | Os_random
  | Sta_authorized macaddr bool
  | Eapol_port_enabled macaddr bool | Eapol_free macaddr | Eapol_new_station macaddr | Eapol_pre_auth macaddr
  | Wpa_event_to macaddr wpa_event | Wpa_remove_ptk_of macaddr | Wpa_sta_init macaddr | Wpa_no_wpa macaddr
  | Wpa_associated macaddr | Wpa_deinit macaddr | Wpa_validate macaddr "u8 list" "u8 list option"
  | Ft_process_auth macaddr u16 "u8 list" | Ft_validate_reassoc macaddr "u8 list"
  | Acct_start macaddr | Acct_stop macaddr | Radius_flush macaddr | Preauth_free macaddr | Iapp_new_station macaddr
  | Other_bss_disconnect macaddr | Prune_associations macaddr
  | Send_auth_reply macaddr u16 u16 u16 "u8 list" | Send_assoc_resp macaddr u16 bool nat | Send_deauth_frame macaddr u16
  | Vlan_add_dynamic int | Vlan_remove_dynamic int | Wpa_set_vlan macaddr int
  | Zmq_send "u8 list" | Send_probe_resp macaddr bool | Rx_beacon "u8 list"
  | Ft_action_rx macaddr "u8 list" | Public_action "u8 list" | Vendor_action "u8 list" | Send_mlme "u8 list" | Parser_overread u64

record bss =
  sta_list :: "sta_info list"
  sta_hash :: "macaddr list list"
  num_sta :: int
  sta_aid :: "u32 list"
  num_sta_non_erp :: int
  num_sta_no_short_slot_time :: int
  num_sta_no_short_preamble :: int
  num_sta_ht_no_gf :: int
  num_sta_no_ht :: int
  num_sta_ht_20mhz :: int
  ht_op_mode :: u16
  olbc_ht :: bool
  tkip_countermeasures :: bool
  bss_acl :: acl_state
  acts :: "sta_act list"

record bss_conf =
  bss_addr :: macaddr
  max_num_sta :: int
  ap_max_inactivity :: nat
  skip_inactivity_poll :: bool
  conf_acct_interim_interval :: u32
  deauth_tx_status :: bool
  mode_g :: bool
  ieee80211n :: bool
  ht_op_mode_fixed :: bool
  secondary_channel :: int
  inact_sec :: "sta_act list \<Rightarrow> int"
  os_random :: "sta_act list \<Rightarrow> nat"

abbreviation (input) STA_HASH_SIZE :: nat where "STA_HASH_SIZE \<equiv> 256"
abbreviation (input) AID_WORDS :: nat where "AID_WORDS \<equiv> 63"
abbreviation (input) AP_DISASSOC_DELAY :: nat where "AP_DISASSOC_DELAY \<equiv> 1"
abbreviation (input) AP_DEAUTH_DELAY :: nat where "AP_DEAUTH_DELAY \<equiv> 1"
abbreviation (input) AP_MAX_INACTIVITY_AFTER_DISASSOC :: nat where "AP_MAX_INACTIVITY_AFTER_DISASSOC \<equiv> 30"
abbreviation (input) AP_MAX_INACTIVITY_AFTER_DEAUTH :: nat where "AP_MAX_INACTIVITY_AFTER_DEAUTH \<equiv> 5"

abbreviation (input) WLAN_REASON_PREV_AUTH_NOT_VALID :: u16 where "WLAN_REASON_PREV_AUTH_NOT_VALID \<equiv> 2"
abbreviation (input) WLAN_REASON_DISASSOC_DUE_TO_INACTIVITY :: u16 where "WLAN_REASON_DISASSOC_DUE_TO_INACTIVITY \<equiv> 4"

definition STA_HASH :: "macaddr \<Rightarrow> nat" where
  "STA_HASH a = unat (a ! 5)"

definition act :: "sta_act \<Rightarrow> bss \<Rightarrow> bss" where
  "act x h = h\<lparr>acts := acts h @ [x]\<rparr>"

definition act_if :: "bool \<Rightarrow> sta_act \<Rightarrow> bss \<Rightarrow> bss" where
  "act_if b x h = (if b then act x h else h)"

text \<open>Writing through the pointer to an entry.\<close>

definition upd_entry :: "macaddr \<Rightarrow> (sta_info \<Rightarrow> sta_info) \<Rightarrow> bss \<Rightarrow> bss" where
  "upd_entry a f h = h\<lparr>sta_list := map (\<lambda>s. if addr s = a then f s else s) (sta_list h)\<rparr>"

definition sta_of :: "bss \<Rightarrow> macaddr \<Rightarrow> sta_info option" where
  "sta_of h a = find (\<lambda>s. addr s = a) (sta_list h)"

definition sta_zero :: "macaddr \<Rightarrow> sta_info" where
  "sta_zero a = \<lparr>addr = a, aid = 0, flags = 0, capability = 0, listen_interval = 0, supported_rates = [],
     qosinfo = 0, nonerp_set = False, no_short_slot_time_set = False, no_short_preamble_set = False,
     no_ht_gf_set = False, no_ht_set = False, ht_20mhz_set = False, auth_alg = 0,
     previous_ap = replicate 6 0, timeout_next = STA_NULLFUNC, deauth_reason = 0, disassoc_reason = 0,
     has_eapol_sm = False, has_wpa_sm = False, last_assoc_req = None, challenge = None, sta_vlan_id = 0,
     sta_psk = [], sta_identity = None, sta_radius_cui = None, acct_interim_interval = 0, ht_capabilities = None,
     vht_capabilities = None, sta_wps_ie = None, handle_timer = None, session_timer = None, deauth_cb_timer = None,
     disassoc_cb_timer = None\<rparr>"

section \<open>Lookup\<close>

text \<open>The walk of the chain compares addresses; what is found is the entry itself.\<close>

definition ap_get_sta :: "bss \<Rightarrow> macaddr \<Rightarrow> sta_info option" where
  "ap_get_sta h a =
     (case find (\<lambda>x. x = a) (sta_hash h ! STA_HASH a) of None \<Rightarrow> None | Some x \<Rightarrow> sta_of h x)"

fun del_first :: "macaddr \<Rightarrow> macaddr list \<Rightarrow> macaddr list" where
  "del_first a [] = []"
| "del_first a (x # xs) = (if x = a then xs else x # del_first a xs)"

fun ap_sta_list_del :: "macaddr \<Rightarrow> sta_info list \<Rightarrow> sta_info list" where
  "ap_sta_list_del a [] = []"
| "ap_sta_list_del a (s # ss) = (if addr s = a then ss else s # ap_sta_list_del a ss)"

definition ap_sta_hash_add :: "macaddr \<Rightarrow> bss \<Rightarrow> bss" where
  "ap_sta_hash_add a h = h\<lparr>sta_hash := (sta_hash h)[STA_HASH a := a # sta_hash h ! STA_HASH a]\<rparr>"

definition ap_sta_hash_del :: "macaddr \<Rightarrow> bss \<Rightarrow> bss" where
  "ap_sta_hash_del a h = h\<lparr>sta_hash := (sta_hash h)[STA_HASH a := del_first a (sta_hash h ! STA_HASH a)]\<rparr>"

section \<open>Authorization and the other machines\<close>

definition ap_sta_set_authorized :: "macaddr \<Rightarrow> bool \<Rightarrow> bss \<Rightarrow> bss" where
  "ap_sta_set_authorized a authorized h =
     (case sta_of h a of
        None \<Rightarrow> h
      | Some s \<Rightarrow>
          if authorized = bit (flags s) WLAN_STA_AUTHORIZED then h
          else act (Sta_authorized a authorized)
            (upd_entry a (flags_update (if authorized then set_bit WLAN_STA_AUTHORIZED
                                        else unset_bit WLAN_STA_AUTHORIZED)) h))"

text \<open>\<^verbatim>\<open>ieee802_1x_free_station\<close>, \<^verbatim>\<open>ieee802_1x_notify_port_enabled\<close>, \<^verbatim>\<open>wpa_auth_sm_event\<close> and
  \<^verbatim>\<open>wpa_remove_ptk\<close> do nothing for a station that has no such machine.\<close>

definition free_eapol :: "macaddr \<Rightarrow> bss \<Rightarrow> bss" where
  "free_eapol a h =
     (case sta_of h a of
        None \<Rightarrow> h
      | Some s \<Rightarrow> if has_eapol_sm s then act (Eapol_free a) (upd_entry a (has_eapol_sm_update (\<lambda>_. False)) h) else h)"

definition notify_port_enabled :: "macaddr \<Rightarrow> bool \<Rightarrow> bss \<Rightarrow> bss" where
  "notify_port_enabled a v h =
     act_if (case sta_of h a of Some s \<Rightarrow> has_eapol_sm s | None \<Rightarrow> False) (Eapol_port_enabled a v) h"

definition wpa_sm_event :: "macaddr \<Rightarrow> wpa_event \<Rightarrow> bss \<Rightarrow> bss" where
  "wpa_sm_event a ev h =
     act_if (case sta_of h a of Some s \<Rightarrow> has_wpa_sm s | None \<Rightarrow> False) (Wpa_event_to a ev) h"

definition mlme_deletekeys_request :: "macaddr \<Rightarrow> bss \<Rightarrow> bss" where
  "mlme_deletekeys_request a h =
     act_if (case sta_of h a of Some s \<Rightarrow> has_wpa_sm s | None \<Rightarrow> False) (Wpa_remove_ptk_of a) h"

section \<open>HT protection mode (src/ap/ieee802\_11\_ht.c)\<close>

text \<open>The operation mode is in bits 0 and 1, the presence of devices without green field in bit 2 and of
  stations without HT in bit 4.  The result is the number of changes.\<close>

definition hostapd_ht_operation_update :: "bss_conf \<Rightarrow> bss \<Rightarrow> nat \<times> bss" where
  "hostapd_ht_operation_update cf h =
     (if \<not> ieee80211n cf \<or> ht_op_mode_fixed cf then (0, h)
      else
        let m = ht_op_mode h;
            (n1, m) = (if \<not> bit m 2 \<and> num_sta_ht_no_gf h \<noteq> 0 then (1, set_bit 2 m)
                       else if bit m 2 \<and> num_sta_ht_no_gf h = 0 then (1, unset_bit 2 m) else (0, m));
            (n2, m) = (if \<not> bit m 4 \<and> (num_sta_no_ht h \<noteq> 0 \<or> olbc_ht h) then (1, set_bit 4 m)
                       else if bit m 4 \<and> num_sta_no_ht h = 0 \<and> \<not> olbc_ht h then (1, unset_bit 4 m) else (0, m));
            new_op_mode = (if num_sta_no_ht h \<noteq> 0 then 3
                           else if secondary_channel cf \<noteq> 0 \<and> num_sta_ht_20mhz h \<noteq> 0 then 2
                           else if olbc_ht h then 1 else 0);
            (n3, m) = (if m AND 3 \<noteq> new_op_mode then (1, m AND NOT 3 OR new_op_mode) else (0, m))
        in (n1 + n2 + n3, h\<lparr>ht_op_mode := m\<rparr>))"

section \<open>Removing an entry\<close>

text \<open>One protection counter: the bit of the entry, the counter of the interface, whether the beacon changes
  when the counter reaches zero.\<close>

definition drop_nonerp :: "sta_info \<Rightarrow> bss \<Rightarrow> nat \<times> bss" where
  "drop_nonerp s h =
     (if nonerp_set s then
        let h = h\<lparr>num_sta_non_erp := num_sta_non_erp h - 1\<rparr> in (if num_sta_non_erp h = 0 then 1 else 0, h)
      else (0, h))"

definition drop_short_slot :: "bss_conf \<Rightarrow> sta_info \<Rightarrow> bss \<Rightarrow> nat \<times> bss" where
  "drop_short_slot cf s h =
     (if no_short_slot_time_set s then
        let h = h\<lparr>num_sta_no_short_slot_time := num_sta_no_short_slot_time h - 1\<rparr>
        in (if mode_g cf \<and> num_sta_no_short_slot_time h = 0 then 1 else 0, h)
      else (0, h))"

definition drop_short_preamble :: "bss_conf \<Rightarrow> sta_info \<Rightarrow> bss \<Rightarrow> nat \<times> bss" where
  "drop_short_preamble cf s h =
     (if no_short_preamble_set s then
        let h = h\<lparr>num_sta_no_short_preamble := num_sta_no_short_preamble h - 1\<rparr>
        in (if mode_g cf \<and> num_sta_no_short_preamble h = 0 then 1 else 0, h)
      else (0, h))"

definition drop_ht :: "sta_info \<Rightarrow> bss \<Rightarrow> bss" where
  "drop_ht s h =
     h\<lparr>num_sta_ht_no_gf := num_sta_ht_no_gf h - (if no_ht_gf_set s then 1 else 0),
       num_sta_no_ht := num_sta_no_ht h - (if no_ht_set s then 1 else 0),
       num_sta_ht_20mhz := num_sta_ht_20mhz h - (if ht_20mhz_set s then 1 else 0)\<rparr>"

definition clear_aid :: "sta_info \<Rightarrow> bss \<Rightarrow> bss" where
  "clear_aid s h =
     (if aid s > 0 then
        h\<lparr>sta_aid := (sta_aid h)[(aid s - 1) div 32 := unset_bit ((aid s - 1) mod 32) (sta_aid h ! ((aid s - 1) div 32))]\<rparr>
      else h)"

definition remove_entry :: "sta_info \<Rightarrow> bss \<Rightarrow> bss" where
  "remove_entry s h =
     (let h = ap_sta_hash_del (addr s) h;
          h = h\<lparr>sta_list := ap_sta_list_del (addr s) (sta_list h)\<rparr>;
          h = clear_aid s h
      in h\<lparr>num_sta := num_sta h - 1\<rparr>)"

text \<open>From the removal from the driver on, for the entry as it is then.\<close>

definition free_entry :: "bss_conf \<Rightarrow> sta_info \<Rightarrow> bss \<Rightarrow> bss" where
  "free_entry cf s h =
     (let h = act_if (bit (flags s) WLAN_STA_WDS) (Drv_wds_remove (addr s)) h;
          h = act_if (\<not> bit (flags s) WLAN_STA_PREAUTH) (Drv_sta_remove (addr s)) h;
          h = remove_entry s h;
          (b1, h) = drop_nonerp s h;
          (b2, h) = drop_short_slot cf s h;
          (b3, h) = drop_short_preamble cf s h;
          h = drop_ht s h;
          (b4, h) = hostapd_ht_operation_update cf h;
          h = act_if (b1 + b2 + b3 + b4 > 0) Set_beacons h;
          h = act_if (has_eapol_sm s) (Eapol_free (addr s)) h;
          h = act_if (has_wpa_sm s) (Wpa_deinit (addr s)) h
      in act (Radius_flush (addr s)) (act (Preauth_free (addr s)) h))"

definition ap_free_sta :: "bss_conf \<Rightarrow> macaddr \<Rightarrow> bss \<Rightarrow> bss" where
  "ap_free_sta cf a h =
     (let h = ap_sta_set_authorized a False (act (Acct_stop a) h) in
      case sta_of h a of None \<Rightarrow> h | Some s \<Rightarrow> free_entry cf s h)"

fun hostapd_free_stas_loop :: "bss_conf \<Rightarrow> macaddr list \<Rightarrow> bss \<Rightarrow> bss" where
  "hostapd_free_stas_loop cf [] h = h"
| "hostapd_free_stas_loop cf (a # as) h =
     (let h = (case sta_of h a of
                 Some s \<Rightarrow> if bit (flags s) WLAN_STA_AUTH then mlme_deletekeys_request a h else h
               | None \<Rightarrow> h)
      in hostapd_free_stas_loop cf as (ap_free_sta cf a h))"

definition hostapd_free_stas :: "bss_conf \<Rightarrow> bss \<Rightarrow> bss" where
  "hostapd_free_stas cf h = hostapd_free_stas_loop cf (map addr (sta_list h)) h"

section \<open>Adding an entry\<close>

definition insert_entry :: "bss \<Rightarrow> sta_info \<Rightarrow> bss" where
  "insert_entry h s =
     ap_sta_hash_add (addr s) (h\<lparr>sta_list := s # sta_list h, num_sta := num_sta h + 1\<rparr>)"

text \<open>The result is the entry, or nothing when there is no room.\<close>

definition ap_sta_add :: "bss_conf \<Rightarrow> macaddr \<Rightarrow> bss \<Rightarrow> sta_info option \<times> bss" where
  "ap_sta_add cf a h =
     (case ap_get_sta h a of
        Some s \<Rightarrow> (Some s, h)
      | None \<Rightarrow>
          if num_sta h \<ge> max_num_sta cf then (None, h)
          else
            let s = (sta_zero a)\<lparr>acct_interim_interval := conf_acct_interim_interval cf,
                       handle_timer := Some (ap_max_inactivity cf)\<rparr>
            in (Some s, act (Other_bss_disconnect a) (insert_entry h s)))"

section \<open>Timers\<close>

definition inactivity_check :: "bss_conf \<Rightarrow> macaddr \<Rightarrow> bss \<Rightarrow> nat \<times> bss" where
  "inactivity_check cf a h =
     (let h = act Os_random h; fuzz = os_random cf (acts h) mod 20;
          h = act (Drv_get_inact_sec a) h; inactive = inact_sec cf (acts h)
      in if inactive = -1 then (ap_max_inactivity cf + fuzz, h)
         else if inactive < int (ap_max_inactivity cf) then
           (nat (int (ap_max_inactivity cf) + int fuzz - inactive), upd_entry a (timeout_next_update (\<lambda>_. STA_NULLFUNC)) h)
         else if skip_inactivity_poll cf then (0, upd_entry a (timeout_next_update (\<lambda>_. STA_DISASSOC)) h)
         else (0, h))"

text \<open>The frame sent when the timer has decided against the station.\<close>

definition timer_notify :: "macaddr \<Rightarrow> sta_info \<Rightarrow> bss \<Rightarrow> bss" where
  "timer_notify a s h =
     (if timeout_next s = STA_NULLFUNC \<and> bit (flags s) WLAN_STA_ASSOC then
        act (Drv_poll_client a (bit (flags s) WLAN_STA_WMM))
          (upd_entry a (flags_update (set_bit WLAN_STA_PENDING_POLL)) h)
      else if timeout_next s \<noteq> STA_REMOVE then
        if timeout_next s = STA_DEAUTH then act (Drv_sta_deauth a WLAN_REASON_PREV_AUTH_NOT_VALID) h
        else act (Drv_sta_disassoc a (if timeout_next s = STA_DISASSOC then WLAN_REASON_DISASSOC_DUE_TO_INACTIVITY
                                      else WLAN_REASON_PREV_AUTH_NOT_VALID)) h
      else h)"

definition timer_advance :: "bss_conf \<Rightarrow> macaddr \<Rightarrow> sta_info \<Rightarrow> bss \<Rightarrow> bss" where
  "timer_advance cf a s h =
     (case timeout_next s of
        STA_NULLFUNC \<Rightarrow>
          upd_entry a (\<lambda>s. s\<lparr>timeout_next := STA_DISASSOC, handle_timer := Some AP_DISASSOC_DELAY\<rparr>) h
      | STA_DEAUTH \<Rightarrow> ap_free_sta cf a (mlme_deletekeys_request a h)
      | STA_REMOVE \<Rightarrow> ap_free_sta cf a (mlme_deletekeys_request a h)
      | _ \<Rightarrow>
          let h = ap_sta_set_authorized a False h;
              h = upd_entry a (flags_update (unset_bit WLAN_STA_ASSOC)) h;
              h = notify_port_enabled a False h;
              h = act (Acct_stop a) h;
              h = free_eapol a h;
              h = upd_entry a (\<lambda>s. s\<lparr>timeout_next := STA_DEAUTH, handle_timer := Some AP_DEAUTH_DELAY\<rparr>) h
          in mlme_deletekeys_request a h)"

text \<open>The handler of the timer of an entry: the event loop has removed the timer when it calls it.\<close>

definition ap_handle_timer :: "bss_conf \<Rightarrow> macaddr \<Rightarrow> bss \<Rightarrow> bss" where
  "ap_handle_timer cf a h =
     (case sta_of h a of
        None \<Rightarrow> h
      | Some s \<Rightarrow>
          let h = upd_entry a (handle_timer_update (\<lambda>_. None)) h in
          if timeout_next s = STA_REMOVE then ap_free_sta cf a h
          else
            let (next_time, h) =
                  (if bit (flags s) WLAN_STA_ASSOC \<and> (timeout_next s = STA_NULLFUNC \<or> timeout_next s = STA_DISASSOC)
                   then inactivity_check cf a h else (0, h));
                s = the (sta_of h a);
                acked = (bit (flags s) WLAN_STA_ASSOC \<and> timeout_next s = STA_DISASSOC \<and>
                         \<not> bit (flags s) WLAN_STA_PENDING_POLL \<and> \<not> skip_inactivity_poll cf);
                h = (if acked then upd_entry a (timeout_next_update (\<lambda>_. STA_NULLFUNC)) h else h);
                next_time = (if acked then ap_max_inactivity cf else next_time);
                s = the (sta_of h a)
            in if next_time \<noteq> 0 then upd_entry a (handle_timer_update (\<lambda>_. Some next_time)) h
               else timer_advance cf a s (timer_notify a s h))"

definition ap_handle_session_timer :: "bss_conf \<Rightarrow> macaddr \<Rightarrow> bss \<Rightarrow> bss" where
  "ap_handle_session_timer cf a h =
     (case sta_of h a of
        None \<Rightarrow> h
      | Some s \<Rightarrow>
          let h = upd_entry a (session_timer_update (\<lambda>_. None)) h in
          if \<not> bit (flags s) WLAN_STA_AUTH then
            if bit (flags s) WLAN_STA_GAS then ap_free_sta cf a h else h
          else act (Drv_sta_deauth a WLAN_REASON_PREV_AUTH_NOT_VALID)
            (ap_free_sta cf a (mlme_deletekeys_request a h)))"

definition ap_sta_session_timeout :: "macaddr \<Rightarrow> nat \<Rightarrow> bss \<Rightarrow> bss" where
  "ap_sta_session_timeout a t h = upd_entry a (session_timer_update (\<lambda>_. Some t)) h"

definition ap_sta_no_session_timeout :: "macaddr \<Rightarrow> bss \<Rightarrow> bss" where
  "ap_sta_no_session_timeout a h = upd_entry a (session_timer_update (\<lambda>_. None)) h"

definition ap_sta_remove :: "macaddr \<Rightarrow> bss \<Rightarrow> bss" where
  "ap_sta_remove a h = act (Drv_sta_remove a) (notify_port_enabled a False h)"

text \<open>Also handlers of timers, which are not armed any more when they run.\<close>

definition ap_sta_disassoc_cb_timeout :: "macaddr \<Rightarrow> bss \<Rightarrow> bss" where
  "ap_sta_disassoc_cb_timeout a h =
     mlme_deletekeys_request a (ap_sta_remove a (upd_entry a (disassoc_cb_timer_update (\<lambda>_. None)) h))"

definition ap_sta_deauth_cb_timeout :: "macaddr \<Rightarrow> bss \<Rightarrow> bss" where
  "ap_sta_deauth_cb_timeout a h =
     mlme_deletekeys_request a (ap_sta_remove a (upd_entry a (deauth_cb_timer_update (\<lambda>_. None)) h))"

definition cb_delay :: "bss_conf \<Rightarrow> nat" where
  "cb_delay cf = (if deauth_tx_status cf then 2 else 0)"

definition ap_sta_disassociate :: "bss_conf \<Rightarrow> macaddr \<Rightarrow> u16 \<Rightarrow> bss \<Rightarrow> bss" where
  "ap_sta_disassociate cf a reason h =
     (let h = upd_entry a (\<lambda>s. s\<lparr>flags := unset_bit WLAN_STA_ASSOC (unset_bit WLAN_STA_ASSOC_REQ_OK (flags s))\<rparr>) h;
          h = ap_sta_set_authorized a False h;
          h = upd_entry a (\<lambda>s. s\<lparr>timeout_next := STA_DEAUTH, handle_timer := Some AP_MAX_INACTIVITY_AFTER_DISASSOC\<rparr>) h;
          h = free_eapol a (act (Acct_stop a) h)
      in upd_entry a (\<lambda>s. s\<lparr>disassoc_reason := reason, flags := set_bit WLAN_STA_PENDING_DISASSOC_CB (flags s),
           disassoc_cb_timer := Some (cb_delay cf)\<rparr>) h)"

definition ap_sta_deauthenticate :: "bss_conf \<Rightarrow> macaddr \<Rightarrow> u16 \<Rightarrow> bss \<Rightarrow> bss" where
  "ap_sta_deauthenticate cf a reason h =
     (let h = upd_entry a (\<lambda>s. s\<lparr>flags := unset_bit WLAN_STA_AUTH (unset_bit WLAN_STA_ASSOC (flags s))\<rparr>) h;
          h = ap_sta_set_authorized a False h;
          h = upd_entry a (\<lambda>s. s\<lparr>timeout_next := STA_REMOVE, handle_timer := Some AP_MAX_INACTIVITY_AFTER_DEAUTH\<rparr>) h;
          h = free_eapol a (act (Acct_stop a) h)
      in upd_entry a (\<lambda>s. s\<lparr>deauth_reason := reason, flags := set_bit WLAN_STA_PENDING_DEAUTH_CB (flags s),
           deauth_cb_timer := Some (cb_delay cf)\<rparr>) h)"

definition ap_sta_disconnect :: "bss_conf \<Rightarrow> macaddr \<Rightarrow> u16 \<Rightarrow> bss \<Rightarrow> bss" where
  "ap_sta_disconnect cf a reason h =
     (let h = act (Drv_sta_deauth a reason) h in
      case ap_get_sta h a of
        None \<Rightarrow> h
      | Some _ \<Rightarrow>
          let h = ap_sta_set_authorized a False h;
              h = wpa_sm_event a WPA_DEAUTH h;
              h = notify_port_enabled a False h;
              h = upd_entry a (\<lambda>s. s\<lparr>flags := unset_bit WLAN_STA_AUTH (unset_bit WLAN_STA_ASSOC (flags s)),
                    timeout_next := STA_REMOVE, handle_timer := Some AP_MAX_INACTIVITY_AFTER_DEAUTH\<rparr>) h
          in upd_entry a (\<lambda>s. s\<lparr>deauth_reason := reason, flags := set_bit WLAN_STA_PENDING_DEAUTH_CB (flags s),
               deauth_cb_timer := Some (cb_delay cf)\<rparr>) h)"

definition ap_sta_deauth_cb :: "macaddr \<Rightarrow> bss \<Rightarrow> bss" where
  "ap_sta_deauth_cb a h =
     (case sta_of h a of
        None \<Rightarrow> h
      | Some s \<Rightarrow>
          if \<not> bit (flags s) WLAN_STA_PENDING_DEAUTH_CB then h
          else ap_sta_deauth_cb_timeout a
            (upd_entry a (\<lambda>s. s\<lparr>flags := unset_bit WLAN_STA_PENDING_DEAUTH_CB (flags s), deauth_cb_timer := None\<rparr>) h))"

definition ap_sta_disassoc_cb :: "macaddr \<Rightarrow> bss \<Rightarrow> bss" where
  "ap_sta_disassoc_cb a h =
     (case sta_of h a of
        None \<Rightarrow> h
      | Some s \<Rightarrow>
          if \<not> bit (flags s) WLAN_STA_PENDING_DISASSOC_CB then h
          else ap_sta_disassoc_cb_timeout a
            (upd_entry a (\<lambda>s. s\<lparr>flags := unset_bit WLAN_STA_PENDING_DISASSOC_CB (flags s), disassoc_cb_timer := None\<rparr>) h))"

section \<open>Association identifiers (src/ap/ieee802\_11.c)\<close>

text \<open>The first word that is not full, and in it the first clear bit.\<close>

definition free_aid :: "u32 list \<Rightarrow> (nat \<times> nat) option" where
  "free_aid ws =
     (case find (\<lambda>i. ws ! i \<noteq> -1) [0 ..< AID_WORDS] of
        None \<Rightarrow> None
      | Some i \<Rightarrow> map_option (\<lambda>j. (i, j)) (find (\<lambda>j. \<not> bit (ws ! i) j) [0 ..< 32]))"

definition hostapd_get_aid :: "macaddr \<Rightarrow> bss \<Rightarrow> int \<times> bss" where
  "hostapd_get_aid a h =
     (case sta_of h a of
        None \<Rightarrow> (-1, h)
      | Some s \<Rightarrow>
          if aid s > 0 then (0, h)
          else case free_aid (sta_aid h) of
            None \<Rightarrow> (-1, h)
          | Some (i, j) \<Rightarrow>
              if i * 32 + j + 1 > 2007 then (-1, h)
              else (0, upd_entry a (aid_update (\<lambda>_. i * 32 + j + 1))
                     (h\<lparr>sta_aid := (sta_aid h)[i := set_bit j (sta_aid h ! i)]\<rparr>)))"

end
