(* ===== verification/Sta_Facts.thy ===== *)
theory Sta_Facts
  imports Sta_Table
begin

text \<open>
  The station table keeps its promises: the list, the hash chains and the counters describe the same
  stations, every entry has a timer, the association identifiers in use are those of the entries.
  The table is a keyed store; the identifiers are handed out smallest first.
\<close>

section \<open>The invariant\<close>

definition table_wf :: "bss \<Rightarrow> bool" where
  "table_wf h \<longleftrightarrow>
     length (sta_hash h) = STA_HASH_SIZE \<and> distinct (map addr (sta_list h)) \<and>
     num_sta h = int (length (sta_list h)) \<and>
     (\<forall>k < STA_HASH_SIZE. distinct (sta_hash h ! k) \<and>
        set (sta_hash h ! k) = {a \<in> set (map addr (sta_list h)). STA_HASH a = k})"

definition counters_ok :: "bss \<Rightarrow> bool" where
  "counters_ok h \<longleftrightarrow>
     num_sta_non_erp h = int (length (filter nonerp_set (sta_list h))) \<and>
     num_sta_no_short_slot_time h = int (length (filter no_short_slot_time_set (sta_list h))) \<and>
     num_sta_no_short_preamble h = int (length (filter no_short_preamble_set (sta_list h))) \<and>
     num_sta_ht_no_gf h = int (length (filter no_ht_gf_set (sta_list h))) \<and>
     num_sta_no_ht h = int (length (filter no_ht_set (sta_list h))) \<and>
     num_sta_ht_20mhz h = int (length (filter ht_20mhz_set (sta_list h)))"

text \<open>Every entry has its timer armed, the ones of a set excepted whose timer is being handled.\<close>

definition timers_ok :: "macaddr set \<Rightarrow> bss \<Rightarrow> bool" where
  "timers_ok X h \<longleftrightarrow> (\<forall>s \<in> set (sta_list h). addr s \<notin> X \<longrightarrow> handle_timer s \<noteq> None)"

definition bss_inv :: "bss_conf \<Rightarrow> macaddr set \<Rightarrow> bss \<Rightarrow> bool" where
  "bss_inv cf X h \<longleftrightarrow> table_wf h \<and> counters_ok h \<and> timers_ok X h \<and> num_sta h \<le> max 0 (max_num_sta cf)"

definition aid_used :: "bss \<Rightarrow> nat \<Rightarrow> bool" where
  "aid_used h n \<longleftrightarrow> 0 < n \<and> n \<le> 32 * AID_WORDS \<and> bit (sta_aid h ! ((n - 1) div 32)) ((n - 1) mod 32)"

definition aid_inv :: "bss \<Rightarrow> bool" where
  "aid_inv h \<longleftrightarrow>
     length (sta_aid h) = AID_WORDS \<and>
     distinct (filter (\<lambda>n. 0 < n) (map aid (sta_list h))) \<and>
     (\<forall>n. aid_used h n \<longleftrightarrow> 0 < n \<and> n \<in> set (map aid (sta_list h))) \<and>
     (\<forall>n \<in> set (map aid (sta_list h)). n \<le> 2007)"

section \<open>Writes to an entry\<close>

definition shape :: "(sta_info \<Rightarrow> sta_info) \<Rightarrow> bool" where
  "shape f \<longleftrightarrow> (\<forall>s. addr (f s) = addr s \<and> nonerp_set (f s) = nonerp_set s \<and>
     no_short_slot_time_set (f s) = no_short_slot_time_set s \<and>
     no_short_preamble_set (f s) = no_short_preamble_set s \<and> no_ht_gf_set (f s) = no_ht_gf_set s \<and>
     no_ht_set (f s) = no_ht_set s \<and> ht_20mhz_set (f s) = ht_20mhz_set s)"

definition core :: "(sta_info \<Rightarrow> sta_info) \<Rightarrow> bool" where
  "core f \<longleftrightarrow> shape f \<and> (\<forall>s. aid (f s) = aid s)"

definition keeps :: "(sta_info \<Rightarrow> sta_info) \<Rightarrow> bool" where
  "keeps f \<longleftrightarrow> core f \<and> (\<forall>s. handle_timer (f s) = handle_timer s)"

definition arms :: "(sta_info \<Rightarrow> sta_info) \<Rightarrow> bool" where
  "arms f \<longleftrightarrow> core f \<and> (\<forall>s. handle_timer (f s) \<noteq> None)"

lemmas write_defs = keeps_def arms_def core_def shape_def

lemma upd_entry_sel [simp]:
  "sta_list (upd_entry a f h) = map (\<lambda>s. if addr s = a then f s else s) (sta_list h)"
  "sta_hash (upd_entry a f h) = sta_hash h" "num_sta (upd_entry a f h) = num_sta h"
  "sta_aid (upd_entry a f h) = sta_aid h" "num_sta_non_erp (upd_entry a f h) = num_sta_non_erp h"
  "num_sta_no_short_slot_time (upd_entry a f h) = num_sta_no_short_slot_time h"
  "num_sta_no_short_preamble (upd_entry a f h) = num_sta_no_short_preamble h"
  "num_sta_ht_no_gf (upd_entry a f h) = num_sta_ht_no_gf h" "num_sta_no_ht (upd_entry a f h) = num_sta_no_ht h"
  "num_sta_ht_20mhz (upd_entry a f h) = num_sta_ht_20mhz h" "acts (upd_entry a f h) = acts h"
  by (simp_all add: upd_entry_def)

lemma act_sel [simp]:
  "sta_list (act x h) = sta_list h" "sta_hash (act x h) = sta_hash h" "num_sta (act x h) = num_sta h"
  "sta_aid (act x h) = sta_aid h" "num_sta_non_erp (act x h) = num_sta_non_erp h"
  "num_sta_no_short_slot_time (act x h) = num_sta_no_short_slot_time h"
  "num_sta_no_short_preamble (act x h) = num_sta_no_short_preamble h"
  "num_sta_ht_no_gf (act x h) = num_sta_ht_no_gf h" "num_sta_no_ht (act x h) = num_sta_no_ht h"
  "num_sta_ht_20mhz (act x h) = num_sta_ht_20mhz h"
  by (simp_all add: act_def)

text \<open>The parts of the state that the invariants are about.\<close>

definition same_table :: "bss \<Rightarrow> bss \<Rightarrow> bool" where
  "same_table h h' \<longleftrightarrow> sta_list h' = sta_list h \<and> sta_hash h' = sta_hash h \<and> num_sta h' = num_sta h \<and>
     sta_aid h' = sta_aid h \<and> num_sta_non_erp h' = num_sta_non_erp h \<and>
     num_sta_no_short_slot_time h' = num_sta_no_short_slot_time h \<and>
     num_sta_no_short_preamble h' = num_sta_no_short_preamble h \<and> num_sta_ht_no_gf h' = num_sta_ht_no_gf h \<and>
     num_sta_no_ht h' = num_sta_no_ht h \<and> num_sta_ht_20mhz h' = num_sta_ht_20mhz h"

lemma bss_inv_same: "same_table h h' \<Longrightarrow> bss_inv cf X h' = bss_inv cf X h"
  by (simp add: same_table_def bss_inv_def table_wf_def counters_ok_def timers_ok_def)

lemma aid_inv_same: "same_table h h' \<Longrightarrow> aid_inv h' = aid_inv h"
  by (simp add: same_table_def aid_inv_def aid_used_def)

lemma same_table_act: "same_table h (act x h)" "same_table h (act_if b x h)"
  by (simp_all add: same_table_def act_if_def)

lemmas same_act [simp] = bss_inv_same [OF same_table_act(1)] bss_inv_same [OF same_table_act(2)]
  aid_inv_same [OF same_table_act(1)] aid_inv_same [OF same_table_act(2)]

lemma act_if_sel [simp]: "sta_list (act_if b x h) = sta_list h" "sta_of (act_if b x h) a = sta_of h a"
  "sta_of (act x h) a = sta_of h a"
  by (simp_all add: act_if_def sta_of_def)

lemma filter_upd:
  "(\<And>s. P (f s) = P s) \<Longrightarrow>
     length (filter P (map (\<lambda>s. if addr s = a then f s else s) l)) = length (filter P l)"
  by (induction l) auto

lemma core_addrs: "shape f \<Longrightarrow> map addr (map (\<lambda>s. if addr s = a then f s else s) l) = map addr l"
  by (induction l) (auto simp: shape_def)

lemma core_aids: "core f \<Longrightarrow> map aid (map (\<lambda>s. if addr s = a then f s else s) l) = map aid l"
  by (induction l) (auto simp: core_def)

lemma core_filter:
  assumes "shape f"
  shows "length (filter nonerp_set (map (\<lambda>s. if addr s = a then f s else s) l)) = length (filter nonerp_set l)"
    "length (filter no_short_slot_time_set (map (\<lambda>s. if addr s = a then f s else s) l)) =
       length (filter no_short_slot_time_set l)"
    "length (filter no_short_preamble_set (map (\<lambda>s. if addr s = a then f s else s) l)) =
       length (filter no_short_preamble_set l)"
    "length (filter no_ht_gf_set (map (\<lambda>s. if addr s = a then f s else s) l)) = length (filter no_ht_gf_set l)"
    "length (filter no_ht_set (map (\<lambda>s. if addr s = a then f s else s) l)) = length (filter no_ht_set l)"
    "length (filter ht_20mhz_set (map (\<lambda>s. if addr s = a then f s else s) l)) = length (filter ht_20mhz_set l)"
  using assms unfolding shape_def by (intro filter_upd, blast)+

lemma table_wf_upd: "shape f \<Longrightarrow> table_wf (upd_entry a f h) = table_wf h"
  unfolding table_wf_def upd_entry_sel core_addrs by simp

lemma counters_ok_upd: "shape f \<Longrightarrow> counters_ok (upd_entry a f h) = counters_ok h"
  unfolding counters_ok_def upd_entry_sel by (simp only: core_filter)

lemma aid_inv_upd [simp]: "core f \<Longrightarrow> aid_inv (upd_entry a f h) = aid_inv h"
  unfolding aid_inv_def aid_used_def upd_entry_sel core_aids by simp

lemma bss_inv_arms: "arms f \<Longrightarrow> bss_inv cf (insert a X) h \<Longrightarrow> bss_inv cf X (upd_entry a f h)"
  by (auto simp: bss_inv_def table_wf_upd counters_ok_upd timers_ok_def arms_def core_def)

lemma bss_inv_disarms: "shape f \<Longrightarrow> bss_inv cf X h \<Longrightarrow> bss_inv cf (insert a X) (upd_entry a f h)"
  by (auto simp: bss_inv_def table_wf_upd counters_ok_upd timers_ok_def) (auto simp: shape_def)

lemma bss_inv_shape:
  "shape f \<Longrightarrow> (\<And>s. handle_timer (f s) = handle_timer s) \<Longrightarrow> bss_inv cf X h \<Longrightarrow> bss_inv cf X (upd_entry a f h)"
  by (auto simp: bss_inv_def table_wf_upd counters_ok_upd timers_ok_def) (auto simp: shape_def)

lemma bss_inv_keeps: "keeps f \<Longrightarrow> bss_inv cf X h \<Longrightarrow> bss_inv cf X (upd_entry a f h)"
  by (auto simp: keeps_def core_def intro: bss_inv_shape)

lemma bss_inv_mono: "bss_inv cf X h \<Longrightarrow> X \<subseteq> Y \<Longrightarrow> bss_inv cf Y h"
  by (auto simp: bss_inv_def timers_ok_def)

lemma sta_of_upd: "shape f \<Longrightarrow> sta_of (upd_entry a f h) b = map_option (\<lambda>s. if addr s = a then f s else s) (sta_of h b)"
proof -
  assume "shape f"
  then have "find (\<lambda>s. addr s = b) (map (\<lambda>s. if addr s = a then f s else s) l) =
      map_option (\<lambda>s. if addr s = a then f s else s) (find (\<lambda>s. addr s = b) l)" for l
    by (induction l) (auto simp: shape_def)
  then show ?thesis by (simp add: sta_of_def)
qed

lemma sta_of_Some: "sta_of h a = Some s \<Longrightarrow> s \<in> set (sta_list h) \<and> addr s = a"
  by (auto simp: sta_of_def find_Some_iff)

lemma sta_of_None: "sta_of h a = None \<longleftrightarrow> a \<notin> addr ` set (sta_list h)"
  by (auto simp: sta_of_def find_None_iff)

section \<open>The table is a keyed store\<close>

lemma STA_HASH_less [simp]: "STA_HASH a < STA_HASH_SIZE"
  using unsigned_less [of "a ! 5"] by (simp add: STA_HASH_def)

lemma set_del_first: "distinct xs \<Longrightarrow> set (del_first a xs) = set xs - {a}"
  by (induction xs) auto

lemma set_del_first_subset: "set (del_first a xs) \<subseteq> set xs"
  by (induction xs) auto

lemma distinct_del_first: "distinct xs \<Longrightarrow> distinct (del_first a xs)"
  using set_del_first_subset by (induction xs) fastforce+

lemma list_del_filter: "distinct (map addr l) \<Longrightarrow> ap_sta_list_del a l = filter (\<lambda>s. addr s \<noteq> a) l"
  by (induction l) (auto simp: image_iff intro!: filter_True [symmetric])

lemma length_filter_addr:
  "distinct (map addr l) \<Longrightarrow> a \<in> addr ` set l \<Longrightarrow> length l = Suc (length (filter (\<lambda>s. addr s \<noteq> a) l))"
proof (induction l)
  case (Cons x l)
  show ?case
  proof (cases "addr x = a")
    case True
    then have "filter (\<lambda>s. addr s \<noteq> a) l = l" using Cons.prems by (intro filter_True) (auto simp: image_iff)
    then show ?thesis using True by simp
  qed (use Cons in auto)
qed simp

lemma find_eq: "find (\<lambda>x. x = a) xs = (if a \<in> set xs then Some a else None)"
  by (induction xs) auto

lemma get_sta_iff:
  assumes "table_wf h"
  shows "ap_get_sta h a = sta_of h a"
proof -
  have "set (sta_hash h ! STA_HASH a) = {b \<in> set (map addr (sta_list h)). STA_HASH b = STA_HASH a}"
    using assms by (simp add: table_wf_def)
  then have "find (\<lambda>x. x = a) (sta_hash h ! STA_HASH a) = (if a \<in> addr ` set (sta_list h) then Some a else None)"
    using find_eq [of a "sta_hash h ! STA_HASH a"] by auto
  then show ?thesis using sta_of_None [of h a] by (auto simp: ap_get_sta_def)
qed

lemma remove_entry_fields:
  "sta_list (remove_entry s h) = ap_sta_list_del (addr s) (sta_list h)"
  "sta_hash (remove_entry s h) = (sta_hash h)[STA_HASH (addr s) := del_first (addr s) (sta_hash h ! STA_HASH (addr s))]"
  "num_sta (remove_entry s h) = num_sta h - 1" "sta_aid (remove_entry s h) =
     (if aid s > 0 then (sta_aid h)[(aid s - 1) div 32 := unset_bit ((aid s - 1) mod 32) (sta_aid h ! ((aid s - 1) div 32))]
      else sta_aid h)" "sta_aid (clear_aid s h) =
     (if aid s > 0 then (sta_aid h)[(aid s - 1) div 32 := unset_bit ((aid s - 1) mod 32) (sta_aid h ! ((aid s - 1) div 32))]
      else sta_aid h)"
  "num_sta_non_erp (remove_entry s h) = num_sta_non_erp h"
  "num_sta_no_short_slot_time (remove_entry s h) = num_sta_no_short_slot_time h"
  "num_sta_no_short_preamble (remove_entry s h) = num_sta_no_short_preamble h"
  "num_sta_ht_no_gf (remove_entry s h) = num_sta_ht_no_gf h" "num_sta_no_ht (remove_entry s h) = num_sta_no_ht h"
  "num_sta_ht_20mhz (remove_entry s h) = num_sta_ht_20mhz h"
  by (simp_all add: remove_entry_def clear_aid_def ap_sta_hash_del_def Let_def)

lemmas remove_entry_sel = remove_entry_fields(1,2,3)

lemma table_wf_remove:
  assumes wf: "table_wf h" and s: "s \<in> set (sta_list h)"
  shows "table_wf (remove_entry s h)"
proof -
  have l: "sta_list (remove_entry s h) = filter (\<lambda>t. addr t \<noteq> addr s) (sta_list h)"
    using wf by (simp add: remove_entry_sel list_del_filter table_wf_def)
  have n: "length (sta_list h) = Suc (length (filter (\<lambda>t. addr t \<noteq> addr s) (sta_list h)))"
    using wf s by (intro length_filter_addr) (auto simp: table_wf_def)
  have "distinct (map addr (filter P l))" if "distinct (map addr l)" for P and l :: "sta_info list"
    using that by (rule distinct_map_filter)
  then show ?thesis
    using wf n unfolding table_wf_def l remove_entry_sel(2,3)
    by (auto simp: nth_list_update set_del_first distinct_del_first image_iff)
qed

lemma table_wf_insert:
  assumes wf: "table_wf h" and new: "addr s \<notin> addr ` set (sta_list h)"
  shows "table_wf (insert_entry h s)"
proof -
  have "distinct (addr s # sta_hash h ! STA_HASH (addr s))"
    using wf new by (auto simp: table_wf_def)
  then show ?thesis
    using wf new by (auto simp: table_wf_def insert_entry_def ap_sta_hash_add_def nth_list_update)
qed

definition bss_lookup :: "bss \<Rightarrow> macaddr \<Rightarrow> sta_info option" where
  "bss_lookup h a = ap_get_sta h a"

interpretation stas: keyed_store table_wf "\<lambda>h. set (sta_list h)" addr addr insert_entry
    "\<lambda>h s. remove_entry s h" bss_lookup
proof unfold_locales
  show "table_wf h \<Longrightarrow> s \<in> set (sta_list h) \<Longrightarrow> set (sta_list (remove_entry s h)) = set (sta_list h) - {s}" for h s
    using inj_onD [of addr "set (sta_list h)" _ s]
    by (auto simp: remove_entry_sel list_del_filter table_wf_def distinct_map)
  show "table_wf h \<Longrightarrow> bss_lookup h a = Some s \<Longrightarrow> s \<in> set (sta_list h) \<and> addr s = a" for h a s
    using sta_of_Some by (simp add: bss_lookup_def get_sta_iff)
  show "table_wf h \<Longrightarrow> bss_lookup h a = None \<Longrightarrow> s \<in> set (sta_list h) \<Longrightarrow> addr s \<noteq> a" for h a s
    using sta_of_None [of h a] by (auto simp: bss_lookup_def get_sta_iff)
  show "table_wf h \<Longrightarrow> bss_lookup (insert_entry h s) (addr s) = Some s" for h s
    by (simp add: bss_lookup_def ap_get_sta_def insert_entry_def ap_sta_hash_add_def table_wf_def sta_of_def)
  show "table_wf h \<Longrightarrow> d \<in> set (sta_list h) \<Longrightarrow> e \<in> set (sta_list h) \<Longrightarrow> addr d = addr e \<Longrightarrow> d = e" for h d e
    using inj_onD [of addr "set (sta_list h)" d e] by (simp add: table_wf_def distinct_map)
qed (simp_all add: table_wf_remove table_wf_insert, simp add: insert_entry_def ap_sta_hash_add_def)

section \<open>Freeing and adding\<close>

lemma same_table_trans: "same_table h k \<Longrightarrow> same_table k l \<Longrightarrow> same_table h l"
  by (simp add: same_table_def)

lemma ht_update_sel [simp]: "same_table h (snd (hostapd_ht_operation_update cf h))"
  by (simp add: same_table_def hostapd_ht_operation_update_def Let_def case_prod_beta)

lemma drop_snd:
  "snd (drop_nonerp s h) = h\<lparr>num_sta_non_erp := num_sta_non_erp h - (if nonerp_set s then 1 else 0)\<rparr>"
  "snd (drop_short_slot cf s h) =
     h\<lparr>num_sta_no_short_slot_time := num_sta_no_short_slot_time h - (if no_short_slot_time_set s then 1 else 0)\<rparr>"
  "snd (drop_short_preamble cf s h) =
     h\<lparr>num_sta_no_short_preamble := num_sta_no_short_preamble h - (if no_short_preamble_set s then 1 else 0)\<rparr>"
  by (simp_all add: drop_nonerp_def drop_short_slot_def drop_short_preamble_def Let_def)

lemma free_entry_table:
  "sta_list (free_entry cf s h) = ap_sta_list_del (addr s) (sta_list h) \<and>
   sta_hash (free_entry cf s h) = sta_hash (remove_entry s h) \<and>
   num_sta (free_entry cf s h) = num_sta h - 1 \<and> sta_aid (free_entry cf s h) = sta_aid (clear_aid s h) \<and>
   num_sta_non_erp (free_entry cf s h) = num_sta_non_erp h - (if nonerp_set s then 1 else 0) \<and>
   num_sta_no_short_slot_time (free_entry cf s h) = num_sta_no_short_slot_time h - (if no_short_slot_time_set s then 1 else 0) \<and>
   num_sta_no_short_preamble (free_entry cf s h) = num_sta_no_short_preamble h - (if no_short_preamble_set s then 1 else 0) \<and>
   num_sta_ht_no_gf (free_entry cf s h) = num_sta_ht_no_gf h - (if no_ht_gf_set s then 1 else 0) \<and>
   num_sta_no_ht (free_entry cf s h) = num_sta_no_ht h - (if no_ht_set s then 1 else 0) \<and>
   num_sta_ht_20mhz (free_entry cf s h) = num_sta_ht_20mhz h - (if ht_20mhz_set s then 1 else 0)"
proof -
  define g where "g = drop_ht s (snd (drop_short_preamble cf s (snd (drop_short_slot cf s (snd (drop_nonerp s
    (remove_entry s (act_if (\<not> bit (flags s) WLAN_STA_PREAUTH) (Drv_sta_remove (addr s))
      (act_if (bit (flags s) WLAN_STA_WDS) (Drv_wds_remove (addr s)) h)))))))))"
  have "\<exists>b. free_entry cf s h = act (Radius_flush (addr s)) (act (Preauth_free (addr s))
      (act_if (has_wpa_sm s) (Wpa_deinit (addr s)) (act_if (has_eapol_sm s) (Eapol_free (addr s))
        (act_if b Set_beacons (snd (hostapd_ht_operation_update cf g))))))"
    by (intro exI) (simp only: free_entry_def g_def Let_def case_prod_beta)
  then have "same_table g (free_entry cf s h)"
    using ht_update_sel [of g cf] by (auto intro!: same_table_trans [OF _ same_table_act(1)]
        same_table_trans [OF _ same_table_act(2)])
  moreover have "same_table h (act_if (\<not> bit (flags s) WLAN_STA_PREAUTH) (Drv_sta_remove (addr s))
      (act_if (bit (flags s) WLAN_STA_WDS) (Drv_wds_remove (addr s)) h))" (is "same_table h ?k")
    by (rule same_table_trans [OF same_table_act(2) same_table_act(2)])
  ultimately show ?thesis
    unfolding g_def drop_snd drop_ht_def same_table_def by (simp add: remove_entry_fields)
qed

lemma length_filter_removed:
  assumes "distinct (map addr l)" "s \<in> set l"
  shows "length (filter P (filter (\<lambda>t. addr t \<noteq> addr s) l)) = length (filter P l) - (if P s then 1 else 0)"
    and "P s \<Longrightarrow> 0 < length (filter P l)"
  using assms
proof (induction l)
  case (Cons x l)
  { case 1
    show ?case
    proof (cases "x = s")
      case True
      then have "filter (\<lambda>t. addr t \<noteq> addr s) l = l" using 1 by (intro filter_True) (auto simp: image_iff)
      then show ?thesis using True by simp
    next
      case False
      then have "s \<in> set l" "addr x \<noteq> addr s" using 1 by (auto simp: image_iff)
      then show ?thesis using Cons.IH 1 by (auto simp: Suc_diff_le)
    qed
  next
    case 2
    then show ?case using Cons.IH by (cases "x = s") auto }
qed auto

lemma counters_ok_free:
  assumes "table_wf h" "counters_ok h" "s \<in> set (sta_list h)"
  shows "counters_ok (free_entry cf s h)"
proof -
  have l: "sta_list (free_entry cf s h) = filter (\<lambda>t. addr t \<noteq> addr s) (sta_list h)"
    using assms(1) free_entry_table [of cf s h] by (simp add: list_del_filter table_wf_def)
  have "int (length (filter P (filter (\<lambda>t. addr t \<noteq> addr s) (sta_list h)))) =
      int (length (filter P (sta_list h))) - (if P s then 1 else 0)" for P
    using length_filter_removed [of "sta_list h" s P] assms by (auto simp: table_wf_def of_nat_diff Suc_le_eq)
  then show ?thesis using assms(2) free_entry_table [of cf s h] unfolding counters_ok_def l by simp
qed

lemma bss_inv_free_entry:
  assumes i: "bss_inv cf (insert (addr s) X) h" and s: "s \<in> set (sta_list h)"
  shows "bss_inv cf X (free_entry cf s h)"
proof -
  have wf: "table_wf h" using i by (simp add: bss_inv_def)
  have l: "sta_list (free_entry cf s h) = filter (\<lambda>t. addr t \<noteq> addr s) (sta_list h)"
    using wf free_entry_table [of cf s h] by (simp add: list_del_filter table_wf_def)
  have "table_wf (free_entry cf s h)"
    using table_wf_remove [OF wf s] free_entry_table [of cf s h] remove_entry_sel [of s h] by (simp add: table_wf_def)
  moreover have "num_sta (free_entry cf s h) \<le> max 0 (max_num_sta cf)"
    using i free_entry_table [of cf s h] by (simp add: bss_inv_def)
  ultimately show ?thesis
    using i s counters_ok_free [OF wf] by (auto simp: bss_inv_def timers_ok_def l)
qed

section \<open>Association identifiers\<close>

lemma aid_index:
  assumes "0 < n" "n \<le> 32 * AID_WORDS"
  shows "(n - 1) div 32 < AID_WORDS" "(n - 1) mod 32 < 32"
  using assms by auto

lemma aid_index_eq:
  "0 < m \<Longrightarrow> 0 < n \<Longrightarrow> (m - 1) div 32 = (n - 1) div 32 \<Longrightarrow> (m - 1) mod 32 = (n - 1) mod 32 \<Longrightarrow> m = (n :: nat)"
  by (metis Suc_diff_1 div_mult_mod_eq)

lemma positive_aid_unique:
  assumes "distinct (filter (\<lambda>n. 0 < n) (map aid l))" "s \<in> set l" "t \<in> set l" "aid s = aid t" "0 < aid s"
  shows "s = t"
  using assms by (induction l) (fastforce simp: image_iff split: if_splits)+

lemma aid_used_clear:
  assumes "length (sta_aid h) = AID_WORDS" "aid s \<le> 2007" "sta_aid g = sta_aid (clear_aid s h)"
  shows "aid_used g n \<longleftrightarrow> aid_used h n \<and> n \<noteq> aid s"
proof (cases "0 < aid s")
  case True
  then have i: "(aid s - 1) div 32 < AID_WORDS" using assms(2) by (intro aid_index) auto
  show ?thesis
  proof (cases "0 < n \<and> n \<le> 32 * AID_WORDS")
    case n: True
    have "(n - 1) div 32 < AID_WORDS" "(n - 1) mod 32 < 32" using n aid_index [of n] by auto
    then show ?thesis
      using n True i assms(1,3) aid_index_eq [of n "aid s"]
      by (auto simp: aid_used_def clear_aid_def nth_list_update bit_unset_bit_iff)
  qed (auto simp: aid_used_def)
next
  case False
  then show ?thesis using assms(3) by (auto simp: aid_used_def clear_aid_def)
qed

lemma aid_inv_free_entry:
  assumes a: "aid_inv h" and wf: "table_wf h" and s: "s \<in> set (sta_list h)"
  shows "aid_inv (free_entry cf s h)"
proof -
  let ?g = "free_entry cf s h" and ?l = "filter (\<lambda>t. addr t \<noteq> addr s) (sta_list h)"
  have l: "sta_list ?g = ?l" using wf free_entry_table [of cf s h] by (simp add: list_del_filter table_wf_def)
  have used: "aid_used ?g n \<longleftrightarrow> aid_used h n \<and> n \<noteq> aid s" for n
    using a s free_entry_table [of cf s h] by (intro aid_used_clear) (auto simp: aid_inv_def)
  have "length (sta_aid ?g) = AID_WORDS"
    using a free_entry_table [of cf s h] by (simp add: aid_inv_def clear_aid_def)
  moreover have "distinct (filter (\<lambda>n. 0 < n) (map aid ?l))"
  proof -
    have "distinct (map aid (filter (\<lambda>t. 0 < aid t) (sta_list h)))" using a by (simp add: aid_inv_def filter_map comp_def)
    then have "distinct (map aid (filter (\<lambda>t. addr t \<noteq> addr s) (filter (\<lambda>t. 0 < aid t) (sta_list h))))"
      by (rule distinct_map_filter)
    then show ?thesis by (simp add: filter_map comp_def conj_commute)
  qed
  moreover have "n \<in> set (map aid ?l) \<longleftrightarrow> n \<in> set (map aid (sta_list h)) \<and> n \<noteq> aid s" if "0 < n" for n
  proof -
    have "t = s" if "t \<in> set (sta_list h)" "aid t = aid s" "0 < aid s" for t
      using positive_aid_unique [of "sta_list h" t s] a s that by (simp add: aid_inv_def)
    moreover have "t = s" if "t \<in> set (sta_list h)" "addr t = addr s" for t
      using stas.unique [OF wf] s that by blast
    ultimately show ?thesis using \<open>0 < n\<close> s by (auto simp: image_iff) metis
  qed
  ultimately show ?thesis using a used unfolding aid_inv_def l by (auto simp: image_iff)
qed

lemma full_word: "(\<forall>j < 32. bit w j) \<longleftrightarrow> w = (-1 :: u32)"
  by (auto simp: bit_eq_iff bit_minus_1_iff)

lemma find_upt_Some:
  "find P [0 ..< n] = Some i \<longleftrightarrow> i < n \<and> P i \<and> (\<forall>k < i. \<not> P k)"
  by (auto simp: find_Some_iff)

lemma free_aid_Some:
  assumes "free_aid ws = Some (i, j)"
  shows "i < AID_WORDS" "j < 32" "\<not> bit (ws ! i) j" "\<forall>k < i. ws ! k = -1" "\<forall>k < j. bit (ws ! i) k"
  using assms by (auto simp: free_aid_def find_upt_Some split: option.splits)

lemma free_aid_None:
  assumes "free_aid ws = None" "i < AID_WORDS"
  shows "ws ! i = -1"
proof (rule ccontr)
  assume ne: "ws ! i \<noteq> -1"
  obtain k where k: "find (\<lambda>i. ws ! i \<noteq> -1) [0 ..< AID_WORDS] = Some k" "ws ! k \<noteq> -1"
    using ne assms(2) by (cases "find (\<lambda>i. ws ! i \<noteq> -1) [0 ..< AID_WORDS]")
      (auto simp: find_None_iff find_upt_Some)
  then have "find (\<lambda>j. \<not> bit (ws ! k) j) [0 ..< 32] = None" using assms(1) by (auto simp: free_aid_def)
  then have "\<forall>j < 32. bit (ws ! k) j" by (auto simp: find_None_iff)
  then show False using k(2) full_word by blast
qed

text \<open>The smallest free identifier.\<close>

lemma free_aid_least:
  assumes "free_aid (sta_aid h) = Some (i, j)"
  shows "\<not> aid_used h (i * 32 + j + 1)" "\<And>n. 0 < n \<Longrightarrow> n < i * 32 + j + 1 \<Longrightarrow> aid_used h n"
proof -
  note f = free_aid_Some [OF assms]
  show "\<not> aid_used h (i * 32 + j + 1)" using f by (simp add: aid_used_def)
  fix n :: nat
  assume n: "0 < n" "n < i * 32 + j + 1"
  then have le: "n - 1 < i * 32 + j" by simp
  show "aid_used h n"
  proof (cases "(n - 1) div 32 < i")
    case True
    then show ?thesis using n f full_word [of "sta_aid h ! ((n - 1) div 32)"] by (auto simp: aid_used_def)
  next
    case False
    then have d: "(n - 1) div 32 = i" using le f(2) by (auto simp: div_less_iff_less_mult)
    then have "n - 1 = i * 32 + (n - 1) mod 32" by (metis div_mult_mod_eq)
    then have "(n - 1) mod 32 < j" using le by linarith
    with d show ?thesis using n f by (auto simp: aid_used_def)
  qed
qed

end
