(* ===== verification/Sta_Invariant.thy ===== *)
theory Sta_Invariant
  imports Sta_Facts
begin

text \<open>
  Every operation of the station table keeps its invariant.  The invariant comes in one predicate
  with two parameters: whether the association identifiers are included, and the entries whose
  timer is being handled.
\<close>

definition good :: "bss_conf \<Rightarrow> bool \<Rightarrow> macaddr set \<Rightarrow> bss \<Rightarrow> bool" where
  "good cf aids X h \<longleftrightarrow> bss_inv cf X h \<and> (aids \<longrightarrow> aid_inv h)"

section \<open>Steps\<close>

lemma good_table: "good cf aids X h \<Longrightarrow> table_wf h"
  by (simp add: good_def bss_inv_def)

lemma good_act [simp]: "good cf aids X (act x h) = good cf aids X h" "good cf aids X (act_if b x h) = good cf aids X h"
  by (simp_all add: good_def)

lemma good_keeps [intro]: "keeps f \<Longrightarrow> good cf aids X h \<Longrightarrow> good cf aids X (upd_entry a f h)"
  by (auto simp: good_def bss_inv_keeps keeps_def)

lemma good_arms: "arms f \<Longrightarrow> good cf aids (insert a X) h \<Longrightarrow> good cf aids X (upd_entry a f h)"
  by (auto simp: good_def bss_inv_arms arms_def)

lemma good_disarms: "core f \<Longrightarrow> good cf aids X h \<Longrightarrow> good cf aids (insert a X) (upd_entry a f h)"
  by (auto simp: good_def bss_inv_disarms core_def)

lemma good_mono: "good cf aids X h \<Longrightarrow> X \<subseteq> Y \<Longrightarrow> good cf aids Y h"
  by (auto simp: good_def bss_inv_mono)

lemma good_arms': "arms f \<Longrightarrow> good cf aids X h \<Longrightarrow> good cf aids X (upd_entry a f h)"
  by (rule good_arms) (auto intro: good_mono)

lemma good_absent: "good cf aids (insert a X) h \<Longrightarrow> a \<notin> addr ` set (sta_list h) \<Longrightarrow> good cf aids X h"
  by (auto simp: good_def bss_inv_def timers_ok_def)

lemma good_free_entry:
  "good cf aids (insert (addr s) X) h \<Longrightarrow> s \<in> set (sta_list h) \<Longrightarrow> good cf aids X (free_entry cf s h)"
  using bss_inv_free_entry [of cf s X h] aid_inv_free_entry [of h s cf]
  by (auto simp: good_def bss_inv_def [of cf "insert (addr s) X"])

section \<open>Writes the operations make\<close>

lemma keeps_writes [simp]:
  "keeps (flags_update f)" "keeps (has_eapol_sm_update b)" "keeps (has_wpa_sm_update b)"
  "keeps (session_timer_update t)" "keeps (deauth_cb_timer_update t)" "keeps (disassoc_cb_timer_update t)"
  "keeps (timeout_next_update n)" "keeps (challenge_update c)" "keeps (auth_alg_update w)"
  by (simp_all add: write_defs)

lemma good_set_authorized [inv_intros]:
  "good cf aids X h \<Longrightarrow> good cf aids X (ap_sta_set_authorized a v h)"
  by (auto simp: ap_sta_set_authorized_def split: option.split)

lemma good_free_eapol [inv_intros]: "good cf aids X h \<Longrightarrow> good cf aids X (free_eapol a h)"
  by (auto simp: free_eapol_def split: option.split)

lemma good_notify [simp]:
  "good cf aids X (notify_port_enabled a v h) = good cf aids X h"
  "good cf aids X (wpa_sm_event a ev h) = good cf aids X h"
  "good cf aids X (mlme_deletekeys_request a h) = good cf aids X h"
  "good cf aids X (ap_sta_remove a h) = good cf aids X h"
  by (simp_all add: notify_port_enabled_def wpa_sm_event_def mlme_deletekeys_request_def ap_sta_remove_def)

lemma good_cb_timeout [inv_intros]:
  "good cf aids X h \<Longrightarrow> good cf aids X (ap_sta_disassoc_cb_timeout a h)"
  "good cf aids X h \<Longrightarrow> good cf aids X (ap_sta_deauth_cb_timeout a h)"
  by (simp_all add: ap_sta_disassoc_cb_timeout_def ap_sta_deauth_cb_timeout_def good_keeps)

lemma good_free [inv_intros]:
  assumes "good cf aids (insert a X) h"
  shows "good cf aids X (ap_free_sta cf a h)"
proof -
  define g where "g = ap_sta_set_authorized a False (act (Acct_stop a) h)"
  have g: "good cf aids (insert a X) g" unfolding g_def using assms by (intro good_set_authorized) simp
  show ?thesis
  proof (cases "sta_of g a")
    case None
    then show ?thesis using good_absent [OF g] by (auto simp: ap_free_sta_def g_def [symmetric] Let_def simp flip: sta_of_None)
  next
    case (Some s)
    then have "s \<in> set (sta_list g)" "addr s = a" using sta_of_Some by auto
    then show ?thesis using Some good_free_entry [of cf aids s X g] g by (simp add: ap_free_sta_def g_def [symmetric])
  qed
qed

lemma good_free' [inv_intros]: "good cf aids X h \<Longrightarrow> good cf aids X (ap_free_sta cf a h)"
  by (rule good_free) (auto intro: good_mono)

lemma good_free_stas [inv_intros]: "good cf aids X h \<Longrightarrow> good cf aids X (hostapd_free_stas cf h)"
proof -
  have "good cf aids X g \<Longrightarrow> good cf aids X (hostapd_free_stas_loop cf as g)" for as g
    by (induction as arbitrary: g) (auto simp: Let_def good_free' split: option.split)
  then show "good cf aids X h \<Longrightarrow> ?thesis" by (simp add: hostapd_free_stas_def)
qed

section \<open>Adding\<close>

lemma insert_entry_sel [simp]:
  "sta_list (insert_entry h s) = s # sta_list h" "num_sta (insert_entry h s) = num_sta h + 1"
  "sta_aid (insert_entry h s) = sta_aid h"
  "num_sta_non_erp (insert_entry h s) = num_sta_non_erp h"
  "num_sta_no_short_slot_time (insert_entry h s) = num_sta_no_short_slot_time h"
  "num_sta_no_short_preamble (insert_entry h s) = num_sta_no_short_preamble h"
  "num_sta_ht_no_gf (insert_entry h s) = num_sta_ht_no_gf h" "num_sta_no_ht (insert_entry h s) = num_sta_no_ht h"
  "num_sta_ht_20mhz (insert_entry h s) = num_sta_ht_20mhz h"
  by (simp_all add: insert_entry_def ap_sta_hash_add_def)

lemma good_insert:
  assumes "good cf aids X h" "addr s \<notin> addr ` set (sta_list h)" "num_sta h < max_num_sta cf"
    "s = (sta_zero a)\<lparr>acct_interim_interval := i, handle_timer := Some t\<rparr>"
  shows "good cf aids X (insert_entry h s)"
proof -
  have "table_wf (insert_entry h s)" using assms by (intro table_wf_insert) (auto dest: good_table)
  moreover have "counters_ok (insert_entry h s)"
    using assms by (simp add: good_def bss_inv_def counters_ok_def sta_zero_def)
  moreover have "aid_inv h \<Longrightarrow> aid_inv (insert_entry h s)"
    using assms(4) by (auto simp: aid_inv_def aid_used_def sta_zero_def)
  ultimately show ?thesis using assms by (auto simp: good_def bss_inv_def timers_ok_def sta_zero_def)
qed

lemma good_sta_add [inv_intros]:
  assumes "good cf aids X h"
  shows "good cf aids X (snd (ap_sta_add cf a h))"
proof (cases "sta_of h a")
  case None
  have "a \<notin> addr ` set (sta_list h)" using None by (simp add: sta_of_None)
  moreover have "ap_get_sta h a = None" using None get_sta_iff [OF good_table [OF assms]] by simp
  ultimately show ?thesis
    using good_insert [OF assms, of "(sta_zero a)\<lparr>acct_interim_interval := conf_acct_interim_interval cf,
        handle_timer := Some (ap_max_inactivity cf)\<rparr>" _ _ a] assms
    by (auto simp: ap_sta_add_def Let_def sta_zero_def)
qed (use assms get_sta_iff [OF good_table [OF assms]] in \<open>simp add: ap_sta_add_def\<close>)

section \<open>Identifiers\<close>

lemma aid_upd_distinct:
  assumes "distinct (filter (\<lambda>n. 0 < n) (map aid l))" "n \<notin> aid ` set l" "distinct (map addr l)"
  shows "distinct (filter (\<lambda>n. 0 < n) (map aid (map (\<lambda>t. if addr t = a then t\<lparr>aid := n\<rparr> else t) l)))"
  using assms
proof (induction l)
  case (Cons x l)
  let ?f = "\<lambda>t. if addr t = a then t\<lparr>aid := n\<rparr> else t"
  have d: "distinct (filter (\<lambda>n. 0 < n) (map aid l))" "0 < aid x \<Longrightarrow> aid x \<notin> set (map aid l)"
    using Cons.prems(1) by (auto split: if_splits)
  then have IH: "distinct (filter (\<lambda>n. 0 < n) (map aid (map ?f l)))"
    using Cons.prems by (intro Cons.IH) auto
  have img: "set (map aid (map ?f l)) \<subseteq> insert n (set (map aid l))" by auto
  have "aid (?f x) \<notin> set (map aid (map ?f l))" if "0 < aid (?f x)"
  proof (cases "addr x = a")
    case True
    then have "map ?f l = l" using Cons.prems(3) by (intro map_idI) (auto simp: image_iff)
    then show ?thesis using True Cons.prems(2) by simp
  next
    case False
    then show ?thesis using img d(2) Cons.prems(2) that by auto
  qed
  then show ?case using IH by auto
qed simp

lemma aid_upd_set:
  assumes "distinct (map addr l)" "s \<in> set l" "aid s = 0"
  shows "0 < m \<Longrightarrow> m \<in> set (map aid (map (\<lambda>t. if addr t = addr s then t\<lparr>aid := n\<rparr> else t) l)) \<longleftrightarrow>
    m = n \<or> m \<in> set (map aid l)"
proof -
  assume m: "0 < m"
  have eq: "t = s" if "t \<in> set l" "addr t = addr s" for t
    using inj_onD [of addr "set l" t s] assms that by (simp add: distinct_map)
  have "t \<in> set l \<Longrightarrow> aid t = m \<Longrightarrow> addr t \<noteq> addr s" for t using eq [of t] assms(3) m by (metis less_irrefl)
  then show ?thesis using assms(2) by (force simp: image_iff)
qed

lemma aid_used_set:
  assumes "length (sta_aid h) = AID_WORDS" "i < AID_WORDS" "j < 32"
    "sta_aid g = (sta_aid h)[i := set_bit j (sta_aid h ! i)]"
  shows "aid_used g n \<longleftrightarrow> aid_used h n \<or> n = i * 32 + j + 1"
proof (cases "0 < n \<and> n \<le> 32 * AID_WORDS")
  case n: True
  have "(n - 1) div 32 < AID_WORDS" "(n - 1) mod 32 < 32" using n aid_index [of n] by auto
  moreover have "(i * 32 + j + 1 - 1) div 32 = i" "(i * 32 + j + 1 - 1) mod 32 = j" using assms(3) by auto
  moreover have "n = i * 32 + j + 1 \<longleftrightarrow> (n - 1) div 32 = i \<and> (n - 1) mod 32 = j"
    using n aid_index_eq [of n "i * 32 + j + 1"] calculation by auto
  ultimately show ?thesis
    using n assms by (auto simp: aid_used_def nth_list_update bit_set_bit_iff)
next
  case False
  then show ?thesis using assms(2,3) by (auto simp: aid_used_def)
qed

lemma aid_inv_new:
  assumes a: "aid_inv h" and wf: "table_wf h" and s: "sta_of h a = Some s" "aid s = 0"
    and ij: "free_aid (sta_aid h) = Some (i, j)" "i * 32 + j + 1 \<le> 2007"
  shows "aid_inv (upd_entry a (aid_update (\<lambda>_. i * 32 + j + 1)) (h\<lparr>sta_aid := (sta_aid h)[i := set_bit j (sta_aid h ! i)]\<rparr>))"
    (is "aid_inv ?g")
proof -
  let ?n = "i * 32 + j + 1"
  note f = free_aid_Some [OF ij(1)]
  have s': "s \<in> set (sta_list h)" "addr s = a" using sta_of_Some [OF s(1)] by auto
  have l: "sta_list ?g = map (\<lambda>t. if addr t = a then t\<lparr>aid := ?n\<rparr> else t) (sta_list h)" by simp
  have used: "aid_used ?g m \<longleftrightarrow> aid_used h m \<or> m = ?n" for m
    using a f by (intro aid_used_set) (auto simp: aid_inv_def)
  have mem: "m \<in> set (map aid (sta_list ?g)) \<longleftrightarrow> m = ?n \<or> m \<in> set (map aid (sta_list h))" if "0 < m" for m
    using aid_upd_set [of "sta_list h" s m ?n] that wf s' s(2) unfolding l by (simp add: table_wf_def)
  have "t = s" if "t \<in> set (sta_list h)" "addr t = a" for t
    using stas.unique [OF wf] s' that by metis
  then have "distinct (filter (\<lambda>n. 0 < n) (map aid (sta_list ?g)))"
    unfolding l using a wf s(2) free_aid_least(1) [OF ij(1)]
    by (intro aid_upd_distinct) (auto simp: aid_inv_def table_wf_def)
  moreover have "m \<le> 2007" if "m \<in> set (map aid (sta_list ?g))" for m
    using mem [of m] that ij(2) a by (cases "0 < m") (auto simp: aid_inv_def)
  moreover have "aid_used ?g m \<longleftrightarrow> 0 < m \<and> m \<in> set (map aid (sta_list ?g))" for m
    using used mem [of m] a by (cases "0 < m") (auto simp: aid_inv_def)
  ultimately show ?thesis using a by (simp add: aid_inv_def)
qed

lemma good_get_aid [inv_intros]:
  assumes "good cf aids X h"
  shows "good cf aids X (snd (hostapd_get_aid a h))"
proof -
  have "bss_inv cf X (upd_entry a (aid_update f) (h\<lparr>sta_aid := w\<rparr>))" for f w
    using assms by (intro bss_inv_shape)
      (auto simp: shape_def good_def bss_inv_def table_wf_def counters_ok_def timers_ok_def)
  then show ?thesis
    using assms aid_inv_new [of h a] good_table [OF assms]
    by (auto simp: hostapd_get_aid_def good_def split: option.split prod.split)
qed

section \<open>Timers and disconnection\<close>

lemma core_writes [simp]:
  "core (handle_timer_update g)"
  "arms (handle_timer_update (\<lambda>_. Some n))"
  "arms (\<lambda>s. s\<lparr>timeout_next := w, handle_timer := Some n\<rparr>)"
  "arms (\<lambda>s. s\<lparr>flags := fl s, timeout_next := w, handle_timer := Some n\<rparr>)"
  "keeps (\<lambda>s. s\<lparr>flags := fl s\<rparr>)"
  "keeps (\<lambda>s. s\<lparr>disassoc_reason := r, flags := fl s, disassoc_cb_timer := t\<rparr>)"
  "keeps (\<lambda>s. s\<lparr>deauth_reason := r, flags := fl s, deauth_cb_timer := t\<rparr>)"
  "keeps (\<lambda>s. s\<lparr>flags := fl s, deauth_cb_timer := t\<rparr>)"
  "keeps (\<lambda>s. s\<lparr>flags := fl s, disassoc_cb_timer := t\<rparr>)"
  by (simp_all add: write_defs)

lemma good_inactivity_check [inv_intros]:
  "good cf aids X h \<Longrightarrow> good cf aids X (snd (inactivity_check cf a h))"
  by (simp add: inactivity_check_def Let_def good_keeps)

lemma good_timer_notify [inv_intros]: "good cf aids X h \<Longrightarrow> good cf aids X (timer_notify a s h)"
  by (simp add: timer_notify_def good_keeps)

lemma good_timer_advance [inv_intros]:
  assumes "good cf aids (insert a X) h"
  shows "good cf aids X (timer_advance cf a s h)"
proof -
  have "good cf aids X (upd_entry a (\<lambda>s. s\<lparr>timeout_next := STA_DEAUTH, handle_timer := Some AP_DEAUTH_DELAY\<rparr>)
      (free_eapol a (act (Acct_stop a) (notify_port_enabled a False
        (upd_entry a (flags_update (unset_bit WLAN_STA_ASSOC)) (ap_sta_set_authorized a False h))))))"
    using assms by (intro good_arms good_free_eapol) (simp_all add: good_keeps good_set_authorized)
  then show ?thesis
    using assms by (cases "timeout_next s") (simp_all add: timer_advance_def Let_def good_arms good_free)
qed

lemma good_handle_timer [inv_intros]:
  assumes "good cf aids X h"
  shows "good cf aids X (ap_handle_timer cf a h)"
proof (cases "sta_of h a")
  case (Some s)
  define h1 where "h1 = upd_entry a (handle_timer_update (\<lambda>_. None)) h"
  define r where "r = (if bit (flags s) WLAN_STA_ASSOC \<and> (timeout_next s = STA_NULLFUNC \<or> timeout_next s = STA_DISASSOC)
    then inactivity_check cf a h1 else (0, h1))"
  have g1: "good cf aids (insert a X) h1" unfolding h1_def using assms by (intro good_disarms) simp_all
  then have "good cf aids (insert a X) (snd r)" unfolding r_def by (simp add: good_inactivity_check)
  moreover from this have "good cf aids (insert a X) (upd_entry a (timeout_next_update (\<lambda>_. STA_NULLFUNC)) (snd r))"
    by (intro good_keeps) simp_all
  ultimately show ?thesis
    using g1
    unfolding ap_handle_timer_def Some option.case Let_def h1_def [symmetric] case_prod_beta r_def [symmetric]
    by (simp add: good_free good_arms good_timer_notify good_timer_advance)
qed (use assms in \<open>simp add: ap_handle_timer_def\<close>)

lemma good_session_timer [inv_intros]:
  assumes "good cf aids X h"
  shows "good cf aids X (ap_handle_session_timer cf a h)"
  using assms good_keeps [OF keeps_writes(4) assms, of a "\<lambda>_. None"]
  by (auto simp: ap_handle_session_timer_def Let_def good_free' split: option.split)

lemma good_session_timeout [inv_intros]:
  "good cf aids X h \<Longrightarrow> good cf aids X (ap_sta_session_timeout a t h)"
  "good cf aids X h \<Longrightarrow> good cf aids X (ap_sta_no_session_timeout a h)"
  by (simp_all add: ap_sta_session_timeout_def ap_sta_no_session_timeout_def good_keeps)

lemma good_disassociate [inv_intros]: "good cf aids X h \<Longrightarrow> good cf aids X (ap_sta_disassociate cf a reason h)"
  by (simp add: ap_sta_disassociate_def Let_def good_keeps good_arms' good_free_eapol good_set_authorized)

lemma good_deauthenticate [inv_intros]: "good cf aids X h \<Longrightarrow> good cf aids X (ap_sta_deauthenticate cf a reason h)"
  by (simp add: ap_sta_deauthenticate_def Let_def good_keeps good_arms' good_free_eapol good_set_authorized)

lemma good_disconnect [inv_intros]: "good cf aids X h \<Longrightarrow> good cf aids X (ap_sta_disconnect cf a reason h)"
  by (simp add: ap_sta_disconnect_def Let_def good_keeps good_arms' good_set_authorized split: option.split)

lemma good_tx_callbacks [inv_intros]:
  "good cf aids X h \<Longrightarrow> good cf aids X (ap_sta_deauth_cb a h)"
  "good cf aids X h \<Longrightarrow> good cf aids X (ap_sta_disassoc_cb a h)"
  by (auto simp: ap_sta_deauth_cb_def ap_sta_disassoc_cb_def good_keeps good_cb_timeout split: option.split)

end
