(* ===== verification/Sta_Props.thy ===== *)
theory Sta_Props
  imports Sta_Invariant
begin

text \<open>
  What the station table promises: its invariant in every state the operations reach, removal and
  insertion as updates of a map from addresses, the identifiers handed out, and the removal of a station
  that stays silent.
\<close>

section \<open>Reachable tables\<close>

definition bss_init :: "acl_state \<Rightarrow> bss" where
  "bss_init acl = \<lparr>sta_list = [], sta_hash = replicate STA_HASH_SIZE [], num_sta = 0, sta_aid = replicate AID_WORDS 0,
     num_sta_non_erp = 0, num_sta_no_short_slot_time = 0, num_sta_no_short_preamble = 0, num_sta_ht_no_gf = 0,
     num_sta_no_ht = 0, num_sta_ht_20mhz = 0, ht_op_mode = 0, olbc_ht = False, tkip_countermeasures = False,
     bss_acl = acl, acts = []\<rparr>"

inductive table_step :: "bss_conf \<Rightarrow> bss \<Rightarrow> bss \<Rightarrow> bool" for cf where
  add: "table_step cf h (snd (ap_sta_add cf a h))"
| free: "table_step cf h (ap_free_sta cf a h)"
| free_all: "table_step cf h (hostapd_free_stas cf h)"
| get_aid: "table_step cf h (snd (hostapd_get_aid a h))"
| timer: "table_step cf h (ap_handle_timer cf a h)"
| session_timer: "table_step cf h (ap_handle_session_timer cf a h)"
| session_timeout: "table_step cf h (ap_sta_session_timeout a t h)"
| no_session_timeout: "table_step cf h (ap_sta_no_session_timeout a h)"
| authorize: "table_step cf h (ap_sta_set_authorized a v h)"
| disassociate: "table_step cf h (ap_sta_disassociate cf a r h)"
| deauthenticate: "table_step cf h (ap_sta_deauthenticate cf a r h)"
| disconnect: "table_step cf h (ap_sta_disconnect cf a r h)"
| deauth_cb: "table_step cf h (ap_sta_deauth_cb a h)"
| disassoc_cb: "table_step cf h (ap_sta_disassoc_cb a h)"
| deauth_cb_timeout: "table_step cf h (ap_sta_deauth_cb_timeout a h)"
| disassoc_cb_timeout: "table_step cf h (ap_sta_disassoc_cb_timeout a h)"

inductive table_reach :: "bss_conf \<Rightarrow> bss \<Rightarrow> bool" for cf where
  start: "table_reach cf (bss_init acl)"
| step: "table_reach cf h \<Longrightarrow> table_step cf h h' \<Longrightarrow> table_reach cf h'"

lemma good_init: "good cf aids {} (bss_init acl)"
  by (auto simp: good_def bss_inv_def table_wf_def counters_ok_def timers_ok_def aid_inv_def aid_used_def bss_init_def
      nth_replicate aid_index)

lemma good_step: "table_step cf h h' \<Longrightarrow> good cf aids {} h \<Longrightarrow> good cf aids {} h'"
  by (induction rule: table_step.induct) (auto intro: inv_intros)

lemma table_reach_good: "table_reach cf h \<Longrightarrow> good cf True {} h"
  by (induction rule: table_reach.induct) (auto intro: good_init good_step)


definition test_conf :: bss_conf where
  "test_conf = \<lparr>bss_addr = [2, 0, 0, 0, 0, 1], max_num_sta = 2, ap_max_inactivity = 300, skip_inactivity_poll = False,
     conf_acct_interim_interval = 0, deauth_tx_status = False, mode_g = True, ieee80211n = True,
     ht_op_mode_fixed = False, secondary_channel = 0, inact_sec = (\<lambda>_. 1000), os_random = (\<lambda>_. 7)\<rparr>"

abbreviation (input) no_acl :: acl_state where "no_acl \<equiv> \<lparr>acl_cache = [], acl_queries = []\<rparr>"

definition two_stations :: bss where
  "two_stations = snd (hostapd_get_aid [2, 0, 0, 0, 0, 9] (snd (ap_sta_add test_conf [2, 0, 0, 0, 0, 9]
     (snd (ap_sta_add test_conf [2, 0, 0, 0, 0, 7] (bss_init no_acl))))))"

lemma two_stations_reach: "table_reach test_conf two_stations"
  unfolding two_stations_def
  by (rule table_reach.step [OF table_reach.step [OF table_reach.step [OF table_reach.start]]]; rule table_step.intros)

lemma two_stations_list: "map (\<lambda>s. (addr s, aid s)) (sta_list two_stations) = [([2, 0, 0, 0, 0, 9], 1), ([2, 0, 0, 0, 0, 7], 0)]"
  by code_simp


section \<open>A map from addresses to stations\<close>

lemma lookup_sta_of: "table_wf h \<Longrightarrow> bss_lookup h a = sta_of h a"
  by (simp add: bss_lookup_def get_sta_iff)

lemma table_wf_same: "same_table h h' \<Longrightarrow> table_wf h' = table_wf h"
  by (simp add: same_table_def table_wf_def)

lemma set_authorized_wf: "table_wf h \<Longrightarrow> table_wf (ap_sta_set_authorized a v h)"
  using table_wf_same [OF same_table_act(1)]
  by (auto simp: ap_sta_set_authorized_def table_wf_upd write_defs split: option.split)

lemma sta_of_set_authorized:
  "sta_of (ap_sta_set_authorized a v h) b =
     map_option (\<lambda>s. if b = a then s\<lparr>flags := if v then set_bit WLAN_STA_AUTHORIZED (flags s)
        else unset_bit WLAN_STA_AUTHORIZED (flags s)\<rparr> else s) (sta_of h b)"
proof (cases "sta_of h a")
  case None
  then show ?thesis by (cases "sta_of h b") (auto simp: ap_sta_set_authorized_def)
next
  case (Some s)
  have addr: "addr t = b" if "sta_of h b = Some t" for t using sta_of_Some [OF that] by simp
  show ?thesis
  proof (cases "sta_of h b")
    case (Some t)
    then have "b = a \<Longrightarrow> t = s" using \<open>sta_of h a = Some s\<close> by simp
    moreover have "bit (flags s) 5 \<Longrightarrow> set_bit 5 (flags s) = flags s" "\<not> bit (flags s) 5 \<Longrightarrow> unset_bit 5 (flags s) = flags s"
      by (simp_all add: set_bit_eq_idem_iff unset_bit_eq_idem_iff)
    moreover have "addr s = a" using sta_of_Some [OF \<open>sta_of h a = Some s\<close>] by simp
    ultimately show ?thesis
      using Some addr [OF Some] \<open>sta_of h a = Some s\<close>
      by (simp add: ap_sta_set_authorized_def sta_of_upd write_defs)
  qed (simp add: ap_sta_set_authorized_def sta_of_upd write_defs \<open>sta_of h a = Some s\<close>)
qed

lemma sta_of_free_entry:
  assumes "table_wf h" "s \<in> set (sta_list h)"
  shows "sta_of (free_entry cf s h) b = (if b = addr s then None else sta_of h b)"
proof -
  have "sta_of (free_entry cf s h) b = sta_of (remove_entry s h) b"
    using free_entry_table [of cf s h] by (simp add: sta_of_def remove_entry_sel)
  then show ?thesis
    using stas.lookup_free [OF assms] lookup_sta_of [OF assms(1)] lookup_sta_of [OF table_wf_remove [OF assms]]
    by simp
qed

lemma sta_of_ap_free_sta:
  assumes "table_wf h"
  shows "sta_of (ap_free_sta cf a h) b = (if b = a then None else sta_of h b)"
proof -
  define g where "g = ap_sta_set_authorized a False (act (Acct_stop a) h)"
  have wf: "table_wf g" unfolding g_def using assms table_wf_same [OF same_table_act(1)] by (intro set_authorized_wf) simp
  have other: "sta_of g b = sta_of h b" if "b \<noteq> a"
    using that by (cases "sta_of h b") (simp_all add: g_def sta_of_set_authorized)
  have "sta_of (free_entry cf s g) b = (if b = a then None else sta_of g b)" if "sta_of g a = Some s" for s
    using sta_of_free_entry [OF wf, of s cf b] sta_of_Some [OF that] by simp
  then show ?thesis using other by (cases "sta_of g a") (auto simp: ap_free_sta_def g_def [symmetric])
qed

lemma wf_ap_free_sta:
  assumes "table_wf h"
  shows "table_wf (ap_free_sta cf a h)"
proof -
  define g where "g = ap_sta_set_authorized a False (act (Acct_stop a) h)"
  have wf: "table_wf g" unfolding g_def using assms table_wf_same [OF same_table_act(1)] by (intro set_authorized_wf) simp
  have "table_wf (free_entry cf s g)" if "sta_of g a = Some s" for s
  proof -
    have "s \<in> set (sta_list g)" using sta_of_Some [OF that] by simp
    then show ?thesis
      using table_wf_remove [OF wf, of s] free_entry_table [of cf s g] remove_entry_sel [of s g] by (simp add: table_wf_def)
  qed
  then show ?thesis using wf by (cases "sta_of g a") (simp_all add: ap_free_sta_def g_def [symmetric])
qed

text \<open>C16. Seen through \<^verbatim>\<open>ap_get_sta\<close>, the hash table is a map from addresses to stations: removing a station
  deletes one address and leaves every other entry as it was, and a successful \<^verbatim>\<open>ap_sta_add\<close> of a new address
  adds that one entry, with no identifier and no flag set; it fails only when the table is full.\<close>

theorem station_table_refines_map:
  assumes "table_wf h"
  shows "ap_get_sta (ap_free_sta cf a h) = (ap_get_sta h)(a := None) \<and>
    (ap_get_sta h a = None \<and> num_sta h < max_num_sta cf \<longrightarrow>
      (\<exists>s. fst (ap_sta_add cf a h) = Some s \<and> addr s = a \<and> aid s = 0 \<and> flags s = 0 \<and>
        ap_get_sta (snd (ap_sta_add cf a h)) = (ap_get_sta h)(a \<mapsto> s))) \<and>
    (ap_get_sta h a \<noteq> None \<or> max_num_sta cf \<le> num_sta h \<longrightarrow> ap_sta_add cf a h = (ap_get_sta h a, h))"
proof (intro conjI impI; (elim conjE)?)
  show "ap_get_sta (ap_free_sta cf a h) = (ap_get_sta h)(a := None)"
    using assms by (auto simp: fun_eq_iff get_sta_iff sta_of_ap_free_sta wf_ap_free_sta)
  show "\<exists>s. fst (ap_sta_add cf a h) = Some s \<and> addr s = a \<and> aid s = 0 \<and> flags s = 0 \<and>
      ap_get_sta (snd (ap_sta_add cf a h)) = (ap_get_sta h)(a \<mapsto> s)"
    if new: "ap_get_sta h a = None" and room: "num_sta h < max_num_sta cf"
  proof -
    define s where "s = (sta_zero a)\<lparr>acct_interim_interval := conf_acct_interim_interval cf,
      handle_timer := Some (ap_max_inactivity cf)\<rparr>"
    have addr: "addr s = a" by (simp add: s_def sta_zero_def)
    have fresh: "addr s \<notin> addr ` set (sta_list h)" using new assms by (simp add: get_sta_iff sta_of_None addr)
    have "ap_sta_add cf a h = (Some s, act (Other_bss_disconnect a) (insert_entry h s))"
      using new room by (simp add: ap_sta_add_def s_def Let_def)
    moreover have "ap_get_sta (act (Other_bss_disconnect a) (insert_entry h s)) = ap_get_sta (insert_entry h s)"
      by (simp add: ap_get_sta_def fun_eq_iff split: option.split)
    ultimately show ?thesis
      using stas.lookup_link_eq [OF assms fresh] addr
      by (auto simp: fun_eq_iff bss_lookup_def s_def sta_zero_def)
  qed
  show "ap_sta_add cf a h = (ap_get_sta h a, h)"
    if "ap_get_sta h a \<noteq> None \<or> max_num_sta cf \<le> num_sta h"
    using that by (auto simp: ap_sta_add_def split: option.split)
qed

theorem station_table_refines_map_witness:
  "ap_get_sta (ap_free_sta test_conf [2, 0, 0, 0, 0, 9] two_stations) [2, 0, 0, 0, 0, 9] = None \<and>
   ap_get_sta (ap_free_sta test_conf [2, 0, 0, 0, 0, 9] two_stations) [2, 0, 0, 0, 0, 7] =
     ap_get_sta two_stations [2, 0, 0, 0, 0, 7] \<and>
   fst (ap_sta_add test_conf [2, 0, 0, 0, 0, 5] two_stations) = None \<and>
   (\<exists>s. fst (ap_sta_add test_conf [2, 0, 0, 0, 0, 5] (bss_init no_acl)) = Some s)"
proof -
  have wf: "table_wf two_stations" "table_wf (bss_init no_acl)"
    using table_reach_good [OF two_stations_reach] good_init [of test_conf True no_acl] good_table by blast+
  have "num_sta two_stations = 2" using wf(1) arg_cong [OF two_stations_list, of length] by (simp add: table_wf_def)
  moreover have "ap_get_sta two_stations [2, 0, 0, 0, 0, 5] = None" by code_simp
  moreover have "ap_get_sta (bss_init no_acl) [2, 0, 0, 0, 0, 5] = None" by code_simp
  ultimately show ?thesis
    using station_table_refines_map [OF wf(1), of test_conf "[2, 0, 0, 0, 0, 9]"]
      station_table_refines_map [OF wf(1), of test_conf "[2, 0, 0, 0, 0, 5]"]
      station_table_refines_map [OF wf(2), of test_conf "[2, 0, 0, 0, 0, 5]"]
    by (auto simp: test_conf_def bss_init_def)
qed

section \<open>Identifiers\<close>

lemma free_aid_total:
  assumes "free_aid (sta_aid h) = None" "0 < n" "n \<le> 32 * AID_WORDS"
  shows "aid_used h n"
  using assms free_aid_None [OF assms(1) aid_index(1)] by (simp add: aid_used_def)

text \<open>C35. A station without an identifier is given the smallest one that is free, from 1 to 2007, and only that
  identifier becomes used; when all of these are in use the call fails and the state is unchanged.\<close>

theorem get_aid_smallest_free:
  assumes "length (sta_aid h) = AID_WORDS" "sta_of h a = Some s" "aid s = 0"
  shows "((\<forall>m. 0 < m \<and> m \<le> 2007 \<longrightarrow> aid_used h m) \<longrightarrow> hostapd_get_aid a h = (-1, h)) \<and>
    (0 < n \<and> n \<le> 2007 \<and> \<not> aid_used h n \<and> (\<forall>m. 0 < m \<and> m < n \<longrightarrow> aid_used h m) \<longrightarrow>
      fst (hostapd_get_aid a h) = 0 \<and> sta_of (snd (hostapd_get_aid a h)) a = Some (s\<lparr>aid := n\<rparr>) \<and>
      (\<forall>m. aid_used (snd (hostapd_get_aid a h)) m \<longleftrightarrow> aid_used h m \<or> m = n))"
proof (cases "free_aid (sta_aid h)")
  case None
  then have "aid_used h m" if "0 < m" "m \<le> 2007" for m using free_aid_total [OF None, of m] that by simp
  then show ?thesis using assms(2,3) None by (auto simp: hostapd_get_aid_def)
next
  case (Some ij)
  obtain i j where f: "free_aid (sta_aid h) = Some (i, j)" using Some by (cases ij) simp
  let ?k = "i * 32 + j + 1"
  note least = free_aid_least [OF f]
  have get: "hostapd_get_aid a h = (if ?k > 2007 then (-1, h) else (0, upd_entry a (aid_update (\<lambda>_. ?k))
      (h\<lparr>sta_aid := (sta_aid h)[i := set_bit j (sta_aid h ! i)]\<rparr>)))"
    using assms(2,3) f by (simp add: hostapd_get_aid_def)
  have k: "?k = n" if "0 < n" "\<not> aid_used h n" "\<And>m. 0 < m \<Longrightarrow> m < n \<Longrightarrow> aid_used h m"
    using least that by (metis add_gr_0 linorder_neqE_nat zero_less_one)
  have "(\<forall>m. 0 < m \<and> m \<le> 2007 \<longrightarrow> aid_used h m) \<Longrightarrow> ?k > 2007" using least(1) by (meson add_gr_0 not_less zero_less_one)
  moreover have "aid_used (upd_entry a (aid_update (\<lambda>_. ?k)) (h\<lparr>sta_aid := (sta_aid h)[i := set_bit j (sta_aid h ! i)]\<rparr>)) m
      \<longleftrightarrow> aid_used h m \<or> m = ?k" for m
    using assms(1) free_aid_Some [OF f] by (intro aid_used_set) simp_all
  moreover have "sta_of (upd_entry a (aid_update (\<lambda>_. ?k)) (h\<lparr>sta_aid := (sta_aid h)[i := set_bit j (sta_aid h ! i)]\<rparr>)) a =
      Some (s\<lparr>aid := ?k\<rparr>)"
    using assms(2) sta_of_Some [OF assms(2)] by (subst sta_of_upd) (auto simp: shape_def sta_of_def)
  ultimately show ?thesis using k unfolding get by auto
qed

theorem get_aid_smallest_free_witness:
  "\<exists>s. sta_of (snd (hostapd_get_aid [2, 0, 0, 0, 0, 7] two_stations)) [2, 0, 0, 0, 0, 7] = Some s \<and> aid s = 2"
proof -
  obtain s where s: "sta_of two_stations [2, 0, 0, 0, 0, 7] = Some s" "aid s = 0"
    "length (sta_aid two_stations) = AID_WORDS"
  proof
    show "sta_of two_stations [2, 0, 0, 0, 0, 7] = Some (sta_list two_stations ! 1)" by code_simp
    show "aid (sta_list two_stations ! 1) = 0" by code_simp
    show "length (sta_aid two_stations) = AID_WORDS" by code_simp
  qed
  have "aid_used two_stations 1" by code_simp
  then have "\<forall>m. 0 < m \<and> m < 2 \<longrightarrow> aid_used two_stations m" by (auto simp: less_Suc_eq numeral_2_eq_2)
  moreover have "\<not> aid_used two_stations 2" by code_simp
  ultimately show ?thesis
    using get_aid_smallest_free [OF s(3,1,2), of 2] by simp
qed

section \<open>Silent stations\<close>

text \<open>The number of times the timer of an entry can still fire when the driver reports the station silent.\<close>

definition timer_rank :: "bss_conf \<Rightarrow> sta_info \<Rightarrow> nat" where
  "timer_rank cf s =
     (case timeout_next s of
        STA_REMOVE \<Rightarrow> 1
      | STA_DEAUTH \<Rightarrow> 1
      | STA_DISASSOC_FROM_CLI \<Rightarrow> 2
      | STA_NULLFUNC \<Rightarrow> 3
      | STA_DISASSOC \<Rightarrow> if bit (flags s) WLAN_STA_ASSOC \<and> \<not> bit (flags s) WLAN_STA_PENDING_POLL \<and> \<not> skip_inactivity_poll cf
          then 4 else 2)"

lemma sta_of_notify [simp]:
  "sta_of (notify_port_enabled a v h) b = sta_of h b" "sta_of (mlme_deletekeys_request a h) b = sta_of h b"
  by (simp_all add: notify_port_enabled_def mlme_deletekeys_request_def)

lemma sta_of_written:
  assumes "shape f" "sta_of (upd_entry a f h) a = Some t"
  shows "\<exists>s. t = f s"
  using assms sta_of_Some [of h a] by (auto simp: sta_of_upd)

lemma same_deletekeys: "same_table h (mlme_deletekeys_request a h)"
  by (simp add: mlme_deletekeys_request_def same_table_act)

lemma advance_removes:
  assumes "table_wf h" "timeout_next s \<in> {STA_DEAUTH, STA_REMOVE}"
  shows "sta_of (timer_advance cf a s h) a = None"
  using assms table_wf_same [OF same_deletekeys]
  by (auto simp: timer_advance_def sta_of_ap_free_sta)

lemma advance_deauth:
  assumes "timeout_next s \<in> {STA_DISASSOC, STA_DISASSOC_FROM_CLI}" "sta_of (timer_advance cf a s h) a = Some t"
  shows "timeout_next t = STA_DEAUTH"
  using assms by (auto simp: timer_advance_def Let_def shape_def dest!: sta_of_written [rotated])

lemma advance_nullfunc:
  assumes "timeout_next s = STA_NULLFUNC" "sta_of h a = Some s'" "sta_of (timer_advance cf a s h) a = Some t"
  shows "timeout_next t = STA_DISASSOC \<and> flags t = flags s'"
  using assms sta_of_Some [OF assms(2)] by (auto simp: timer_advance_def sta_of_upd write_defs)

lemma sta_of_timer_notify:
  assumes "sta_of h a = Some s"
  shows "sta_of (timer_notify a t h) a = Some (if timeout_next t = STA_NULLFUNC \<and> bit (flags t) WLAN_STA_ASSOC
    then s\<lparr>flags := set_bit WLAN_STA_PENDING_POLL (flags s)\<rparr> else s)"
  using assms sta_of_Some [OF assms] by (simp add: timer_notify_def sta_of_upd write_defs)

definition silent :: "bss_conf \<Rightarrow> bool" where
  "silent cf \<longleftrightarrow> (\<forall>xs. int (ap_max_inactivity cf) \<le> inact_sec cf xs)"

lemma silent_check:
  assumes "silent cf" "sta_of h a = Some s"
  shows "fst (inactivity_check cf a h) = 0"
    and "sta_of (snd (inactivity_check cf a h)) a =
      Some (if skip_inactivity_poll cf then s\<lparr>timeout_next := STA_DISASSOC\<rparr> else s)"
proof -
  have "inact_sec cf xs \<noteq> -1" "\<not> inact_sec cf xs < int (ap_max_inactivity cf)" for xs
    using assms(1) spec [of _ xs] unfolding silent_def by (smt (verit) of_nat_0_le_iff)+
  then show "fst (inactivity_check cf a h) = 0"
    "sta_of (snd (inactivity_check cf a h)) a = Some (if skip_inactivity_poll cf then s\<lparr>timeout_next := STA_DISASSOC\<rparr> else s)"
    using assms(2) sta_of_Some [OF assms(2)] by (auto simp: inactivity_check_def Let_def sta_of_upd write_defs)
qed

lemma check_wf: "table_wf h \<Longrightarrow> table_wf (snd (inactivity_check cf a h))"
  using table_wf_same [OF same_table_act(1)] by (simp add: inactivity_check_def Let_def table_wf_upd write_defs)

lemma notify_wf: "table_wf h \<Longrightarrow> table_wf (timer_notify a s h)"
  using table_wf_same [OF same_table_act(1)] by (simp add: timer_notify_def table_wf_upd write_defs)

text \<open>One firing after the choice of the next time.\<close>

lemma advance_rank:
  assumes "table_wf h" "sta_of h a = Some s" "sta_of (timer_advance cf a s (timer_notify a s h)) a = Some t"
  shows "timer_rank cf t < (if timeout_next s = STA_NULLFUNC then 3 else 2) \<and> timeout_next s \<notin> {STA_DEAUTH, STA_REMOVE}"
proof (cases "timeout_next s = STA_NULLFUNC")
  case True
  then show ?thesis
    using advance_nullfunc [OF True sta_of_timer_notify [OF assms(2), of s] assms(3)]
    by (auto simp: timer_rank_def bit_set_bit_iff)
next
  case False
  then show ?thesis
    using assms advance_removes [OF notify_wf [OF assms(1)], of s cf a a s] advance_deauth [OF _ assms(3)]
    by (cases "timeout_next s") (auto simp: timer_rank_def)
qed

lemma handle_timer_rank:
  assumes wf: "table_wf h" and s: "sta_of h a = Some s" and cf: "silent cf"
    and t: "sta_of (ap_handle_timer cf a h) a = Some t"
  shows "timer_rank cf t < timer_rank cf s"
proof -
  define h1 where "h1 = upd_entry a (handle_timer_update (\<lambda>_. None)) h"
  define s1 where "s1 = s\<lparr>handle_timer := None\<rparr>"
  have 1: "table_wf h1" "sta_of h1 a = Some s1"
    using wf s sta_of_Some [OF s] by (auto simp: h1_def s1_def table_wf_upd sta_of_upd write_defs)
  define asks where "asks \<longleftrightarrow> bit (flags s) WLAN_STA_ASSOC \<and> (timeout_next s = STA_NULLFUNC \<or> timeout_next s = STA_DISASSOC)"
  define h2 where "h2 = snd (if asks then inactivity_check cf a h1 else (0, h1))"
  define s2 where "s2 = (if asks \<and> skip_inactivity_poll cf then s1\<lparr>timeout_next := STA_DISASSOC\<rparr> else s1)"
  have 2: "table_wf h2" "sta_of h2 a = Some s2" "fst (if asks then inactivity_check cf a h1 else (0, h1)) = 0"
    using 1 check_wf [OF 1(1), of cf a] silent_check [OF cf 1(2)] by (simp_all add: h2_def s2_def)
  define acked where "acked \<longleftrightarrow> bit (flags s2) WLAN_STA_ASSOC \<and> timeout_next s2 = STA_DISASSOC \<and>
    \<not> bit (flags s2) WLAN_STA_PENDING_POLL \<and> \<not> skip_inactivity_poll cf"
  define h3 where "h3 = (if acked then upd_entry a (timeout_next_update (\<lambda>_. STA_NULLFUNC)) h2 else h2)"
  define s3 where "s3 = (if acked then s2\<lparr>timeout_next := STA_NULLFUNC\<rparr> else s2)"
  have 3: "table_wf h3" "sta_of h3 a = Some s3"
    using 2 sta_of_Some [OF 2(2)] by (simp_all add: h3_def s3_def table_wf_upd sta_of_upd write_defs)
  have "ap_handle_timer cf a h =
      (if timeout_next s = STA_REMOVE then ap_free_sta cf a h1
       else if (if acked then ap_max_inactivity cf else 0) \<noteq> 0
         then upd_entry a (handle_timer_update (\<lambda>_. Some (ap_max_inactivity cf))) h3
         else timer_advance cf a s3 (timer_notify a s3 h3))"
    unfolding ap_handle_timer_def s option.case Let_def h1_def [symmetric] case_prod_beta asks_def [symmetric]
      h2_def [symmetric]
    unfolding 2(2,3) option.sel acked_def [symmetric]
    unfolding h3_def [symmetric] 3(2) option.sel by simp
  then consider "timeout_next s = STA_REMOVE" "ap_handle_timer cf a h = ap_free_sta cf a h1"
    | "acked" "ap_handle_timer cf a h = upd_entry a (handle_timer_update (\<lambda>_. Some (ap_max_inactivity cf))) h3"
    | "timeout_next s \<noteq> STA_REMOVE" "ap_handle_timer cf a h = timer_advance cf a s3 (timer_notify a s3 h3)"
    by (metis (full_types))
  then show ?thesis
  proof cases
    case 1
    then show ?thesis using t sta_of_ap_free_sta [OF \<open>table_wf h1\<close>, of cf a a] by simp
  next
    case 2
    then have "t = s3\<lparr>handle_timer := Some (ap_max_inactivity cf)\<rparr>"
      using t \<open>sta_of h3 a = Some s3\<close> sta_of_Some [OF \<open>sta_of h3 a = Some s3\<close>] by (simp add: sta_of_upd write_defs)
    then have "timer_rank cf t = 3" using \<open>acked\<close> by (simp add: s3_def timer_rank_def)
    moreover have "timer_rank cf s = 4"
      using \<open>acked\<close> by (auto simp: acked_def s2_def s1_def timer_rank_def)
    ultimately show ?thesis by simp
  next
    case 3
    then have r: "timer_rank cf t < (if timeout_next s3 = STA_NULLFUNC then 3 else 2)"
        "timeout_next s3 \<notin> {STA_DEAUTH, STA_REMOVE}"
      using advance_rank [OF \<open>table_wf h3\<close> \<open>sta_of h3 a = Some s3\<close>, of cf t] t by simp_all
    have "(if timeout_next s3 = STA_NULLFUNC then 3 else 2) \<le> timer_rank cf s"
    proof (cases acked)
      case True
      then show ?thesis
        by (cases "timeout_next s") (simp_all add: acked_def s2_def s1_def asks_def timer_rank_def split: if_splits)
    next
      case False
      then show ?thesis
        using r(2) by (cases "timeout_next s") (auto simp: s3_def s2_def s1_def asks_def timer_rank_def)
    qed
    with r(1) show ?thesis by simp
  qed
qed

lemma silent_removed:
  assumes "silent cf" "good cf True {} h" "\<And>s. sta_of h a = Some s \<Longrightarrow> timer_rank cf s \<le> k"
  shows "sta_of ((ap_handle_timer cf a ^^ k) h) a = None"
  using assms(2,3)
proof (induction k arbitrary: h)
  case 0
  then show ?case by (cases "sta_of h a") (auto simp: timer_rank_def split: timeout_enum.splits if_splits)
next
  case (Suc k)
  have "timer_rank cf t \<le> k" if t: "sta_of (ap_handle_timer cf a h) a = Some t" for t
  proof (cases "sta_of h a")
    case None
    then show ?thesis using t by (simp add: ap_handle_timer_def)
  next
    case (Some s)
    then show ?thesis
      using handle_timer_rank [OF good_table [OF Suc.prems(1)] Some assms(1) t] Suc.prems(2) [OF Some] by simp
  qed
  then show ?case
    using Suc.IH [OF good_handle_timer [OF Suc.prems(1)]] by (simp add: funpow_swap1)
qed



end
