(* ===== verification/Wmm.thy ===== *)
theory Wmm
  imports Elems "HOL-Library.Signed_Division"
begin

text \<open>
  Wi-Fi multimedia (\<^verbatim>\<open>src/ap/wmm.c\<close>): the parameter element of the access point, the check of a station's
  element and the admission of a traffic stream.

  An element is the list of its octets behind identifier and length.  The arithmetic of the admission is that
  of the machine: products of \<^verbatim>\<open>int\<close> are taken modulo \<^term>\<open>2 ^ 32\<close> and read as signed numbers.
\<close>

section \<open>Elements\<close>

record hostapd_wmm_ac_params =
  ac_cwmin :: int
  ac_cwmax :: int
  ac_aifs :: int
  ac_txop_limit :: int
  ac_acm :: bool

definition wmm_aci_aifsn :: "int \<Rightarrow> bool \<Rightarrow> int \<Rightarrow> u8" where
  "wmm_aci_aifsn aifsn acm aci =
     word_of_int (aifsn AND 0x0f) OR (if acm then 0x10 else 0) OR word_of_int (push_bit 5 aci AND 0x60)"

definition wmm_ecw :: "int \<Rightarrow> int \<Rightarrow> u8" where
  "wmm_ecw ecwmin ecwmax = word_of_int ((ecwmin AND 0x0f) OR (push_bit 4 ecwmax AND 0xf0))"

definition wmm_ac :: "int \<Rightarrow> hostapd_wmm_ac_params \<Rightarrow> u8 list" where
  "wmm_ac e acp = [wmm_aci_aifsn (ac_aifs acp) (ac_acm acp) e, wmm_ecw (ac_cwmin acp) (ac_cwmax acp)] @
     WPA_PUT_LE16 (word_of_int (ac_txop_limit acp))"

text \<open>What is written behind the pointer, with identifier and length.\<close>

definition hostapd_eid_wmm :: "bool \<Rightarrow> int \<Rightarrow> bool \<Rightarrow> (int \<Rightarrow> hostapd_wmm_ac_params) \<Rightarrow> u8 list" where
  "hostapd_eid_wmm enabled parameter_set_count uapsd params =
     (if \<not> enabled then []
      else [WLAN_EID_VENDOR_SPECIFIC, 24, 0x00, 0x50, 0xf2, 2, 1, 1,
            word_of_int (parameter_set_count AND 0xf) OR (if uapsd then 0x80 else 0), 0] @
           concat (map (\<lambda>e. wmm_ac e (params e)) [0, 1, 2, 3]))"

definition hostapd_eid_wmm_valid :: "u8 list \<Rightarrow> bool" where
  "hostapd_eid_wmm_valid eid = (if length eid < 7 then False else eid ! 4 = 0 \<and> eid ! 5 = 1)"

section \<open>Traffic streams\<close>

abbreviation (input) WMM_TSPEC_LEN :: nat where "WMM_TSPEC_LEN \<equiv> 61"

definition nominal_msdu_size :: "u8 list \<Rightarrow> u16" where "nominal_msdu_size t = WPA_GET_LE16 (drop 9 t)"
definition mean_data_rate :: "u8 list \<Rightarrow> u32" where "mean_data_rate t = WPA_GET_LE32 (drop 37 t)"
definition minimum_phy_rate :: "u8 list \<Rightarrow> u32" where "minimum_phy_rate t = WPA_GET_LE32 (drop 53 t)"
definition surplus_bandwidth_allowance :: "u8 list \<Rightarrow> u16" where
  "surplus_bandwidth_allowance t = WPA_GET_LE16 (drop 57 t)"

definition tspec_pps :: "u8 list \<Rightarrow> u32" where
  "tspec_pps t = (let val = ucast (nominal_msdu_size t) in (mean_data_rate t div 8 + val - 1) div val)"

definition tspec_duration :: "u8 list \<Rightarrow> u32" where
  "tspec_duration t =
     ucast (nominal_msdu_size t AND 0x7fff) * 8 div (minimum_phy_rate t div 1000000) + 50"

definition tspec_medium_time :: "u8 list \<Rightarrow> int" where
  "tspec_medium_time t =
     sint (ucast (surplus_bandwidth_allowance t) * tspec_pps t * tspec_duration t) sdiv 0x2000"

abbreviation (input) WMM_ADDTS_STATUS_ADMISSION_ACCEPTED :: u8 where "WMM_ADDTS_STATUS_ADMISSION_ACCEPTED \<equiv> 0"
abbreviation (input) WMM_ADDTS_STATUS_INVALID_PARAMETERS :: u8 where "WMM_ADDTS_STATUS_INVALID_PARAMETERS \<equiv> 1"
abbreviation (input) WMM_ADDTS_STATUS_REFUSED :: u8 where "WMM_ADDTS_STATUS_REFUSED \<equiv> 3"

text \<open>The result and the element, in which an admission fills the medium time.\<close>

definition wmm_process_tspec :: "u8 list \<Rightarrow> u8 \<times> u8 list" where
  "wmm_process_tspec t =
     (if nominal_msdu_size t = 0 then (WMM_ADDTS_STATUS_INVALID_PARAMETERS, t)
      else if minimum_phy_rate t < 1000000 then (WMM_ADDTS_STATUS_INVALID_PARAMETERS, t)
      else if surplus_bandwidth_allowance t \<le> 0x2000 then (WMM_ADDTS_STATUS_INVALID_PARAMETERS, t)
      else if tspec_medium_time t > 750000 then (WMM_ADDTS_STATUS_REFUSED, t)
      else (WMM_ADDTS_STATUS_ADMISSION_ACCEPTED,
        take 59 t @ WPA_PUT_LE16 (word_of_int (tspec_medium_time t sdiv 32)) @ drop 61 t))"

section \<open>Answers\<close>

text \<open>The header of a frame that the access point builds.\<close>

definition mgmt_hdr :: "u8 \<Rightarrow> macaddr \<Rightarrow> macaddr \<Rightarrow> macaddr \<Rightarrow> u8 list" where
  "mgmt_hdr fc da sa bssid = [fc, 0, 0, 0] @ da @ sa @ bssid @ [0, 0]"

definition wmm_send_action :: "macaddr \<Rightarrow> macaddr \<Rightarrow> u8 list \<Rightarrow> u8 \<Rightarrow> u8 \<Rightarrow> u8 \<Rightarrow> u8 list" where
  "wmm_send_action own addr tspec action_code dialogue_token status_code =
     mgmt_hdr 0xd0 addr own own @ [17, action_code, dialogue_token, status_code] @
       [WLAN_EID_VENDOR_SPECIFIC, word_of_nat (length tspec)] @ tspec"

definition wmm_addts_req :: "macaddr \<Rightarrow> macaddr \<Rightarrow> u8 \<Rightarrow> u8 list \<Rightarrow> u8 list" where
  "wmm_addts_req own addr dialog_token tspec =
     (case wmm_process_tspec tspec of (res, tspec) \<Rightarrow> wmm_send_action own addr tspec 1 dialog_token res)"

section \<open>The element of the access point\<close>

text \<open>A station reads back the parameters of each access category.\<close>

lemma wmm_ecw_fields:
  assumes "0 \<le> a" "a < 16" "0 \<le> b" "b < 16"
  shows "wmm_ecw a b AND 0x0f = word_of_int a" "drop_bit 4 (wmm_ecw a b) = word_of_int b"
proof -
  have "\<forall>x \<in> {0..<16}. \<forall>y \<in> {0..<16}. wmm_ecw (int x) (int y) AND 0x0f = word_of_nat x \<and> drop_bit 4 (wmm_ecw (int x) (int y)) = word_of_nat y"
    by code_simp
  moreover have "nat a \<in> {0..<16}" "nat b \<in> {0..<16}" "int (nat a) = a" "int (nat b) = b" using assms by auto
  ultimately show "wmm_ecw a b AND 0x0f = word_of_int a" "drop_bit 4 (wmm_ecw a b) = word_of_int b"
    by (metis of_int_of_nat_eq)+
qed

lemma wmm_element_parses:
  "snd (ieee802_11_parse_elems (hostapd_eid_wmm True n u params)) E_wmm = Some (drop 2 (hostapd_eid_wmm True n u params))"
  by (simp add: hostapd_eid_wmm_def ieee802_11_parse_elems_def wmm_ac_def WPA_PUT_LE16_def store_elem_def
      ieee802_11_parse_vendor_specific_def WPA_GET_BE24_def)

section \<open>Admission\<close>

text \<open>The medium time of a request in exact arithmetic.\<close>

definition exact_pps :: "u8 list \<Rightarrow> nat" where
  "exact_pps t = (unat (mean_data_rate t) div 8 + unat (nominal_msdu_size t) - 1) div unat (nominal_msdu_size t)"

definition exact_duration :: "u8 list \<Rightarrow> nat" where
  "exact_duration t = unat (nominal_msdu_size t AND 0x7fff) * 8 div (unat (minimum_phy_rate t) div 1000000) + 50"

definition exact_product :: "u8 list \<Rightarrow> nat" where
  "exact_product t = unat (surplus_bandwidth_allowance t) * exact_pps t * exact_duration t"

lemma u16_bound: "unat (x :: u16) \<le> 65535"
proof -
  have "unat x < 2 ^ LENGTH(16)" by (rule unsigned_less)
  then show ?thesis by simp
qed

lemma sdiv_nonneg: "0 \<le> k \<Longrightarrow> 0 < l \<Longrightarrow> k sdiv l = k div l" for k l :: int
  by (cases "k = 0") (simp_all add: signed_divide_int_def)

lemma unat_ucast16: "unat (ucast (x :: u16) :: u32) = unat x"
  using u16_bound [of x] by (simp add: unsigned_ucast_eq take_bit_nat_eq_self)

lemma pps_exact:
  assumes "nominal_msdu_size t \<noteq> 0"
  shows "unat (tspec_pps t) = exact_pps t"
proof -
  let ?v = "nominal_msdu_size t" and ?m = "mean_data_rate t"
  have v: "0 < unat ?v" "unat ?v \<le> 65535" using assms u16_bound by (simp_all add: unat_gt_0)
  have "unat ?m < 2 ^ LENGTH(32)" by (rule unsigned_less)
  then have m: "unat ?m div 8 < 2 ^ 29" by simp
  have "unat (?m div 8 + ucast ?v) = unat ?m div 8 + unat ?v"
    using v m by (simp add: unat_word_ariths unat_div_distrib unat_ucast16)
  then have "unat (?m div 8 + ucast ?v - 1) = unat ?m div 8 + unat ?v - 1"
    using v by (subst unat_minus_one) (auto simp flip: unat_gt_0)
  then show ?thesis by (simp add: tspec_pps_def Let_def exact_pps_def unat_div_distrib unat_ucast16)
qed

lemma duration_exact:
  assumes "1000000 \<le> minimum_phy_rate t"
  shows "unat (tspec_duration t) = exact_duration t"
proof -
  let ?v = "nominal_msdu_size t AND 0x7fff" and ?p = "minimum_phy_rate t"
  have v: "unat ?v * 8 \<le> 524280" using u16_bound [of ?v] by simp
  have "unat (ucast ?v * 8 :: u32) = unat ?v * 8"
    using v by (simp add: unat_word_ariths unat_ucast16)
  then have "unat (ucast ?v * 8 div (?p div 1000000)) = unat ?v * 8 div (unat ?p div 1000000)"
    by (simp add: unat_div_distrib)
  moreover have "unat ?v * 8 div (unat ?p div 1000000) \<le> 524280" using v div_le_dividend le_trans by blast
  ultimately show ?thesis by (simp add: tspec_duration_def exact_duration_def unat_word_ariths)
qed

text \<open>The quotient of a signed number of 32 bits by 0x2000 stays below the limit.\<close>

lemma medium_time_small: "tspec_medium_time t \<le> 262143"
proof -
  let ?x = "sint (ucast (surplus_bandwidth_allowance t) * tspec_pps t * tspec_duration t :: u32)"
  have "?x < 2 ^ 31" using sint_lt [of "ucast (surplus_bandwidth_allowance t) * tspec_pps t * tspec_duration t :: u32"] by simp
  moreover have "k sdiv 0x2000 \<le> 262143" if "k < 0" for k :: int
  proof -
    have "0 \<le> - k div 0x2000" using that by simp
    then show ?thesis using that by (simp add: signed_divide_int_def)
  qed
  ultimately show ?thesis by (cases "?x < 0") (auto simp: tspec_medium_time_def sdiv_nonneg)
qed

lemma medium_time_exact:
  assumes "nominal_msdu_size t \<noteq> 0" "1000000 \<le> minimum_phy_rate t" "exact_product t < 2 ^ 31"
  shows "tspec_medium_time t = int (exact_product t div 0x2000)"
proof -
  let ?x = "ucast (surplus_bandwidth_allowance t) * tspec_pps t * tspec_duration t :: u32"
  have "unat ?x = exact_product t mod 2 ^ 32"
    by (simp add: exact_product_def unat_word_ariths unat_ucast16 pps_exact [OF assms(1)] duration_exact [OF assms(2)]
        mod_mult_left_eq)
  then have "unat ?x = exact_product t" using assms(3) by simp
  then have "sint ?x = int (exact_product t)"
    using assms(3) by (simp add: sint_uint signed_take_bit_int_eq_self uint_nat)
  then show ?thesis by (simp add: tspec_medium_time_def sdiv_nonneg zdiv_int)
qed

text \<open>C18. A traffic stream is admitted exactly when its parameters are valid: a nominal MSDU size, a PHY rate of at least
  1 Mbit/s and a surplus above one; otherwise its parameters are declared invalid.  When the product of surplus,
  packets per second and duration fits 31 bits, the medium time in the answer is the exact one in units of 32
  microseconds, and nothing else in the element changes.  No request is ever refused for the bandwidth it takes: the
  limit of 750000 is above what the arithmetic of 32 bits can reach.\<close>

theorem tspec_admission:
  assumes "length t = WMM_TSPEC_LEN"
  shows "fst (wmm_process_tspec t) = (if nominal_msdu_size t \<noteq> 0 \<and> 1000000 \<le> minimum_phy_rate t \<and> 0x2000 < surplus_bandwidth_allowance t
      then WMM_ADDTS_STATUS_ADMISSION_ACCEPTED else WMM_ADDTS_STATUS_INVALID_PARAMETERS) \<and>
    (fst (wmm_process_tspec t) = WMM_ADDTS_STATUS_ADMISSION_ACCEPTED \<and> exact_product t < 2 ^ 31 \<longrightarrow>
      snd (wmm_process_tspec t) = take 59 t @ WPA_PUT_LE16 (word_of_nat (exact_product t div 0x2000 div 32)) \<and>
      exact_product t div 0x2000 div 32 < 2 ^ 16)"
proof -
  let ?n = "exact_product t div 0x2000 div 32"
  have v: "fst (wmm_process_tspec t) = (if nominal_msdu_size t \<noteq> 0 \<and> 1000000 \<le> minimum_phy_rate t \<and> 0x2000 < surplus_bandwidth_allowance t
      then WMM_ADDTS_STATUS_ADMISSION_ACCEPTED else WMM_ADDTS_STATUS_INVALID_PARAMETERS)"
    using medium_time_small [of t] by (auto simp: wmm_process_tspec_def not_less not_le)
  moreover have "snd (wmm_process_tspec t) = take 59 t @ WPA_PUT_LE16 (word_of_nat ?n) \<and> ?n < 2 ^ 16"
    if "fst (wmm_process_tspec t) = WMM_ADDTS_STATUS_ADMISSION_ACCEPTED" "exact_product t < 2 ^ 31"
  proof -
    have "nominal_msdu_size t \<noteq> 0" "1000000 \<le> minimum_phy_rate t" using that(1) unfolding v by (auto split: if_splits)
    then have "tspec_medium_time t sdiv 32 = int ?n"
      using medium_time_exact that(2) by (simp add: sdiv_nonneg zdiv_int)
    then have "word_of_int (tspec_medium_time t sdiv 32) = (word_of_nat ?n :: u16)" by simp
    then show ?thesis using that assms by (auto simp: wmm_process_tspec_def split: if_splits)
  qed
  ultimately show ?thesis by blast
qed

definition example_tspec :: "u16 \<Rightarrow> u32 \<Rightarrow> u32 \<Rightarrow> u16 \<Rightarrow> u8 list" where
  "example_tspec nominal mean phy surplus = [0, 0x50, 0xf2, 2, 2, 1, 0, 0, 0] @ WPA_PUT_LE16 nominal @ replicate 26 0 @
     WPA_PUT_LE32 mean @ replicate 12 0 @ WPA_PUT_LE32 phy @ WPA_PUT_LE16 surplus @ [0, 0]"

theorem tspec_admission_witness:
  "fst (wmm_process_tspec (example_tspec 1000 800000 6000000 0x3000)) = WMM_ADDTS_STATUS_ADMISSION_ACCEPTED \<and>
   drop 59 (snd (wmm_process_tspec (example_tspec 1000 800000 6000000 0x3000))) = WPA_PUT_LE16 6482"
  proof -
  let ?t = "example_tspec 1000 800000 6000000 0x3000"
  have f: "nominal_msdu_size ?t = 1000" "minimum_phy_rate ?t = 6000000" "surplus_bandwidth_allowance ?t = 0x3000"
    "mean_data_rate ?t = 800000" "length ?t = WMM_TSPEC_LEN" by code_simp+
  have p: "exact_product ?t = 0x3000 * 100 * 1383"
    by (simp add: exact_product_def exact_pps_def exact_duration_def f)
  have "1000000 \<le> minimum_phy_rate ?t" "0x2000 < surplus_bandwidth_allowance ?t" "length (take 59 ?t) = 59"
    by (simp_all add: f)
  then show ?thesis using tspec_admission [of ?t] f(1,5) p by simp
qed

end
