(* ===== verification/Sta_Mgmt.thy ===== *)
theory Sta_Mgmt
  imports Sta_Table Utils Crypto_Stream Wpa_Validate Wmm
begin

text \<open>
  Management frames (\<^verbatim>\<open>src/ap/ieee802_11.c\<close>, \<^verbatim>\<open>src/ap/ieee802_11_ht.c\<close>, \<^verbatim>\<open>src/ap/ieee802_11_vht.c\<close>,
  the probe request handler of \<^verbatim>\<open>src/ap/beacon.c\<close>) and the extensions of the access point that meet them:
  the blacklist of clients, the collection of station capabilities, forwarded probe requests and the
  injection of stations (\<^verbatim>\<open>hostapd/ctrl_iface.c\<close>).

  A frame is the list of its octets.  The handlers work on the station table; what the code outside answers
  (driver, WPA machine, WPS) is a function of the history of calls.  A function of the source that leaves
  by \<^verbatim>\<open>return;\<close> where it has to return a value gives an indeterminate result, which is such an answer, too.
\<close>

section \<open>Configuration and environment\<close>

record mgmt_conf =
  mc_bss :: bss_conf
  mc_acl :: acl_conf
  auth_algs :: int
  mc_wpa :: int
  mc_key_mgmt :: int
  mc_ssid :: "u8 list"
  mc_ieee802_1x :: bool
  ieee802_11f :: bool
  wmm_enabled :: bool
  disable_11n :: bool
  disable_11ac :: bool
  require_ht :: bool
  ieee80211ac :: bool
  require_vht :: bool
  wps_state :: bool
  psk_radius_ignored :: bool
  max_listen_interval :: nat
  conf_vlans :: "int list"
  dynamic_vlan_disabled :: bool
  conf_channel :: int
  ignore_broadcast_ssid :: bool
  send_probe_response :: bool
  public_action_cb :: bool
  public_action_cb2 :: bool
  vendor_action_cb :: bool

text \<open>The answer to the validation of an association element is its status and the pairwise cipher then
  selected for the station.\<close>

record mgmt_env =
  wpa_validate_res :: "sta_act list \<Rightarrow> u8 list \<Rightarrow> u8 list option \<Rightarrow> wpa_ie_status \<times> int"
  ft_validate_res :: "sta_act list \<Rightarrow> u16"
  sta_uses_psk :: "sta_act list \<Rightarrow> bool"
  sta_pmksa_vlan :: "sta_act list \<Rightarrow> int option"
  wps_is_20 :: "u8 list \<Rightarrow> bool"
  wps_validate_assoc_req :: "u8 list \<Rightarrow> bool"
  drv_ok :: "sta_act list \<Rightarrow> bool"
  indeterminate :: "sta_act list \<Rightarrow> u16"
  challenge_key :: "sta_act list \<Rightarrow> u8 list"
  probereq_stop :: "sta_act list \<Rightarrow> bool"
  ft_action_failed :: "sta_act list \<Rightarrow> bool"
  vendor_action_done :: "sta_act list \<Rightarrow> bool"

abbreviation (input) WLAN_STATUS_SUCCESS :: u16 where "WLAN_STATUS_SUCCESS \<equiv> 0"
abbreviation (input) WLAN_STATUS_UNSPECIFIED_FAILURE :: u16 where "WLAN_STATUS_UNSPECIFIED_FAILURE \<equiv> 1"
abbreviation (input) WLAN_STATUS_NOT_SUPPORTED_AUTH_ALG :: u16 where "WLAN_STATUS_NOT_SUPPORTED_AUTH_ALG \<equiv> 13"
abbreviation (input) WLAN_STATUS_UNKNOWN_AUTH_TRANSACTION :: u16 where "WLAN_STATUS_UNKNOWN_AUTH_TRANSACTION \<equiv> 14"
abbreviation (input) WLAN_STATUS_CHALLENGE_FAIL :: u16 where "WLAN_STATUS_CHALLENGE_FAIL \<equiv> 15"
abbreviation (input) WLAN_STATUS_AP_UNABLE_TO_HANDLE_NEW_STA :: u16
  where "WLAN_STATUS_AP_UNABLE_TO_HANDLE_NEW_STA \<equiv> 17"
abbreviation (input) WLAN_STATUS_ASSOC_DENIED_NO_HT :: u16 where "WLAN_STATUS_ASSOC_DENIED_NO_HT \<equiv> 27"
abbreviation (input) WLAN_STATUS_INVALID_IE :: u16 where "WLAN_STATUS_INVALID_IE \<equiv> 40"
abbreviation (input) WLAN_STATUS_GROUP_CIPHER_NOT_VALID :: u16 where "WLAN_STATUS_GROUP_CIPHER_NOT_VALID \<equiv> 41"
abbreviation (input) WLAN_STATUS_PAIRWISE_CIPHER_NOT_VALID :: u16
  where "WLAN_STATUS_PAIRWISE_CIPHER_NOT_VALID \<equiv> 42"
abbreviation (input) WLAN_STATUS_AKMP_NOT_VALID :: u16 where "WLAN_STATUS_AKMP_NOT_VALID \<equiv> 43"
abbreviation (input) WLAN_STATUS_CIPHER_REJECTED_PER_POLICY :: u16
  where "WLAN_STATUS_CIPHER_REJECTED_PER_POLICY \<equiv> 46"
abbreviation (input) WLAN_STATUS_ASSOC_DENIED_LISTEN_INT_TOO_LARGE :: u16
  where "WLAN_STATUS_ASSOC_DENIED_LISTEN_INT_TOO_LARGE \<equiv> 51"
abbreviation (input) WLAN_STATUS_INVALID_MDIE :: u16 where "WLAN_STATUS_INVALID_MDIE \<equiv> 54"
abbreviation (input) WLAN_REASON_DISASSOC_AP_BUSY :: u16 where "WLAN_REASON_DISASSOC_AP_BUSY \<equiv> 5"
abbreviation (input) WLAN_REASON_CLASS2_FRAME_FROM_NONAUTH_STA :: u16
  where "WLAN_REASON_CLASS2_FRAME_FROM_NONAUTH_STA \<equiv> 6"
abbreviation (input) WLAN_REASON_MICHAEL_MIC_FAILURE :: u16 where "WLAN_REASON_MICHAEL_MIC_FAILURE \<equiv> 14"
abbreviation (input) WLAN_AUTH_OPEN :: u16 where "WLAN_AUTH_OPEN \<equiv> 0"
abbreviation (input) WLAN_AUTH_SHARED_KEY :: u16 where "WLAN_AUTH_SHARED_KEY \<equiv> 1"
abbreviation (input) WLAN_AUTH_FT :: u16 where "WLAN_AUTH_FT \<equiv> 2"
abbreviation (input) WLAN_AUTH_SAE :: u16 where "WLAN_AUTH_SAE \<equiv> 3"
abbreviation (input) WLAN_AUTH_CHALLENGE_LEN :: nat where "WLAN_AUTH_CHALLENGE_LEN \<equiv> 128"
abbreviation (input) WLAN_EID_CHALLENGE :: u8 where "WLAN_EID_CHALLENGE \<equiv> 16"
abbreviation (input) VLAN_ID_WILDCARD :: int where "VLAN_ID_WILDCARD \<equiv> -1"
abbreviation (input) WLAN_SUPP_RATES_MAX :: nat where "WLAN_SUPP_RATES_MAX \<equiv> 32"
abbreviation (input) WPS_IE_VENDOR_TYPE :: u32 where "WPS_IE_VENDOR_TYPE \<equiv> 0x0050f204"

section \<open>Frame fields\<close>

abbreviation (input) IEEE80211_HDRLEN :: nat where "IEEE80211_HDRLEN \<equiv> 24"

definition f_le16 :: "u8 list \<Rightarrow> nat \<Rightarrow> u16" where
  "f_le16 d n = WPA_GET_LE16 (drop n d)"

definition f_da :: "u8 list \<Rightarrow> macaddr" where "f_da d = take 6 (drop 4 d)"
definition f_sa :: "u8 list \<Rightarrow> macaddr" where "f_sa d = take 6 (drop 10 d)"
definition f_bssid :: "u8 list \<Rightarrow> macaddr" where "f_bssid d = take 6 (drop 16 d)"

section \<open>Authentication\<close>

definition mlme_authenticate_indication :: "macaddr \<Rightarrow> bss \<Rightarrow> bss" where
  "mlme_authenticate_indication a h =
     (case sta_of h a of
        None \<Rightarrow> h
      | Some s \<Rightarrow> if auth_alg s \<noteq> WLAN_AUTH_FT then mlme_deletekeys_request a h else h)"

definition auth_shared_key :: "mgmt_env \<Rightarrow> macaddr \<Rightarrow> u16 \<Rightarrow> u8 list option \<Rightarrow> bool \<Rightarrow> bss \<Rightarrow> u16 \<times> bss" where
  "auth_shared_key env a auth_transaction chal iswep h =
     (case sta_of h a of
        None \<Rightarrow> (WLAN_STATUS_UNSPECIFIED_FAILURE, h)
      | Some s \<Rightarrow>
          if auth_transaction = 1 then
            if challenge s = None then
              let h = act Os_random h;
                  c = rc4_skip (challenge_key env (acts h)) 0 (replicate WLAN_AUTH_CHALLENGE_LEN 0)
              in (0, upd_entry a (challenge_update (\<lambda>_. Some c)) h)
            else (0, h)
          else if auth_transaction \<noteq> 3 then (WLAN_STATUS_UNSPECIFIED_FAILURE, h)
          else if \<not> iswep \<or> challenge s = None \<or> chal = None \<or> challenge s \<noteq> chal
          then (WLAN_STATUS_CHALLENGE_FAIL, h)
          else
            let h = upd_entry a (flags_update (set_bit WLAN_STA_AUTH)) h;
                h = wpa_sm_event a WPA_AUTH h
            in (0, upd_entry a (challenge_update (\<lambda>_. None)) h))"

definition handle_auth_ft_finish :: "macaddr \<Rightarrow> u16 \<Rightarrow> u16 \<Rightarrow> u8 list \<Rightarrow> bss \<Rightarrow> bss" where
  "handle_auth_ft_finish dst auth_transaction status ies h =
     (let h = act (Send_auth_reply dst WLAN_AUTH_FT auth_transaction status ies) h in
      if status \<noteq> WLAN_STATUS_SUCCESS then h
      else case ap_get_sta h dst of
        None \<Rightarrow> h
      | Some _ \<Rightarrow> mlme_authenticate_indication dst (upd_entry dst (flags_update (set_bit WLAN_STA_AUTH)) h))"

definition hostapd_vlan_id_valid :: "int list \<Rightarrow> int \<Rightarrow> bool" where
  "hostapd_vlan_id_valid vlans vid \<longleftrightarrow> list_ex (\<lambda>v. v = vid \<or> v = VLAN_ID_WILDCARD) vlans"

definition auth_alg_allowed :: "mgmt_conf \<Rightarrow> u16 \<Rightarrow> bool" where
  "auth_alg_allowed cf alg \<longleftrightarrow>
     (has_bits (auth_algs cf) 1 \<and> alg = WLAN_AUTH_OPEN) \<or>
     (mc_wpa cf \<noteq> 0 \<and> wpa_key_mgmt_ft (mc_key_mgmt cf) \<and> alg = WLAN_AUTH_FT) \<or>
     (has_bits (auth_algs cf) 2 \<and> alg = WLAN_AUTH_SHARED_KEY)"

text \<open>The reply at the label \<^verbatim>\<open>fail\<close>, which is reached on success, too; an injected frame gets none.\<close>

definition auth_reply :: "bool \<Rightarrow> u8 list \<Rightarrow> u16 \<Rightarrow> u8 list \<Rightarrow> bss \<Rightarrow> bss" where
  "auth_reply cli d resp ies h =
     act_if (\<not> cli) (Send_auth_reply (f_sa d) (f_le16 d 24) (f_le16 d 26 + 1) resp ies) h"

text \<open>What the decision of the access control leaves in the entry.\<close>

definition auth_setup :: "mgmt_conf \<Rightarrow> macaddr \<Rightarrow> acl_result \<Rightarrow> acl_info \<Rightarrow> bss \<Rightarrow> bss" where
  "auth_setup cf a res info h =
     (let h = upd_entry a (\<lambda>s. s\<lparr>sta_vlan_id := (if ai_vlan_id info > 0 then ai_vlan_id info else sta_vlan_id s),
                sta_psk := (if psk_radius_ignored cf then [] else ai_psk info),
                sta_identity := ai_identity info, sta_radius_cui := ai_radius_cui info,
                flags := unset_bit WLAN_STA_PREAUTH (flags s)\<rparr>) h;
          h = act_if (case sta_of h a of Some s \<Rightarrow> has_eapol_sm s | None \<Rightarrow> False) (Eapol_pre_auth a) h;
          h = (if conf_acct_interim_interval (mc_bss cf) = 0 \<and> ai_acct_interim_interval info \<noteq> 0
               then upd_entry a (acct_interim_interval_update (\<lambda>_. ai_acct_interim_interval info)) h else h)
      in if res = HOSTAPD_ACL_ACCEPT_TIMEOUT then ap_sta_session_timeout a (unat (ai_session_timeout info)) h
         else ap_sta_no_session_timeout a h)"

definition auth_open :: "bool \<Rightarrow> u8 list \<Rightarrow> bss \<Rightarrow> bss" where
  "auth_open cli d h =
     (let a = f_sa d;
          h = upd_entry a (flags_update (set_bit WLAN_STA_AUTH)) h;
          h = wpa_sm_event a WPA_AUTH h;
          h = upd_entry a (auth_alg_update (\<lambda>_. WLAN_AUTH_OPEN)) h
      in auth_reply cli d WLAN_STATUS_SUCCESS [] (mlme_authenticate_indication a h))"

definition auth_challenge :: "u8 list \<Rightarrow> u8 list option" where
  "auth_challenge d =
     (if length d \<ge> IEEE80211_HDRLEN + 6 + 2 + WLAN_AUTH_CHALLENGE_LEN \<and> d ! 30 = WLAN_EID_CHALLENGE \<and>
         d ! 31 = word_of_nat WLAN_AUTH_CHALLENGE_LEN
      then Some (take WLAN_AUTH_CHALLENGE_LEN (drop 32 d)) else None)"

definition auth_shared :: "mgmt_env \<Rightarrow> bool \<Rightarrow> u8 list \<Rightarrow> bss \<Rightarrow> bss" where
  "auth_shared env cli d h =
     (let a = f_sa d; tr = f_le16 d 26;
          (resp, h) = auth_shared_key env a tr (auth_challenge d) (bit (f_le16 d 0) 14) h;
          h = upd_entry a (auth_alg_update (\<lambda>_. WLAN_AUTH_SHARED_KEY)) h;
          h = mlme_authenticate_indication a h;
          ies = (case sta_of h a of
                   Some s \<Rightarrow>
                     (case challenge s of
                        Some c \<Rightarrow> if tr = 1 then WLAN_EID_CHALLENGE # word_of_nat WLAN_AUTH_CHALLENGE_LEN # c else []
                      | None \<Rightarrow> [])
                 | None \<Rightarrow> [])
      in auth_reply cli d resp ies h)"

definition auth_ft :: "u8 list \<Rightarrow> bss \<Rightarrow> bss" where
  "auth_ft d h =
     (let a = f_sa d;
          h = upd_entry a (auth_alg_update (\<lambda>_. WLAN_AUTH_FT)) h;
          h = act_if (case sta_of h a of Some s \<Rightarrow> \<not> has_wpa_sm s | None \<Rightarrow> False) (Wpa_sta_init a) h;
          h = upd_entry a (has_wpa_sm_update (\<lambda>_. True)) h
      in act (Ft_process_auth a (f_le16 d 26) (drop 30 d)) h)"

text \<open>From the entry of the station on.\<close>

definition auth_admit :: "mgmt_conf \<Rightarrow> mgmt_env \<Rightarrow> bool \<Rightarrow> u8 list \<Rightarrow> acl_result \<Rightarrow> acl_info \<Rightarrow> bss \<Rightarrow> bss" where
  "auth_admit cf env cli d res info h =
     (case ap_sta_add (mc_bss cf) (f_sa d) h of
        (None, h) \<Rightarrow> auth_reply cli d WLAN_STATUS_AP_UNABLE_TO_HANDLE_NEW_STA [] h
      | (Some _, h) \<Rightarrow>
          if ai_vlan_id info > 0 \<and> \<not> hostapd_vlan_id_valid (conf_vlans cf) (ai_vlan_id info)
          then auth_reply cli d WLAN_STATUS_UNSPECIFIED_FAILURE [] h
          else
            let h = auth_setup cf (f_sa d) res info h; alg = f_le16 d 24 in
            if alg = WLAN_AUTH_OPEN then auth_open cli d h
            else if alg = WLAN_AUTH_SHARED_KEY then auth_shared env cli d h
            else if alg = WLAN_AUTH_FT then auth_ft d h
            else auth_reply cli d WLAN_STATUS_SUCCESS [] h)"

definition handle_auth :: "mgmt_conf \<Rightarrow> mgmt_env \<Rightarrow> int \<Rightarrow> u8 option \<Rightarrow> bool \<Rightarrow> u8 list \<Rightarrow> bss \<Rightarrow> bss" where
  "handle_auth cf env now query cli d h =
     (let alg = f_le16 d 24; tr = f_le16 d 26 in
      if length d < IEEE80211_HDRLEN + 6 then h
      else if tkip_countermeasures h then auth_reply cli d WLAN_REASON_MICHAEL_MIC_FAILURE [] h
      else if \<not> auth_alg_allowed cf alg then auth_reply cli d WLAN_STATUS_NOT_SUPPORTED_AUTH_ALG [] h
      else if \<not> (tr = 1 \<or> alg = WLAN_AUTH_SAE \<or> (alg = WLAN_AUTH_SHARED_KEY \<and> tr = 3))
      then auth_reply cli d WLAN_STATUS_UNKNOWN_AUTH_TRANSACTION [] h
      else if f_sa d = bss_addr (mc_bss cf) then auth_reply cli d WLAN_STATUS_UNSPECIFIED_FAILURE [] h
      else case hostapd_allowed_address (mc_acl cf) now query (f_sa d) d (bss_acl h) of
        ((res, info), acl) \<Rightarrow>
          let h = h\<lparr>bss_acl := acl\<rparr> in
          if res = HOSTAPD_ACL_REJECT then auth_reply cli d WLAN_STATUS_UNSPECIFIED_FAILURE [] h
          else if res = HOSTAPD_ACL_PENDING then h
          else auth_admit cf env cli d res info h)"

section \<open>Station capabilities\<close>

text \<open>The state of the access point beside the station table.  A mark that is not initialized is \<^term>\<open>None\<close>.\<close>

record sta_capa_entry =
  capa_mac :: macaddr
  probe_fiveghz_rec :: "bool option"
  probe_twoghz_rec :: "bool option"
  capa_elems :: ieee802_11_elems

record ap_state =
  ap_bss :: bss
  blacklist_mac :: "u8 list option"
  blacklisted_macs :: "macaddr list"
  sta_capa_list :: "sta_capa_entry list"
  sta_capa_count :: int
  vendorspec_beacon_ie :: "u8 list option"

definition on_bss :: "(bss \<Rightarrow> bss) \<Rightarrow> ap_state \<Rightarrow> ap_state" where
  "on_bss f w = w\<lparr>ap_bss := f (ap_bss w)\<rparr>"

definition capa_known :: "macaddr \<Rightarrow> ap_state \<Rightarrow> bool" where
  "capa_known a w \<longleftrightarrow> list_ex (\<lambda>e. capa_mac e = a) (sta_capa_list w)"

definition new_capa_entry :: "mgmt_conf \<Rightarrow> macaddr \<Rightarrow> ieee802_11_elems \<Rightarrow> sta_capa_entry" where
  "new_capa_entry cf a elems =
     (let five = 36 \<le> conf_channel cf \<and> conf_channel cf \<le> 165; two = 1 \<le> conf_channel cf \<and> conf_channel cf \<le> 14 in
      \<lparr>capa_mac = a,
       probe_fiveghz_rec = (if five then Some True else if two then Some False else None),
       probe_twoghz_rec = (if five then Some False else if two then Some True else None),
       capa_elems = elems\<rparr>)"

fun update_first :: "(sta_capa_entry \<Rightarrow> bool) \<Rightarrow> (sta_capa_entry \<Rightarrow> sta_capa_entry) \<Rightarrow> sta_capa_entry list \<Rightarrow>
    sta_capa_entry list" where
  "update_first P f [] = []"
| "update_first P f (e # es) = (if P e then f e # es else e # update_first P f es)"

text \<open>A station that is not known: counted, and entered in front when its elements parse.\<close>

definition capa_add :: "mgmt_conf \<Rightarrow> macaddr \<Rightarrow> u8 list \<Rightarrow> ap_state \<Rightarrow> bool \<times> ap_state" where
  "capa_add cf a ies w =
     (let w = w\<lparr>sta_capa_count := sta_capa_count w + 1\<rparr>; (res, elems) = ieee802_11_parse_elems ies in
      if res = ParseFailed then (False, w)
      else (True, w\<lparr>sta_capa_list := new_capa_entry cf a elems # sta_capa_list w\<rparr>))"

definition capa_collect_probe :: "mgmt_conf \<Rightarrow> macaddr \<Rightarrow> u8 list \<Rightarrow> ap_state \<Rightarrow> bool \<times> ap_state" where
  "capa_collect_probe cf a ies w = (if capa_known a w then (True, w) else capa_add cf a ies w)"

definition capa_collect_assoc :: "mgmt_conf \<Rightarrow> macaddr \<Rightarrow> u8 list \<Rightarrow> ap_state \<Rightarrow> bool \<times> ap_state" where
  "capa_collect_assoc cf a ies w =
     (if capa_known a w then
        let (res, elems) = ieee802_11_parse_elems ies;
            w = w\<lparr>sta_capa_list :=
                  update_first (\<lambda>e. capa_mac e = a) (capa_elems_update (\<lambda>_. elems)) (sta_capa_list w)\<rparr>
        in (res \<noteq> ParseFailed, w)
      else capa_add cf a ies w)"

section \<open>The elements of an association request\<close>

definition check_ssid :: "mgmt_conf \<Rightarrow> u8 list option \<Rightarrow> u16" where
  "check_ssid cf ssid_ie =
     (case ssid_ie of
        None \<Rightarrow> WLAN_STATUS_UNSPECIFIED_FAILURE
      | Some d \<Rightarrow> if d \<noteq> mc_ssid cf then WLAN_STATUS_UNSPECIFIED_FAILURE else WLAN_STATUS_SUCCESS)"

definition check_wmm :: "mgmt_conf \<Rightarrow> macaddr \<Rightarrow> u8 list option \<Rightarrow> bss \<Rightarrow> u16 \<times> bss" where
  "check_wmm cf a wmm_ie h =
     (let h = upd_entry a (\<lambda>s. s\<lparr>flags := unset_bit WLAN_STA_WMM (flags s), qosinfo := 0\<rparr>) h in
      case wmm_ie of
        None \<Rightarrow> (WLAN_STATUS_SUCCESS, h)
      | Some d \<Rightarrow>
          if \<not> wmm_enabled cf then (WLAN_STATUS_SUCCESS, h)
          else if \<not> hostapd_eid_wmm_valid d then (WLAN_STATUS_UNSPECIFIED_FAILURE, h)
          else (WLAN_STATUS_SUCCESS,
            upd_entry a (\<lambda>s. s\<lparr>flags := set_bit WLAN_STA_WMM (flags s), qosinfo := d ! 6\<rparr>) h))"

definition copy_supp_rates :: "macaddr \<Rightarrow> ieee802_11_elems \<Rightarrow> bss \<Rightarrow> u16 \<times> bss" where
  "copy_supp_rates a elems h =
     (case elems E_supp_rates of
        None \<Rightarrow> (WLAN_STATUS_UNSPECIFIED_FAILURE, h)
      | Some r \<Rightarrow>
          if length r + (case elems E_ext_supp_rates of Some x \<Rightarrow> length x | None \<Rightarrow> 0) > WLAN_SUPP_RATES_MAX
          then (WLAN_STATUS_UNSPECIFIED_FAILURE, h)
          else
            let (len, buf) = merge_byte_arrays WLAN_SUPP_RATES_MAX (Some r) (elems E_ext_supp_rates)
            in (WLAN_STATUS_SUCCESS, upd_entry a (supported_rates_update (\<lambda>_. take len buf)) h))"

definition copy_sta_ht_capab :: "mgmt_conf \<Rightarrow> macaddr \<Rightarrow> u8 list option \<Rightarrow> bss \<Rightarrow> bss" where
  "copy_sta_ht_capab cf a ht_capab h =
     (case ht_capab of
        Some d \<Rightarrow>
          if length d < 26 \<or> disable_11n cf
          then upd_entry a (\<lambda>s. s\<lparr>flags := unset_bit WLAN_STA_HT (flags s), ht_capabilities := None\<rparr>) h
          else upd_entry a (\<lambda>s. s\<lparr>flags := set_bit WLAN_STA_HT (flags s), ht_capabilities := Some (take 26 d)\<rparr>) h
      | None \<Rightarrow> upd_entry a (\<lambda>s. s\<lparr>flags := unset_bit WLAN_STA_HT (flags s), ht_capabilities := None\<rparr>) h)"

definition copy_sta_vht_capab :: "mgmt_conf \<Rightarrow> macaddr \<Rightarrow> u8 list option \<Rightarrow> bss \<Rightarrow> bss" where
  "copy_sta_vht_capab cf a vht_capab h =
     (case vht_capab of
        Some d \<Rightarrow>
          if length d < 12 \<or> disable_11ac cf
          then upd_entry a (\<lambda>s. s\<lparr>flags := unset_bit WLAN_STA_VHT (flags s), vht_capabilities := None\<rparr>) h
          else upd_entry a (\<lambda>s. s\<lparr>flags := set_bit WLAN_STA_VHT (flags s), vht_capabilities := Some (take 12 d)\<rparr>) h
      | None \<Rightarrow> upd_entry a (\<lambda>s. s\<lparr>flags := unset_bit WLAN_STA_VHT (flags s), vht_capabilities := None\<rparr>) h)"

definition sta_flag :: "bss \<Rightarrow> macaddr \<Rightarrow> nat \<Rightarrow> bool" where
  "sta_flag h a n \<longleftrightarrow> (case sta_of h a of Some s \<Rightarrow> bit (flags s) n | None \<Rightarrow> False)"

text \<open>The element that is validated, with its header.\<close>

definition assoc_wpa_ie :: "mgmt_conf \<Rightarrow> ieee802_11_elems \<Rightarrow> u8 list option" where
  "assoc_wpa_ie cf elems =
     (if has_bits (mc_wpa cf) WPA_PROTO_RSN \<and> elems E_rsn_ie \<noteq> None
      then map_option (\<lambda>d. WLAN_EID_RSN # word_of_nat (length d) # d) (elems E_rsn_ie)
      else if has_bits (mc_wpa cf) WPA_PROTO_WPA \<and> elems E_wpa_ie \<noteq> None
      then map_option (\<lambda>d. WLAN_EID_VENDOR_SPECIFIC # word_of_nat (length d) # d) (elems E_wpa_ie)
      else None)"

text \<open>Whether WPS is used: the status, the element that is left to validate and the table.\<close>

definition check_wps :: "mgmt_conf \<Rightarrow> mgmt_env \<Rightarrow> macaddr \<Rightarrow> u8 list \<Rightarrow> ieee802_11_elems \<Rightarrow> u8 list option \<Rightarrow> bss \<Rightarrow>
    u16 \<times> u8 list option \<times> bss" where
  "check_wps cf env a ies elems wpa_ie h =
     (let h = upd_entry a (\<lambda>s. s\<lparr>flags := unset_bit WLAN_STA_WPS (unset_bit WLAN_STA_MAYBE_WPS
                (unset_bit WLAN_STA_WPS2 (flags s)))\<rparr>) h
      in if wps_state cf \<and> elems E_wps_ie \<noteq> None then
           let w = ieee802_11_vendor_ie_concat ies WPS_IE_VENDOR_TYPE;
               h = upd_entry a (\<lambda>s. s\<lparr>flags := set_bit WLAN_STA_WPS (flags s), sta_wps_ie := w\<rparr>) h;
               h = (case w of
                      Some b \<Rightarrow> if wps_is_20 env b then upd_entry a (flags_update (set_bit WLAN_STA_WPS2)) h else h
                    | None \<Rightarrow> h)
           in (case w of
                 Some b \<Rightarrow> if \<not> wps_validate_assoc_req env b then (WLAN_STATUS_INVALID_IE, None, h)
                           else (WLAN_STATUS_SUCCESS, None, h)
               | None \<Rightarrow> (WLAN_STATUS_SUCCESS, None, h))
         else if wps_state cf \<and> wpa_ie = None
         then (WLAN_STATUS_SUCCESS, wpa_ie, upd_entry a (flags_update (set_bit WLAN_STA_MAYBE_WPS)) h)
         else if mc_wpa cf \<noteq> 0 \<and> wpa_ie = None then (WLAN_STATUS_INVALID_IE, wpa_ie, h)
         else (WLAN_STATUS_SUCCESS, wpa_ie, h))"

definition wpa_ie_resp :: "wpa_ie_status \<Rightarrow> u16" where
  "wpa_ie_resp res =
     (case res of
        WPA_IE_OK \<Rightarrow> WLAN_STATUS_SUCCESS
      | WPA_INVALID_GROUP \<Rightarrow> WLAN_STATUS_GROUP_CIPHER_NOT_VALID
      | WPA_INVALID_PAIRWISE \<Rightarrow> WLAN_STATUS_PAIRWISE_CIPHER_NOT_VALID
      | WPA_INVALID_AKMP \<Rightarrow> WLAN_STATUS_AKMP_NOT_VALID
      | WPA_ALLOC_FAIL \<Rightarrow> WLAN_STATUS_UNSPECIFIED_FAILURE
      | WPA_INVALID_MDIE \<Rightarrow> WLAN_STATUS_INVALID_MDIE
      | _ \<Rightarrow> WLAN_STATUS_INVALID_IE)"

definition check_wpa_ie :: "mgmt_env \<Rightarrow> macaddr \<Rightarrow> u8 list \<Rightarrow> u8 list \<Rightarrow> u8 list option \<Rightarrow> bool \<Rightarrow> bss \<Rightarrow> u16 \<times> bss" where
  "check_wpa_ie env a ies wpa_ie mdie reassoc h =
     (let h = act_if (case sta_of h a of Some s \<Rightarrow> \<not> has_wpa_sm s | None \<Rightarrow> False) (Wpa_sta_init a) h;
          h = upd_entry a (has_wpa_sm_update (\<lambda>_. True)) h;
          h = act (Wpa_validate a wpa_ie mdie) h;
          (res, cipher) = wpa_validate_res env (acts h) wpa_ie mdie;
          ft = (case sta_of h a of Some s \<Rightarrow> auth_alg s = WLAN_AUTH_FT | None \<Rightarrow> False)
      in if wpa_ie_resp res \<noteq> WLAN_STATUS_SUCCESS then (wpa_ie_resp res, h)
         else if ft \<and> \<not> reassoc then (WLAN_STATUS_UNSPECIFIED_FAILURE, h)
         else
           let h = act_if ft (Ft_validate_reassoc a ies) h;
               resp = (if ft then ft_validate_res env (acts h) else WLAN_STATUS_SUCCESS)
           in if resp \<noteq> WLAN_STATUS_SUCCESS then (resp, h)
              else if (sta_flag h a WLAN_STA_HT \<or> sta_flag h a WLAN_STA_VHT) \<and> cipher = WPA_CIPHER_TKIP
              then (WLAN_STATUS_CIPHER_REJECTED_PER_POLICY, h)
              else (WLAN_STATUS_SUCCESS, h))"

text \<open>The checks behind the rates, for elements that parse.\<close>

definition check_assoc_security :: "mgmt_conf \<Rightarrow> mgmt_env \<Rightarrow> macaddr \<Rightarrow> u8 list \<Rightarrow> ieee802_11_elems \<Rightarrow> bool \<Rightarrow> bss \<Rightarrow>
    u16 \<times> bss" where
  "check_assoc_security cf env a ies elems reassoc h =
     (case check_wps cf env a ies elems (assoc_wpa_ie cf elems) h of
        (resp, wpa_ie, h) \<Rightarrow>
          if resp \<noteq> WLAN_STATUS_SUCCESS then (resp, h)
          else case wpa_ie of
            Some ie \<Rightarrow> if mc_wpa cf \<noteq> 0 then check_wpa_ie env a ies ie (elems E_mdie) reassoc h
                       else (WLAN_STATUS_SUCCESS,
                         act_if (case sta_of h a of Some s \<Rightarrow> has_wpa_sm s | None \<Rightarrow> False) (Wpa_no_wpa a) h)
          | None \<Rightarrow> (WLAN_STATUS_SUCCESS,
              act_if (case sta_of h a of Some s \<Rightarrow> has_wpa_sm s | None \<Rightarrow> False) (Wpa_no_wpa a) h))"

definition check_assoc_elems :: "mgmt_conf \<Rightarrow> mgmt_env \<Rightarrow> macaddr \<Rightarrow> u8 list \<Rightarrow> ieee802_11_elems \<Rightarrow> bool \<Rightarrow> bss \<Rightarrow>
    u16 \<times> bss" where
  "check_assoc_elems cf env a ies elems reassoc h =
     (if check_ssid cf (elems E_ssid) \<noteq> WLAN_STATUS_SUCCESS then (check_ssid cf (elems E_ssid), h)
      else
        let (resp, h) = check_wmm cf a (elems E_wmm) h in
        if resp \<noteq> WLAN_STATUS_SUCCESS then (resp, h)
        else
          let (resp, h) = copy_supp_rates a elems h in
          if resp \<noteq> WLAN_STATUS_SUCCESS then (resp, h)
          else
            let h = copy_sta_ht_capab cf a (elems E_ht_capabilities) h in
            if ieee80211n (mc_bss cf) \<and> require_ht cf \<and> \<not> sta_flag h a WLAN_STA_HT
            then (WLAN_STATUS_ASSOC_DENIED_NO_HT, h)
            else
              let h = copy_sta_vht_capab cf a (elems E_vht_capabilities) h in
              if ieee80211ac cf \<and> require_vht cf \<and> \<not> sta_flag h a WLAN_STA_VHT
              then (WLAN_STATUS_UNSPECIFIED_FAILURE, h)
              else check_assoc_security cf env a ies elems reassoc h)"

text \<open>The elements are parsed first for the collection of capabilities; when that fails the function
  returns no value.\<close>

definition check_assoc_ies :: "mgmt_conf \<Rightarrow> mgmt_env \<Rightarrow> macaddr \<Rightarrow> u8 list \<Rightarrow> bool \<Rightarrow> ap_state \<Rightarrow> u16 \<times> ap_state" where
  "check_assoc_ies cf env a ies reassoc w =
     (case capa_collect_assoc cf a ies w of
        (False, w) \<Rightarrow> (indeterminate env (acts (ap_bss w)), w)
      | (True, w) \<Rightarrow>
          (case ieee802_11_parse_elems ies of
             (ParseFailed, _) \<Rightarrow> (WLAN_STATUS_UNSPECIFIED_FAILURE, w)
           | (_, elems) \<Rightarrow>
               (case check_assoc_elems cf env a ies elems reassoc (ap_bss w) of (resp, h) \<Rightarrow> (resp, w\<lparr>ap_bss := h\<rparr>))))"

section \<open>Association\<close>

text \<open>The protection marks of the entry with their counters.\<close>

definition mark_nonerp :: "bss_conf \<Rightarrow> macaddr \<Rightarrow> bss \<Rightarrow> bss" where
  "mark_nonerp cf a h =
     (let h = (if mode_g cf then upd_entry a (flags_update (set_bit WLAN_STA_NONERP)) h else h);
          h = upd_entry a (\<lambda>s. if list_ex (\<lambda>r. r AND 0x7f > 22) (supported_rates s)
                then s\<lparr>flags := unset_bit WLAN_STA_NONERP (flags s)\<rparr> else s) h
      in case sta_of h a of
           None \<Rightarrow> h
         | Some s \<Rightarrow>
             if bit (flags s) WLAN_STA_NONERP \<and> \<not> nonerp_set s then
               let h = upd_entry a (nonerp_set_update (\<lambda>_. True)) h;
                   h = h\<lparr>num_sta_non_erp := num_sta_non_erp h + 1\<rparr>
               in act_if (num_sta_non_erp h = 1) Set_beacons h
             else h)"

definition mark_short_slot :: "bss_conf \<Rightarrow> macaddr \<Rightarrow> bss \<Rightarrow> bss" where
  "mark_short_slot cf a h =
     (case sta_of h a of
        None \<Rightarrow> h
      | Some s \<Rightarrow>
          if \<not> bit (capability s) 10 \<and> \<not> no_short_slot_time_set s then
            let h = upd_entry a (no_short_slot_time_set_update (\<lambda>_. True)) h;
                h = h\<lparr>num_sta_no_short_slot_time := num_sta_no_short_slot_time h + 1\<rparr>
            in act_if (mode_g cf \<and> num_sta_no_short_slot_time h = 1) Set_beacons h
          else h)"

definition mark_short_preamble :: "bss_conf \<Rightarrow> macaddr \<Rightarrow> bss \<Rightarrow> bss" where
  "mark_short_preamble cf a h =
     (let h = upd_entry a (\<lambda>s. s\<lparr>flags := (if bit (capability s) 5 then set_bit else unset_bit)
                WLAN_STA_SHORT_PREAMBLE (flags s)\<rparr>) h
      in case sta_of h a of
           None \<Rightarrow> h
         | Some s \<Rightarrow>
             if \<not> bit (capability s) 5 \<and> \<not> no_short_preamble_set s then
               let h = upd_entry a (no_short_preamble_set_update (\<lambda>_. True)) h;
                   h = h\<lparr>num_sta_no_short_preamble := num_sta_no_short_preamble h + 1\<rparr>
               in act_if (mode_g cf \<and> num_sta_no_short_preamble h = 1) Set_beacons h
             else h)"

definition mark_no_gf :: "macaddr \<Rightarrow> bss \<Rightarrow> bss" where
  "mark_no_gf a h =
     (case sta_of h a of
        None \<Rightarrow> h
      | Some s \<Rightarrow>
          if no_ht_gf_set s then h
          else (upd_entry a (no_ht_gf_set_update (\<lambda>_. True)) h)\<lparr>num_sta_ht_no_gf := num_sta_ht_no_gf h + 1\<rparr>)"

definition mark_20mhz :: "macaddr \<Rightarrow> bss \<Rightarrow> bss" where
  "mark_20mhz a h =
     (case sta_of h a of
        None \<Rightarrow> h
      | Some s \<Rightarrow>
          if ht_20mhz_set s then h
          else (upd_entry a (ht_20mhz_set_update (\<lambda>_. True)) h)\<lparr>num_sta_ht_20mhz := num_sta_ht_20mhz h + 1\<rparr>)"

definition update_sta_ht :: "macaddr \<Rightarrow> u8 list \<Rightarrow> bss \<Rightarrow> bss" where
  "update_sta_ht a caps h =
     (let ht_capab = WPA_GET_LE16 caps;
          h = (if \<not> bit ht_capab 4 then mark_no_gf a h else h)
      in if \<not> bit ht_capab 1 then mark_20mhz a h else h)"

definition update_sta_no_ht :: "macaddr \<Rightarrow> bss \<Rightarrow> bss" where
  "update_sta_no_ht a h =
     (case sta_of h a of
        None \<Rightarrow> h
      | Some s \<Rightarrow>
          if no_ht_set s then h
          else (upd_entry a (no_ht_set_update (\<lambda>_. True)) h)\<lparr>num_sta_no_ht := num_sta_no_ht h + 1\<rparr>)"

definition update_ht_state :: "bss_conf \<Rightarrow> macaddr \<Rightarrow> bss \<Rightarrow> bss" where
  "update_ht_state cf a h =
     (let h = (case sta_of h a of
                 None \<Rightarrow> h
               | Some s \<Rightarrow>
                   (case ht_capabilities s of
                      Some caps \<Rightarrow> if bit (flags s) WLAN_STA_HT then update_sta_ht a caps h else update_sta_no_ht a h
                    | None \<Rightarrow> update_sta_no_ht a h));
          (n, h) = hostapd_ht_operation_update cf h
      in act_if (n > 0) Set_beacons h)"

definition send_assoc_resp :: "bool \<Rightarrow> macaddr \<Rightarrow> u16 \<Rightarrow> bool \<Rightarrow> bss \<Rightarrow> bss" where
  "send_assoc_resp cli a status reassoc h =
     act_if (\<not> cli) (Send_assoc_resp a status reassoc (case sta_of h a of Some s \<Rightarrow> aid s | None \<Rightarrow> 0)) h"

text \<open>The request has passed every check.\<close>

definition assoc_record :: "mgmt_conf \<Rightarrow> u8 list \<Rightarrow> bool \<Rightarrow> bss \<Rightarrow> bss" where
  "assoc_record cf d reassoc h =
     (let a = f_sa d; b = mc_bss cf;
          h = upd_entry a (\<lambda>s. s\<lparr>capability := f_le16 d 24, listen_interval := f_le16 d 26\<rparr>) h;
          h = mark_nonerp b a h;
          h = mark_short_slot b a h;
          h = mark_short_preamble b a h;
          h = update_ht_state b a h
      in upd_entry a (\<lambda>s. s\<lparr>flags := set_bit WLAN_STA_ASSOC_REQ_OK (flags s),
           previous_ap := (if reassoc then take 6 (drop 28 d) else previous_ap s),
           last_assoc_req := Some d, timeout_next := STA_NULLFUNC\<rparr>) h)"

definition assoc_ies :: "bool \<Rightarrow> u8 list \<Rightarrow> u8 list" where
  "assoc_ies reassoc d = drop (if reassoc then 34 else 28) d"

definition assoc_known :: "mgmt_conf \<Rightarrow> mgmt_env \<Rightarrow> bool \<Rightarrow> u8 list \<Rightarrow> bool \<Rightarrow> ap_state \<Rightarrow> ap_state" where
  "assoc_known cf env cli d reassoc w =
     (let a = f_sa d in
      if tkip_countermeasures (ap_bss w)
      then on_bss (send_assoc_resp cli a WLAN_REASON_MICHAEL_MIC_FAILURE reassoc) w
      else if unat (f_le16 d 26) > max_listen_interval cf
      then on_bss (send_assoc_resp cli a WLAN_STATUS_ASSOC_DENIED_LISTEN_INT_TOO_LARGE reassoc) w
      else
        let (resp, w) = check_assoc_ies cf env a (assoc_ies reassoc d) reassoc w in
        if resp \<noteq> WLAN_STATUS_SUCCESS then on_bss (send_assoc_resp cli a resp reassoc) w
        else
          let (r, h) = hostapd_get_aid a (ap_bss w) in
          if r < 0
          then w\<lparr>ap_bss := send_assoc_resp cli a WLAN_STATUS_AP_UNABLE_TO_HANDLE_NEW_STA reassoc h\<rparr>
          else w\<lparr>ap_bss := send_assoc_resp cli a WLAN_STATUS_SUCCESS reassoc (assoc_record cf d reassoc h)\<rparr>)"

definition handle_assoc :: "mgmt_conf \<Rightarrow> mgmt_env \<Rightarrow> bool \<Rightarrow> bool \<Rightarrow> u8 list \<Rightarrow> ap_state \<Rightarrow> ap_state" where
  "handle_assoc cf env reassoc cli d w =
     (if length d < IEEE80211_HDRLEN + (if reassoc then 10 else 4) then w
      else case ap_get_sta (ap_bss w) (f_sa d) of
        None \<Rightarrow> on_bss (act (Send_deauth_frame (f_sa d) WLAN_REASON_CLASS2_FRAME_FROM_NONAUTH_STA)) w
      | Some s \<Rightarrow>
          if \<not> bit (flags s) WLAN_STA_AUTH \<and> auth_alg s \<noteq> WLAN_AUTH_FT
          then on_bss (act (Send_deauth_frame (f_sa d) WLAN_REASON_CLASS2_FRAME_FROM_NONAUTH_STA)) w
          else assoc_known cf env cli d reassoc w)"

section \<open>Leaving\<close>

definition handle_disassoc :: "u8 list \<Rightarrow> bss \<Rightarrow> bss" where
  "handle_disassoc d h =
     (let a = f_sa d in
      if length d < IEEE80211_HDRLEN + 2 then h
      else case ap_get_sta h a of
        None \<Rightarrow> h
      | Some _ \<Rightarrow>
          let h = ap_sta_set_authorized a False h;
              h = upd_entry a (\<lambda>s. s\<lparr>flags := unset_bit WLAN_STA_ASSOC (unset_bit WLAN_STA_ASSOC_REQ_OK (flags s))\<rparr>) h;
              h = wpa_sm_event a WPA_DISASSOC h;
              h = notify_port_enabled a False h;
              h = act (Acct_stop a) h;
              h = free_eapol a h;
              h = act (Drv_sta_remove a) h;
              h = upd_entry a (\<lambda>s. if timeout_next s = STA_NULLFUNC \<or> timeout_next s = STA_DISASSOC
                    then s\<lparr>timeout_next := STA_DEAUTH, handle_timer := Some AP_DEAUTH_DELAY\<rparr> else s) h
          in mlme_deletekeys_request a h)"

definition handle_deauth :: "bss_conf \<Rightarrow> u8 list \<Rightarrow> bss \<Rightarrow> bss" where
  "handle_deauth cf d h =
     (let a = f_sa d in
      if length d < IEEE80211_HDRLEN + 2 then h
      else case ap_get_sta h a of
        None \<Rightarrow> h
      | Some _ \<Rightarrow>
          let h = ap_sta_set_authorized a False h;
              h = upd_entry a (\<lambda>s. s\<lparr>flags := unset_bit WLAN_STA_AUTH (unset_bit WLAN_STA_ASSOC
                    (unset_bit WLAN_STA_ASSOC_REQ_OK (flags s)))\<rparr>) h;
              h = wpa_sm_event a WPA_DEAUTH h;
              h = mlme_deletekeys_request a h;
              h = notify_port_enabled a False h
          in ap_free_sta cf a h)"

section \<open>Transmit callbacks\<close>

definition handle_auth_cb :: "u8 list \<Rightarrow> bool \<Rightarrow> bss \<Rightarrow> bss" where
  "handle_auth_cb d acked h =
     (let alg = f_le16 d 24; tr = f_le16 d 26; status = f_le16 d 28 in
      if \<not> acked \<or> length d < IEEE80211_HDRLEN + 6 then h
      else case ap_get_sta h (f_da d) of
        None \<Rightarrow> h
      | Some _ \<Rightarrow>
          if status = WLAN_STATUS_SUCCESS \<and>
             ((alg = WLAN_AUTH_OPEN \<and> tr = 2) \<or> (alg = WLAN_AUTH_SHARED_KEY \<and> tr = 4))
          then upd_entry (f_da d) (flags_update (set_bit WLAN_STA_AUTH)) h else h)"

text \<open>Binding to a VLAN interface; the interfaces themselves are outside.\<close>

definition ap_sta_bind_vlan :: "mgmt_conf \<Rightarrow> mgmt_env \<Rightarrow> macaddr \<Rightarrow> int \<Rightarrow> bss \<Rightarrow> bool \<times> bss" where
  "ap_sta_bind_vlan cf env a old_vlanid h =
     (if (case sta_of h a of Some s \<Rightarrow> sta_vlan_id s = old_vlanid | None \<Rightarrow> True) then (True, h)
      else
        let h = act_if (old_vlanid > 0) (Vlan_remove_dynamic old_vlanid) h;
            h = (if dynamic_vlan_disabled cf then upd_entry a (sta_vlan_id_update (\<lambda>_. 0)) h else h);
            v = (case sta_of h a of Some s \<Rightarrow> sta_vlan_id s | None \<Rightarrow> 0)
        in if v > 0 \<and> \<not> hostapd_vlan_id_valid (conf_vlans cf) v then (False, h)
           else
             let dyn = v > 0 \<and> v \<notin> set (conf_vlans cf);
                 h = act_if dyn (Vlan_add_dynamic v) h
             in if dyn \<and> \<not> drv_ok env (acts h) then (False, h)
                else
                  let h = act_if (case sta_of h a of Some s \<Rightarrow> has_wpa_sm s | None \<Rightarrow> False) (Wpa_set_vlan a v) h;
                      h = act (Drv_bind_vlan a v) h
                  in (drv_ok env (acts h), h))"

definition ieee802_1x_new_station :: "mgmt_conf \<Rightarrow> mgmt_env \<Rightarrow> macaddr \<Rightarrow> bss \<Rightarrow> bss" where
  "ieee802_1x_new_station cf env a h =
     (case sta_of h a of
        None \<Rightarrow> h
      | Some s \<Rightarrow>
          let force_1x = wps_state cf \<and> mc_wpa cf \<noteq> 0 \<and> (bit (flags s) WLAN_STA_WPS \<or> bit (flags s) WLAN_STA_MAYBE_WPS)
          in if \<not> force_1x \<and> \<not> mc_ieee802_1x cf then free_eapol a h
             else if has_wpa_sm s \<and> sta_uses_psk env (acts h) then free_eapol a h
             else
               let h = act (Eapol_new_station a) (upd_entry a (has_eapol_sm_update (\<lambda>_. True)) h) in
               if auth_alg s = WLAN_AUTH_FT then h
               else case sta_pmksa_vlan env (acts h) of
                 None \<Rightarrow> h
               | Some v \<Rightarrow>
                   snd (ap_sta_bind_vlan cf env a (sta_vlan_id s)
                     (upd_entry a (sta_vlan_id_update (\<lambda>_. if dynamic_vlan_disabled cf then 0 else v)) h)))"

definition hostapd_new_assoc_sta :: "mgmt_conf \<Rightarrow> mgmt_env \<Rightarrow> macaddr \<Rightarrow> bool \<Rightarrow> bss \<Rightarrow> bss" where
  "hostapd_new_assoc_sta cf env a reassoc h =
     (if tkip_countermeasures h then act (Drv_sta_deauth a WLAN_REASON_MICHAEL_MIC_FAILURE) h
      else
        let h = act (Prune_associations a) h;
            h = act_if (ieee802_11f cf) (Iapp_new_station a) h;
            h = act_if (\<not> mc_ieee802_1x cf \<and> mc_wpa cf = 0) (Acct_start a) h;
            h = ieee802_1x_new_station cf env a h;
            ft = (case sta_of h a of Some s \<Rightarrow> auth_alg s = WLAN_AUTH_FT | None \<Rightarrow> False);
            h = (if reassoc then
                   if \<not> ft \<and> \<not> sta_flag h a WLAN_STA_WPS \<and> \<not> sta_flag h a WLAN_STA_MAYBE_WPS
                   then wpa_sm_event a WPA_REAUTH h else h
                 else act_if (case sta_of h a of Some s \<Rightarrow> has_wpa_sm s | None \<Rightarrow> False) (Wpa_associated a) h)
        in upd_entry a (handle_timer_update (\<lambda>_. Some (ap_max_inactivity (mc_bss cf)))) h)"

definition ieee802_1x_set_sta_authorized :: "macaddr \<Rightarrow> bool \<Rightarrow> bss \<Rightarrow> bss" where
  "ieee802_1x_set_sta_authorized a v h =
     (if sta_flag h a WLAN_STA_PREAUTH then h
      else act_if v (Acct_start a) (act (Drv_set_authorized a v) (ap_sta_set_authorized a v h)))"

definition mlme_assoc_indication :: "macaddr \<Rightarrow> bss \<Rightarrow> bss" where
  "mlme_assoc_indication a h =
     (case sta_of h a of
        None \<Rightarrow> h
      | Some s \<Rightarrow> if auth_alg s \<noteq> WLAN_AUTH_FT then mlme_deletekeys_request a h else h)"

text \<open>The station that the command line injects gets fixed parameters.\<close>

definition cli_params :: "sta_info \<Rightarrow> sta_info" where
  "cli_params s = s\<lparr>supported_rates := [0x01, 0x05, 0x24, 0xb0, 0x48, 0x60, 0x6c], aid := 1, capability := 0x431,
     listen_interval := 1, flags := 0x3, qosinfo := 0\<rparr>"

definition drv_sta_add :: "macaddr \<Rightarrow> bss \<Rightarrow> bss" where
  "drv_sta_add a h =
     (case sta_of h a of
        None \<Rightarrow> h
      | Some s \<Rightarrow> act (Drv_sta_add a (aid s) (capability s) (supported_rates s) (listen_interval s) (flags s) (qosinfo s)) h)"

text \<open>From the station in the driver on.\<close>

definition assoc_cb_added :: "mgmt_conf \<Rightarrow> mgmt_env \<Rightarrow> macaddr \<Rightarrow> bool \<Rightarrow> bool \<Rightarrow> bss \<Rightarrow> bss" where
  "assoc_cb_added cf env a new_assoc cli h =
     (let h = act_if (sta_flag h a WLAN_STA_WDS) (Drv_wds_add a) h;
          bind = (case sta_of h a of Some s \<Rightarrow> \<not> has_eapol_sm s \<or> sta_vlan_id s \<noteq> 0 | None \<Rightarrow> False);
          (bound, h) = (if bind then ap_sta_bind_vlan cf env a 0 h else (True, h))
      in if \<not> bound then h
         else
           let h = act (Drv_set_flags a) h;
               ft = (case sta_of h a of Some s \<Rightarrow> auth_alg s = WLAN_AUTH_FT | None \<Rightarrow> False);
               h = wpa_sm_event a (if ft then WPA_ASSOC_FT else WPA_ASSOC) h;
               h = hostapd_new_assoc_sta cf env a (\<not> new_assoc) h;
               h = notify_port_enabled a True h
           in if cli then ieee802_1x_set_sta_authorized a True h else h)"

definition assoc_cb_success :: "mgmt_conf \<Rightarrow> mgmt_env \<Rightarrow> macaddr \<Rightarrow> bool \<Rightarrow> bss \<Rightarrow> bss" where
  "assoc_cb_success cf env a cli h =
     (let h = act (Acct_stop a) h;
          new_assoc = (\<not> sta_flag h a WLAN_STA_ASSOC);
          h = upd_entry a (flags_update (set_bit WLAN_STA_ASSOC)) h;
          ft = (case sta_of h a of Some s \<Rightarrow> auth_alg s = WLAN_AUTH_FT | None \<Rightarrow> False);
          h = (if (\<not> mc_ieee802_1x cf \<and> mc_wpa cf = 0) \<or> ft then ap_sta_set_authorized a True h else h);
          h = mlme_assoc_indication a h;
          h = act (Drv_sta_remove a) h;
          h = (if cli then upd_entry a cli_params h else h);
          h = drv_sta_add a h
      in if \<not> drv_ok env (acts h) then ap_sta_disconnect (mc_bss cf) a WLAN_REASON_DISASSOC_AP_BUSY h
         else assoc_cb_added cf env a new_assoc cli h)"

definition handle_assoc_cb :: "mgmt_conf \<Rightarrow> mgmt_env \<Rightarrow> u8 list \<Rightarrow> bool \<Rightarrow> bool \<Rightarrow> bss \<Rightarrow> bss" where
  "handle_assoc_cb cf env d acked cli h =
     (let a = f_da d in
      if length d < IEEE80211_HDRLEN + 6 then h
      else case ap_get_sta h a of
        None \<Rightarrow> h
      | Some _ \<Rightarrow>
          if \<not> acked then upd_entry a (flags_update (unset_bit WLAN_STA_ASSOC_REQ_OK)) h
          else
            let h = (if f_le16 d 26 = WLAN_STATUS_SUCCESS then assoc_cb_success cf env a cli h else h)
            in upd_entry a (last_assoc_req_update (\<lambda>_. None)) h)"

definition handle_deauth_cb :: "u8 list \<Rightarrow> bss \<Rightarrow> bss" where
  "handle_deauth_cb d h =
     (if bit (d ! 4) 0 then h
      else case ap_get_sta h (f_da d) of None \<Rightarrow> h | Some _ \<Rightarrow> ap_sta_deauth_cb (f_da d) h)"

definition handle_disassoc_cb :: "u8 list \<Rightarrow> bss \<Rightarrow> bss" where
  "handle_disassoc_cb d h =
     (if bit (d ! 4) 0 then h
      else case ap_get_sta h (f_da d) of None \<Rightarrow> h | Some _ \<Rightarrow> ap_sta_disassoc_cb (f_da d) h)"

definition ieee802_11_mgmt_cb :: "mgmt_conf \<Rightarrow> mgmt_env \<Rightarrow> u8 list \<Rightarrow> u16 \<Rightarrow> bool \<Rightarrow> bss \<Rightarrow> bss" where
  "ieee802_11_mgmt_cb cf env d stype acked h =
     (if stype = 11 then handle_auth_cb d acked h
      else if stype = 1 \<or> stype = 3 then handle_assoc_cb cf env d acked False h
      else if stype = 12 then handle_deauth_cb d h
      else if stype = 10 then handle_disassoc_cb d h
      else h)"

text \<open>The status of a data frame, for the poll of the inactivity timer.\<close>

definition hostapd_tx_status :: "macaddr \<Rightarrow> bool \<Rightarrow> bss \<Rightarrow> bss" where
  "hostapd_tx_status a acked h =
     (case ap_get_sta h a of
        None \<Rightarrow> h
      | Some s \<Rightarrow>
          if bit (flags s) WLAN_STA_ASSOC \<and> bit (flags s) WLAN_STA_PENDING_POLL \<and> acked
          then upd_entry a (flags_update (unset_bit WLAN_STA_PENDING_POLL)) h else h)"

section \<open>Probe requests\<close>

datatype ssid_match_result = NO_SSID_MATCH | EXACT_SSID_MATCH | WILDCARD_SSID_MATCH

text \<open>The walk of the list ends at a single octet: the length that is read behind it makes the entry too long,
  whatever it is.\<close>

function ssid_list_match :: "u8 list \<Rightarrow> u8 list \<Rightarrow> bool \<Rightarrow> ssid_match_result" where
  "ssid_list_match own [] wildcard = (if wildcard then WILDCARD_SSID_MATCH else NO_SSID_MATCH)"
| "ssid_list_match own [c] wildcard = (if wildcard then WILDCARD_SSID_MATCH else NO_SSID_MATCH)"
| "ssid_list_match own (i # len # rest) wildcard =
     (if unat len > length rest then (if wildcard then WILDCARD_SSID_MATCH else NO_SSID_MATCH)
      else
        let wildcard = (wildcard \<or> len = 0) in
        if take (unat len) rest = own then EXACT_SSID_MATCH
        else ssid_list_match own (drop (unat len) rest) wildcard)"
  by pat_completeness auto
termination by (relation "measure (\<lambda>(_, b, _). length b)") auto

definition ssid_match :: "mgmt_conf \<Rightarrow> u8 list \<Rightarrow> u8 list option \<Rightarrow> ssid_match_result" where
  "ssid_match cf ssid ssid_list =
     (let wildcard = (ssid = []) in
      if ssid = mc_ssid cf then EXACT_SSID_MATCH
      else case ssid_list of
        None \<Rightarrow> if wildcard then WILDCARD_SSID_MATCH else NO_SSID_MATCH
      | Some l \<Rightarrow> ssid_list_match (mc_ssid cf) l wildcard)"

text \<open>Decimal output of \<^verbatim>\<open>sprintf\<close>.\<close>

fun dec_nat :: "nat \<Rightarrow> u8 list" where
  "dec_nat n = (if n < 10 then [word_of_nat (48 + n)] else dec_nat (n div 10) @ [word_of_nat (48 + n mod 10)])"

declare dec_nat.simps [simp del]

definition dec_int :: "int \<Rightarrow> u8 list" where
  "dec_int i = (if i < 0 then 0x2d # dec_nat (nat (- i)) else dec_nat (nat i))"

text \<open>The text that is published for a probe request: the address and the elements in hexadecimal and the
  signal level.\<close>

definition probe_text :: "macaddr \<Rightarrow> u8 list \<Rightarrow> int \<Rightarrow> u8 list" where
  "probe_text sa ie ssi_signal = hex_text True sa @ hex_text True ie @ ascii ''RSSI:'' @ dec_int ssi_signal"

definition probe_buf_size :: "u8 list \<Rightarrow> nat" where
  "probe_buf_size ie = 2 * length ie + 11 + 12"

definition probe_answer :: "mgmt_conf \<Rightarrow> u8 list \<Rightarrow> bss \<Rightarrow> bss" where
  "probe_answer cf d h =
     (case ieee802_11_parse_elems (drop IEEE80211_HDRLEN d) of
        (res, elems) \<Rightarrow>
          if res = ParseFailed then h
          else case (elems E_ssid, elems E_supp_rates) of
            (Some ssid, Some _) \<Rightarrow>
              if ignore_broadcast_ssid cf \<and> ssid = [] \<and> (case elems E_ssid_list of Some l \<Rightarrow> l = [] | None \<Rightarrow> True) then h
              else
                let m = ssid_match cf ssid (elems E_ssid_list) in
                if m = NO_SSID_MATCH then h
                else act (Send_probe_resp (f_sa d) (m = WILDCARD_SSID_MATCH \<and> f_da d = replicate 6 0xff)) h
          | _ \<Rightarrow> h)"

definition handle_probe_req :: "mgmt_conf \<Rightarrow> mgmt_env \<Rightarrow> u8 list \<Rightarrow> int \<Rightarrow> ap_state \<Rightarrow> ap_state" where
  "handle_probe_req cf env d ssi_signal w =
     (case capa_collect_probe cf (f_sa d) (drop IEEE80211_HDRLEN d) w of
        (False, w) \<Rightarrow> w
      | (True, w) \<Rightarrow>
          if probereq_stop env (acts (ap_bss w)) \<or> \<not> send_probe_response cf then w
          else on_bss (\<lambda>h. probe_answer cf d
            (act (Zmq_send (probe_text (f_sa d) (drop IEEE80211_HDRLEN d) ssi_signal)) h)) w)"

section \<open>Dispatch\<close>

definition handle_beacon :: "u8 list \<Rightarrow> bss \<Rightarrow> bss" where
  "handle_beacon d h = (if length d < IEEE80211_HDRLEN + 12 then h else act (Rx_beacon d) h)"

text \<open>The length that is left behind the header is negative for a frame shorter than 28 octets, and a very large number
  for the parser, which then reads behind the frame; nothing that it finds there is used, as it is not inside the
  frame.  An element that the parser finds in a frame of sufficient length is inside it.\<close>

definition hostapd_wmm_action :: "macaddr \<Rightarrow> u8 list \<Rightarrow> bss \<Rightarrow> bss" where
  "hostapd_wmm_action own d h =
     (case ap_get_sta h (f_sa d) of
        None \<Rightarrow> h
      | Some s \<Rightarrow>
          if \<not> bit (flags s) WLAN_STA_ASSOC \<or> \<not> bit (flags s) WLAN_STA_WMM then h
          else if length d < IEEE80211_HDRLEN + 4 then act (Parser_overread (word_of_nat (length d) - 28)) h
          else case ieee802_11_parse_elems (drop (IEEE80211_HDRLEN + 4) d) of
            (res, elems) \<Rightarrow>
              if res = ParseFailed then h
              else case elems E_wmm_tspec of
                None \<Rightarrow> h
              | Some t \<Rightarrow>
                  if length t \<noteq> WMM_TSPEC_LEN then h
                  else if d ! 25 = 0 then act (Send_mlme (wmm_addts_req own (f_sa d) (d ! 26) t)) h
                  else h)"

text \<open>The switch over the categories: whether it returns, or breaks to the answer for an unknown frame.\<close>

definition action_category :: "mgmt_conf \<Rightarrow> mgmt_env \<Rightarrow> u8 list \<Rightarrow> bss \<Rightarrow> bool \<times> bss" where
  "action_category cf env d h =
     (let cat = d ! 24 in
      if cat = 6 then let h = act (Ft_action_rx (f_sa d) (drop IEEE80211_HDRLEN d)) h in (\<not> ft_action_failed env (acts h), h)
      else if cat = 17 then (True, hostapd_wmm_action (bss_addr (mc_bss cf)) d h)
      else if cat = 4 then
        (public_action_cb cf \<or> public_action_cb2 cf,
         act_if (public_action_cb2 cf) (Public_action d) (act_if (public_action_cb cf) (Public_action d) h))
      else if cat = 127 \<and> vendor_action_cb cf then let h = act (Vendor_action d) h in (vendor_action_done env (acts h), h)
      else (False, h))"

definition handle_action :: "mgmt_conf \<Rightarrow> mgmt_env \<Rightarrow> u8 list \<Rightarrow> bss \<Rightarrow> bss" where
  "handle_action cf env d h =
     (if length d < IEEE80211_HDRLEN + 1 then h
      else if d ! 24 \<noteq> 4 \<and> (case ap_get_sta h (f_sa d) of None \<Rightarrow> True | Some s \<Rightarrow> \<not> bit (flags s) WLAN_STA_ASSOC) then h
      else case action_category cf env d h of
        (True, h) \<Rightarrow> h
      | (False, h) \<Rightarrow>
          if \<not> bit (d ! 4) 0 \<and> \<not> bit (d ! 24) 7 \<and> \<not> bit (d ! 10) 0
          then act (Send_mlme (take 4 d @ f_sa d @ bss_addr (mc_bss cf) @ bss_addr (mc_bss cf) @ take 2 (drop 22 d) @
                 [d ! 24 OR 0x80] @ drop 25 d)) h
          else h)"

definition is_blacklisted :: "ap_state \<Rightarrow> macaddr \<Rightarrow> bool" where
  "is_blacklisted w a \<longleftrightarrow> blacklist_mac w \<noteq> None \<and> list_ex (\<lambda>m. m = a) (blacklisted_macs w)"

definition mgmt_dispatch :: "mgmt_conf \<Rightarrow> mgmt_env \<Rightarrow> int \<Rightarrow> u8 option \<Rightarrow> u16 \<Rightarrow> u8 list \<Rightarrow> ap_state \<Rightarrow> ap_state" where
  "mgmt_dispatch cf env now query stype d w =
     (if stype = 11 then on_bss (handle_auth cf env now query False d) w
      else if stype = 0 then handle_assoc cf env False False d w
      else if stype = 2 then handle_assoc cf env True False d w
      else if stype = 10 then on_bss (handle_disassoc d) w
      else if stype = 12 then on_bss (handle_deauth (mc_bss cf) d) w
      else if stype = 13 then on_bss (handle_action cf env d) w
      else w)"

definition ieee802_11_mgmt :: "mgmt_conf \<Rightarrow> mgmt_env \<Rightarrow> int \<Rightarrow> u8 option \<Rightarrow> u8 list \<Rightarrow> int \<Rightarrow> ap_state \<Rightarrow> ap_state" where
  "ieee802_11_mgmt cf env now query d ssi_signal w =
     (let stype = WLAN_FC_GET_STYPE (f_le16 d 0) in
      if length d < IEEE80211_HDRLEN then w
      else if stype = 8 then on_bss (handle_beacon d) w
      else if is_blacklisted w (f_sa d) then w
      else if f_bssid d \<noteq> replicate 6 0xff \<and> f_bssid d \<noteq> bss_addr (mc_bss cf) then w
      else if stype = 4 then handle_probe_req cf env d ssi_signal w
      else if f_da d \<noteq> bss_addr (mc_bss cf) then w
      else mgmt_dispatch cf env now query stype d w)"

section \<open>Commands (hostapd/ctrl\_iface.c)\<close>

text \<open>An argument is the text without its terminator; the result is the return value.\<close>

definition hostapd_ctrl_iface_blacklist_client :: "u8 list \<Rightarrow> ap_state \<Rightarrow> int \<times> ap_state" where
  "hostapd_ctrl_iface_blacklist_client arg w =
     (if length arg = 17 then
        let w = w\<lparr>blacklist_mac := Some arg\<rparr>; (r, mac) = hwaddr_aton arg in
        if r = 0 then
          if list_ex (\<lambda>m. m = mac) (blacklisted_macs w) then (0, w)
          else (0, w\<lparr>blacklisted_macs := mac # blacklisted_macs w\<rparr>)
        else (-1, w)
      else if length arg = 0 then (0, w)
      else (-1, w))"

definition hostapd_ctrl_iface_unblacklist_client :: "u8 list \<Rightarrow> ap_state \<Rightarrow> int \<times> ap_state" where
  "hostapd_ctrl_iface_unblacklist_client arg w =
     (if length arg = 17 then
        let (r, mac) = hwaddr_aton arg in
        if r = 0 then (0, w\<lparr>blacklisted_macs := remove1 mac (blacklisted_macs w)\<rparr>)
        else (-1, w)
      else if length arg = 0 then (0, w)
      else (-1, w))"

definition hostapd_ctrl_iface_add_ie :: "u8 list \<Rightarrow> ap_state \<Rightarrow> int \<times> ap_state" where
  "hostapd_ctrl_iface_add_ie arg w =
     (let len = length arg div 2 in
      if len = 0 then (0, w\<lparr>vendorspec_beacon_ie := None\<rparr>)
      else case hexstr2bin arg len of
        (r, elems) \<Rightarrow> if r \<noteq> 0 then (-1, w) else (0, w\<lparr>vendorspec_beacon_ie := Some elems\<rparr>))"

text \<open>The frames that \<^verbatim>\<open>NEW_STA\<close> injects, built in a structure of 40 octets on the stack.  The request is passed on with a
  length beyond that structure: what follows the rates is an argument.  The handler of the response reads the first
  30 octets only.\<close>

definition inject_auth :: "macaddr \<Rightarrow> macaddr \<Rightarrow> u8 list" where
  "inject_auth own a = mgmt_hdr 0xb0 own a own @ [0, 0, 1, 0, 0, 0] @ replicate 10 0"

definition inject_assoc :: "macaddr \<Rightarrow> u8 list \<Rightarrow> macaddr \<Rightarrow> u8 list \<Rightarrow> u8 list" where
  "inject_assoc own ssid a tail =
     mgmt_hdr 0x00 own a own @ [0x04, 0x31, 0, 0] @ [0, word_of_nat (length ssid)] @ ssid @
       [0x01, 0x05, 0x24, 0xb0, 0x48, 0x60, 0x6c] @ tail"

definition inject_assoc_resp :: "macaddr \<Rightarrow> macaddr \<Rightarrow> u16 \<Rightarrow> u8 list" where
  "inject_assoc_resp own a capab = mgmt_hdr 0x10 a own own @ WPA_PUT_LE16 capab @ [0, 0, 0, 0x80]"

definition hostapd_ctrl_iface_new_sta :: "mgmt_conf \<Rightarrow> mgmt_env \<Rightarrow> int \<Rightarrow> u8 option \<Rightarrow> u8 list \<Rightarrow> u16 \<Rightarrow> u8 list \<Rightarrow> ap_state \<Rightarrow>
    int \<times> ap_state" where
  "hostapd_ctrl_iface_new_sta cf env now query tail capab arg w =
     (case hwaddr_aton arg of
        (r, a) \<Rightarrow>
          if r \<noteq> 0 then (-1, w)
          else if ap_get_sta (ap_bss w) a \<noteq> None then (0, w)
          else
            let own = bss_addr (mc_bss cf);
                w = on_bss (handle_auth cf env now query True (inject_auth own a)) w;
                w = handle_assoc cf env False True (inject_assoc own (mc_ssid cf) a tail) w;
                w = on_bss (handle_assoc_cb cf env (inject_assoc_resp own a capab) True True) w
            in (0, w))"

end
