(* ===== verification/Sta_Mgmt_Inv.thy ===== *)
theory Sta_Mgmt_Inv
  imports Sta_Props Sta_Mgmt
begin

text \<open>
  The invariant of the station table under management frames, transmit callbacks and commands: each
  operation of the handlers keeps it.
\<close>

section \<open>Marks\<close>

lemma filter_mark:
  assumes "distinct (map addr l)" "s \<in> set l" "addr s = a" "\<not> P s" "P (f s)"
  shows "length (filter P (map (\<lambda>t. if addr t = a then f t else t) l)) = Suc (length (filter P l))"
  using assms(1,2)
proof (induction l)
  case (Cons x l)
  show ?case
  proof (cases "x = s")
    case True
    then have "map (\<lambda>t. if addr t = a then f t else t) l = l"
      using Cons.prems assms(3) by (intro map_idI) (auto simp: image_iff)
    then show ?thesis using True assms(3-5) by simp
  next
    case False
    then have "s \<in> set l" "addr x \<noteq> a" using Cons.prems assms(3) by (auto simp: image_iff)
    then show ?thesis using Cons by auto
  qed
qed simp

lemma good_mark:
  assumes g: "good cf aids X h" and f: "\<And>s. addr (f s) = addr s" "\<And>s. aid (f s) = aid s" "\<And>s. handle_timer (f s) = handle_timer s"
    and h': "sta_list h' = map (\<lambda>t. if addr t = a then f t else t) (sta_list h)" "sta_hash h' = sta_hash h"
      "num_sta h' = num_sta h" "sta_aid h' = sta_aid h"
    and c: "counters_ok h'"
  shows "good cf aids X h'"
proof -
  have m: "map addr (sta_list h') = map addr (sta_list h)" "map aid (sta_list h') = map aid (sta_list h)"
    by (simp_all add: h' f)
  have n: "length (sta_list h') = length (sta_list h)" by (simp add: h')
  have "table_wf h'" using g unfolding good_def bss_inv_def table_wf_def m n h'(2,3) by blast
  moreover have "aid_inv h \<Longrightarrow> aid_inv h'" unfolding aid_inv_def aid_used_def m h'(4) .
  moreover have "timers_ok X h'" using g by (auto simp: good_def bss_inv_def timers_ok_def h' f)
  ultimately show ?thesis using g c by (simp add: good_def bss_inv_def h')
qed

lemma good_entry:
  assumes "good cf aids X h" "sta_of h a = Some s"
  shows "counters_ok h" "distinct (map addr (sta_list h))" "s \<in> set (sta_list h)" "addr s = a"
  using assms sta_of_Some [OF assms(2)] by (auto simp: good_def bss_inv_def table_wf_def)

text \<open>Setting a mark that is not set, together with its counter.\<close>

lemma good_marks:
  assumes g: "good cf aids X h" "sta_of h a = Some s"
  shows "\<not> nonerp_set s \<Longrightarrow> good cf aids X ((upd_entry a (nonerp_set_update (\<lambda>_. True)) h)\<lparr>num_sta_non_erp := num_sta_non_erp h + 1\<rparr>)"
    "\<not> no_short_slot_time_set s \<Longrightarrow> good cf aids X ((upd_entry a (no_short_slot_time_set_update (\<lambda>_. True)) h)\<lparr>num_sta_no_short_slot_time := num_sta_no_short_slot_time h + 1\<rparr>)"
    "\<not> no_short_preamble_set s \<Longrightarrow> good cf aids X ((upd_entry a (no_short_preamble_set_update (\<lambda>_. True)) h)\<lparr>num_sta_no_short_preamble := num_sta_no_short_preamble h + 1\<rparr>)"
    "\<not> no_ht_gf_set s \<Longrightarrow> good cf aids X ((upd_entry a (no_ht_gf_set_update (\<lambda>_. True)) h)\<lparr>num_sta_ht_no_gf := num_sta_ht_no_gf h + 1\<rparr>)"
    "\<not> no_ht_set s \<Longrightarrow> good cf aids X ((upd_entry a (no_ht_set_update (\<lambda>_. True)) h)\<lparr>num_sta_no_ht := num_sta_no_ht h + 1\<rparr>)"
    "\<not> ht_20mhz_set s \<Longrightarrow> good cf aids X ((upd_entry a (ht_20mhz_set_update (\<lambda>_. True)) h)\<lparr>num_sta_ht_20mhz := num_sta_ht_20mhz h + 1\<rparr>)"
  subgoal
    using good_entry [OF g] by (intro good_mark [OF g(1), where a = a and f = "nonerp_set_update (\<lambda>_. True)"])
      (simp_all add: counters_ok_def filter_upd filter_mark [of _ s] del: length_filter_map)
  subgoal
    using good_entry [OF g] by (intro good_mark [OF g(1), where a = a and f = "no_short_slot_time_set_update (\<lambda>_. True)"])
      (simp_all add: counters_ok_def filter_upd filter_mark [of _ s] del: length_filter_map)
  subgoal
    using good_entry [OF g] by (intro good_mark [OF g(1), where a = a and f = "no_short_preamble_set_update (\<lambda>_. True)"])
      (simp_all add: counters_ok_def filter_upd filter_mark [of _ s] del: length_filter_map)
  subgoal
    using good_entry [OF g] by (intro good_mark [OF g(1), where a = a and f = "no_ht_gf_set_update (\<lambda>_. True)"])
      (simp_all add: counters_ok_def filter_upd filter_mark [of _ s] del: length_filter_map)
  subgoal
    using good_entry [OF g] by (intro good_mark [OF g(1), where a = a and f = "no_ht_set_update (\<lambda>_. True)"])
      (simp_all add: counters_ok_def filter_upd filter_mark [of _ s] del: length_filter_map)
  subgoal
    using good_entry [OF g] by (intro good_mark [OF g(1), where a = a and f = "ht_20mhz_set_update (\<lambda>_. True)"])
      (simp_all add: counters_ok_def filter_upd filter_mark [of _ s] del: length_filter_map)
  done

lemma good_mark_nonerp [inv_intros]:
  assumes "good cf aids X h"
  shows "good cf aids X (mark_nonerp cf' a h)"
proof -
  define g where "g = upd_entry a (\<lambda>s. if list_ex (\<lambda>r. r AND 0x7f > 22) (supported_rates s)
      then s\<lparr>flags := unset_bit WLAN_STA_NONERP (flags s)\<rparr> else s)
    (if mode_g cf' then upd_entry a (flags_update (set_bit WLAN_STA_NONERP)) h else h)"
  have "good cf aids X g" unfolding g_def using assms by (intro good_keeps) (auto simp: write_defs intro!: good_keeps)
  then show ?thesis
    using good_marks(1) [of cf aids X g a] unfolding mark_nonerp_def Let_def g_def [symmetric]
    by (simp split: option.split)
qed

lemma good_mark_short_slot [inv_intros]: "good cf aids X h \<Longrightarrow> good cf aids X (mark_short_slot cf' a h)"
  using good_marks(2) [of cf aids X h a] unfolding mark_short_slot_def Let_def by (simp split: option.split)

lemma good_mark_short_preamble [inv_intros]:
  assumes "good cf aids X h"
  shows "good cf aids X (mark_short_preamble cf' a h)"
proof -
  define g where "g = upd_entry a (\<lambda>s. s\<lparr>flags := (if bit (capability s) 5 then set_bit else unset_bit)
    WLAN_STA_SHORT_PREAMBLE (flags s)\<rparr>) h"
  have "good cf aids X g" unfolding g_def using assms by (intro good_keeps) simp_all
  then show ?thesis
    using good_marks(3) [of cf aids X g a] unfolding mark_short_preamble_def Let_def g_def [symmetric]
    by (simp split: option.split)
qed

lemma good_ht_operation [inv_intros]:
  "good cf aids X h \<Longrightarrow> good cf aids X (snd (hostapd_ht_operation_update cf' h))"
  using bss_inv_same [OF ht_update_sel, of cf X cf' h] aid_inv_same [OF ht_update_sel, of cf' h] by (simp add: good_def)

lemma good_update_ht_state [inv_intros]:
  assumes "good cf aids X h"
  shows "good cf aids X (update_ht_state cf' a h)"
proof -
  have m: "good cf aids X g \<Longrightarrow> good cf aids X (mark_no_gf a g)" "good cf aids X g \<Longrightarrow> good cf aids X (mark_20mhz a g)"
    "good cf aids X g \<Longrightarrow> good cf aids X (update_sta_no_ht a g)" for g
    using good_marks(4-6) [of cf aids X g a]
    by (simp_all add: mark_no_gf_def mark_20mhz_def update_sta_no_ht_def split: option.split)
  then have "good cf aids X g \<Longrightarrow> good cf aids X (update_sta_ht a caps g)" for g caps by (simp add: update_sta_ht_def Let_def)
  then show ?thesis
    using assms m(3) by (simp add: update_ht_state_def Let_def case_prod_beta good_ht_operation split: option.split)
qed

section \<open>Authentication\<close>

lemma keeps_more [simp]:
  "keeps (sta_vlan_id_update v)" "keeps (acct_interim_interval_update w)" "keeps (last_assoc_req_update r)"
  "keeps (supported_rates_update x)"
  "keeps (\<lambda>s. s\<lparr>sta_vlan_id := vl s, sta_psk := k, sta_identity := i, sta_radius_cui := c, flags := fl s\<rparr>)"
  "keeps (\<lambda>s. s\<lparr>flags := fl s, qosinfo := q\<rparr>)" "keeps (\<lambda>s. s\<lparr>flags := fl s, ht_capabilities := hc\<rparr>)"
  "keeps (\<lambda>s. s\<lparr>flags := fl s, vht_capabilities := vc\<rparr>)" "keeps (\<lambda>s. s\<lparr>flags := fl s, sta_wps_ie := wc\<rparr>)"
  "keeps (\<lambda>s. s\<lparr>capability := ca, listen_interval := l\<rparr>)"
  "keeps (\<lambda>s. s\<lparr>flags := fl s, previous_ap := p s, last_assoc_req := lr, timeout_next := n\<rparr>)"
  by (simp_all add: write_defs)

lemma good_mlme_indication [simp]:
  "good cf aids X (mlme_authenticate_indication a h) = good cf aids X h"
  "good cf aids X (mlme_assoc_indication a h) = good cf aids X h"
  by (simp_all add: mlme_authenticate_indication_def mlme_assoc_indication_def split: option.split)

lemma good_acl [simp]: "good cf aids X (h\<lparr>bss_acl := acl\<rparr>) = good cf aids X h"
proof -
  have "same_table h (h\<lparr>bss_acl := acl\<rparr>)" by (simp add: same_table_def)
  then show ?thesis by (simp add: good_def bss_inv_same aid_inv_same)
qed

lemma good_auth_reply [simp]: "good cf aids X (auth_reply cli d resp ies h) = good cf aids X h"
  by (simp add: auth_reply_def)

lemma good_auth_shared_key [inv_intros]:
  "good cf aids X h \<Longrightarrow> good cf aids X (snd (auth_shared_key env a tr chal wep h))"
  by (auto simp: auth_shared_key_def Let_def good_keeps split: option.split)

lemma good_auth_ft_finish [inv_intros]: "good cf aids X h \<Longrightarrow> good cf aids X (handle_auth_ft_finish dst tr st ies h)"
  by (simp add: handle_auth_ft_finish_def Let_def good_keeps split: option.split)

lemma good_auth_setup [inv_intros]: "good cf aids X h \<Longrightarrow> good cf aids X (auth_setup mc a res info h)"
  by (simp add: auth_setup_def Let_def good_session_timeout good_keeps)

lemma good_auth_algs [inv_intros]:
  "good cf aids X h \<Longrightarrow> good cf aids X (auth_open cli d h)" "good cf aids X h \<Longrightarrow> good cf aids X (auth_shared env cli d h)"
  "good cf aids X h \<Longrightarrow> good cf aids X (auth_ft d h)"
  by (simp_all add: auth_open_def auth_shared_def auth_ft_def Let_def case_prod_beta good_keeps good_auth_shared_key)

lemma good_auth_admit [inv_intros]:
  assumes "good (mc_bss mc) aids X h"
  shows "good (mc_bss mc) aids X (auth_admit mc env cli d res info h)"
  using good_sta_add [OF assms, of "f_sa d"]
  by (auto simp: auth_admit_def Let_def good_auth_setup good_auth_algs split: prod.split option.split)

lemma good_handle_auth [inv_intros]:
  "good (mc_bss mc) aids X h \<Longrightarrow> good (mc_bss mc) aids X (handle_auth mc env now query cli d h)"
  by (simp add: handle_auth_def Let_def case_prod_beta good_auth_admit)

section \<open>Association\<close>

lemma good_check_wmm [inv_intros]: "good cf aids X h \<Longrightarrow> good cf aids X (snd (check_wmm mc a ie h))"
  by (simp add: check_wmm_def Let_def good_keeps split: option.split)

lemma good_copy [inv_intros]:
  "good cf aids X h \<Longrightarrow> good cf aids X (snd (copy_supp_rates a elems h))"
  "good cf aids X h \<Longrightarrow> good cf aids X (copy_sta_ht_capab mc a c h)"
  "good cf aids X h \<Longrightarrow> good cf aids X (copy_sta_vht_capab mc a c h)"
  by (simp_all add: copy_supp_rates_def copy_sta_ht_capab_def copy_sta_vht_capab_def Let_def case_prod_beta good_keeps
      split: option.split)

lemma good_check_wps [inv_intros]: "good cf aids X h \<Longrightarrow> good cf aids X (snd (snd (check_wps mc env a ies elems ie h)))"
  by (simp add: check_wps_def Let_def good_keeps split: option.split)

lemma good_check_wpa_ie [inv_intros]: "good cf aids X h \<Longrightarrow> good cf aids X (snd (check_wpa_ie env a ies ie md re h))"
  by (simp add: check_wpa_ie_def Let_def case_prod_beta good_keeps)

lemma good_check_security [inv_intros]:
  "good cf aids X h \<Longrightarrow> good cf aids X (snd (check_assoc_security mc env a ies elems re h))"
  using good_check_wps [of cf aids X h mc env a ies elems "assoc_wpa_ie mc elems"]
  by (auto simp: check_assoc_security_def good_check_wpa_ie split: prod.split option.split)

lemma good_check_elems [inv_intros]:
  "good cf aids X h \<Longrightarrow> good cf aids X (snd (check_assoc_elems mc env a ies elems re h))"
  by (simp add: check_assoc_elems_def Let_def case_prod_beta good_check_wmm good_copy good_check_security)

lemma capa_bss [simp]:
  "ap_bss (snd (capa_add mc a ies w)) = ap_bss w" "ap_bss (snd (capa_collect_assoc mc a ies w)) = ap_bss w"
  "ap_bss (snd (capa_collect_probe mc a ies w)) = ap_bss w"
  by (simp_all add: capa_add_def capa_collect_assoc_def capa_collect_probe_def Let_def case_prod_beta)

lemma capa_collect_parses: "fst (capa_collect_assoc mc a ies w) \<longleftrightarrow> fst (ieee802_11_parse_elems ies) \<noteq> ParseFailed"
  by (simp add: capa_collect_assoc_def capa_add_def Let_def case_prod_beta)

text \<open>The two parses see the same octets, so the second never fails.\<close>

lemma check_assoc_ies_eq:
  "check_assoc_ies mc env a ies re w =
     (if fst (ieee802_11_parse_elems ies) = ParseFailed
      then (indeterminate env (acts (ap_bss w)), snd (capa_collect_assoc mc a ies w))
      else let r = check_assoc_elems mc env a ies (snd (ieee802_11_parse_elems ies)) re (ap_bss w)
           in (fst r, (snd (capa_collect_assoc mc a ies w))\<lparr>ap_bss := snd r\<rparr>))"
  using capa_collect_parses [of mc a ies w] capa_bss(2) [of mc a ies w]
  by (cases "capa_collect_assoc mc a ies w"; cases "ieee802_11_parse_elems ies"; cases "fst (ieee802_11_parse_elems ies)")
    (auto simp: check_assoc_ies_def split: bool.split prod.split)

lemma good_check_ies [inv_intros]:
  "good cf aids X (ap_bss w) \<Longrightarrow> good cf aids X (ap_bss (snd (check_assoc_ies mc env a ies re w)))"
  by (simp add: check_assoc_ies_eq Let_def good_check_elems)

lemma good_assoc_record [inv_intros]: "good cf aids X h \<Longrightarrow> good cf aids X (assoc_record mc d re h)"
  by (simp add: assoc_record_def Let_def good_keeps good_update_ht_state good_mark_short_preamble good_mark_short_slot
      good_mark_nonerp)

lemma good_assoc_resp [simp]: "good cf aids X (send_assoc_resp cli a st re h) = good cf aids X h"
  by (simp add: send_assoc_resp_def)

lemma on_bss_sel [simp]:
  "ap_bss (on_bss f w) = f (ap_bss w)" "blacklist_mac (on_bss f w) = blacklist_mac w"
  "blacklisted_macs (on_bss f w) = blacklisted_macs w" "sta_capa_list (on_bss f w) = sta_capa_list w"
  "sta_capa_count (on_bss f w) = sta_capa_count w" "vendorspec_beacon_ie (on_bss f w) = vendorspec_beacon_ie w"
  by (simp_all add: on_bss_def)

lemma good_assoc_known [inv_intros]:
  assumes "good cf aids X (ap_bss w)"
  shows "good cf aids X (ap_bss (assoc_known mc env cli d re w))"
  using good_check_ies [OF assms, of mc env "f_sa d" "assoc_ies re d" re] assms
  by (simp add: assoc_known_def Let_def case_prod_beta good_get_aid good_assoc_record)

lemma good_handle_assoc [inv_intros]:
  "good cf aids X (ap_bss w) \<Longrightarrow> good cf aids X (ap_bss (handle_assoc mc env re cli d w))"
  by (simp add: handle_assoc_def good_assoc_known split: option.split)

section \<open>Leaving and callbacks\<close>

lemma good_handle_disassoc [inv_intros]:
  assumes "good cf aids X h"
  shows "good cf aids X (handle_disassoc d h)"
proof -
  have arm: "good cf aids X (upd_entry a (\<lambda>s. if timeout_next s = STA_NULLFUNC \<or> timeout_next s = STA_DISASSOC
      then s\<lparr>timeout_next := STA_DEAUTH, handle_timer := Some AP_DEAUTH_DELAY\<rparr> else s) g)" if "good cf aids X g" for g a
    using that unfolding good_def by (auto simp: bss_inv_def table_wf_upd counters_ok_upd timers_ok_def write_defs)
  show ?thesis
    using assms by (simp add: handle_disassoc_def Let_def arm good_keeps good_free_eapol good_set_authorized split: option.split)
qed

lemma good_handle_deauth [inv_intros]: "good cf aids X h \<Longrightarrow> good cf aids X (handle_deauth cf d h)"
  by (simp add: handle_deauth_def Let_def good_free' good_keeps good_set_authorized split: option.split)

lemma good_handle_auth_cb [inv_intros]: "good cf aids X h \<Longrightarrow> good cf aids X (handle_auth_cb d ok h)"
  by (simp add: handle_auth_cb_def Let_def good_keeps split: option.split)

lemma good_bind_vlan [inv_intros]: "good cf aids X h \<Longrightarrow> good cf aids X (snd (ap_sta_bind_vlan mc env a old h))"
  by (simp add: ap_sta_bind_vlan_def Let_def good_keeps split: option.split)

lemma good_new_station [inv_intros]: "good cf aids X h \<Longrightarrow> good cf aids X (ieee802_1x_new_station mc env a h)"
  by (simp add: ieee802_1x_new_station_def Let_def good_free_eapol good_bind_vlan good_keeps split: option.split)

lemma good_new_assoc_sta [inv_intros]: "good cf aids X h \<Longrightarrow> good cf aids X (hostapd_new_assoc_sta mc env a re h)"
  by (simp add: hostapd_new_assoc_sta_def Let_def good_new_station good_arms')

lemma good_set_sta_authorized [inv_intros]:
  "good cf aids X h \<Longrightarrow> good cf aids X (ieee802_1x_set_sta_authorized a v h)"
  by (simp add: ieee802_1x_set_sta_authorized_def good_set_authorized)

lemma good_cli_params: "good cf False X h \<Longrightarrow> good cf False X (upd_entry a cli_params h)"
  by (auto simp: good_def cli_params_def shape_def intro!: bss_inv_shape)

lemma good_drv_sta_add [simp]: "good cf aids X (drv_sta_add a h) = good cf aids X h"
  by (simp add: drv_sta_add_def split: option.split)

lemma good_cb_added [inv_intros]: "good cf aids X h \<Longrightarrow> good cf aids X (assoc_cb_added mc env a new cli h)"
  by (simp add: assoc_cb_added_def Let_def case_prod_beta good_set_sta_authorized good_new_assoc_sta good_bind_vlan)

text \<open>An injected station breaks the bookkeeping of the identifiers, nothing else.\<close>

lemma good_cb_success [inv_intros]:
  assumes "good (mc_bss mc) aids X h" "cli \<Longrightarrow> \<not> aids"
  shows "good (mc_bss mc) aids X (assoc_cb_success mc env a cli h)"
  using assms good_cli_params
  by (cases cli) (simp_all add: assoc_cb_success_def Let_def good_cb_added good_disconnect good_set_authorized good_keeps)

lemma good_handle_assoc_cb [inv_intros]:
  "good (mc_bss mc) aids X h \<Longrightarrow> (cli \<Longrightarrow> \<not> aids) \<Longrightarrow> good (mc_bss mc) aids X (handle_assoc_cb mc env d ok cli h)"
  by (simp add: handle_assoc_cb_def Let_def good_keeps good_cb_success split: option.split)

lemma good_mgmt_cb [inv_intros]:
  "good (mc_bss mc) aids X h \<Longrightarrow> good (mc_bss mc) aids X (ieee802_11_mgmt_cb mc env d st ok h)"
  by (simp add: ieee802_11_mgmt_cb_def good_handle_auth_cb good_handle_assoc_cb handle_deauth_cb_def handle_disassoc_cb_def
      good_tx_callbacks split: option.split)

lemma good_tx_status [inv_intros]: "good cf aids X h \<Longrightarrow> good cf aids X (hostapd_tx_status a ok h)"
  by (simp add: hostapd_tx_status_def good_keeps split: option.split)

section \<open>Frames and commands\<close>

lemma good_probe_answer [simp]: "good cf aids X (probe_answer mc d h) = good cf aids X h"
  by (simp add: probe_answer_def Let_def case_prod_beta split: option.split)

lemma handle_probe_req_eq:
  "handle_probe_req mc env d ss w =
     (let c = capa_collect_probe mc (f_sa d) (drop IEEE80211_HDRLEN d) w in
      if \<not> fst c \<or> probereq_stop env (acts (ap_bss w)) \<or> \<not> send_probe_response mc then snd c
      else on_bss (\<lambda>h. probe_answer mc d (act (Zmq_send (probe_text (f_sa d) (drop IEEE80211_HDRLEN d) ss)) h)) (snd c))"
proof -
  obtain b v where "capa_collect_probe mc (f_sa d) (drop IEEE80211_HDRLEN d) w = (b, v)" by fastforce
  moreover from this have "ap_bss v = ap_bss w" using capa_bss(3) [of mc "f_sa d" "drop IEEE80211_HDRLEN d" w] by simp
  ultimately show ?thesis by (cases b) (simp_all add: handle_probe_req_def)
qed

lemma good_probe [inv_intros]:
  "good cf aids X (ap_bss w) \<Longrightarrow> good cf aids X (ap_bss (handle_probe_req mc env d ss w))"
  by (simp add: handle_probe_req_eq Let_def)

text \<open>Action frames only cause calls.\<close>

inductive calls_only :: "bss \<Rightarrow> bss \<Rightarrow> bool" for h where
  calls_none: "calls_only h h"
| calls_act: "calls_only h g \<Longrightarrow> calls_only h (act x g)"

lemma calls_act_if: "calls_only h g \<Longrightarrow> calls_only h (act_if b x g)"
  by (simp add: act_if_def calls_act)

lemmas calls_intros = calls_none calls_act calls_act_if

lemma calls_wmm_action: "calls_only h (hostapd_wmm_action own d h)"
  by (simp add: hostapd_wmm_action_def case_prod_beta calls_intros split: option.split)

lemma calls_handle_action: "calls_only h (handle_action mc env d h)"
proof -
  obtain b g where c: "action_category mc env d h = (b, g)" by fastforce
  have "calls_only h (snd (action_category mc env d h))"
    by (simp add: action_category_def Let_def calls_intros calls_wmm_action)
  then show ?thesis by (cases b) (simp_all add: handle_action_def c calls_intros)
qed

lemma good_handle_action [simp]: "good cf aids X (handle_action mc env d h) = good cf aids X h"
  using calls_handle_action [of h mc env d] by (induction rule: calls_only.induct) simp_all

lemma good_mgmt [inv_intros]:
  "good (mc_bss mc) aids X (ap_bss w) \<Longrightarrow> good (mc_bss mc) aids X (ap_bss (ieee802_11_mgmt mc env now query d ss w))"
  by (simp add: ieee802_11_mgmt_def mgmt_dispatch_def Let_def handle_beacon_def good_probe good_handle_auth
      good_handle_assoc good_handle_disassoc good_handle_deauth)

lemma commands_bss [simp]:
  "ap_bss (snd (hostapd_ctrl_iface_blacklist_client arg w)) = ap_bss w"
  "ap_bss (snd (hostapd_ctrl_iface_unblacklist_client arg w)) = ap_bss w"
  "ap_bss (snd (hostapd_ctrl_iface_add_ie arg w)) = ap_bss w"
  by (simp_all add: hostapd_ctrl_iface_blacklist_client_def hostapd_ctrl_iface_unblacklist_client_def
      hostapd_ctrl_iface_add_ie_def Let_def case_prod_beta)

lemma good_new_sta [inv_intros]:
  "good (mc_bss mc) False X (ap_bss w) \<Longrightarrow>
   good (mc_bss mc) False X (ap_bss (snd (hostapd_ctrl_iface_new_sta mc env now query tail capab arg w)))"
  by (simp add: hostapd_ctrl_iface_new_sta_def Let_def case_prod_beta good_handle_assoc_cb good_handle_assoc good_handle_auth)

end
