(* ===== verification/Sta_Mgmt_Props.thy ===== *)
theory Sta_Mgmt_Props
  imports Sta_Mgmt_Inv
begin

text \<open>
  Properties of the access point under every sequence of frames, callbacks, timers and commands: the station
  table stays consistent, a blacklisted client is ignored, an association is accepted only after the
  checks, and where the extensions of the access point break these promises.
\<close>

section \<open>Runs\<close>

definition ap_init :: "acl_state \<Rightarrow> ap_state" where
  "ap_init acl = \<lparr>ap_bss = bss_init acl, blacklist_mac = None, blacklisted_macs = [], sta_capa_list = [],
     sta_capa_count = 0, vendorspec_beacon_ie = None\<rparr>"

text \<open>Stations are injected only in runs with the first mark, and addresses taken off the blacklist only in runs
  with the second.  Countermeasures and the presence of legacy networks are set from outside.\<close>

inductive ap_step :: "mgmt_conf \<Rightarrow> mgmt_env \<Rightarrow> bool \<Rightarrow> bool \<Rightarrow> ap_state \<Rightarrow> ap_state \<Rightarrow> bool" for cf env cli unbl where
  frame: "ap_step cf env cli unbl w (ieee802_11_mgmt cf env now query d ss w)"
| tx_frame: "ap_step cf env cli unbl w (on_bss (ieee802_11_mgmt_cb cf env d st acked) w)"
| tx_data: "ap_step cf env cli unbl w (on_bss (hostapd_tx_status a acked) w)"
| ft_finish: "ap_step cf env cli unbl w (on_bss (handle_auth_ft_finish dst tr st ies) w)"
| authorize: "ap_step cf env cli unbl w (on_bss (ieee802_1x_set_sta_authorized a v) w)"
| table: "table_step (mc_bss cf) (ap_bss w) h \<Longrightarrow> ap_step cf env cli unbl w (w\<lparr>ap_bss := h\<rparr>)"
| outside: "ap_step cf env cli unbl w (on_bss (\<lambda>h. h\<lparr>tkip_countermeasures := b, olbc_ht := c, bss_acl := acl\<rparr>) w)"
| blacklist: "ap_step cf env cli unbl w (snd (hostapd_ctrl_iface_blacklist_client arg w))"
| unblacklist: "unbl \<Longrightarrow> ap_step cf env cli unbl w (snd (hostapd_ctrl_iface_unblacklist_client arg w))"
| add_ie: "ap_step cf env cli unbl w (snd (hostapd_ctrl_iface_add_ie arg w))"
| new_sta: "cli \<Longrightarrow> ap_step cf env cli unbl w (snd (hostapd_ctrl_iface_new_sta cf env now query tail capab arg w))"

inductive ap_run :: "mgmt_conf \<Rightarrow> mgmt_env \<Rightarrow> bool \<Rightarrow> bool \<Rightarrow> ap_state \<Rightarrow> ap_state \<Rightarrow> bool" for cf env cli unbl w where
  refl: "ap_run cf env cli unbl w w"
| step: "ap_run cf env cli unbl w v \<Longrightarrow> ap_step cf env cli unbl v u \<Longrightarrow> ap_run cf env cli unbl w u"

lemma good_outside [simp]:
  "good cf aids X (h\<lparr>tkip_countermeasures := b, olbc_ht := c\<rparr>) = good cf aids X h"
proof -
  have "same_table h (h\<lparr>tkip_countermeasures := b, olbc_ht := c\<rparr>)" by (simp add: same_table_def)
  then show ?thesis by (simp add: good_def bss_inv_same aid_inv_same)
qed

lemma good_ap_step:
  "ap_step cf env cli unbl w v \<Longrightarrow> good (mc_bss cf) (\<not> cli) {} (ap_bss w) \<Longrightarrow> good (mc_bss cf) (\<not> cli) {} (ap_bss v)"
proof (induction rule: ap_step.induct)
  case (table w h)
  then show ?case using good_step by simp
qed (auto intro: inv_intros)

lemma good_ap_run:
  "ap_run cf env cli unbl w v \<Longrightarrow> good (mc_bss cf) (\<not> cli) {} (ap_bss w) \<Longrightarrow> good (mc_bss cf) (\<not> cli) {} (ap_bss v)"
  by (induction rule: ap_run.induct) (auto intro: good_ap_step)

lemma good_ap_init: "good cf aids {} (ap_bss (ap_init acl))"
  using good_init by (simp add: ap_init_def)

text \<open>C7. Whatever frames arrive, whatever the driver, the WPA machine and WPS answer, and whatever timers and commands run in
  between: the station table is consistent; the bookkeeping of the association identifiers is consistent, too, as
  long as no station is injected by command.\<close>

theorem ap_table_consistent:
  assumes "ap_run cf env cli unbl (ap_init acl) w"
  shows "table_wf (ap_bss w) \<and> counters_ok (ap_bss w) \<and> timers_ok {} (ap_bss w) \<and>
    num_sta (ap_bss w) \<le> max 0 (max_num_sta (mc_bss cf)) \<and> (\<not> cli \<longrightarrow> aid_inv (ap_bss w))"
  using good_ap_run [OF assms good_ap_init] by (simp add: good_def bss_inv_def)

section \<open>The blacklist\<close>

lemma blacklist_capa [simp]:
  "blacklist_mac (snd (capa_add mc a ies w)) = blacklist_mac w" "blacklist_mac (snd (capa_collect_assoc mc a ies w)) = blacklist_mac w"
  "blacklist_mac (snd (capa_collect_probe mc a ies w)) = blacklist_mac w"
  "blacklisted_macs (snd (capa_add mc a ies w)) = blacklisted_macs w"
  "blacklisted_macs (snd (capa_collect_assoc mc a ies w)) = blacklisted_macs w"
  "blacklisted_macs (snd (capa_collect_probe mc a ies w)) = blacklisted_macs w"
  by (simp_all add: capa_add_def capa_collect_assoc_def capa_collect_probe_def Let_def case_prod_beta)

lemma blacklist_check_ies [simp]:
  "blacklist_mac (snd (check_assoc_ies mc env a ies re w)) = blacklist_mac w"
  "blacklisted_macs (snd (check_assoc_ies mc env a ies re w)) = blacklisted_macs w"
  by (simp_all add: check_assoc_ies_eq Let_def)

lemma blacklist_handle_assoc [simp]:
  "blacklist_mac (handle_assoc mc env re cli d w) = blacklist_mac w"
  "blacklisted_macs (handle_assoc mc env re cli d w) = blacklisted_macs w"
  by (simp_all add: handle_assoc_def assoc_known_def Let_def case_prod_beta split: option.split)

lemma blacklist_probe [simp]:
  "blacklist_mac (handle_probe_req mc env d ss w) = blacklist_mac w"
  "blacklisted_macs (handle_probe_req mc env d ss w) = blacklisted_macs w"
  by (simp_all add: handle_probe_req_eq Let_def)

lemma blacklist_frames [simp]:
  "blacklist_mac (ieee802_11_mgmt cf env now query d ss w) = blacklist_mac w"
  "blacklisted_macs (ieee802_11_mgmt cf env now query d ss w) = blacklisted_macs w"
  by (simp_all add: ieee802_11_mgmt_def mgmt_dispatch_def Let_def)

lemma blacklist_commands [simp]:
  "blacklist_mac (snd (hostapd_ctrl_iface_add_ie arg w)) = blacklist_mac w"
  "blacklisted_macs (snd (hostapd_ctrl_iface_add_ie arg w)) = blacklisted_macs w"
  "blacklist_mac (snd (hostapd_ctrl_iface_new_sta cf env now query tail capab arg w)) = blacklist_mac w"
  "blacklisted_macs (snd (hostapd_ctrl_iface_new_sta cf env now query tail capab arg w)) = blacklisted_macs w"
  by (simp_all add: hostapd_ctrl_iface_add_ie_def hostapd_ctrl_iface_new_sta_def Let_def case_prod_beta)

lemma step_distinct: "ap_step cf env cli unbl w v \<Longrightarrow> distinct (blacklisted_macs w) \<Longrightarrow> distinct (blacklisted_macs v)"
  by (induction rule: ap_step.induct)
    (auto simp: hostapd_ctrl_iface_blacklist_client_def hostapd_ctrl_iface_unblacklist_client_def Let_def case_prod_beta
      list_ex_iff)

lemma run_distinct: "ap_run cf env cli unbl w v \<Longrightarrow> distinct (blacklisted_macs w) \<Longrightarrow> distinct (blacklisted_macs v)"
  by (induction rule: ap_run.induct) (auto intro: step_distinct)

lemma step_blacklisted: "ap_step cf env cli False w v \<Longrightarrow> is_blacklisted w a \<Longrightarrow> is_blacklisted v a"
  by (erule ap_step.cases)
    (auto simp: is_blacklisted_def hostapd_ctrl_iface_blacklist_client_def Let_def case_prod_beta list_ex_iff)

lemma run_blacklisted: "ap_run cf env cli False w v \<Longrightarrow> is_blacklisted w a \<Longrightarrow> is_blacklisted v a"
  by (induction rule: ap_run.induct) (auto intro: step_blacklisted)

lemma blacklisted_ignored:
  "is_blacklisted w (f_sa d) \<Longrightarrow> WLAN_FC_GET_STYPE (f_le16 d 0) \<noteq> 8 \<Longrightarrow> ieee802_11_mgmt cf env now query d ss w = w"
  by (simp add: ieee802_11_mgmt_def Let_def)

text \<open>C11. Once the command \<^verbatim>\<open>BLACKLIST\<close> has accepted an address, every management frame from that address other than
  a beacon leaves the whole state of the access point as it is, through any run in which no address is taken off the
  list; and \<^verbatim>\<open>UNBLACKLIST\<close> with the same text takes it off.\<close>

theorem blacklisted_client_ignored:
  assumes "ap_run cf env cli unbl (ap_init acl) w" "length arg = 17" "hwaddr_aton arg = (0, mac)"
    and "ap_run cf env cli False (snd (hostapd_ctrl_iface_blacklist_client arg w)) v"
  shows "(\<forall>now query d ss. f_sa d = mac \<and> WLAN_FC_GET_STYPE (f_le16 d 0) \<noteq> 8 \<longrightarrow>
      ieee802_11_mgmt cf env now query d ss v = v) \<and>
    \<not> is_blacklisted (snd (hostapd_ctrl_iface_unblacklist_client arg v)) mac"
proof -
  have "is_blacklisted (snd (hostapd_ctrl_iface_blacklist_client arg w)) mac"
    using assms(2,3) by (auto simp: is_blacklisted_def hostapd_ctrl_iface_blacklist_client_def list_ex_iff Let_def)
  then have "is_blacklisted v mac" using run_blacklisted [OF assms(4)] by simp
  moreover have "distinct (blacklisted_macs w)"
    using run_distinct [OF assms(1)] by (simp add: ap_init_def)
  then have "distinct (blacklisted_macs v)"
    using run_distinct [OF assms(4)] step_distinct [OF ap_step.blacklist] by blast
  then have "\<not> is_blacklisted (snd (hostapd_ctrl_iface_unblacklist_client arg v)) mac"
    using assms(2,3) by (simp add: is_blacklisted_def hostapd_ctrl_iface_unblacklist_client_def list_ex_iff)
  ultimately show ?thesis using blacklisted_ignored by blast
qed

section \<open>Identifiers\<close>

text \<open>The operations between the choice of an identifier and the end of a handler leave all identifiers alone.\<close>

definition ids :: "bss \<Rightarrow> (macaddr \<times> nat) list" where
  "ids h = map (\<lambda>s. (addr s, aid s)) (sta_list h)"

lemma ids_simps [simp]:
  "ids (act x h) = ids h" "ids (act_if b x h) = ids h" "core f \<Longrightarrow> ids (upd_entry a f h) = ids h"
  by (auto simp: ids_def act_if_def write_defs)

lemma keeps_core [simp]: "keeps f \<Longrightarrow> core f" "arms f \<Longrightarrow> core f"
  by (simp_all add: keeps_def arms_def)

lemma ids_aid: "sta_of h a = Some s \<Longrightarrow> (a, aid s) \<in> set (ids h)"
  using sta_of_Some [of h a s] by (auto simp: ids_def)

lemma ids_sta_of: "table_wf h \<Longrightarrow> (a, n) \<in> set (ids h) \<longleftrightarrow> (\<exists>s. sta_of h a = Some s \<and> aid s = n)"
  using stas.lookup_Some_iff [of h a] by (auto simp: ids_def lookup_sta_of)

lemma ids_table_ops [simp]:
  "ids (ap_sta_set_authorized a v h) = ids h" "ids (free_eapol a h) = ids h" "ids (notify_port_enabled a v h) = ids h"
  "ids (wpa_sm_event a ev h) = ids h" "ids (mlme_deletekeys_request a h) = ids h"
  "ids (mlme_assoc_indication a h) = ids h" "ids (drv_sta_add a h) = ids h"
  by (simp_all add: ap_sta_set_authorized_def free_eapol_def notify_port_enabled_def wpa_sm_event_def
      mlme_deletekeys_request_def mlme_assoc_indication_def drv_sta_add_def split: option.split)

lemma ids_cb_ops [simp]:
  "ids (snd (ap_sta_bind_vlan mc env a old h)) = ids h" "ids (ieee802_1x_set_sta_authorized a v h) = ids h"
  by (simp_all add: ap_sta_bind_vlan_def ieee802_1x_set_sta_authorized_def Let_def split: option.split)

lemma ids_new_assoc [simp]:
  "ids (ieee802_1x_new_station mc env a h) = ids h" "ids (hostapd_new_assoc_sta mc env a re h) = ids h"
proof -
  show n: "ids (ieee802_1x_new_station mc env a h) = ids h" for h
    by (simp add: ieee802_1x_new_station_def Let_def split: option.split)
  show "ids (hostapd_new_assoc_sta mc env a re h) = ids h" by (simp add: hostapd_new_assoc_sta_def Let_def n)
qed

lemma ids_cb_added [simp]: "ids (assoc_cb_added mc env a new cli h) = ids h"
  by (simp add: assoc_cb_added_def Let_def case_prod_beta)

lemma ids_disconnect [simp]: "ids (ap_sta_disconnect cf a r h) = ids h"
  by (simp add: ap_sta_disconnect_def Let_def split: option.split)

lemma ids_mark_writes [simp]:
  "ids (upd_entry a (nonerp_set_update b) h) = ids h" "ids (upd_entry a (no_short_slot_time_set_update b) h) = ids h"
  "ids (upd_entry a (no_short_preamble_set_update b) h) = ids h" "ids (upd_entry a (no_ht_gf_set_update b) h) = ids h"
  "ids (upd_entry a (no_ht_set_update b) h) = ids h" "ids (upd_entry a (ht_20mhz_set_update b) h) = ids h"
  "ids (h\<lparr>num_sta_non_erp := n\<rparr>) = ids h" "ids (h\<lparr>num_sta_no_short_slot_time := n\<rparr>) = ids h"
  "ids (h\<lparr>num_sta_no_short_preamble := n\<rparr>) = ids h" "ids (h\<lparr>num_sta_ht_no_gf := n\<rparr>) = ids h"
  "ids (h\<lparr>num_sta_no_ht := n\<rparr>) = ids h" "ids (h\<lparr>num_sta_ht_20mhz := n\<rparr>) = ids h"
  "ids (snd (hostapd_ht_operation_update cf h)) = ids h"
  using ht_update_sel [of h cf] by (auto simp: ids_def same_table_def)

lemma ids_marks [simp]:
  "ids (mark_nonerp cf a h) = ids h" "ids (mark_short_slot cf a h) = ids h" "ids (mark_short_preamble cf a h) = ids h"
  "ids (update_ht_state cf a h) = ids h"
proof -
  have "core (\<lambda>s. if Q s then s\<lparr>flags := fl s\<rparr> else s)" for Q fl by (simp add: write_defs)
  then show "ids (mark_nonerp cf a h) = ids h" by (simp add: mark_nonerp_def Let_def split: option.split)
  show "ids (mark_short_slot cf a h) = ids h" "ids (mark_short_preamble cf a h) = ids h"
    by (simp_all add: mark_short_slot_def mark_short_preamble_def Let_def split: option.split)
  show "ids (update_ht_state cf a h) = ids h"
    by (simp add: update_ht_state_def update_sta_ht_def update_sta_no_ht_def mark_no_gf_def mark_20mhz_def Let_def
        case_prod_beta split: option.split)
qed

lemma ids_assoc_record [simp]: "ids (assoc_record mc d re h) = ids h"
  by (simp add: assoc_record_def Let_def)

lemma ids_cli_params: "ids (upd_entry a cli_params h) = map (\<lambda>(x, n). (x, if x = a then 1 else n)) (ids h)"
  by (auto simp: ids_def cli_params_def)

lemma ids_assoc_cb:
  assumes "length d \<ge> 30" "ap_get_sta h (f_da d) \<noteq> None" "f_le16 d 26 = 0"
  shows "ids (handle_assoc_cb cf env d True cli h) =
    (if cli then map (\<lambda>(x, n). (x, if x = f_da d then 1 else n)) (ids h) else ids h)"
  using assms by (auto simp: handle_assoc_cb_def assoc_cb_success_def Let_def ids_cli_params)

text \<open>A station that is injected by command gets the identifier 1 whatever identifiers are in use: when another
  station has that identifier already, both have it afterwards and the identifiers are not unique any more.\<close>

theorem injected_station_shares_aid:
  assumes "table_wf h" "ap_get_sta h a = Some s" "ap_get_sta h b = Some t" "a \<noteq> b" "aid t = 1"
    and "length d \<ge> 30" "f_da d = a" "f_le16 d 26 = WLAN_STATUS_SUCCESS"
  shows "\<exists>s' \<in> set (sta_list (handle_assoc_cb cf env d True True h)). \<exists>t' \<in> set (sta_list (handle_assoc_cb cf env d True True h)).
    addr s' = a \<and> addr t' = b \<and> aid s' = 1 \<and> aid t' = 1 \<and> \<not> aid_inv (handle_assoc_cb cf env d True True h)"
proof -
  let ?h = "handle_assoc_cb cf env d True True h"
  have "(a, aid s) \<in> set (ids h)" "(b, 1) \<in> set (ids h)"
    using assms get_sta_iff [OF assms(1)] ids_aid by fastforce+
  then have "(a, 1) \<in> set (ids ?h)" "(b, 1) \<in> set (ids ?h)"
    using assms(4) ids_assoc_cb [OF assms(6), of h cf env True] assms(2,7,8) by (force simp: image_iff)+
  then obtain s' t' where st: "s' \<in> set (sta_list ?h)" "t' \<in> set (sta_list ?h)" "addr s' = a" "addr t' = b" "aid s' = 1" "aid t' = 1"
    by (auto simp: ids_def)
  moreover have "\<not> aid_inv ?h"
    using positive_aid_unique [of "sta_list ?h" s' t'] st assms(4) by (auto simp: aid_inv_def)
  ultimately show ?thesis by blast
qed

section \<open>Association\<close>

text \<open>A flag of the entry through writes to other flags and fields.\<close>

lemma sta_flag_upd:
  assumes "shape f" "\<And>s. bit (flags (f s)) n = bit (flags s) n"
  shows "sta_flag (upd_entry a f h) b n = sta_flag h b n"
  using assms by (simp add: sta_flag_def sta_of_upd split: option.split)

lemma sta_flag_act [simp]: "sta_flag (act x h) a n = sta_flag h a n" "sta_flag (act_if b x h) a n = sta_flag h a n"
  by (simp_all add: sta_flag_def)

definition offers_ht :: "mgmt_conf \<Rightarrow> ieee802_11_elems \<Rightarrow> bool" where
  "offers_ht cf elems \<longleftrightarrow> \<not> disable_11n cf \<and> (\<exists>d. elems E_ht_capabilities = Some d \<and> 26 \<le> length d)"

lemma ht_flag_copied:
  assumes "offers_ht cf elems" "sta_of h a = Some s"
  shows "sta_flag (copy_sta_vht_capab cf a c (copy_sta_ht_capab cf a (elems E_ht_capabilities) h)) a WLAN_STA_HT"
proof -
  have "sta_flag (copy_sta_vht_capab cf a c g) a WLAN_STA_HT = sta_flag g a WLAN_STA_HT" for g
    by (auto simp: copy_sta_vht_capab_def bit_set_bit_iff bit_unset_bit_iff shape_def intro!: sta_flag_upd split: option.split)
  moreover have "sta_flag (copy_sta_ht_capab cf a (elems E_ht_capabilities) h) a WLAN_STA_HT"
    using assms sta_of_Some [OF assms(2)]
    by (auto simp: offers_ht_def copy_sta_ht_capab_def sta_flag_def sta_of_upd shape_def bit_set_bit_iff)
  ultimately show ?thesis by simp
qed

lemma check_wpa_ie_ok:
  assumes "fst (check_wpa_ie env a ies ie md re h) = 0"
  shows "\<exists>xs c. wpa_validate_res env xs ie md = (WPA_IE_OK, c) \<and> (sta_flag h a WLAN_STA_HT \<longrightarrow> c \<noteq> WPA_CIPHER_TKIP)"
proof -
  define g where "g = act (Wpa_validate a ie md) (upd_entry a (has_wpa_sm_update (\<lambda>_. True))
    (act_if (case sta_of h a of Some s \<Rightarrow> \<not> has_wpa_sm s | None \<Rightarrow> False) (Wpa_sta_init a) h))"
  obtain r c where v: "wpa_validate_res env (acts g) ie md = (r, c)" by fastforce
  have f: "sta_flag g a n = sta_flag h a n" for n by (simp add: g_def sta_flag_upd shape_def)
  have "wpa_ie_resp r = 0 \<longleftrightarrow> r = WPA_IE_OK" for r by (cases r) (simp_all add: wpa_ie_resp_def)
  then have "r = WPA_IE_OK" "\<not> ((sta_flag g a WLAN_STA_HT \<or> sta_flag g a WLAN_STA_VHT) \<and> c = WPA_CIPHER_TKIP)"
    using assms v unfolding check_wpa_ie_def Let_def g_def [symmetric] by (simp_all split: if_splits)
  then show ?thesis using v f by blast
qed

lemma check_security_ok:
  assumes "fst (check_assoc_security cf env a ies elems re h) = 0" "mc_wpa cf \<noteq> 0" "\<not> wps_state cf"
  shows "\<exists>ie xs c. assoc_wpa_ie cf elems = Some ie \<and> wpa_validate_res env xs ie (elems E_mdie) = (WPA_IE_OK, c) \<and>
    (sta_flag h a WLAN_STA_HT \<longrightarrow> c \<noteq> WPA_CIPHER_TKIP)"
proof -
  let ?g = "upd_entry a (\<lambda>s. s\<lparr>flags := unset_bit WLAN_STA_WPS (unset_bit WLAN_STA_MAYBE_WPS (unset_bit WLAN_STA_WPS2 (flags s)))\<rparr>) h"
  have f: "sta_flag ?g a WLAN_STA_HT = sta_flag h a WLAN_STA_HT"
    by (rule sta_flag_upd) (simp_all add: shape_def bit_unset_bit_iff)
  obtain ie where ie: "assoc_wpa_ie cf elems = Some ie"
    using assms by (cases "assoc_wpa_ie cf elems") (auto simp: check_assoc_security_def check_wps_def Let_def)
  then have "fst (check_wpa_ie env a ies ie (elems E_mdie) re ?g) = 0"
    using assms by (auto simp: check_assoc_security_def check_wps_def Let_def)
  then show ?thesis using check_wpa_ie_ok f ie by blast
qed

definition wpa_checked :: "mgmt_conf \<Rightarrow> mgmt_env \<Rightarrow> ieee802_11_elems \<Rightarrow> bool" where
  "wpa_checked cf env elems \<longleftrightarrow>
     (\<exists>ie xs c. assoc_wpa_ie cf elems = Some ie \<and> wpa_validate_res env xs ie (elems E_mdie) = (WPA_IE_OK, c) \<and>
        (offers_ht cf elems \<longrightarrow> c \<noteq> WPA_CIPHER_TKIP))"

lemma check_elems_ok:
  assumes "fst (check_assoc_elems cf env a ies elems re h) = 0"
  shows "elems E_ssid = Some (mc_ssid cf)" "\<exists>r. elems E_supp_rates = Some r \<and> length r \<le> WLAN_SUPP_RATES_MAX"
    "mc_wpa cf \<noteq> 0 \<Longrightarrow> \<not> wps_state cf \<Longrightarrow> sta_of h a \<noteq> None \<Longrightarrow> wpa_checked cf env elems"
proof -
  show "elems E_ssid = Some (mc_ssid cf)" "\<exists>r. elems E_supp_rates = Some r \<and> length r \<le> WLAN_SUPP_RATES_MAX"
    using assms by (auto simp: check_assoc_elems_def check_ssid_def copy_supp_rates_def Let_def case_prod_beta
        split: if_splits option.splits)
  let ?h = "snd (copy_supp_rates a elems (snd (check_wmm cf a (elems E_wmm) h)))"
  let ?g = "copy_sta_vht_capab cf a (elems E_vht_capabilities) (copy_sta_ht_capab cf a (elems E_ht_capabilities) ?h)"
  have "fst (check_assoc_security cf env a ies elems re ?g) = 0"
    using assms by (simp add: check_assoc_elems_def Let_def case_prod_beta split: if_splits)
  moreover have "(sta_of ?h a = None) = (sta_of h a = None)"
    by (auto simp: copy_supp_rates_def check_wmm_def Let_def case_prod_beta sta_of_upd shape_def split: option.splits)
  then have "sta_of h a \<noteq> None \<Longrightarrow> offers_ht cf elems \<Longrightarrow> sta_flag ?g a WLAN_STA_HT"
    using ht_flag_copied by (metis option.exhaust)
  ultimately show "mc_wpa cf \<noteq> 0 \<Longrightarrow> \<not> wps_state cf \<Longrightarrow> sta_of h a \<noteq> None \<Longrightarrow> wpa_checked cf env elems"
    using check_security_ok [of cf env a ies elems re ?g] unfolding wpa_checked_def by blast
qed

lemma last_act [simp]: "last (acts (act x h)) = x" "last (acts (send_assoc_resp False a st re h)) =
    Send_assoc_resp a st re (case sta_of h a of Some s \<Rightarrow> aid s | None \<Rightarrow> 0)"
  by (simp_all add: act_def send_assoc_resp_def act_if_def)

lemma get_aid_pos:
  assumes "\<not> fst (hostapd_get_aid a h) < 0"
  shows "\<exists>n. (a, n) \<in> set (ids (snd (hostapd_get_aid a h))) \<and> 0 < n"
proof -
  obtain s where s: "sta_of h a = Some s" using assms by (cases "sta_of h a") (auto simp: hostapd_get_aid_def)
  show ?thesis
  proof (cases "aid s > 0")
    case True
    then show ?thesis using s ids_aid [OF s] by (auto simp: hostapd_get_aid_def)
  next
    case False
    then obtain i j where f: "free_aid (sta_aid h) = Some (i, j)" "i * 32 + j + 1 \<le> 2007"
      using s assms by (auto simp: hostapd_get_aid_def split: option.splits if_splits)
    then have "sta_list (snd (hostapd_get_aid a h)) = map (\<lambda>t. if addr t = a then t\<lparr>aid := i * 32 + j + 1\<rparr> else t) (sta_list h)"
      using s False by (simp add: hostapd_get_aid_def)
    then have "(a, i * 32 + j + 1) \<in> set (ids (snd (hostapd_get_aid a h)))"
      using sta_of_Some [OF s] by (force simp: ids_def image_iff)
    then show ?thesis by auto
  qed
qed

text \<open>The branches of the handler for a frame of sufficient length.\<close>

lemma handle_assoc_accepted:
  assumes len: "IEEE80211_HDRLEN + (if re then 10 else 4) \<le> length d" and lst: "last (acts (ap_bss (handle_assoc cf env re False d w))) = Send_assoc_resp (f_sa d) 0 re n"
  shows "\<exists>s. ap_get_sta (ap_bss w) (f_sa d) = Some s \<and> (bit (flags s) WLAN_STA_AUTH \<or> auth_alg s = WLAN_AUTH_FT)"
    and "\<not> tkip_countermeasures (ap_bss w)" "unat (f_le16 d 26) \<le> max_listen_interval cf"
    and "fst (check_assoc_ies cf env (f_sa d) (assoc_ies re d) re w) = 0"
    and "\<exists>h. \<not> fst (hostapd_get_aid (f_sa d) h) < 0 \<and>
      ap_bss (handle_assoc cf env re False d w) =
        send_assoc_resp False (f_sa d) 0 re (assoc_record cf d re (snd (hostapd_get_aid (f_sa d) h))) \<and>
      h = ap_bss (snd (check_assoc_ies cf env (f_sa d) (assoc_ies re d) re w))"
proof -
  have l: "\<not> length d < 24 + (if re then 10 else 4)" using len by linarith
  show "\<exists>s. ap_get_sta (ap_bss w) (f_sa d) = Some s \<and> (bit (flags s) WLAN_STA_AUTH \<or> auth_alg s = WLAN_AUTH_FT)"
    using lst l by (auto simp: handle_assoc_def split: option.splits if_splits)
  then have k: "handle_assoc cf env re False d w = assoc_known cf env False d re w"
    using l by (auto simp: handle_assoc_def)
  show t: "\<not> tkip_countermeasures (ap_bss w)"
    using lst unfolding k by (auto simp: assoc_known_def Let_def split: if_splits)
  show "unat (f_le16 d 26) \<le> max_listen_interval cf"
    using lst t unfolding k by (auto simp: assoc_known_def Let_def split: if_splits)
  with t have e: "assoc_known cf env False d re w = (let (resp, w) = check_assoc_ies cf env (f_sa d) (assoc_ies re d) re w in
        if resp \<noteq> 0 then on_bss (send_assoc_resp False (f_sa d) resp re) w
        else let (r, h) = hostapd_get_aid (f_sa d) (ap_bss w) in
          if r < 0 then w\<lparr>ap_bss := send_assoc_resp False (f_sa d) 17 re h\<rparr>
          else w\<lparr>ap_bss := send_assoc_resp False (f_sa d) 0 re (assoc_record cf d re h)\<rparr>)"
    by (simp add: assoc_known_def Let_def)
  show c: "fst (check_assoc_ies cf env (f_sa d) (assoc_ies re d) re w) = 0"
    using lst unfolding k e by (auto simp: Let_def case_prod_beta split: if_splits)
  show "\<exists>h. \<not> fst (hostapd_get_aid (f_sa d) h) < 0 \<and> ap_bss (handle_assoc cf env re False d w) =
        send_assoc_resp False (f_sa d) 0 re (assoc_record cf d re (snd (hostapd_get_aid (f_sa d) h))) \<and>
      h = ap_bss (snd (check_assoc_ies cf env (f_sa d) (assoc_ies re d) re w))"
    using lst c unfolding k e by (auto simp: Let_def case_prod_beta split: if_splits)
qed

text \<open>The identifier in the response.\<close>

lemma accepted_aid:
  assumes good: "good (mc_bss cf) True {} (ap_bss w)" and len: "IEEE80211_HDRLEN + (if re then 10 else 4) \<le> length d"
    and lst: "last (acts (ap_bss (handle_assoc cf env re False d w))) = Send_assoc_resp (f_sa d) 0 re n"
  shows "0 < n \<and> n \<le> 2007 \<and> aid_used (ap_bss (handle_assoc cf env re False d w)) n"
proof -
  obtain h where h: "\<not> fst (hostapd_get_aid (f_sa d) h) < 0" "ap_bss (handle_assoc cf env re False d w) =
      send_assoc_resp False (f_sa d) 0 re (assoc_record cf d re (snd (hostapd_get_aid (f_sa d) h)))"
    using handle_assoc_accepted(5) [OF len lst] by blast
  let ?g = "assoc_record cf d re (snd (hostapd_get_aid (f_sa d) h))"
  have g: "good (mc_bss cf) True {} (ap_bss (handle_assoc cf env re False d w))"
    using good_handle_assoc [OF good] .
  then have g': "good (mc_bss cf) True {} ?g" unfolding h(2) by simp
  obtain m where "(f_sa d, m) \<in> set (ids ?g)" "0 < m" using get_aid_pos [OF h(1)] by auto
  moreover from this obtain s where s: "sta_of ?g (f_sa d) = Some s" "aid s = m"
    using ids_sta_of [OF good_table [OF g']] by auto
  moreover have "n = m" using lst s unfolding h(2) by simp
  moreover have "m \<in> set (map aid (sta_list ?g))" using sta_of_Some [OF s(1)] s(2) by auto
  moreover have "aid_inv ?g" "aid_inv (ap_bss (handle_assoc cf env re False d w))" using g g' by (simp_all add: good_def)
  moreover have "aid_used (ap_bss (handle_assoc cf env re False d w)) n = aid_used ?g n"
    unfolding h(2) by (simp add: aid_used_def send_assoc_resp_def act_if_def)
  ultimately show ?thesis by (auto simp: aid_inv_def)
qed

text \<open>What the elements of an accepted request satisfy.\<close>

lemma accepted_elems:
  assumes good: "good (mc_bss cf) aids {} (ap_bss w)" and len: "IEEE80211_HDRLEN + (if re then 10 else 4) \<le> length d"
    and ind: "\<forall>xs. indeterminate env xs \<noteq> 0"
    and lst: "last (acts (ap_bss (handle_assoc cf env re False d w))) = Send_assoc_resp (f_sa d) 0 re n"
  obtains res elems where "ieee802_11_parse_elems (assoc_ies re d) = (res, elems)" "res \<noteq> ParseFailed"
    "elems E_ssid = Some (mc_ssid cf)" "\<exists>r. elems E_supp_rates = Some r \<and> length r \<le> WLAN_SUPP_RATES_MAX"
    "mc_wpa cf \<noteq> 0 \<and> \<not> wps_state cf \<longrightarrow> wpa_checked cf env elems"
proof -
  note acc = handle_assoc_accepted [OF len lst]
  obtain res elems where p: "ieee802_11_parse_elems (assoc_ies re d) = (res, elems)" by fastforce
  have r: "res \<noteq> ParseFailed" using acc(4) ind p by (auto simp: check_assoc_ies_eq)
  then have "fst (check_assoc_elems cf env (f_sa d) (assoc_ies re d) elems re (ap_bss w)) = 0"
    using acc(4) p by (simp add: check_assoc_ies_eq Let_def)
  moreover have "sta_of (ap_bss w) (f_sa d) \<noteq> None" using acc(1) get_sta_iff [OF good_table [OF good]] by auto
  ultimately show thesis using that [OF p r] check_elems_ok by metis
qed


section \<open>Requests that are accepted\<close>

text \<open>The handler from the check of the elements on.\<close>

lemma handle_assoc_checked:
  assumes "IEEE80211_HDRLEN + (if re then 10 else 4) \<le> length d" "ap_get_sta (ap_bss w) (f_sa d) = Some s"
    and "bit (flags s) WLAN_STA_AUTH" "\<not> tkip_countermeasures (ap_bss w)" "unat (f_le16 d 26) \<le> max_listen_interval cf"
    and c: "check_assoc_ies cf env (f_sa d) (assoc_ies re d) re w = (resp, v)"
  shows "resp \<noteq> 0 \<Longrightarrow> handle_assoc cf env re cli d w = on_bss (send_assoc_resp cli (f_sa d) resp re) v"
    and "resp = 0 \<Longrightarrow> \<not> fst (hostapd_get_aid (f_sa d) (ap_bss v)) < 0 \<Longrightarrow> ap_bss (handle_assoc cf env re cli d w) =
      send_assoc_resp cli (f_sa d) 0 re (assoc_record cf d re (snd (hostapd_get_aid (f_sa d) (ap_bss v))))"
proof -
  have "\<not> length d < 24 + (if re then 10 else 4)" using assms(1) by linarith
  then have "handle_assoc cf env re cli d w = assoc_known cf env cli d re w"
    using assms(2,3) by (simp add: handle_assoc_def del: if_split)
  then show "resp \<noteq> 0 \<Longrightarrow> handle_assoc cf env re cli d w = on_bss (send_assoc_resp cli (f_sa d) resp re) v"
    "resp = 0 \<Longrightarrow> \<not> fst (hostapd_get_aid (f_sa d) (ap_bss v)) < 0 \<Longrightarrow> ap_bss (handle_assoc cf env re cli d w) =
      send_assoc_resp cli (f_sa d) 0 re (assoc_record cf d re (snd (hostapd_get_aid (f_sa d) (ap_bss v))))"
    using assms(4,5) c by (simp_all add: assoc_known_def Let_def case_prod_beta)
qed

lemma accepted_response:
  assumes "\<not> fst (hostapd_get_aid a h) < 0" "table_wf (assoc_record cf d re (snd (hostapd_get_aid a h)))"
  shows "\<exists>n > 0. last (acts (send_assoc_resp False a 0 re (assoc_record cf d re (snd (hostapd_get_aid a h))))) = Send_assoc_resp a 0 re n"
proof -
  obtain m where "(a, m) \<in> set (ids (assoc_record cf d re (snd (hostapd_get_aid a h))))" "0 < m"
    using get_aid_pos [OF assms(1)] by auto
  then obtain s where "sta_of (assoc_record cf d re (snd (hostapd_get_aid a h))) a = Some s" "aid s = m"
    using ids_sta_of [OF assms(2)] by auto
  then show ?thesis using \<open>0 < m\<close> by auto
qed

text \<open>C27. An association request of an authenticated station whose elements do not parse is answered with whatever value the
  caller finds where the result of the check should be: when that value is not zero it is the status of the
  refusal, and when it is zero and an identifier is free the malformed request is accepted.\<close>

theorem malformed_association_undetermined:
  assumes run: "ap_run cf env cli unbl (ap_init acl) w" and len: "IEEE80211_HDRLEN + (if re then 10 else 4) \<le> length d"
    and sta: "ap_get_sta (ap_bss w) (f_sa d) = Some s" "bit (flags s) WLAN_STA_AUTH"
    and "\<not> tkip_countermeasures (ap_bss w)" "unat (f_le16 d 26) \<le> max_listen_interval cf"
    and bad: "fst (ieee802_11_parse_elems (assoc_ies re d)) = ParseFailed"
  shows "(indeterminate env' (acts (ap_bss w)) \<noteq> WLAN_STATUS_SUCCESS \<longrightarrow>
      last (acts (ap_bss (handle_assoc cf env' re False d w))) =
        Send_assoc_resp (f_sa d) (indeterminate env' (acts (ap_bss w))) re (aid s)) \<and>
    (indeterminate env' (acts (ap_bss w)) = WLAN_STATUS_SUCCESS \<and> fst (hostapd_get_aid (f_sa d) (ap_bss w)) = 0 \<longrightarrow>
      (\<exists>n > 0. last (acts (ap_bss (handle_assoc cf env' re False d w))) = Send_assoc_resp (f_sa d) WLAN_STATUS_SUCCESS re n))"
proof -
  let ?a = "f_sa d"
  define v where "v = snd (capa_collect_assoc cf ?a (assoc_ies re d) w)"
  have b: "ap_bss v = ap_bss w" by (simp add: v_def)
  have c: "check_assoc_ies cf env' ?a (assoc_ies re d) re w = (indeterminate env' (acts (ap_bss w)), v)"
    using bad by (simp add: check_assoc_ies_eq v_def)
  note h = handle_assoc_checked [OF len sta assms(5,6) c, of False]
  have good: "good (mc_bss cf) (\<not> cli) {} (ap_bss w)" using good_ap_run [OF run good_ap_init] .
  have "sta_of (ap_bss w) ?a = Some s" using sta(1) get_sta_iff [OF good_table [OF good]] by simp
  moreover have "table_wf (assoc_record cf d re (snd (hostapd_get_aid ?a (ap_bss w))))"
    using good_table [OF good_assoc_record [OF good_get_aid [OF good]]] .
  ultimately show ?thesis
    using h b accepted_response [of ?a "ap_bss w" cf d re] by simp
qed

text \<open>The checks of the elements leave the identifiers and the authentication algorithm alone.\<close>

definition uses_ft :: "bss \<Rightarrow> macaddr \<Rightarrow> bool" where
  "uses_ft h a \<longleftrightarrow> (case sta_of h a of Some s \<Rightarrow> auth_alg s = WLAN_AUTH_FT | None \<Rightarrow> False)"

definition same_ids :: "macaddr \<Rightarrow> bss \<Rightarrow> bss \<Rightarrow> bool" where
  "same_ids a h g \<longleftrightarrow> ids g = ids h \<and> sta_aid g = sta_aid h \<and> uses_ft g a = uses_ft h a"

lemma same_ids_trans [trans]: "same_ids a h g \<Longrightarrow> same_ids a g k \<Longrightarrow> same_ids a h k"
  by (simp add: same_ids_def)

lemma same_ids_upd: "core f \<Longrightarrow> shape f \<Longrightarrow> (\<And>s. auth_alg (f s) = auth_alg s) \<Longrightarrow> same_ids a h (upd_entry b f h)"
  by (simp add: same_ids_def uses_ft_def sta_of_upd split: option.split)

lemma same_ids_act [simp]: "same_ids a h (act x g) = same_ids a h g" "same_ids a h (act_if b x g) = same_ids a h g"
  by (simp_all add: same_ids_def uses_ft_def act_def act_if_def ids_def sta_of_def)

lemma same_ids_copies:
  "same_ids a h (copy_sta_ht_capab cf b x h)" "same_ids a h (copy_sta_vht_capab cf b x h)"
  "same_ids a h (snd (copy_supp_rates b elems h))"
proof -
  have r: "same_ids a h h" by (simp add: same_ids_def)
  show "same_ids a h (copy_sta_ht_capab cf b x h)" "same_ids a h (copy_sta_vht_capab cf b x h)"
    by (auto simp: copy_sta_ht_capab_def copy_sta_vht_capab_def write_defs intro!: same_ids_upd split: option.split)
  show "same_ids a h (snd (copy_supp_rates b elems h))"
    using r by (auto simp: copy_supp_rates_def Let_def case_prod_beta write_defs intro!: same_ids_upd split: option.split)
qed

lemma same_ids_wmm: "same_ids a h (snd (check_wmm cf b x h))"
proof -
  have u: "same_ids a g (upd_entry b (\<lambda>s. s\<lparr>flags := fl s, qosinfo := q\<rparr>) g)" for g fl q
    by (rule same_ids_upd) (simp_all add: write_defs)
  then show ?thesis
    using same_ids_trans [OF u u] by (simp add: check_wmm_def Let_def split: option.split)
qed

text \<open>When the security of the request is in order: without WPA always, with WPA when the element is validated, does not
  combine HT or VHT with TKIP and the station did not use fast transition.\<close>

definition security_ok :: "mgmt_conf \<Rightarrow> mgmt_env \<Rightarrow> ieee802_11_elems \<Rightarrow> bool" where
  "security_ok cf env elems \<longleftrightarrow> mc_wpa cf \<noteq> 0 \<longrightarrow>
     (\<exists>ie. assoc_wpa_ie cf elems = Some ie \<and>
       (\<forall>xs. \<exists>c. wpa_validate_res env xs ie (elems E_mdie) = (WPA_IE_OK, c) \<and> c \<noteq> WPA_CIPHER_TKIP))"

lemma check_wpa_ie_passes:
  assumes "\<forall>xs. \<exists>c. wpa_validate_res env xs ie md = (WPA_IE_OK, c) \<and> c \<noteq> WPA_CIPHER_TKIP" "\<not> uses_ft h a"
  shows "fst (check_wpa_ie env a ies ie md re h) = 0 \<and> same_ids a h (snd (check_wpa_ie env a ies ie md re h))"
proof -
  define g where "g = act (Wpa_validate a ie md) (upd_entry a (has_wpa_sm_update (\<lambda>_. True))
    (act_if (case sta_of h a of Some s \<Rightarrow> \<not> has_wpa_sm s | None \<Rightarrow> False) (Wpa_sta_init a) h))"
  have "same_ids a k (upd_entry a (has_wpa_sm_update (\<lambda>_. True)) k)" for k
    by (rule same_ids_upd) (simp_all add: write_defs)
  then have s: "same_ids a h g"
    using same_ids_trans same_ids_act(2) [of a h _ _ h] unfolding g_def same_ids_act(1) by (metis same_ids_def)
  then have "\<not> uses_ft g a" using assms(2) by (simp add: same_ids_def)
  moreover obtain c where "wpa_validate_res env (acts g) ie md = (WPA_IE_OK, c)" "c \<noteq> WPA_CIPHER_TKIP" using assms(1) by blast
  ultimately show ?thesis
    using s unfolding check_wpa_ie_def Let_def g_def [symmetric] uses_ft_def by (simp add: wpa_ie_resp_def act_if_def)
qed

lemma check_security_passes:
  assumes "security_ok cf env elems" "\<not> wps_state cf" "\<not> uses_ft h a"
  shows "fst (check_assoc_security cf env a ies elems re h) = 0 \<and> same_ids a h (snd (check_assoc_security cf env a ies elems re h))"
proof -
  let ?g = "upd_entry a (\<lambda>s. s\<lparr>flags := unset_bit WLAN_STA_WPS (unset_bit WLAN_STA_MAYBE_WPS (unset_bit WLAN_STA_WPS2 (flags s)))\<rparr>) h"
  have g: "same_ids a h ?g" by (rule same_ids_upd) (simp_all add: write_defs)
  then have ft: "\<not> uses_ft ?g a" using assms(3) by (simp add: same_ids_def)
  show ?thesis
  proof (cases "mc_wpa cf = 0")
    case True
    then show ?thesis
      using assms(2) g by (simp add: check_assoc_security_def check_wps_def Let_def split: option.split)
  next
    case False
    then obtain ie where "assoc_wpa_ie cf elems = Some ie"
      "\<forall>xs. \<exists>c. wpa_validate_res env xs ie (elems E_mdie) = (WPA_IE_OK, c) \<and> c \<noteq> WPA_CIPHER_TKIP"
      using assms(1) by (auto simp: security_ok_def)
    then show ?thesis
      using False assms(2) check_wpa_ie_passes [of env ie "elems E_mdie" ?g a ies re] ft same_ids_trans [OF g]
      by (simp add: check_assoc_security_def check_wps_def Let_def)
  qed
qed

lemma check_elems_pass:
  assumes "security_ok cf env elems" "\<not> wps_state cf" "\<not> require_ht cf" "\<not> require_vht cf" "\<not> uses_ft h a"
    and "elems E_ssid = Some (mc_ssid cf)" "elems E_supp_rates = Some r"
    and "length r + (case elems E_ext_supp_rates of Some x \<Rightarrow> length x | None \<Rightarrow> 0) \<le> WLAN_SUPP_RATES_MAX"
    and "\<forall>x. elems E_wmm = Some x \<longrightarrow> hostapd_eid_wmm_valid x"
  shows "fst (check_assoc_elems cf env a ies elems re h) = 0 \<and> same_ids a h (snd (check_assoc_elems cf env a ies elems re h))"
proof -
  let ?h = "snd (copy_supp_rates a elems (snd (check_wmm cf a (elems E_wmm) h)))"
  let ?g = "copy_sta_vht_capab cf a (elems E_vht_capabilities) (copy_sta_ht_capab cf a (elems E_ht_capabilities) ?h)"
  have "fst (check_wmm cf a (elems E_wmm) h) = 0"
    using assms(9) by (auto simp: check_wmm_def Let_def split: option.split)
  moreover have "fst (copy_supp_rates a elems g) = 0" for g
    using assms(7,8) by (simp add: copy_supp_rates_def Let_def case_prod_beta)
  ultimately have e: "check_assoc_elems cf env a ies elems re h = check_assoc_security cf env a ies elems re ?g"
    using assms(3,4,6) by (simp add: check_assoc_elems_def check_ssid_def Let_def case_prod_beta)
  have g: "same_ids a h ?g"
    using same_ids_trans [OF same_ids_trans [OF same_ids_trans [OF same_ids_wmm same_ids_copies(3)] same_ids_copies(1)] same_ids_copies(2)] .
  then have "\<not> uses_ft ?g a" using assms(5) by (simp add: same_ids_def)
  then show ?thesis
    using check_security_passes [OF assms(1,2), of ?g a ies re] same_ids_trans [OF g] unfolding e by blast
qed

lemma get_aid_depends:
  assumes "table_wf h" "table_wf g" "ids h = ids g" "sta_aid h = sta_aid g"
  shows "fst (hostapd_get_aid a h) = fst (hostapd_get_aid a g)"
proof -
  have "map_option aid (sta_of h a) = map_option aid (sta_of g a)"
    using ids_sta_of [OF assms(1), of a] ids_sta_of [OF assms(2), of a] assms(3)
    by (cases "sta_of h a"; cases "sta_of g a") auto
  then show ?thesis
    using assms(4) by (cases "sta_of h a"; cases "sta_of g a") (auto simp: hostapd_get_aid_def split: option.split)
qed

lemma checked_request_accepted:
  assumes run: "ap_run cf env cli unbl (ap_init acl) w" and len: "IEEE80211_HDRLEN + (if re then 10 else 4) \<le> length d"
    and sta: "ap_get_sta (ap_bss w) (f_sa d) = Some s" "bit (flags s) WLAN_STA_AUTH"
    and ok: "\<not> tkip_countermeasures (ap_bss w)" "unat (f_le16 d 26) \<le> max_listen_interval cf"
    and c: "check_assoc_ies cf env (f_sa d) (assoc_ies re d) re w = (0, v)"
    and v: "same_ids (f_sa d) (ap_bss w) (ap_bss v)"
    and avail: "fst (hostapd_get_aid (f_sa d) (ap_bss w)) = 0"
  shows "\<exists>n > 0. last (acts (ap_bss (handle_assoc cf env re False d w))) = Send_assoc_resp (f_sa d) 0 re n"
proof -
  have good: "good (mc_bss cf) (\<not> cli) {} (ap_bss w)" using good_ap_run [OF run good_ap_init] .
  then have gv: "good (mc_bss cf) (\<not> cli) {} (ap_bss v)"
    using good_check_ies [OF good, of cf env "f_sa d" "assoc_ies re d" re] c by simp
  have "\<not> fst (hostapd_get_aid (f_sa d) (ap_bss v)) < 0"
    using get_aid_depends [OF good_table [OF gv] good_table [OF good], of "f_sa d"] v avail by (simp add: same_ids_def)
  then show ?thesis
    using handle_assoc_checked(2) [OF len sta ok c, of False] good_table [OF good_assoc_record [OF good_get_aid [OF gv]]]
      accepted_response by simp
qed

lemma check_ies_pass:
  assumes "ieee802_11_parse_elems ies = (res, elems)" "res \<noteq> ParseFailed"
    and "security_ok cf env elems" "\<not> wps_state cf" "\<not> require_ht cf" "\<not> require_vht cf" "\<not> uses_ft (ap_bss w) a"
    and "elems E_ssid = Some (mc_ssid cf)" "elems E_supp_rates = Some r"
    and "length r + (case elems E_ext_supp_rates of Some x \<Rightarrow> length x | None \<Rightarrow> 0) \<le> WLAN_SUPP_RATES_MAX"
    and "\<forall>x. elems E_wmm = Some x \<longrightarrow> hostapd_eid_wmm_valid x"
  shows "\<exists>v. check_assoc_ies cf env a ies re w = (0, v) \<and> same_ids a (ap_bss w) (ap_bss v)"
  using check_elems_pass [OF assms(3-11), of ies re] assms(1,2) by (simp add: check_assoc_ies_eq Let_def)

text \<open>C17. A valid association request is accepted: the station is authenticated and did not use fast transition, no
  countermeasures are active, the listen interval is in bounds, the elements parse and name the network, the rates
  fit, a WMM element is valid, an identifier is available, and on a network with WPA the element is validated for a
  cipher other than TKIP.  This is for networks without WPS that do not require HT or VHT.\<close>

theorem valid_association_accepted:
  assumes run: "ap_run cf env cli unbl (ap_init acl) w" and len: "IEEE80211_HDRLEN + (if re then 10 else 4) \<le> length d"
    and sta: "ap_get_sta (ap_bss w) (f_sa d) = Some s" "bit (flags s) WLAN_STA_AUTH" and ft: "auth_alg s \<noteq> WLAN_AUTH_FT"
    and ok: "\<not> tkip_countermeasures (ap_bss w)" "unat (f_le16 d 26) \<le> max_listen_interval cf"
    and parse: "ieee802_11_parse_elems (assoc_ies re d) = (res, elems)" "res \<noteq> ParseFailed"
    and net: "security_ok cf env elems" "\<not> wps_state cf" "\<not> require_ht cf" "\<not> require_vht cf"
    and elems: "elems E_ssid = Some (mc_ssid cf)" "elems E_supp_rates = Some r"
      "length r + (case elems E_ext_supp_rates of Some x \<Rightarrow> length x | None \<Rightarrow> 0) \<le> WLAN_SUPP_RATES_MAX"
      "\<forall>x. elems E_wmm = Some x \<longrightarrow> hostapd_eid_wmm_valid x"
    and avail: "fst (hostapd_get_aid (f_sa d) (ap_bss w)) = 0"
  shows "\<exists>n > 0. last (acts (ap_bss (handle_assoc cf env re False d w))) = Send_assoc_resp (f_sa d) WLAN_STATUS_SUCCESS re n"
proof -
  have "sta_of (ap_bss w) (f_sa d) = Some s"
    using sta(1) get_sta_iff [OF good_table [OF good_ap_run [OF run good_ap_init]]] by simp
  then have "\<not> uses_ft (ap_bss w) (f_sa d)" using ft by (simp add: uses_ft_def)
  then show ?thesis
    using check_ies_pass [OF parse net _ elems] checked_request_accepted [OF run len sta ok] avail by meson
qed

section \<open>Reports of probe requests\<close>

lemma length_dec_nat: "length (dec_nat n) \<le> Suc k \<longleftrightarrow> n < 10 ^ Suc k"
proof (induction n arbitrary: k rule: dec_nat.induct)
  case (1 n)
  show ?case
  proof (cases "n < 10")
    case True
    moreover have "(10::nat) \<le> 10 ^ Suc k" by simp
    ultimately show ?thesis by (subst dec_nat.simps) (simp del: power_Suc)
  next
    case False
    then have l: "length (dec_nat n) = Suc (length (dec_nat (n div 10)))" by (subst dec_nat.simps) simp
    have "length (dec_nat m) > 0" for m by (subst dec_nat.simps) simp
    then show ?thesis
      using False 1 [OF False] unfolding l by (cases k) (auto simp: less_mult_imp_div_less div_less_iff_less_mult mult.commute)
  qed
qed

lemma length_dec_int: "length (dec_int i) \<le> 5 \<longleftrightarrow> -9999 \<le> i \<and> i \<le> 99999"
  using length_dec_nat [of "nat (- i)" 3] length_dec_nat [of "nat i" 4] by (auto simp: dec_int_def)

lemma length_f_sa: "16 \<le> length d \<Longrightarrow> length (f_sa d) = 6"
  by (simp add: f_sa_def)

text \<open>C28. For a probe request whose elements parse, unless a registered callback takes the frame or probe responses are
  switched off, one message is published: it decodes to the address of the sender and all the elements, followed by the
  signal level; the buffer that is allocated holds it with its terminator exactly for signal levels
  from -9999 to 99999.\<close>

theorem probe_report_decodes:
  assumes "IEEE80211_HDRLEN \<le> length d" "fst (ieee802_11_parse_elems (drop IEEE80211_HDRLEN d)) \<noteq> ParseFailed"
    and "\<not> probereq_stop env (acts (ap_bss w))" "send_probe_response cf"
  shows "\<exists>t rest. acts (ap_bss (handle_probe_req cf env d ss w)) = acts (ap_bss w) @ Zmq_send t # rest \<and>
    (\<forall>u. Zmq_send u \<notin> set rest) \<and>
    hexstr2bin t (6 + length (drop IEEE80211_HDRLEN d)) = (0, f_sa d @ drop IEEE80211_HDRLEN d) \<and>
    drop (12 + 2 * length (drop IEEE80211_HDRLEN d)) t = ascii ''RSSI:'' @ dec_int ss \<and>
    (length t + 1 \<le> probe_buf_size (drop IEEE80211_HDRLEN d) \<longleftrightarrow> -9999 \<le> ss \<and> ss \<le> 99999)"
proof -
  define ie where "ie = drop IEEE80211_HDRLEN d"
  define t where "t = probe_text (f_sa d) ie ss"
  have t: "t = hex_text True (f_sa d @ ie) @ ascii ''RSSI:'' @ dec_int ss"
    by (simp add: t_def probe_text_def hex_text_def)
  have six: "length (f_sa d) = 6" using assms(1) length_f_sa by simp
  have "\<exists>rest. acts (probe_answer cf d h) = acts h @ rest \<and> (\<forall>u. Zmq_send u \<notin> set rest)" for h
    by (auto simp: probe_answer_def Let_def case_prod_beta act_def split: option.split)
  then obtain rest where "acts (probe_answer cf d (act (Zmq_send t) (ap_bss w))) = acts (act (Zmq_send t) (ap_bss w)) @ rest"
    "\<forall>u. Zmq_send u \<notin> set rest" by blast
  moreover have "ap_bss (handle_probe_req cf env d ss w) = probe_answer cf d (act (Zmq_send t) (ap_bss w))"
    using assms(2-4)
    by (simp add: handle_probe_req_eq Let_def t_def ie_def capa_collect_probe_def capa_add_def case_prod_beta)
  ultimately have "acts (ap_bss (handle_probe_req cf env d ss w)) = acts (ap_bss w) @ Zmq_send t # rest"
    by (simp add: act_def)
  moreover have "hexstr2bin t (6 + length ie) = (0, f_sa d @ ie)"
    using hexstr2bin_hex_text [of True "f_sa d @ ie"] six unfolding t by simp
  moreover have "drop (12 + 2 * length ie) t = ascii ''RSSI:'' @ dec_int ss" using six unfolding t by simp
  moreover have "length t + 1 \<le> probe_buf_size ie \<longleftrightarrow> -9999 \<le> ss \<and> ss \<le> 99999"
    using six length_dec_int [of ss] unfolding t by (auto simp: probe_buf_size_def ascii_def)
  ultimately show ?thesis using \<open>\<forall>u. Zmq_send u \<notin> set rest\<close> unfolding ie_def by blast
qed

section \<open>Short WMM action frames\<close>

text \<open>An action frame of 25 to 27 octets in the category of WMM, from an associated station with WMM, makes the parser of the
  elements run with a length close to \<^term>\<open>2 ^ 64\<close>, that is, behind the end of the frame.\<close>

lemma short_wmm_action_overreads:
  assumes "length d \<in> {25, 26, 27}" "WLAN_FC_GET_STYPE (f_le16 d 0) = 13" "d ! 24 = 17" "\<not> is_blacklisted w (f_sa d)"
    and "f_bssid d = bss_addr (mc_bss cf)" "f_da d = bss_addr (mc_bss cf)"
    and "ap_get_sta (ap_bss w) (f_sa d) = Some s" "bit (flags s) WLAN_STA_ASSOC" "bit (flags s) WLAN_STA_WMM"
  shows "\<exists>n. acts (ap_bss (ieee802_11_mgmt cf env now query d ss w)) = acts (ap_bss w) @ [Parser_overread n] \<and> unat n \<ge> 2 ^ 64 - 3"
proof -
  have "ap_bss (ieee802_11_mgmt cf env now query d ss w) = act (Parser_overread (word_of_nat (length d) - 28)) (ap_bss w)"
    using assms
    by (auto simp: ieee802_11_mgmt_def mgmt_dispatch_def Let_def handle_action_def action_category_def hostapd_wmm_action_def)
  moreover have "unat (-1 :: u64) = 2 ^ 64 - 1" by (simp add: unsigned_minus_1_eq_mask mask_eq_exp_minus_1)
  then have "unat (word_of_nat (length d) - 28 :: u64) \<ge> 2 ^ 64 - 3" using assms(1) by auto
  ultimately show ?thesis by (simp add: act_def)
qed

end
