(* ===== verification/Sta_Typed.thy ===== *)
theory Sta_Typed
  imports Sta_Mgmt_Props
begin

text \<open>
  The sizes of what the entries of the station table point to: buffers that the source allocates or declares with
  a fixed size always hold that many octets.
\<close>

section \<open>Entries\<close>

definition sta_typed :: "sta_info \<Rightarrow> bool" where
  "sta_typed s \<longleftrightarrow> length (supported_rates s) \<le> WLAN_SUPP_RATES_MAX \<and>
     (\<forall>c. ht_capabilities s = Some c \<longrightarrow> length c = 26) \<and> (\<forall>c. vht_capabilities s = Some c \<longrightarrow> length c = 12) \<and>
     (\<forall>c. challenge s = Some c \<longrightarrow> length c = WLAN_AUTH_CHALLENGE_LEN)"

definition typed :: "bss \<Rightarrow> bool" where
  "typed h \<longleftrightarrow> (\<forall>s \<in> set (sta_list h). sta_typed s)"

named_theorems typed_intros \<open>operations that keep the sizes\<close>

lemma typed_upd: "(\<And>s. sta_typed s \<Longrightarrow> sta_typed (f s)) \<Longrightarrow> typed h \<Longrightarrow> typed (upd_entry a f h)"
  by (auto simp: typed_def)

text \<open>Writes to other fields.\<close>

lemma sta_typed_writes [simp]:
  "sta_typed (flags_update f s) = sta_typed s" "sta_typed (aid_update n s) = sta_typed s"
  "sta_typed (has_eapol_sm_update b s) = sta_typed s" "sta_typed (has_wpa_sm_update b s) = sta_typed s"
  "sta_typed (timeout_next_update t s) = sta_typed s" "sta_typed (handle_timer_update u s) = sta_typed s"
  "sta_typed (session_timer_update u s) = sta_typed s" "sta_typed (deauth_cb_timer_update u s) = sta_typed s"
  "sta_typed (disassoc_cb_timer_update u s) = sta_typed s" "sta_typed (deauth_reason_update r s) = sta_typed s"
  "sta_typed (disassoc_reason_update r s) = sta_typed s" "sta_typed (auth_alg_update r s) = sta_typed s"
  "sta_typed (sta_vlan_id_update v s) = sta_typed s" "sta_typed (sta_psk_update k s) = sta_typed s"
  "sta_typed (sta_identity_update i s) = sta_typed s" "sta_typed (sta_radius_cui_update i s) = sta_typed s"
  "sta_typed (acct_interim_interval_update f s) = sta_typed s" "sta_typed (qosinfo_update q s) = sta_typed s"
  "sta_typed (sta_wps_ie_update i s) = sta_typed s" "sta_typed (capability_update r s) = sta_typed s"
  "sta_typed (listen_interval_update r s) = sta_typed s" "sta_typed (previous_ap_update p s) = sta_typed s"
  "sta_typed (last_assoc_req_update i s) = sta_typed s" "sta_typed (nonerp_set_update b s) = sta_typed s"
  "sta_typed (no_short_slot_time_set_update b s) = sta_typed s" "sta_typed (no_short_preamble_set_update b s) = sta_typed s"
  "sta_typed (no_ht_gf_set_update b s) = sta_typed s" "sta_typed (no_ht_set_update b s) = sta_typed s"
  "sta_typed (ht_20mhz_set_update b s) = sta_typed s"
  by (simp_all add: sta_typed_def)

lemma typed_state [simp]:
  "typed (act x h) = typed h" "typed (act_if b x h) = typed h" "typed (h\<lparr>num_sta_non_erp := n\<rparr>) = typed h"
  "typed (h\<lparr>num_sta_no_short_slot_time := n\<rparr>) = typed h" "typed (h\<lparr>num_sta_no_short_preamble := n\<rparr>) = typed h"
  "typed (h\<lparr>num_sta_ht_no_gf := n\<rparr>) = typed h" "typed (h\<lparr>num_sta_no_ht := n\<rparr>) = typed h"
  "typed (h\<lparr>num_sta_ht_20mhz := n\<rparr>) = typed h" "typed (h\<lparr>bss_acl := c\<rparr>) = typed h"
  "typed (h\<lparr>tkip_countermeasures := t, olbc_ht := o'\<rparr>) = typed h" "typed (h\<lparr>sta_aid := l\<rparr>) = typed h"
  by (simp_all add: typed_def)

lemma typed_same: "same_table h h' \<Longrightarrow> typed h' = typed h"
  by (simp add: same_table_def typed_def)

section \<open>Table operations\<close>

lemma typed_set_authorized [typed_intros]: "typed h \<Longrightarrow> typed (ap_sta_set_authorized a v h)"
  by (simp add: ap_sta_set_authorized_def typed_upd split: option.split)

lemma typed_free_eapol [typed_intros]: "typed h \<Longrightarrow> typed (free_eapol a h)"
  by (simp add: free_eapol_def typed_upd split: option.split)

lemma typed_notify [simp]:
  "typed (notify_port_enabled a v h) = typed h" "typed (wpa_sm_event a ev h) = typed h"
  "typed (mlme_deletekeys_request a h) = typed h" "typed (ap_sta_remove a h) = typed h"
  by (simp_all add: notify_port_enabled_def wpa_sm_event_def mlme_deletekeys_request_def ap_sta_remove_def)

lemma list_del_subset: "set (ap_sta_list_del a l) \<subseteq> set l"
  by (induction l) auto

lemma typed_free [typed_intros]:
  assumes "typed h"
  shows "typed (ap_free_sta cf a h)"
proof -
  have "typed (free_entry cf s g)" if "typed g" for s g
    using that list_del_subset free_entry_table [of cf s g] by (fastforce simp: typed_def)
  then show ?thesis using assms by (simp add: ap_free_sta_def Let_def typed_set_authorized split: option.split)
qed

lemma typed_free_stas [typed_intros]: "typed h \<Longrightarrow> typed (hostapd_free_stas cf h)"
proof -
  have "typed g \<Longrightarrow> typed (hostapd_free_stas_loop cf as g)" for as g
    by (induction as arbitrary: g) (auto simp: Let_def typed_free split: option.split)
  then show "typed h \<Longrightarrow> ?thesis" by (simp add: hostapd_free_stas_def)
qed

lemma typed_sta_add [typed_intros]: "typed h \<Longrightarrow> typed (snd (ap_sta_add cf a h))"
  by (auto simp: ap_sta_add_def Let_def typed_def sta_typed_def sta_zero_def split: option.split)

lemma typed_get_aid [typed_intros]: "typed h \<Longrightarrow> typed (snd (hostapd_get_aid a h))"
  by (simp add: hostapd_get_aid_def typed_upd split: option.split prod.split)

lemma typed_inactivity [typed_intros]: "typed h \<Longrightarrow> typed (snd (inactivity_check cf a h))"
  by (simp add: inactivity_check_def Let_def typed_upd)

lemma typed_timer_steps [typed_intros]:
  "typed h \<Longrightarrow> typed (timer_notify a s h)" "typed h \<Longrightarrow> typed (timer_advance cf a s h)"
  by (simp_all add: timer_notify_def timer_advance_def Let_def typed_upd typed_free typed_free_eapol typed_set_authorized
      split: timeout_enum.split)

lemma typed_handle_timer [typed_intros]: "typed h \<Longrightarrow> typed (ap_handle_timer cf a h)"
  by (simp add: ap_handle_timer_def Let_def case_prod_beta typed_upd typed_free typed_timer_steps typed_inactivity
      split: option.split)

lemma typed_timers [typed_intros]:
  "typed h \<Longrightarrow> typed (ap_handle_session_timer cf a h)" "typed h \<Longrightarrow> typed (ap_sta_session_timeout a t h)"
  "typed h \<Longrightarrow> typed (ap_sta_no_session_timeout a h)"
  by (simp_all add: ap_handle_session_timer_def ap_sta_session_timeout_def ap_sta_no_session_timeout_def Let_def typed_upd
      typed_free split: option.split)

lemma typed_disconnects [typed_intros]:
  "typed h \<Longrightarrow> typed (ap_sta_disassociate cf a r h)" "typed h \<Longrightarrow> typed (ap_sta_deauthenticate cf a r h)"
  "typed h \<Longrightarrow> typed (ap_sta_disconnect cf a r h)" "typed h \<Longrightarrow> typed (ap_sta_deauth_cb_timeout a h)"
  "typed h \<Longrightarrow> typed (ap_sta_disassoc_cb_timeout a h)"
  by (simp_all add: ap_sta_disassociate_def ap_sta_deauthenticate_def ap_sta_disconnect_def ap_sta_deauth_cb_timeout_def
      ap_sta_disassoc_cb_timeout_def Let_def typed_upd typed_free_eapol typed_set_authorized split: option.split)

lemma typed_tx_callbacks [typed_intros]:
  "typed h \<Longrightarrow> typed (ap_sta_deauth_cb a h)" "typed h \<Longrightarrow> typed (ap_sta_disassoc_cb a h)"
  by (simp_all add: ap_sta_deauth_cb_def ap_sta_disassoc_cb_def typed_upd typed_disconnects split: option.split)

lemma typed_table_step: "table_step cf h h' \<Longrightarrow> typed h \<Longrightarrow> typed h'"
  by (induction rule: table_step.induct) (auto intro: typed_intros)

section \<open>Frames\<close>

lemma length_rc4_skip: "length (rc4_skip key skip data) = length data"
  by (simp add: rc4_skip_def Let_def split_beta rc4_apply_length)

lemma typed_auth_shared_key [typed_intros]: "typed h \<Longrightarrow> typed (snd (auth_shared_key env a tr chal wep h))"
proof -
  have "typed g \<Longrightarrow> typed (upd_entry a (challenge_update (\<lambda>_. Some (rc4_skip k 0 (replicate 128 0)))) g)"
    "typed g \<Longrightarrow> typed (upd_entry a (challenge_update (\<lambda>_. None)) g)" for g k
    by (auto intro!: typed_upd simp: sta_typed_def length_rc4_skip)
  then show "typed h \<Longrightarrow> ?thesis" by (simp add: auth_shared_key_def Let_def typed_upd split: option.split)
qed

lemma typed_indications [simp]:
  "typed (mlme_authenticate_indication a h) = typed h" "typed (mlme_assoc_indication a h) = typed h"
  "typed (auth_reply cli d resp ies h) = typed h" "typed (drv_sta_add a h) = typed h"
  by (simp_all add: mlme_authenticate_indication_def mlme_assoc_indication_def auth_reply_def drv_sta_add_def split: option.split)

lemma typed_auth_parts [typed_intros]:
  "typed h \<Longrightarrow> typed (handle_auth_ft_finish dst tr st ies h)" "typed h \<Longrightarrow> typed (auth_setup mc a res info h)"
  "typed h \<Longrightarrow> typed (auth_open cli d h)" "typed h \<Longrightarrow> typed (auth_shared env cli d h)" "typed h \<Longrightarrow> typed (auth_ft d h)"
  by (simp_all add: handle_auth_ft_finish_def auth_setup_def auth_open_def auth_shared_def auth_ft_def Let_def case_prod_beta
      typed_upd typed_timers typed_auth_shared_key split: option.split)

lemma typed_handle_auth [typed_intros]:
  assumes "typed h"
  shows "typed (handle_auth mc env now query cli d h)"
proof -
  have "typed g \<Longrightarrow> typed (auth_admit mc env cli d res info g)" for g res info
    using typed_sta_add [of g "mc_bss mc" "f_sa d"]
    by (auto simp: auth_admit_def Let_def typed_auth_parts split: prod.split option.split)
  then show ?thesis using assms by (simp add: handle_auth_def Let_def case_prod_beta)
qed

lemma merge_fits: "fst (merge_byte_arrays n x y) \<le> n"
  by (auto simp: merge_byte_arrays_def Let_def split: option.split bool.split)

lemma typed_copies [typed_intros]:
  "typed h \<Longrightarrow> typed (snd (copy_supp_rates a elems h))" "typed h \<Longrightarrow> typed (copy_sta_ht_capab mc a c h)"
  "typed h \<Longrightarrow> typed (copy_sta_vht_capab mc a c h)" "typed h \<Longrightarrow> typed (snd (check_wmm mc a c h))"
proof -
  have "typed g \<Longrightarrow> length r \<le> 32 \<Longrightarrow> typed (upd_entry a (supported_rates_update (\<lambda>_. r)) g)" for g r
    by (auto intro!: typed_upd simp: sta_typed_def)
  then show "typed h \<Longrightarrow> typed (snd (copy_supp_rates a elems h))"
    using merge_fits [of 32 "elems E_supp_rates" "elems E_ext_supp_rates"]
    by (auto simp: copy_supp_rates_def Let_def case_prod_beta split: option.split)
  have "typed g \<Longrightarrow> \<forall>x. c = Some x \<longrightarrow> length x = 26 \<Longrightarrow> typed (upd_entry a (\<lambda>s. s\<lparr>flags := fl s, ht_capabilities := c\<rparr>) g)"
    "typed g \<Longrightarrow> \<forall>x. c = Some x \<longrightarrow> length x = 12 \<Longrightarrow> typed (upd_entry a (\<lambda>s. s\<lparr>flags := fl s, vht_capabilities := c\<rparr>) g)"
    for g c fl
    by (auto intro!: typed_upd simp: sta_typed_def)
  then show "typed h \<Longrightarrow> typed (copy_sta_ht_capab mc a c h)" "typed h \<Longrightarrow> typed (copy_sta_vht_capab mc a c h)"
    by (simp_all add: copy_sta_ht_capab_def copy_sta_vht_capab_def split: option.split)
  show "typed h \<Longrightarrow> typed (snd (check_wmm mc a c h))" by (simp add: check_wmm_def Let_def typed_upd split: option.split)
qed

lemma typed_check_security [typed_intros]:
  assumes "typed h"
  shows "typed (snd (check_assoc_security mc env a ies elems re h))"
proof -
  have "typed (snd (snd (check_wps mc env a ies elems ie h)))" for ie
    using assms by (simp add: check_wps_def Let_def typed_upd split: option.split)
  moreover have "typed g \<Longrightarrow> typed (snd (check_wpa_ie env a ies ie md re g))" for g ie md
    by (simp add: check_wpa_ie_def Let_def case_prod_beta typed_upd)
  ultimately show ?thesis
    by (auto simp: check_assoc_security_def case_prod_beta split: option.split)
qed

lemma typed_check_ies [typed_intros]: "typed (ap_bss w) \<Longrightarrow> typed (ap_bss (snd (check_assoc_ies mc env a ies re w)))"
  by (simp add: check_assoc_ies_eq check_assoc_elems_def Let_def case_prod_beta typed_copies typed_check_security)

lemma typed_ht [typed_intros]: "typed h \<Longrightarrow> typed (snd (hostapd_ht_operation_update cf h))"
  by (simp add: typed_same [OF ht_update_sel])

lemma typed_marks [typed_intros]:
  "typed h \<Longrightarrow> typed (mark_nonerp cf a h)" "typed h \<Longrightarrow> typed (mark_short_slot cf a h)"
  "typed h \<Longrightarrow> typed (mark_short_preamble cf a h)" "typed h \<Longrightarrow> typed (update_ht_state cf a h)"
  by (simp_all add: mark_nonerp_def mark_short_slot_def mark_short_preamble_def update_ht_state_def update_sta_ht_def
      update_sta_no_ht_def mark_no_gf_def mark_20mhz_def Let_def case_prod_beta typed_upd typed_ht split: option.split)

lemma typed_assoc_parts [typed_intros]:
  "typed h \<Longrightarrow> typed (assoc_record mc d re h)" "typed h \<Longrightarrow> typed (send_assoc_resp cli a st re h)"
  by (simp_all add: assoc_record_def send_assoc_resp_def Let_def typed_upd typed_marks)

lemma typed_handle_assoc [typed_intros]:
  assumes "typed (ap_bss w)"
  shows "typed (ap_bss (handle_assoc mc env re cli d w))"
proof -
  have "typed (ap_bss (assoc_known mc env cli d r w))" for r
    using assms by (simp add: assoc_known_def Let_def case_prod_beta typed_check_ies typed_get_aid typed_assoc_parts)
  then show ?thesis using assms by (simp add: handle_assoc_def split: option.split)
qed

lemma typed_leaving [typed_intros]:
  "typed h \<Longrightarrow> typed (handle_disassoc d h)" "typed h \<Longrightarrow> typed (handle_deauth cf d h)"
  by (simp_all add: handle_disassoc_def handle_deauth_def Let_def typed_upd typed_free_eapol typed_free typed_set_authorized
      split: option.split)

lemma typed_cb_parts [typed_intros]:
  "typed h \<Longrightarrow> typed (snd (ap_sta_bind_vlan mc env a old h))" "typed h \<Longrightarrow> typed (ieee802_1x_set_sta_authorized a v h)"
  "typed h \<Longrightarrow> typed (upd_entry a cli_params h)"
  by (simp_all add: ap_sta_bind_vlan_def ieee802_1x_set_sta_authorized_def Let_def typed_upd typed_set_authorized split: option.split)
    (auto intro!: typed_upd simp: cli_params_def sta_typed_def)

lemma typed_new_assoc [typed_intros]: "typed h \<Longrightarrow> typed (hostapd_new_assoc_sta mc env a re h)"
proof -
  have "typed g \<Longrightarrow> typed (ieee802_1x_new_station mc env a g)" for g
    by (simp add: ieee802_1x_new_station_def Let_def typed_upd typed_free_eapol typed_cb_parts split: option.split)
  then show "typed h \<Longrightarrow> ?thesis" by (simp add: hostapd_new_assoc_sta_def Let_def typed_upd)
qed

lemma typed_handle_assoc_cb [typed_intros]:
  assumes "typed h"
  shows "typed (handle_assoc_cb mc env d acked cli h)"
proof -
  have "typed g \<Longrightarrow> typed (assoc_cb_added mc env a new cli g)" for g a new
    by (simp add: assoc_cb_added_def Let_def case_prod_beta typed_new_assoc typed_cb_parts)
  then have "typed (assoc_cb_success mc env a cli h)" for a
    using assms by (simp add: assoc_cb_success_def Let_def typed_upd typed_cb_parts typed_disconnects typed_set_authorized)
  then show ?thesis using assms by (simp add: handle_assoc_cb_def Let_def typed_upd split: option.split)
qed

lemma typed_mgmt_cb [typed_intros]:
  "typed h \<Longrightarrow> typed (ieee802_11_mgmt_cb mc env d st acked h)" "typed h \<Longrightarrow> typed (hostapd_tx_status a acked h)"
  by (simp_all add: ieee802_11_mgmt_cb_def handle_auth_cb_def handle_deauth_cb_def handle_disassoc_cb_def hostapd_tx_status_def
      Let_def typed_handle_assoc_cb typed_tx_callbacks typed_upd split: option.split)

lemma typed_mgmt [typed_intros]:
  assumes "typed (ap_bss w)"
  shows "typed (ap_bss (ieee802_11_mgmt mc env now query d ss w))"
proof -
  have "typed (probe_answer mc d h) = typed h" for h
    by (simp add: probe_answer_def Let_def case_prod_beta split: option.split)
  moreover have "typed (handle_action mc env d h) = typed h" for h
    using calls_handle_action [of h mc env d] by (induction rule: calls_only.induct) simp_all
  ultimately show ?thesis
    using assms by (simp add: ieee802_11_mgmt_def mgmt_dispatch_def Let_def handle_beacon_def
        handle_probe_req_eq typed_handle_auth typed_handle_assoc typed_leaving)
qed

lemma typed_new_sta [typed_intros]:
  "typed (ap_bss w) \<Longrightarrow> typed (ap_bss (snd (hostapd_ctrl_iface_new_sta mc env now query tail capab arg w)))"
  by (simp add: hostapd_ctrl_iface_new_sta_def Let_def case_prod_beta typed_handle_auth typed_handle_assoc typed_handle_assoc_cb)

section \<open>The database of capabilities\<close>

definition capa_wf :: "ap_state \<Rightarrow> bool" where
  "capa_wf w \<longleftrightarrow> distinct (map capa_mac (sta_capa_list w)) \<and> int (length (sta_capa_list w)) \<le> sta_capa_count w"

lemma update_first_macs: "(\<And>e. capa_mac (f e) = capa_mac e) \<Longrightarrow> map capa_mac (update_first P f l) = map capa_mac l"
  by (induction l) auto

lemma capa_wf_collect:
  assumes "capa_wf w"
  shows "capa_wf (snd (capa_collect_probe mc a ies w))" "capa_wf (snd (capa_collect_assoc mc a ies w))"
proof -
  have new: "\<not> capa_known a w \<Longrightarrow> capa_wf (snd (capa_add mc a ies w))"
    using assms by (auto simp: capa_wf_def capa_known_def capa_add_def new_capa_entry_def Let_def case_prod_beta list_ex_iff)
  show "capa_wf (snd (capa_collect_probe mc a ies w))" using assms new by (simp add: capa_collect_probe_def)
  have "map capa_mac (update_first (\<lambda>e. capa_mac e = a) (capa_elems_update g) l) = map capa_mac l" for g l
    by (rule update_first_macs) simp
  then have "distinct (map capa_mac (update_first (\<lambda>e. capa_mac e = a) (capa_elems_update g) l)) = distinct (map capa_mac l)"
    "length (update_first (\<lambda>e. capa_mac e = a) (capa_elems_update g) l) = length l" for g l
    by (metis, metis length_map)
  then show "capa_wf (snd (capa_collect_assoc mc a ies w))"
    using assms new by (simp add: capa_collect_assoc_def capa_wf_def Let_def case_prod_beta)
qed

lemma capa_wf_state [simp]: "capa_wf (w\<lparr>ap_bss := h\<rparr>) = capa_wf w" "capa_wf (on_bss f w) = capa_wf w"
  by (simp_all add: capa_wf_def)

lemma capa_wf_handle_assoc: "capa_wf w \<Longrightarrow> capa_wf (handle_assoc mc env re cli d w)"
  by (simp add: handle_assoc_def assoc_known_def check_assoc_ies_eq Let_def case_prod_beta capa_wf_collect split: option.split)

lemma capa_wf_mgmt: "capa_wf w \<Longrightarrow> capa_wf (ieee802_11_mgmt mc env now query d ss w)"
  by (simp add: ieee802_11_mgmt_def mgmt_dispatch_def handle_probe_req_eq Let_def capa_wf_handle_assoc capa_wf_collect)

lemma typed_step: "ap_step cf env cli unbl w v \<Longrightarrow> typed (ap_bss w) \<and> capa_wf w \<Longrightarrow> typed (ap_bss v) \<and> capa_wf v"
proof (induction rule: ap_step.induct)
  case (table w h)
  then show ?case using typed_table_step by simp
next
  case (new_sta w now query tail capab arg)
  have "capa_wf (snd (hostapd_ctrl_iface_new_sta cf env now query tail capab arg w))"
    using new_sta by (simp add: hostapd_ctrl_iface_new_sta_def Let_def case_prod_beta capa_wf_handle_assoc)
  then show ?case using new_sta typed_new_sta by simp
qed (auto simp: capa_wf_mgmt intro: typed_intros,
    auto simp: capa_wf_def hostapd_ctrl_iface_blacklist_client_def hostapd_ctrl_iface_unblacklist_client_def
      hostapd_ctrl_iface_add_ie_def Let_def case_prod_beta)

text \<open>C12. In every state of the access point the buffers of each station have the size that the source declares or allocates:
  at most 32 supported rates, 26 octets of HT and 12 of VHT capabilities, a challenge of 128 octets; the database of
  capabilities has one entry per address, and no more entries than it counts.\<close>

theorem ap_state_typed:
  assumes "ap_run cf env cli unbl (ap_init acl) w"
  shows "(\<forall>s \<in> set (sta_list (ap_bss w)). length (supported_rates s) \<le> WLAN_SUPP_RATES_MAX \<and>
      (\<forall>c. ht_capabilities s = Some c \<longrightarrow> length c = 26) \<and> (\<forall>c. vht_capabilities s = Some c \<longrightarrow> length c = 12) \<and>
      (\<forall>c. challenge s = Some c \<longrightarrow> length c = WLAN_AUTH_CHALLENGE_LEN)) \<and>
    distinct (map capa_mac (sta_capa_list w)) \<and> int (length (sta_capa_list w)) \<le> sta_capa_count w"
proof -
  have "typed (ap_bss (ap_init acl)) \<and> capa_wf (ap_init acl)"
    by (simp add: ap_init_def bss_init_def typed_def capa_wf_def)
  with assms have "typed (ap_bss w) \<and> capa_wf w"
    by (induction rule: ap_run.induct) (auto dest: typed_step)
  then show ?thesis by (simp add: typed_def sta_typed_def capa_wf_def)
qed

end
