(* ===== verification/Sta_Example.thy ===== *)
theory Sta_Example
  imports Sta_Typed
begin

text \<open>
  A concrete access point: an open network on which one station authenticates and associates.  The states of this run
  are the instances at which the properties of the management frames are applied.
\<close>

section \<open>The access point and its frames\<close>

definition open_mc :: mgmt_conf where
  "open_mc = \<lparr>mc_bss = test_conf,
     mc_acl = \<lparr>accept_mac = [], deny_mac = [], macaddr_acl = ACCEPT_UNLESS_DENIED, auth_server = False, psk_radius_required = False\<rparr>,
     auth_algs = 1, mc_wpa = 0, mc_key_mgmt = 0, mc_ssid = ascii ''ap'', mc_ieee802_1x = False, ieee802_11f = False,
     wmm_enabled = True, disable_11n = False, disable_11ac = False, require_ht = False, ieee80211ac = False,
     require_vht = False, wps_state = False, psk_radius_ignored = False, max_listen_interval = 100, conf_vlans = [],
     dynamic_vlan_disabled = True, conf_channel = 1, ignore_broadcast_ssid = False, send_probe_response = True,
     public_action_cb = False, public_action_cb2 = False, vendor_action_cb = False\<rparr>"

definition answering :: "u16 \<Rightarrow> mgmt_env" where
  "answering v = \<lparr>wpa_validate_res = (\<lambda>_ _ _. (WPA_INVALID_IE, 0)), ft_validate_res = (\<lambda>_. 1), sta_uses_psk = (\<lambda>_. False),
     sta_pmksa_vlan = (\<lambda>_. None), wps_is_20 = (\<lambda>_. False), wps_validate_assoc_req = (\<lambda>_. False), drv_ok = (\<lambda>_. True),
     indeterminate = (\<lambda>_. v), challenge_key = (\<lambda>_. []), probereq_stop = (\<lambda>_. False),
     ft_action_failed = (\<lambda>_. True), vendor_action_done = (\<lambda>_. False)\<rparr>"

abbreviation (input) ap_addr :: macaddr where "ap_addr \<equiv> [2, 0, 0, 0, 0, 1]"

definition auth_frame :: "macaddr \<Rightarrow> u8 list" where
  "auth_frame a = inject_auth ap_addr a"

definition assoc_frame :: "macaddr \<Rightarrow> u8 list \<Rightarrow> u8 list" where
  "assoc_frame a ies = mgmt_hdr 0 ap_addr a ap_addr @ [0x21, 0x04, 10, 0] @ ies"

definition good_ies :: "u8 list" where
  "good_ies = [0, 2] @ ascii ''ap'' @ [1, 4, 0x82, 0x84, 0x8b, 0x96]"

text \<open>After the authentication, and after the association.\<close>

definition met :: ap_state where
  "met = ieee802_11_mgmt open_mc (answering 1) 0 None (auth_frame [2, 0, 0, 0, 0, 7]) (-40) (ap_init no_acl)"

definition joined :: ap_state where
  "joined = ieee802_11_mgmt open_mc (answering 1) 0 None (assoc_frame [2, 0, 0, 0, 0, 7] good_ies) (-40) met"

lemma met_run: "ap_run open_mc (answering 1) cli unbl (ap_init no_acl) met"
  unfolding met_def by (rule ap_run.step [OF ap_run.refl ap_step.frame])

lemma joined_run: "ap_run open_mc (answering 1) cli unbl (ap_init no_acl) joined"
  unfolding joined_def by (rule ap_run.step [OF met_run ap_step.frame])

lemma frame_facts:
  "f_sa (assoc_frame [2, 0, 0, 0, 0, 7] ies) = [2, 0, 0, 0, 0, 7]" "assoc_ies False (assoc_frame [2, 0, 0, 0, 0, 7] ies) = ies"
  "length (assoc_frame [2, 0, 0, 0, 0, 7] ies) = 28 + length ies" "f_le16 (assoc_frame [2, 0, 0, 0, 0, 7] ies) 26 = 10"
  by (simp_all add: assoc_frame_def mgmt_hdr_def f_sa_def assoc_ies_def f_le16_def WPA_GET_LE16_def)

lemma met_station:
  obtains s where "ap_get_sta (ap_bss met) [2, 0, 0, 0, 0, 7] = Some s" "bit (flags s) WLAN_STA_AUTH" "aid s = 0"
    "auth_alg s \<noteq> WLAN_AUTH_FT" "sta_of (ap_bss met) [2, 0, 0, 0, 0, 7] = Some s"
proof -
  have "map_option (\<lambda>s. (bit (flags s) WLAN_STA_AUTH, aid s, auth_alg s)) (ap_get_sta (ap_bss met) [2, 0, 0, 0, 0, 7]) = Some (True, 0, 0)"
    by code_simp
  then show thesis
    using that get_sta_iff [OF good_table [OF good_ap_run [OF met_run good_ap_init]]] by auto
qed

lemma met_facts:
  "\<not> tkip_countermeasures (ap_bss met)" "fst (hostapd_get_aid [2, 0, 0, 0, 0, 7] (ap_bss met)) = 0"
  "num_sta (ap_bss met) = 1"
  by code_simp+

lemma good_ies_parse:
  "ieee802_11_parse_elems good_ies = (ParseOK, (\<lambda>_. None)(E_ssid := Some (ascii ''ap''), E_supp_rates := Some [0x82, 0x84, 0x8b, 0x96]))"
  by (simp add: good_ies_def ieee802_11_parse_elems_def ascii_def store_elem_def elem_table_def elem_min_len_def)

section \<open>Instances\<close>

theorem ap_table_consistent_witness:
  "int (length (sta_list (ap_bss met))) = 1 \<and> \<not> aid_used (ap_bss met) 1"
proof -
  have "num_sta (ap_bss met) = int (length (sta_list (ap_bss met)))"
    "aid_used (ap_bss met) n \<longleftrightarrow> 0 < n \<and> n \<in> aid ` set (sta_list (ap_bss met))" for n
    using ap_table_consistent [OF met_run [of False False]] by (auto simp: table_wf_def aid_inv_def)
  moreover have "map aid (sta_list (ap_bss met)) = [0]" by code_simp
  ultimately show ?thesis using met_facts(3) by (simp flip: set_map)
qed

theorem ap_state_typed_witness:
  "list_all (\<lambda>s. length (supported_rates s) \<le> WLAN_SUPP_RATES_MAX) (sta_list (ap_bss joined))"
  using ap_state_typed [OF joined_run [of False False]] by (simp add: list_all_iff)

abbreviation (input) client_text :: "u8 list" where "client_text \<equiv> ascii ''02:00:00:00:00:07''"

theorem blacklisted_client_ignored_witness:
  "ieee802_11_mgmt open_mc (answering 1) 0 None (auth_frame [2, 0, 0, 0, 0, 7]) (-40)
      (snd (hostapd_ctrl_iface_blacklist_client client_text (ap_init no_acl))) =
    snd (hostapd_ctrl_iface_blacklist_client client_text (ap_init no_acl))"
proof -
  have "length client_text = 17" "hwaddr_aton client_text = (0, [2, 0, 0, 0, 0, 7])"
    "f_sa (auth_frame [2, 0, 0, 0, 0, 7]) = [2, 0, 0, 0, 0, 7]" "WLAN_FC_GET_STYPE (f_le16 (auth_frame [2, 0, 0, 0, 0, 7]) 0) \<noteq> 8"
    by code_simp+
  then show ?thesis
    using blacklisted_client_ignored [OF ap_run.refl _ _ ap_run.refl, of client_text "[2, 0, 0, 0, 0, 7]"] by blast
qed

theorem injected_station_shares_aid_witness:
  "\<not> aid_inv (handle_assoc_cb open_mc (answering 1) (inject_assoc_resp ap_addr [2, 0, 0, 0, 0, 7] 0x431) True True two_stations)"
proof -
  have "map_option aid (ap_get_sta two_stations [2, 0, 0, 0, 0, 7]) = Some 0" "map_option aid (ap_get_sta two_stations [2, 0, 0, 0, 0, 9]) = Some 1"
    by code_simp+
  then obtain s t where "ap_get_sta two_stations [2, 0, 0, 0, 0, 7] = Some s" "ap_get_sta two_stations [2, 0, 0, 0, 0, 9] = Some t" "aid t = 1"
    by auto
  moreover have "length (inject_assoc_resp ap_addr [2, 0, 0, 0, 0, 7] 0x431) \<ge> 30"
    "f_da (inject_assoc_resp ap_addr [2, 0, 0, 0, 0, 7] 0x431) = [2, 0, 0, 0, 0, 7]"
    "f_le16 (inject_assoc_resp ap_addr [2, 0, 0, 0, 0, 7] 0x431) 26 = 0"
    by code_simp+
  ultimately show ?thesis
    using injected_station_shares_aid [OF good_table [OF table_reach_good [OF two_stations_reach]]] by fastforce
qed

theorem malformed_association_undetermined_witness:
  "last (acts (ap_bss (handle_assoc open_mc (answering 1) False False (assoc_frame [2, 0, 0, 0, 0, 7] [0, 9]) met))) =
      Send_assoc_resp [2, 0, 0, 0, 0, 7] 1 False 0 \<and>
   (\<exists>n > 0. last (acts (ap_bss (handle_assoc open_mc (answering 0) False False (assoc_frame [2, 0, 0, 0, 0, 7] [0, 9]) met))) =
      Send_assoc_resp [2, 0, 0, 0, 0, 7] 0 False n)"
proof -
  let ?d = "assoc_frame [2, 0, 0, 0, 0, 7] [0, 9]"
  obtain s where s: "ap_get_sta (ap_bss met) [2, 0, 0, 0, 0, 7] = Some s" "bit (flags s) WLAN_STA_AUTH" "aid s = 0"
    by (rule met_station)
  have "24 + (if False then 10 else 4) \<le> length ?d" "unat (f_le16 ?d 26) \<le> max_listen_interval open_mc"
    "fst (ieee802_11_parse_elems (assoc_ies False ?d)) = ParseFailed" "f_sa ?d = [2, 0, 0, 0, 0, 7]"
    by (simp_all add: frame_facts open_mc_def ieee802_11_parse_elems_def)
  with s met_facts show ?thesis
    using malformed_association_undetermined [OF met_run [of False False], of False ?d s "answering 1"]
      malformed_association_undetermined [OF met_run [of False False], of False ?d s "answering 0"]
    by (simp add: answering_def)
qed

text \<open>The request with good elements, for the two directions of the decision.\<close>

lemma good_request:
  "IEEE80211_HDRLEN + (if False then 10 else 4) \<le> length (assoc_frame [2, 0, 0, 0, 0, 7] good_ies)"
  "unat (f_le16 (assoc_frame [2, 0, 0, 0, 0, 7] good_ies) 26) \<le> max_listen_interval open_mc"
  "ieee802_11_parse_elems (assoc_ies False (assoc_frame [2, 0, 0, 0, 0, 7] good_ies)) =
     (ParseOK, (\<lambda>_. None)(E_ssid := Some (ascii ''ap''), E_supp_rates := Some [0x82, 0x84, 0x8b, 0x96]))"
  "ParseOK \<noteq> ParseFailed"
  by (simp_all add: frame_facts open_mc_def good_ies_parse)

lemma good_request_elems:
  fixes e defines "e \<equiv> (\<lambda>_. None)(E_ssid := Some (ascii ''ap''), E_supp_rates := Some [0x82, 0x84, 0x8b, 0x96])"
  shows "e E_ssid = Some (mc_ssid open_mc)" "e E_supp_rates = Some [0x82, 0x84, 0x8b, 0x96]"
    "length [0x82 :: u8, 0x84, 0x8b, 0x96] + (case e E_ext_supp_rates of Some x \<Rightarrow> length x | None \<Rightarrow> 0) \<le> WLAN_SUPP_RATES_MAX"
    "\<forall>x. e E_wmm = Some x \<longrightarrow> hostapd_eid_wmm_valid x"
  by (simp_all add: e_def open_mc_def)

lemma open_net: "security_ok open_mc env elems" "\<not> wps_state open_mc" "\<not> require_ht open_mc" "\<not> require_vht open_mc"
  by (simp_all add: open_mc_def security_ok_def)

theorem valid_association_accepted_witness:
  "\<exists>n > 0. last (acts (ap_bss (handle_assoc open_mc (answering 1) False False (assoc_frame [2, 0, 0, 0, 0, 7] good_ies) met))) =
     Send_assoc_resp [2, 0, 0, 0, 0, 7] 0 False n"
proof -
  let ?d = "assoc_frame [2, 0, 0, 0, 0, 7] good_ies"
  obtain s where s: "ap_get_sta (ap_bss met) (f_sa ?d) = Some s" "bit (flags s) WLAN_STA_AUTH" "auth_alg s \<noteq> WLAN_AUTH_FT"
    using met_station by (metis frame_facts(1))
  have "fst (hostapd_get_aid (f_sa ?d) (ap_bss met)) = 0" using met_facts(2) by (simp add: frame_facts)
  then show ?thesis
    using valid_association_accepted [OF met_run [of False False] good_request(1) s met_facts(1) good_request(2-4)
      open_net good_request_elems]
    by (simp add: frame_facts)
qed


theorem probe_report_decodes_witness:
  "\<exists>t rest. acts (ap_bss (handle_probe_req open_mc (answering 1) (mgmt_hdr 0x40 (replicate 6 0xff) [2, 0, 0, 0, 0, 7] (replicate 6 0xff) @ good_ies)
      (-40) met)) = acts (ap_bss met) @ Zmq_send t # rest \<and> hexstr2bin t 16 = (0, [2, 0, 0, 0, 0, 7] @ good_ies) \<and> length t < 43"
proof -
  let ?d = "mgmt_hdr 0x40 (replicate 6 0xff) [2, 0, 0, 0, 0, 7] (replicate 6 0xff) @ good_ies"
  have "length ?d = 34" "drop 24 ?d = good_ies" "f_sa ?d = [2, 0, 0, 0, 0, 7]" "length good_ies = 10"
    by (simp_all add: mgmt_hdr_def f_sa_def good_ies_def ascii_def)
  then show ?thesis
    using probe_report_decodes [of ?d "answering 1" met open_mc "-40"]
    by (auto simp: good_ies_parse answering_def open_mc_def probe_buf_size_def)
qed

end
