(* ===== verification/Spec2Isabelle.thy ===== *)
theory Spec2Isabelle
  imports Utils Eapol_Props Wpa_Ie Crypto_Stream Wpa_Validate Wpa_Frames Wpa_Terminate Pmksa_Props Acl Elems Sta_Props
    Sta_Example
begin

text \<open>
  \<^bold>\<open>The program.\<close>  NxWLAN lets a residential access point serve the clients of its neighbours: clients are moved
  between access points by a controller.  Its C program is a patched hostapd (under \<^verbatim>\<open>src/hostapd\<close>), the daemon that
  authenticates and associates stations, runs the 802.1X port and the WPA handshakes for them and keeps their state.  The
  patches add a blacklist of clients, a database of station capabilities, reports of probe requests to the controller,
  vendor elements set at run time and the injection of stations that another access point has authenticated.  This
  development models that daemon for the configuration the repository ships (\<^verbatim>\<open>src/hostapd/hostapd/.config\<close>): the access
  point with 802.11n/ac, WPS, fast transition, RSN pre-authentication and the patches; without management frame
  protection, SAE, P2P, Hotspot 2.0 and WNM.

  \<^bold>\<open>Parts and how they meet.\<close>  A management frame enters at \<^verbatim>\<open>ieee802_11_mgmt\<close>, is dropped for blacklisted senders and
  goes to the handlers of authentication and association.  Authentication asks the access control for the address and
  enters the station into the table; association parses the elements, has the WPA authenticator validate the security
  element and hands out an identifier; the callback for the acknowledged response starts the machines of the station.
  The 802.1X machine runs EAP and opens the port, the WPA authenticator runs the 4-way and the group handshakes and declares
  the port valid, and keys negotiated once are kept in the PMKSA cache.  Timers of the table remove stations
  that stay silent.

  \<^bold>\<open>Theories.\<close>
  \<^item> \<^verbatim>\<open>Prelude\<close>: octets, byte order accessors of \<^verbatim>\<open>utils/common.h\<close>, C strings, buffers, and the lemmas on them;
    \<^verbatim>\<open>Utils\<close>: \<^verbatim>\<open>utils/common.c\<close> (hexadecimal text, addresses, printable SSIDs) with round trips.
  \<^item> \<^verbatim>\<open>Eapol_Auth\<close>, \<^verbatim>\<open>Eapol_Props\<close>: the six machines of a port (\<^verbatim>\<open>eapol_auth/eapol_auth_sm.c\<close>, the inputs from \<^verbatim>\<open>ap/ieee802_1x.c\<close>).
    The five machines beside the PAE satisfy one interface (\<^verbatim>\<open>pae_neutral\<close>); an invariant of a port is a locale
    (\<^verbatim>\<open>port_invariant\<close>) that is interpreted for port status, missing validity, the held state and the number of attempts.
  \<^item> \<^verbatim>\<open>Wpa_Ie\<close>, \<^verbatim>\<open>Wpa_Validate\<close>: cipher suites, WPA/RSN elements and their validation (\<^verbatim>\<open>common/wpa_common.c\<close>,
    \<^verbatim>\<open>ap/wpa_auth_ie.c\<close>); \<^verbatim>\<open>Crypto_Stream\<close>: RC4 and the AES key wrap over a block cipher that is a parameter;
    \<^verbatim>\<open>Wpa_Frames\<close>: EAPOL-Key frames as a station reads them.
  \<^item> \<^verbatim>\<open>Wpa_State\<close>, \<^verbatim>\<open>Wpa_Ptk\<close>, \<^verbatim>\<open>Wpa_Receive\<close>, \<^verbatim>\<open>Wpa_World\<close>: the WPA authenticator (\<^verbatim>\<open>ap/wpa_auth.c\<close>): the machines of a station,
    the reception of frames, groups and events.  \<^verbatim>\<open>Wpa_Facts\<close>, \<^verbatim>\<open>Wpa_Reach\<close>, \<^verbatim>\<open>Wpa_Contract\<close>, \<^verbatim>\<open>Wpa_Events\<close> and \<^verbatim>\<open>Wpa_Handshake\<close>
    lift a property of one station to every event of the authenticator through the contract \<^verbatim>\<open>station_contract\<close> and its
    extension \<^verbatim>\<open>station_events\<close>; \<^verbatim>\<open>Wpa_Terminate\<close> bounds the steps of an event by a potential.
  \<^item> \<^verbatim>\<open>Entry_Store\<close>: the contract of a table of linked entries; \<^verbatim>\<open>Pmksa_Cache\<close>, \<^verbatim>\<open>Pmksa_Props\<close> (\<^verbatim>\<open>ap/pmksa_cache_auth.c\<close>) and
    \<^verbatim>\<open>Sta_Table\<close>, \<^verbatim>\<open>Sta_Facts\<close>, \<^verbatim>\<open>Sta_Invariant\<close>, \<^verbatim>\<open>Sta_Props\<close> (\<^verbatim>\<open>ap/sta_info.c\<close>) satisfy it.
  \<^item> \<^verbatim>\<open>Acl\<close>: address lists and RADIUS decisions (\<^verbatim>\<open>ap/ieee802_11_auth.c\<close>); \<^verbatim>\<open>Elems\<close>: the element parser
    (\<^verbatim>\<open>common/ieee802_11_common.c\<close>); \<^verbatim>\<open>Wmm\<close>: \<^verbatim>\<open>ap/wmm.c\<close>.
  \<^item> \<^verbatim>\<open>Sta_Mgmt\<close>: management frames, callbacks and the NxWLAN commands (\<^verbatim>\<open>ap/ieee802_11.c\<close>, \<^verbatim>\<open>ap/beacon.c\<close>,
    \<^verbatim>\<open>hostapd/ctrl_iface.c\<close>); \<^verbatim>\<open>Sta_Mgmt_Inv\<close>, \<^verbatim>\<open>Sta_Mgmt_Props\<close>, \<^verbatim>\<open>Sta_Typed\<close>: what they keep and promise; \<^verbatim>\<open>Sta_Example\<close>: a run of a
    concrete access point at which the properties are applied.
  \<^item> This theory composes the association handler with the WPA validation.

  \<^bold>\<open>State and effects.\<close>  A C structure is a record, a pointer into a table the address or number that identifies the
  entry, a buffer the list of its octets, a machine integer a word.  Operations pass the state explicitly.  Calls that
  leave a component (driver, other machines, timers, frames) are appended to a history, and what such a call returns is a
  function of the history, so a property holds for all answers.  Allocation succeeds; functions that can fail
  otherwise return their error values.

  \<^bold>\<open>Loops.\<close>  Loops over data are recursive functions with termination proofs.  The search for opportunistic key
  caching can run forever and is a partial function whose divergence is a theorem.  \<^verbatim>\<open>eapol_sm_step_run\<close> has the source's bound
  of 100 rounds.  Stepping a station of the WPA authenticator steps its group, which may step other stations: these functions
  carry fuel and give \<^term>\<open>None\<close> when it does not suffice.  From every reachable state the fuel \<^verbatim>\<open>step_fuel\<close> (447 rounds
  for each station, 4 for each group and 2 more) suffices for every event, and more fuel gives the same result
  (\<^verbatim>\<open>authenticator_returns\<close>): a station has at most 7 pending requests, each of which can start its two machines again for at
  most 56 rounds.  The set-up of a group steps no station and runs without fuel (\<^verbatim>\<open>group_init_fails_iff\<close>).

  \<^bold>\<open>What is shown.\<close>  The handshake ends in an authenticated state only after a reply with a valid MIC under the current pairwise
  key, with replay protection, and the authenticator comes to rest after every event; the port is not authorized before the WPA authenticator declares it valid, stays held
  after a failure and follows the state of the machine; accepted associations have passed every check and agree with the
  configured policy; the station table, its identifiers, counters and timers are consistent under every sequence of
  frames, timers and commands, and a silent station is removed; the cache never returns an expired or foreign key; the
  lists decide as documented; written elements and frames are read back; buffers keep their sizes.  Some
  theorems state where the code does not do what it intends: malformed association requests, injected stations, short
  WMM action frames, the admission of traffic streams and opportunistic key caching.

  \<^bold>\<open>Not modelled.\<close>  The driver interface and netlink, the EAP methods, WPS, the RADIUS client, fast transition between access
  points, peer keys, the contents of beacons and responses, configuration files, the other commands of the control
  socket, channel selection and start-up: they are input/output, vendored protocols or text front ends, and the
  components above meet them through recorded calls.  The kernel drivers, wpa_supplicant, the unpatched copy of hostapd and
  the Python controller are outside.
\<close>

section \<open>Association and the WPA policy\<close>

text \<open>The handler of association requests with the validation of the WPA authenticator in place: the machine of the
  station is the one left by the calls so far, and the cipher it selects goes back to the handler.\<close>

definition validating :: "wpa_env \<Rightarrow> (u8 list \<Rightarrow> pmksa_ref option) \<Rightarrow> (u8 list \<Rightarrow> pmksa_ref option) \<Rightarrow>
    (sta_act list \<Rightarrow> wpa_sm \<times> wpa_mib) \<Rightarrow> mgmt_env \<Rightarrow> mgmt_env" where
  "validating wenv get get_okc sm_of env = env\<lparr>wpa_validate_res := (\<lambda>xs ie mdie.
     case wpa_validate_wpa_ie wenv get get_okc ie mdie (sm_of xs) of (res, sm, mib) \<Rightarrow> (res, pairwise sm))\<rparr>"

lemma validating_accepts:
  assumes "wpa_checked cf (validating wenv get get_okc sm_of env) elems"
  shows "\<exists>ie data c. assoc_wpa_ie cf elems = Some ie \<and>
    (if rsn_element ie then wpa_parse_wpa_ie_rsn ie else wpa_parse_wpa_ie_wpa ie) = (0, data) \<and>
    group_cipher data = wpa_group_cipher (conf wenv) \<and> key_mgmt data AND conf_wpa_key_mgmt (conf wenv) \<noteq> 0 \<and>
    has_bits (pairwise_cipher data) c \<and>
    has_bits (if rsn_element ie then rsn_pairwise (conf wenv) else wpa_pairwise (conf wenv)) c \<and>
    c \<in> (if offers_ht cf elems then {WPA_CIPHER_CCMP, WPA_CIPHER_GCMP} else {WPA_CIPHER_CCMP, WPA_CIPHER_GCMP, WPA_CIPHER_TKIP})"
proof -
  obtain ie xs c where ie: "assoc_wpa_ie cf elems = Some ie"
    and v: "wpa_validate_res (validating wenv get get_okc sm_of env) xs ie (elems E_mdie) = (WPA_IE_OK, c)"
    and ht: "offers_ht cf elems \<longrightarrow> c \<noteq> WPA_CIPHER_TKIP"
    using assms by (auto simp: wpa_checked_def)
  obtain sm mib sm' mib' where "sm_of xs = (sm, mib)"
    and val: "wpa_validate_wpa_ie wenv get get_okc ie (elems E_mdie) (sm, mib) = (WPA_IE_OK, sm', mib')" and c: "c = pairwise sm'"
    using v by (cases "sm_of xs") (auto simp: validating_def split: prod.splits)
  from val obtain data akm cs where d: "(if rsn_element ie then wpa_parse_wpa_ie_rsn ie else wpa_parse_wpa_ie_wpa ie) = (0, data)"
    "group_cipher data = wpa_group_cipher (conf wenv)" "akm = key_mgmt data AND conf_wpa_key_mgmt (conf wenv)" "akm \<noteq> 0"
    and cs: "cs = pairwise_cipher data AND (if rsn_element ie then rsn_pairwise (conf wenv) else wpa_pairwise (conf wenv))"
      "0 \<le> wpa_pick_pairwise_cipher cs False" "pairwise sm' = wpa_pick_pairwise_cipher cs False"
    by (rule validate_accepted)
  have p: "has_bits cs c" "c \<in> {WPA_CIPHER_CCMP, WPA_CIPHER_GCMP, WPA_CIPHER_TKIP}"
    using pick_pairwise_bits [OF cs(2)] cs(3) c by simp_all
  then have "c \<in> (if offers_ht cf elems then {WPA_CIPHER_CCMP, WPA_CIPHER_GCMP} else {WPA_CIPHER_CCMP, WPA_CIPHER_GCMP, WPA_CIPHER_TKIP})"
    using ht by auto
  then show ?thesis using ie d has_bits_and [OF p(1) [unfolded cs(1)]] by blast
qed


text \<open>An instance: a network with RSN, and a station that answers with the element the access point advertises.\<close>

definition rsn_mc :: mgmt_conf where
  "rsn_mc = open_mc\<lparr>mc_wpa := WPA_PROTO_RSN\<rparr>"

definition rsn_env :: mgmt_env where
  "rsn_env = validating example_env (\<lambda>_. None) (\<lambda>_. None) (\<lambda>_. (sm_zero [2, 0, 0, 0, 0, 7] 0, mib_zero)) (answering 1)"

definition rsn_body :: "u8 list" where
  "rsn_body = [1, 0, 0, 15, 172, 4, 1, 0, 0, 15, 172, 4, 1, 0, 0, 15, 172, 2, 12, 0]"

abbreviation (input) rsn_ies :: "u8 list" where "rsn_ies \<equiv> good_ies @ [48, 20] @ rsn_body"

definition rsn_met :: ap_state where
  "rsn_met = ieee802_11_mgmt rsn_mc rsn_env 0 None (auth_frame [2, 0, 0, 0, 0, 7]) (-40) (ap_init no_acl)"

lemma rsn_met_run: "ap_run rsn_mc rsn_env False False (ap_init no_acl) rsn_met"
  unfolding rsn_met_def by (rule ap_run.step [OF ap_run.refl ap_step.frame])

lemma rsn_met_station:
  obtains s where "ap_get_sta (ap_bss rsn_met) [2, 0, 0, 0, 0, 7] = Some s" "bit (flags s) WLAN_STA_AUTH"
    "\<not> uses_ft (ap_bss rsn_met) [2, 0, 0, 0, 0, 7]"
proof -
  have "map_option (\<lambda>s. (bit (flags s) WLAN_STA_AUTH, auth_alg s)) (ap_get_sta (ap_bss rsn_met) [2, 0, 0, 0, 0, 7]) = Some (True, 0)"
    by code_simp
  then obtain s where s: "ap_get_sta (ap_bss rsn_met) [2, 0, 0, 0, 0, 7] = Some s" "bit (flags s) WLAN_STA_AUTH" "auth_alg s = 0" by auto
  then have "sta_of (ap_bss rsn_met) [2, 0, 0, 0, 0, 7] = Some s"
    using get_sta_iff [OF good_table [OF good_ap_run [OF rsn_met_run good_ap_init]]] by simp
  then show thesis using that [OF s(1,2)] s(3) by (simp add: uses_ft_def)
qed

lemma rsn_met_facts:
  "\<not> tkip_countermeasures (ap_bss rsn_met)" "fst (hostapd_get_aid [2, 0, 0, 0, 0, 7] (ap_bss rsn_met)) = 0"
  by code_simp+

lemma rsn_ies_parse:
  "ieee802_11_parse_elems rsn_ies = (ParseOK, (\<lambda>_. None)(E_ssid := Some (ascii ''ap''),
     E_supp_rates := Some [0x82, 0x84, 0x8b, 0x96], E_rsn_ie := Some rsn_body))"
  by (simp add: good_ies_def rsn_body_def ieee802_11_parse_elems_def ascii_def store_elem_def elem_table_def elem_min_len_def)

lemma rsn_validates:
  fixes e defines "e \<equiv> (\<lambda>_. None)(E_ssid := Some (ascii ''ap''), E_supp_rates := Some [0x82, 0x84, 0x8b, 0x96], E_rsn_ie := Some rsn_body)"
  shows "security_ok rsn_mc rsn_env e"
proof -
  let ?v = "wpa_validate_wpa_ie example_env (\<lambda>_. None) (\<lambda>_. None) ([WLAN_EID_RSN, 20] @ rsn_body) None (sm_zero [2, 0, 0, 0, 0, 7] 0, mib_zero)"
  have "fst ?v = WPA_IE_OK" "pairwise (fst (snd ?v)) \<noteq> WPA_CIPHER_TKIP" by code_simp+
  moreover have "has_bits WPA_PROTO_RSN WPA_PROTO_RSN" "length rsn_body = 20" by code_simp+
  ultimately show ?thesis
    by (simp add: security_ok_def assoc_wpa_ie_def e_def rsn_mc_def rsn_env_def validating_def split_beta)
qed


end
